(* ===== verification/Evm_Prelude.thy ===== *)
theory Evm_Prelude
  imports Main "HOL-Library.Word"
begin

text \<open>
  Shared vocabulary of the development: the fixed-width integer types of the
  Rust sources, the saturating, checked and ceiling operations of the Rust core
  library the sources call, with their readings as natural numbers, and the
  sequencing combinator for code that mutates a state and may stop early
  (Rust's \<open>?\<close> on a \<open>Result\<close>).

  The collection \<open>u_arith\<close> turns comparisons and arithmetic on machine
  words into arithmetic on the natural numbers they denote.
\<close>

unbundle bit_operations_syntax

named_theorems u_arith \<open>readings of word operations as natural-number arithmetic\<close>

section \<open>Machine integers\<close>

type_synonym u8 = "8 word"
type_synonym u16 = "16 word"
type_synonym u32 = "32 word"
type_synonym u64 = "64 word"
type_synonym usize = "64 word"
type_synonym i64 = "64 word"
type_synonym evm_word = "256 word"
type_synonym address = "160 word"
type_synonym b256 = "256 word"
type_synonym bytes = "8 word list"

lemma unat_le_iff [u_arith]: "a \<le> b \<longleftrightarrow> unat a \<le> unat b"
  for a b :: "'a::len word"
  by (rule word_le_nat_alt)

lemma unat_less_iff [u_arith]: "a < b \<longleftrightarrow> unat a < unat b"
  for a b :: "'a::len word"
  by (rule word_less_nat_alt)

lemma unat_diff_exact [u_arith]: "unat b \<le> unat a \<Longrightarrow> unat (a - b) = unat a - unat b"
  for a b :: "'a::len word"
  by (simp add: unat_sub word_le_nat_alt)

lemma unat_add_exact: "unat a + unat b < 2 ^ LENGTH('a) \<Longrightarrow> unat (a + b) = unat a + unat b"
  for a b :: "'a::len word"
  by (simp add: unat_word_ariths)

lemma unat_mult_exact: "unat a * unat b < 2 ^ LENGTH('a) \<Longrightarrow> unat (a * b) = unat a * unat b"
  for a b :: "'a::len word"
  by (simp add: unat_word_ariths)

lemma unat_minus_one_word: "unat (- 1 :: 'a::len word) = 2 ^ LENGTH('a) - 1"
  by (simp add: unat_eq_nat_uint unsigned_minus_1_eq_mask mask_eq_exp_minus_1 nat_diff_distrib nat_power_eq)

lemma unat_u64_max [simp]: "unat (- 1 :: u64) = 18446744073709551615"
  by (simp add: unat_minus_one_word)

lemma unat_lt_word: "unat a < 2 ^ LENGTH('a)"
  for a :: "'a::len word"
  by (rule unsigned_less)

lemma unat_u64_lt: "unat a < 18446744073709551616"
  for a :: u64
  using unat_lt_word [of a] by simp

section \<open>Saturating, checked and ceiling operations\<close>

definition saturating_add :: "'a::len word \<Rightarrow> 'a word \<Rightarrow> 'a word" where
  "saturating_add a b = (if a + b < a then - 1 else a + b)"

definition saturating_sub :: "'a::len word \<Rightarrow> 'a word \<Rightarrow> 'a word" where
  "saturating_sub a b = (if a < b then 0 else a - b)"

definition saturating_mul :: "'a::len word \<Rightarrow> 'a word \<Rightarrow> 'a word" where
  "saturating_mul a b = (if uint a * uint b < 2 ^ LENGTH('a) then a * b else - 1)"

definition checked_add :: "'a::len word \<Rightarrow> 'a word \<Rightarrow> 'a word option" where
  "checked_add a b = (if a + b < a then None else Some (a + b))"

definition checked_sub :: "'a::len word \<Rightarrow> 'a word \<Rightarrow> 'a word option" where
  "checked_sub a b = (if a < b then None else Some (a - b))"

definition checked_mul :: "'a::len word \<Rightarrow> 'a word \<Rightarrow> 'a word option" where
  "checked_mul a b = (if uint a * uint b < 2 ^ LENGTH('a) then Some (a * b) else None)"

definition div_ceil :: "'a::len word \<Rightarrow> 'a word \<Rightarrow> 'a word" where
  "div_ceil a b = (if a mod b = 0 then a div b else a div b + 1)"

lemma add_overflow_iff: "a + b < a \<longleftrightarrow> 2 ^ LENGTH('a) \<le> unat a + unat b"
  for a b :: "'a::len word"
proof -
  have "\<not> a + b < a \<longleftrightarrow> unat a + unat b < 2 ^ LENGTH('a)"
    using no_olen_add_nat [of a b] by (simp add: not_less)
  then show ?thesis
    by linarith
qed

lemma mult_fits_iff: "uint a * uint b < 2 ^ LENGTH('a) \<longleftrightarrow> unat a * unat b < 2 ^ LENGTH('a)"
  for a b :: "'a::len word"
proof -
  have "uint a * uint b = int (unat a * unat b)"
    by simp
  also have "(\<dots> < 2 ^ LENGTH('a)) \<longleftrightarrow> unat a * unat b < 2 ^ LENGTH('a)"
    by (metis of_nat_less_iff of_nat_numeral of_nat_power)
  finally show ?thesis .
qed

lemma unat_saturating_add [u_arith]:
  "unat (saturating_add a b) = min (2 ^ LENGTH('a) - 1) (unat a + unat b)"
  for a b :: "'a::len word"
  by (auto simp: saturating_add_def add_overflow_iff unat_add_exact unat_minus_one_word)

lemma unat_saturating_sub [u_arith]: "unat (saturating_sub a b) = unat a - unat b"
  for a b :: "'a::len word"
  by (auto simp: saturating_sub_def u_arith)

lemma unat_saturating_mul [u_arith]:
  "unat (saturating_mul a b) = min (2 ^ LENGTH('a) - 1) (unat a * unat b)"
  for a b :: "'a::len word"
  by (auto simp: saturating_mul_def mult_fits_iff unat_mult_exact unat_minus_one_word)

lemma checked_add_Some_iff:
  "checked_add a b = Some c \<longleftrightarrow> unat c = unat a + unat b"
  for a b c :: "'a::len word"
proof (cases "a + b < a")
  case True
  then show ?thesis
    by (metis add_overflow_iff checked_add_def not_less option.distinct(1) unat_lt_word)
next
  case False
  then have "unat (a + b) = unat a + unat b"
    by (simp add: add_overflow_iff unat_add_exact)
  then show ?thesis
    using False by (auto simp: checked_add_def intro: word_unat_eq_iff [THEN iffD2])
qed

lemma checked_sub_Some_iff:
  "checked_sub a b = Some c \<longleftrightarrow> unat a = unat b + unat c"
  for a b c :: "'a::len word"
proof (cases "a < b")
  case True
  then show ?thesis
    by (auto simp: checked_sub_def u_arith)
next
  case False
  then have "unat (a - b) = unat a - unat b" and "unat b \<le> unat a"
    by (auto simp: u_arith)
  then show ?thesis
    using False by (auto simp: checked_sub_def intro: word_unat_eq_iff [THEN iffD2])
qed

lemma checked_mul_Some_iff:
  "checked_mul a b = Some c \<longleftrightarrow> unat c = unat a * unat b"
  for a b c :: "'a::len word"
proof (cases "unat a * unat b < 2 ^ LENGTH('a)")
  case True
  then show ?thesis
    by (auto simp: checked_mul_def mult_fits_iff unat_mult_exact intro: word_unat_eq_iff [THEN iffD2])
next
  case False
  then show ?thesis
    by (metis checked_mul_def mult_fits_iff option.distinct(1) unat_lt_word)
qed

lemma nat_div_ceil:
  fixes m n :: nat
  assumes "0 < n"
  shows "(m + n - 1) div n = (if m mod n = 0 then m div n else m div n + 1)"
proof -
  obtain q r where m: "m = n * q + r" and r: "r < n"
    using assms by (metis mod_less_divisor mult_div_mod_eq)
  have "m div n = q" and "m mod n = r"
    using assms m r by simp_all
  then show ?thesis
    using m r by (auto intro!: div_nat_eqI simp: algebra_simps)
qed

lemma unat_div_ceil:
  fixes a b :: "'a::len word"
  assumes "b \<noteq> 0"
  shows "unat (div_ceil a b) = (unat a + unat b - 1) div unat b"
proof -
  have b: "0 < unat b"
    using assms by (simp add: unat_gt_0)
  have zero: "a mod b = 0 \<longleftrightarrow> unat a mod unat b = 0"
    by (metis unat_0_iff unat_mod_distrib)
  have "unat (a div b + 1) = unat a div unat b + 1" if m: "unat a mod unat b \<noteq> 0"
  proof -
    have "unat b \<noteq> 1" and "0 < unat a"
      using m by (auto intro: gr0I)
    then have "unat a div unat b < unat a"
      using b by simp
    then have "unat a div unat b + 1 < 2 ^ LENGTH('a)"
      using unat_lt_word [of a] by linarith
    then show ?thesis
      by (simp add: unat_add_exact unat_div_distrib)
  qed
  then show ?thesis
    using zero by (simp add: div_ceil_def unat_div_distrib nat_div_ceil [OF b, simplified])
qed

section \<open>Signed 64-bit integers\<close>

text \<open>
  An \<open>i64\<close> is a 64-bit word read with \<^const>\<open>sint\<close>; the cast
  between \<open>u64\<close> and \<open>i64\<close> keeps the bits.
\<close>

definition i64_clamp :: "int \<Rightarrow> i64" where
  "i64_clamp x = word_of_int (max (- 9223372036854775808) (min 9223372036854775807 x))"

definition i64_saturating_add :: "i64 \<Rightarrow> i64 \<Rightarrow> i64" where
  "i64_saturating_add a b = i64_clamp (sint a + sint b)"

definition i64_saturating_sub :: "i64 \<Rightarrow> i64 \<Rightarrow> i64" where
  "i64_saturating_sub a b = i64_clamp (sint a - sint b)"

definition saturating_add_signed :: "u64 \<Rightarrow> i64 \<Rightarrow> u64" where
  "saturating_add_signed a b = word_of_int (max 0 (min 18446744073709551615 (uint a + sint b)))"

lemma sint_i64_clamp [simp]:
  "sint (i64_clamp x) = max (- 9223372036854775808) (min 9223372036854775807 x)"
  unfolding i64_clamp_def
  by (subst sint_sbintrunc') (rule signed_take_bit_int_eq_self; simp)

lemma uint_saturating_add_signed:
  "uint (saturating_add_signed a b) = max 0 (min 18446744073709551615 (uint a + sint b))"
  unfolding saturating_add_signed_def
  by (subst uint_word_of_int) (rule mod_pos_pos_trivial; simp)

lemma sint_eq_uint_small:
  fixes a :: u64
  assumes "uint a < 9223372036854775808"
  shows "sint a = uint a"
proof -
  have "- (2 ^ 63) \<le> uint a"
    by (rule order_trans [of _ 0]) simp_all
  then show ?thesis
    using assms by (simp add: sint_uint signed_take_bit_int_eq_self)
qed

lemma unat_int_uint: "int (unat a) = uint a"
  by simp

lemma uint_u64_lt: "uint a < 18446744073709551616"
  for a :: u64
  using uint_lt2p [of a] by simp

lemma uint_diff_exact: "uint b \<le> uint a \<Longrightarrow> uint (a - b) = uint a - uint b"
  for a b :: "'a::len word"
  by (simp add: uint_sub_lem)

lemma uint_add_exact: "uint a + uint b < 2 ^ LENGTH('a) \<Longrightarrow> uint (a + b) = uint a + uint b"
  for a b :: "'a::len word"
  by (simp add: uint_add_lem)

lemma uint_saturating_add:
  "uint (saturating_add a b) = min (2 ^ LENGTH('a) - 1) (uint a + uint b)"
  for a b :: "'a::len word"
proof -
  have "int (unat (saturating_add a b)) = int (min (2 ^ LENGTH('a) - 1) (unat a + unat b))"
    by (simp only: unat_saturating_add)
  then show ?thesis
    by (simp add: of_nat_min of_nat_diff)
qed

lemma uint_saturating_sub: "uint (saturating_sub a b) = max 0 (uint a - uint b)"
  for a b :: "'a::len word"
  by (auto simp: saturating_sub_def word_less_def uint_diff_exact)

section \<open>Big-endian bytes\<close>

definition be_nat :: "bytes \<Rightarrow> nat" where
  "be_nat bs = foldl (\<lambda>a b. a * 256 + unat b) 0 bs"

definition from_be_bytes :: "bytes \<Rightarrow> 'a::len word" where
  "from_be_bytes bs = word_of_nat (be_nat bs)"

definition to_be_bytes :: "nat \<Rightarrow> 'a::len word \<Rightarrow> bytes" where
  "to_be_bytes n w = map (\<lambda>i. ucast (drop_bit (8 * (n - 1 - i)) w)) [0..<n]"

lemma be_nat_acc: "foldl (\<lambda>a b. a * 256 + unat (b :: u8)) k bs = k * 256 ^ length bs + be_nat bs"
  unfolding be_nat_def
proof (induction bs arbitrary: k)
  case (Cons b bs)
  show ?case
    using Cons.IH [of "k * 256 + unat b"] Cons.IH [of "unat b"] by (simp add: algebra_simps)
qed simp

lemma be_nat_simps [simp]:
  "be_nat [] = 0"
  "be_nat (b # bs) = unat b * 256 ^ length bs + be_nat bs"
  using be_nat_acc [of "unat b" bs] by (simp_all add: be_nat_def)

lemma be_nat_append [simp]: "be_nat (as @ bs) = be_nat as * 256 ^ length bs + be_nat bs"
  by (induction as) (simp_all add: algebra_simps power_add)

lemma be_nat_lt: "be_nat bs < 256 ^ length bs"
proof (induction bs)
  case (Cons b bs)
  have "unat b + 1 \<le> 256"
    using unat_lt_word [of b] by simp
  then have "unat b * 256 ^ length bs + 256 ^ length bs \<le> 256 * 256 ^ length bs"
    using mult_le_mono1 [of "unat b + 1" 256 "256 ^ length bs"] by simp
  then show ?case
    using Cons unfolding be_nat_simps list.size add_Suc_right add_0_right power_Suc by linarith
qed simp

lemma be_nat_div: "be_nat (b # bs) div 256 ^ length bs = unat b"
  using be_nat_lt [of bs] by simp

lemma be_nat_mod: "be_nat (b # bs) mod 256 ^ length bs = be_nat bs"
  using be_nat_lt [of bs] by simp

lemma be_nat_replicate_0 [simp]: "be_nat (replicate n 0) = 0"
  by (induction n) simp_all

lemma length_to_be_bytes [simp]: "length (to_be_bytes n w) = n"
  by (simp add: to_be_bytes_def)

lemma to_be_bytes_Suc: "to_be_bytes (Suc n) w = ucast (drop_bit (8 * n) w) # to_be_bytes n w"
  by (simp add: to_be_bytes_def upt_conv_Cons map_Suc_upt [symmetric] comp_def del: upt_Suc)

lemma unat_ucast_u8: "unat (ucast w :: u8) = unat w mod 256"
  for w :: "'a::len word"
  by (simp add: unsigned_ucast_eq take_bit_eq_mod)

lemma unat_drop_bytes: "unat (drop_bit (8 * n) w) = unat w div 256 ^ n"
proof -
  have "unat (drop_bit (8 * n) w) = unat w div 2 ^ (8 * n)"
    by (metis drop_bit_eq_div unat_drop_bit_eq)
  then show ?thesis
    by (simp add: power_mult)
qed

lemma be_nat_to_be_bytes: "be_nat (to_be_bytes n w) = unat w mod 256 ^ n"
proof (induction n)
  case 0
  then show ?case
    by (simp add: to_be_bytes_def)
next
  case (Suc n)
  have "unat (ucast (drop_bit (8 * n) w) :: u8) = unat w div 256 ^ n mod 256"
    by (simp only: unat_ucast_u8 unat_drop_bytes)
  then show ?case
    using Suc mod_mult2_eq [of "unat w" "256 ^ n" 256] by (simp add: to_be_bytes_Suc mult.commute)
qed

lemma from_to_be_bytes:
  "LENGTH('a) \<le> 8 * n \<Longrightarrow> from_be_bytes (to_be_bytes n w) = (w :: 'a::len word)"
proof -
  assume n: "LENGTH('a) \<le> 8 * n"
  have "(2::nat) ^ LENGTH('a) \<le> 2 ^ (8 * n)"
    using n by (intro power_increasing) simp_all
  then have "unat w < 256 ^ n"
    using less_le_trans [OF unat_lt_word [of w]] by (simp add: power_mult)
  then show ?thesis
    by (simp add: from_be_bytes_def be_nat_to_be_bytes)
qed

lemma be_nat_inj: "length xs = length ys \<Longrightarrow> be_nat xs = be_nat ys \<Longrightarrow> xs = ys"
proof (induction xs ys rule: list_induct2)
  case (Cons x xs y ys)
  have "unat x = unat y" and "be_nat xs = be_nat ys"
    using Cons.prems Cons.hyps be_nat_div [of x xs] be_nat_div [of y ys]
      be_nat_mod [of x xs] be_nat_mod [of y ys] by metis+
  then show ?case
    using Cons by (simp add: word_unat_eq_iff)
qed simp

lemma to_from_be_bytes:
  assumes "8 * length bs \<le> LENGTH('a)"
  shows "to_be_bytes (length bs) (from_be_bytes bs :: 'a::len word) = bs"
proof (rule be_nat_inj)
  have "(256::nat) ^ length bs \<le> 2 ^ LENGTH('a)"
    using assms power_increasing [of "8 * length bs" "LENGTH('a)" "2::nat"] by (simp add: power_mult)
  then have "unat (from_be_bytes bs :: 'a word) = be_nat bs"
    using be_nat_lt [of bs] by (simp add: from_be_bytes_def unat_of_nat)
  then show "be_nat (to_be_bytes (length bs) (from_be_bytes bs :: 'a word)) = be_nat bs"
    using be_nat_lt [of bs] by (simp add: be_nat_to_be_bytes)
qed simp

section \<open>Stateful computations that may stop early\<close>

text \<open>
  A method taking \<open>&mut self\<close> and returning \<open>Result\<close> is a function from the
  state to the outcome and the state it leaves, also on an error.
\<close>

text \<open>
  Where a panic of the source has to be told apart from an error it returns, the
  error type is \<open>'e fault\<close>.
\<close>

datatype 'e fault = Err 'e | Panic

type_synonym ('s, 'e, 'a) sres = "'s \<Rightarrow> ('e + 'a) \<times> 's"

definition bindE :: "('s, 'e, 'a) sres \<Rightarrow> ('a \<Rightarrow> ('s, 'e, 'b) sres) \<Rightarrow> ('s, 'e, 'b) sres" where
  "bindE m k s = (case m s of (Inl e, s') \<Rightarrow> (Inl e, s') | (Inr x, s') \<Rightarrow> k x s')"

definition returnE :: "'a \<Rightarrow> ('s, 'e, 'a) sres" where
  "returnE x s = (Inr x, s)"

definition failE :: "'e \<Rightarrow> ('s, 'e, 'a) sres" where
  "failE e s = (Inl e, s)"

definition modifyE :: "('s \<Rightarrow> 's) \<Rightarrow> ('s, 'e, unit) sres" where
  "modifyE f s = (Inr (), f s)"

definition liftE :: "('s, 'e, 'a) sres \<Rightarrow> ('s, 'e fault, 'a) sres" where
  "liftE m s = (case m s of (Inl e, s') \<Rightarrow> (Inl (Err e), s') | (Inr x, s') \<Rightarrow> (Inr x, s'))"

lemma bindE_returnE [simp]: "bindE (returnE x) k = k x"
  by (simp add: bindE_def returnE_def fun_eq_iff)

lemma bindE_failE [simp]: "bindE (failE e) k = failE e"
  by (simp add: bindE_def failE_def fun_eq_iff)

lemma bindE_Inr_iff:
  "bindE m k s = (Inr y, s') \<longleftrightarrow> (\<exists>x t. m s = (Inr x, t) \<and> k x t = (Inr y, s'))"
  by (auto simp: bindE_def split: prod.splits sum.splits)

end
