(* ===== verification/Instr_Stop.thy ===== *)
theory Instr_Stop
  imports Evm_Prelude
begin

text \<open>
  The reasons an instruction stops a frame (\<open>InstrStop\<close> of
  \<open>interpreter/mod.rs\<close>) and their classification into success, frame revert
  and exceptional halt, which decides how a frame's gas is settled.
\<close>

datatype instr_stop =
    Stop | Return | SelfDestruct
  | Revert | CallTooDeep | OutOfFunds | NonceOverflow
  | OutOfGas | MemoryOOG | MemoryLimitOOG | PrecompileOOG | InvalidOperandOOG
  | ReentrancySentryOOG | CallNotAllowedInsideStatic | StateChangeDuringStaticCall
  | OpcodeNotFound | InvalidFEOpcode | InvalidJump | NotActivated | StackUnderflow
  | StackOverflow | OutOfOffset | CreateCollision | PrecompileError
  | CreateContractSizeLimit | CreateContractStartingWithEF | CreateInitCodeSizeLimit
  | FatalExternalError | InvalidImmediateEncoding | Reload

definition is_success :: "instr_stop \<Rightarrow> bool" where
  "is_success s = (case s of Stop \<Rightarrow> True | Return \<Rightarrow> True | SelfDestruct \<Rightarrow> True | _ \<Rightarrow> False)"

definition is_revert :: "instr_stop \<Rightarrow> bool" where
  "is_revert s = (case s of Revert \<Rightarrow> True | _ \<Rightarrow> False)"

definition is_frame_revert :: "instr_stop \<Rightarrow> bool" where
  "is_frame_revert s =
    (case s of Revert \<Rightarrow> True | CallTooDeep \<Rightarrow> True | OutOfFunds \<Rightarrow> True | NonceOverflow \<Rightarrow> True
     | _ \<Rightarrow> False)"

definition is_halt :: "instr_stop \<Rightarrow> bool" where
  "is_halt s = (\<not> is_success s \<and> \<not> is_frame_revert s)"

definition is_out_of_gas :: "instr_stop \<Rightarrow> bool" where
  "is_out_of_gas s =
    (case s of OutOfGas \<Rightarrow> True | MemoryOOG \<Rightarrow> True | MemoryLimitOOG \<Rightarrow> True | PrecompileOOG \<Rightarrow> True
     | InvalidOperandOOG \<Rightarrow> True | ReentrancySentryOOG \<Rightarrow> True | _ \<Rightarrow> False)"

definition is_fatal :: "instr_stop \<Rightarrow> bool" where
  "is_fatal s = (case s of FatalExternalError \<Rightarrow> True | _ \<Rightarrow> False)"

lemma success_not_frame_revert: "is_success s \<Longrightarrow> \<not> is_frame_revert s"
  by (cases s) (simp_all add: is_success_def is_frame_revert_def)

lemma success_not_halt: "is_success s \<Longrightarrow> \<not> is_halt s"
  by (simp add: is_halt_def)

lemma frame_revert_not_halt: "is_frame_revert s \<Longrightarrow> \<not> is_halt s"
  by (simp add: is_halt_def)

lemma out_of_gas_is_halt: "is_out_of_gas s \<Longrightarrow> is_halt s"
  by (cases s) (simp_all add: is_success_def is_frame_revert_def is_halt_def is_out_of_gas_def)

lemma OutOfGas_class [simp]: "\<not> is_success OutOfGas" "is_halt OutOfGas" "\<not> is_frame_revert OutOfGas"
  by (simp_all add: is_success_def is_frame_revert_def is_halt_def)

end
