(* ===== verification/Evm_Utils.thy ===== *)
theory Evm_Utils
  imports Instr_Stop
begin

text \<open>
  The shared helpers of \<open>utils.rs\<close>: word counts, conversions between stack
  words, addresses and machine sizes, zero padding, and the fixed-size bit array.
  Byte slices are lists of bytes; an index out of range, which panics in the
  source, is \<^const>\<open>None\<close>.
\<close>

section \<open>Sizes and conversions\<close>

definition num_words :: "usize \<Rightarrow> usize" where
  "num_words len = div_ceil len 32"

definition address_to_word :: "address \<Rightarrow> evm_word" where
  "address_to_word a = ucast a"

definition b256_to_word :: "bytes \<Rightarrow> evm_word" where
  "b256_to_word value = from_be_bytes value"

definition to_address :: "evm_word \<Rightarrow> address" where
  "to_address w = from_be_bytes (drop 12 (to_be_bytes 32 w))"

definition to_usize_opt :: "evm_word \<Rightarrow> usize option" where
  "to_usize_opt value = (if value \<le> ucast (- 1 :: usize) then Some (ucast value) else None)"

definition to_usize :: "evm_word \<Rightarrow> instr_stop + usize" where
  "to_usize w = (case to_usize_opt w of Some n \<Rightarrow> Inr n | None \<Rightarrow> Inl InvalidOperandOOG)"

definition to_usize_saturated :: "evm_word \<Rightarrow> usize" where
  "to_usize_saturated w = (case to_usize_opt w of Some n \<Rightarrow> n | None \<Rightarrow> - 1)"

definition calc_linear_cost :: "usize \<Rightarrow> u64 \<Rightarrow> u64 \<Rightarrow> u64" where
  "calc_linear_cost len base word = div_ceil len 32 * word + base"

definition u64_to_address :: "u64 \<Rightarrow> address" where
  "u64_to_address x = from_be_bytes (replicate 12 0 @ to_be_bytes 8 x)"

section \<open>Padding\<close>

definition right_pad_vec :: "bytes \<Rightarrow> nat \<Rightarrow> bytes" where
  "right_pad_vec data len =
    (if len \<le> length data then take len data else data @ replicate (len - length data) 0)"

definition left_pad :: "nat \<Rightarrow> bytes \<Rightarrow> bytes" where
  "left_pad len data =
    (if len \<le> length data then take len data else replicate (len - length data) 0 @ data)"

definition left_pad_vec_be :: "bytes \<Rightarrow> nat \<Rightarrow> bytes" where
  "left_pad_vec_be data len =
    (if length data < len then replicate (len - length data) 0 @ data
     else drop (length data - len) data)"

definition read_word_padded :: "bytes \<Rightarrow> usize \<Rightarrow> bytes" where
  "read_word_padded data offset =
    (if unat offset \<le> length data then
       let rest = drop (unat offset) data in
       if 32 \<le> length rest then take 32 rest
       else rest @ replicate (32 - length rest) 0
     else replicate 32 0)"

section \<open>The bit array\<close>

type_synonym bit_array = "u64 list"

definition bit_array_new :: "nat \<Rightarrow> bit_array" where
  "bit_array_new WORDS = replicate WORDS 0"

definition bit_array_get :: "bit_array \<Rightarrow> nat \<Rightarrow> bool option" where
  "bit_array_get b index =
    (if index div 64 < length b
     then Some (b ! (index div 64) AND push_bit (index mod 64) 1 \<noteq> 0) else None)"

definition bit_array_set :: "bit_array \<Rightarrow> nat \<Rightarrow> bit_array option" where
  "bit_array_set b index =
    (if index div 64 < length b
     then Some (b[index div 64 := b ! (index div 64) OR push_bit (index mod 64) 1]) else None)"

definition bit_array_unset :: "bit_array \<Rightarrow> nat \<Rightarrow> bit_array option" where
  "bit_array_unset b index =
    (if index div 64 < length b
     then Some (b[index div 64 := b ! (index div 64) AND NOT (push_bit (index mod 64) 1)]) else None)"

definition bit_array_union :: "bit_array \<Rightarrow> bit_array \<Rightarrow> bit_array" where
  "bit_array_union b other = map (\<lambda>(word, other). word OR other) (zip b other)"

definition bit_array_clear :: "bit_array \<Rightarrow> bit_array" where
  "bit_array_clear b = map (\<lambda>_. 0) b"

definition bit_array_members :: "bit_array \<Rightarrow> nat set" where
  "bit_array_members b = {i. i div 64 < length b \<and> bit (b ! (i div 64)) (i mod 64)}"

section \<open>Laws\<close>

lemma unat_num_words: "unat (num_words len) = (unat len + 31) div 32"
  by (simp add: num_words_def unat_div_ceil)

lemma num_words_mono: "a \<le> b \<Longrightarrow> num_words a \<le> num_words b"
  by (simp add: u_arith unat_num_words div_le_mono)

lemma num_words_covers: "unat len \<le> 32 * unat (num_words len)"
  unfolding unat_num_words by linarith

lemma num_words_tight: "32 * unat (num_words len) < unat len + 32"
  unfolding unat_num_words by linarith

lemma num_words_bound: "unat (num_words len) \<le> 576460752303423488"
  unfolding unat_num_words using unat_u64_lt [of len] by linarith

lemma to_usize_opt_Some_iff: "to_usize_opt w = Some n \<longleftrightarrow> unat w = unat n"
proof -
  have max: "unat (ucast (- 1 :: usize) :: evm_word) = 2 ^ 64 - 1"
    by (simp add: unsigned_ucast_eq take_bit_eq_mod)
  have small: "unat (ucast w :: usize) = unat w" if "unat w < 2 ^ 64"
    using that by (simp add: unsigned_ucast_eq take_bit_eq_mod)
  have "unat n < 2 ^ 64"
    using unat_lt_word [of n] by simp
  then show ?thesis
    using max small by (auto simp: to_usize_opt_def word_le_nat_alt intro: word_unat_eq_iff [THEN iffD2])
qed

lemma unat_to_usize_saturated: "unat (to_usize_saturated w) = min (unat w) (2 ^ 64 - 1)"
proof (cases "to_usize_opt w")
  case None
  then have "\<not> unat w \<le> 2 ^ 64 - 1"
    by (auto simp: to_usize_opt_def word_le_nat_alt unsigned_ucast_eq take_bit_eq_mod split: if_splits)
  then show ?thesis
    using None by (simp add: to_usize_saturated_def)
next
  case (Some n)
  then have "unat w = unat n"
    by (simp add: to_usize_opt_Some_iff)
  then show ?thesis
    using Some unat_u64_lt [of n] by (simp add: to_usize_saturated_def)
qed

lemma length_read_word_padded [simp]: "length (read_word_padded data offset) = 32"
  by (simp add: read_word_padded_def Let_def)

lemma nth_read_word_padded:
  "i < 32 \<Longrightarrow> read_word_padded data offset ! i =
    (if unat offset + i < length data then data ! (unat offset + i) else 0)"
  by (auto simp: read_word_padded_def Let_def nth_append)

lemma length_pads [simp]:
  "length (right_pad_vec data len) = len"
  "length (left_pad len data) = len"
  "length (left_pad_vec_be data len) = len"
  by (auto simp: right_pad_vec_def left_pad_def left_pad_vec_be_def)

lemma be_nat_left_pad_vec_be: "be_nat (left_pad_vec_be data len) = be_nat data mod 256 ^ len"
proof (cases "length data < len")
  case True
  have "(256::nat) ^ length data \<le> 256 ^ len"
    using True by (intro power_increasing) simp_all
  then have "be_nat data < 256 ^ len"
    using be_nat_lt [of data] by linarith
  then show ?thesis
    using True by (simp add: left_pad_vec_be_def)
next
  case False
  let ?k = "length data - len"
  have "be_nat data = be_nat (take ?k data) * 256 ^ length (drop ?k data) + be_nat (drop ?k data)"
    by (metis append_take_drop_id be_nat_append)
  moreover have "be_nat (drop ?k data) < 256 ^ len"
    using be_nat_lt [of "drop ?k data"] False by simp
  ultimately show ?thesis
    using False by (simp add: left_pad_vec_be_def)
qed

end
