(* ===== verification/Prewarm_Set.thy ===== *)
theory Prewarm_Set
  imports Evm_Utils
begin

text \<open>
  The addresses and storage slots that are warm before execution (\<open>evm/prewarm_set.rs\<close>).
  The set is split by the shape of the address: a bit array for short addresses, a
  small inline array, and a map that also holds the warm slots.  The split is invisible: the
  operations act on one set of addresses and one set of slots.
\<close>

unbundle bit_operations_syntax

section \<open>The split set\<close>

abbreviation SHORT_ADDRESS_CAP :: nat where "SHORT_ADDRESS_CAP \<equiv> 320"

abbreviation INLINE_CAP :: nat where "INLINE_CAP \<equiv> 3"

definition short_address :: "address \<Rightarrow> nat option" where
  "short_address a =
     (let bytes = to_be_bytes 20 a; zeros = take 18 bytes; value = drop 18 bytes in
      if list_all (\<lambda>b. b = 0) zeros then
        let short_address = unat (from_be_bytes value :: u16) in
        if short_address < SHORT_ADDRESS_CAP then Some short_address else None
      else None)"

record prewarm_set =
  pw_access_list :: "address \<rightharpoonup> evm_word set"
  pw_short :: bit_array
  pw_inline :: "address list"
  pw_inline_len :: nat
  pw_has_storage :: bool

definition prewarm_new :: prewarm_set where
  "prewarm_new =
     \<lparr>pw_access_list = Map.empty, pw_short = bit_array_new (SHORT_ADDRESS_CAP div 64),
      pw_inline = replicate INLINE_CAP 0, pw_inline_len = 0, pw_has_storage = False\<rparr>"

definition pw_occupied :: "prewarm_set \<Rightarrow> address list" where
  "pw_occupied p = take (pw_inline_len p) (pw_inline p)"

text \<open>The bit array has as many words as the cap needs, so a short index is always in range.\<close>

definition warm_short_address :: "address \<Rightarrow> prewarm_set \<Rightarrow> bool \<times> prewarm_set" where
  "warm_short_address a p =
     (case short_address a of
        Some i \<Rightarrow>
          (True, (case bit_array_set (pw_short p) i of Some b \<Rightarrow> p\<lparr>pw_short := b\<rparr> | None \<Rightarrow> p))
      | None \<Rightarrow> (False, p))"

definition prewarm_warm :: "address \<Rightarrow> prewarm_set \<Rightarrow> prewarm_set" where
  "prewarm_warm a p =
     (case warm_short_address a p of (short, p) \<Rightarrow>
        if short then p
        else if a \<in> set (pw_occupied p) then p
        else if pw_inline_len p < length (pw_inline p) then
          p\<lparr>pw_inline := (pw_inline p)[pw_inline_len p := a], pw_inline_len := pw_inline_len p + 1\<rparr>
        else
          p\<lparr>pw_access_list :=
             (pw_access_list p)(a \<mapsto> (case pw_access_list p a of Some ks \<Rightarrow> ks | None \<Rightarrow> {}))\<rparr>)"

definition prewarm_warm_storage :: "address \<Rightarrow> evm_word list \<Rightarrow> prewarm_set \<Rightarrow> prewarm_set" where
  "prewarm_warm_storage a slots p =
     (case warm_short_address a p of (short, p) \<Rightarrow>
        if short \<and> slots = [] then p
        else
          p\<lparr>pw_access_list :=
              (pw_access_list p)(a \<mapsto> (case pw_access_list p a of Some ks \<Rightarrow> ks | None \<Rightarrow> {}) \<union> set slots),
            pw_has_storage := (pw_has_storage p \<or> slots \<noteq> [])\<rparr>)"

definition warm_short_addresses :: "bit_array \<Rightarrow> prewarm_set \<Rightarrow> prewarm_set" where
  "warm_short_addresses addresses p = p\<lparr>pw_short := bit_array_union (pw_short p) addresses\<rparr>"

definition position :: "'a \<Rightarrow> 'a list \<Rightarrow> nat option" where
  "position x xs = List.find (\<lambda>i. xs ! i = x) [0..<length xs]"

definition prewarm_remove :: "address \<Rightarrow> prewarm_set \<Rightarrow> prewarm_set" where
  "prewarm_remove a p =
     (let p = (case short_address a of
                 Some i \<Rightarrow> (case bit_array_unset (pw_short p) i of Some b \<Rightarrow> p\<lparr>pw_short := b\<rparr> | None \<Rightarrow> p)
               | None \<Rightarrow> p);
          p = (case position a (pw_occupied p) of
                 Some index \<Rightarrow>
                   let len = pw_inline_len p - 1; xs = pw_inline p in
                   p\<lparr>pw_inline_len := len, pw_inline := xs[index := xs ! len, len := xs ! index]\<rparr>
               | None \<Rightarrow> p)
      in p\<lparr>pw_access_list := (pw_access_list p)(a := None)\<rparr>)"

definition prewarm_clear :: "prewarm_set \<Rightarrow> prewarm_set" where
  "prewarm_clear p =
     p\<lparr>pw_short := bit_array_clear (pw_short p), pw_inline := replicate INLINE_CAP 0,
       pw_inline_len := 0, pw_access_list := Map.empty, pw_has_storage := False\<rparr>"

definition prewarm_is_warm :: "prewarm_set \<Rightarrow> address \<Rightarrow> bool" where
  "prewarm_is_warm p a =
     ((case short_address a of Some i \<Rightarrow> bit_array_get (pw_short p) i = Some True | None \<Rightarrow> False)
      \<or> a \<in> set (pw_occupied p) \<or> pw_access_list p a \<noteq> None)"

definition prewarm_is_storage_warm :: "prewarm_set \<Rightarrow> address \<Rightarrow> evm_word \<Rightarrow> bool" where
  "prewarm_is_storage_warm p a k =
     (pw_has_storage p \<and> (case pw_access_list p a of Some ks \<Rightarrow> k \<in> ks | None \<Rightarrow> False))"

definition prewarm_is_cold :: "prewarm_set \<Rightarrow> address \<Rightarrow> bool" where
  "prewarm_is_cold p a = (\<not> prewarm_is_warm p a)"

section \<open>Well-formed sets\<close>

definition prewarm_ok :: "prewarm_set \<Rightarrow> bool" where
  "prewarm_ok p \<longleftrightarrow>
     length (pw_short p) = 5 \<and> length (pw_inline p) = INLINE_CAP \<and> pw_inline_len p \<le> INLINE_CAP \<and>
     distinct (pw_occupied p) \<and>
     (\<forall>a ks. pw_access_list p a = Some ks \<longrightarrow> ks \<noteq> {} \<longrightarrow> pw_has_storage p)"

section \<open>Short addresses\<close>

lemma be_nat_eq_0_iff: "be_nat bs = 0 \<longleftrightarrow> list_all (\<lambda>b. b = 0) bs"
  by (induction bs) (auto simp: unat_eq_0)

text \<open>A short address is a small number.\<close>

lemma short_address_unat: "short_address a = (if unat a < 320 then Some (unat a) else None)"
proof -
  let ?bs = "to_be_bytes 20 a"
  have split: "unat a = be_nat (take 18 ?bs) * 65536 + be_nat (drop 18 ?bs)"
  proof -
    have "unat a = be_nat (take 18 ?bs @ drop 18 ?bs)"
      using unat_lt_word [of a] by (simp only: append_take_drop_id be_nat_to_be_bytes) simp
    then show ?thesis
      unfolding be_nat_append by simp
  qed
  have lt: "be_nat (drop 18 ?bs) < 65536"
    using be_nat_lt [of "drop 18 ?bs"] by simp
  then have val: "unat (from_be_bytes (drop 18 ?bs) :: u16) = be_nat (drop 18 ?bs)"
    by (simp add: from_be_bytes_def unat_of_nat)
  show ?thesis
  proof (cases "list_all (\<lambda>b. b = 0) (take 18 ?bs)")
    case True
    then have "be_nat (take 18 ?bs) = 0"
      by (simp only: be_nat_eq_0_iff)
    then show ?thesis
      using True split val by (simp add: short_address_def Let_def)
  next
    case False
    then have "be_nat (take 18 ?bs) \<noteq> 0"
      by (simp only: be_nat_eq_0_iff not_False_eq_True)
    then have "65536 \<le> unat a"
      using split by simp
    then show ?thesis
      using False by (simp add: short_address_def Let_def)
  qed
qed

section \<open>Bits\<close>

lemma and_bit_iff: "w AND push_bit n 1 \<noteq> 0 \<longleftrightarrow> bit w n" if "n < 64" for w :: u64
  using that by (metis and_exp_eq_0_iff_not_bit push_bit_of_1)

lemma bit_array_get_iff:
  "i div 64 < length b \<Longrightarrow> bit_array_get b i = Some True \<longleftrightarrow> i \<in> bit_array_members b"
  using and_bit_iff [of "i mod 64" "b ! (i div 64)"]
  by (simp add: bit_array_get_def bit_array_members_def)

lemma div_mod_64_eq: "i div 64 = j div 64 \<Longrightarrow> i mod 64 = j mod 64 \<Longrightarrow> i = j" for i j :: nat
  by (metis div_mult_mod_eq)

lemma bit_array_set_Some:
  assumes "i div 64 < length b"
  shows "\<exists>b'. bit_array_set b i = Some b' \<and> length b' = length b \<and>
    bit_array_members b' = insert i (bit_array_members b)"
proof -
  let ?b = "b[i div 64 := b ! (i div 64) OR push_bit (i mod 64) 1]"
  have "bit (?b ! (j div 64)) (j mod 64) \<longleftrightarrow> bit (b ! (j div 64)) (j mod 64) \<or> j = i" if "j div 64 < length b" for j
    using that div_mod_64_eq [of j i]
    by (cases "j div 64 = i div 64") (auto simp: bit_or_iff bit_push_bit_iff bit_1_iff bit_exp_iff)
  then show ?thesis
    using assms by (auto simp: bit_array_set_def bit_array_members_def)
qed

lemma bit_array_unset_Some:
  assumes "i div 64 < length b"
  shows "\<exists>b'. bit_array_unset b i = Some b' \<and> length b' = length b \<and>
    bit_array_members b' = bit_array_members b - {i}"
proof -
  let ?b = "b[i div 64 := b ! (i div 64) AND NOT (push_bit (i mod 64) 1)]"
  have "bit (?b ! (j div 64)) (j mod 64) \<longleftrightarrow> bit (b ! (j div 64)) (j mod 64) \<and> j \<noteq> i" if "j div 64 < length b" for j
    using that div_mod_64_eq [of j i]
    by (cases "j div 64 = i div 64")
       (auto simp: bit_and_iff bit_not_iff bit_push_bit_iff bit_1_iff bit_exp_iff)
  then show ?thesis
    using assms by (auto simp: bit_array_unset_def bit_array_members_def)
qed

lemma bit_array_union_members:
  assumes "length b = length c"
  shows "length (bit_array_union b c) = length b \<and>
    bit_array_members (bit_array_union b c) = bit_array_members b \<union> bit_array_members c"
  using assms by (auto simp: bit_array_union_def bit_array_members_def bit_or_iff)

section \<open>One set of addresses, one set of slots\<close>

definition warm_addresses :: "prewarm_set \<Rightarrow> address set" where
  "warm_addresses p = {a. prewarm_is_warm p a}"

definition warm_slots :: "prewarm_set \<Rightarrow> (address \<times> evm_word) set" where
  "warm_slots p = {(a, k). prewarm_is_storage_warm p a k}"

lemma is_warm_iff:
  assumes "prewarm_ok p"
  shows "prewarm_is_warm p a \<longleftrightarrow>
    unat a < 320 \<and> unat a \<in> bit_array_members (pw_short p) \<or> a \<in> set (pw_occupied p) \<or>
    pw_access_list p a \<noteq> None"
  using assms bit_array_get_iff [of "unat a" "pw_short p"]
  by (auto simp: prewarm_is_warm_def short_address_unat prewarm_ok_def)

lemma is_storage_warm_iff:
  "prewarm_ok p \<Longrightarrow> prewarm_is_storage_warm p a k \<longleftrightarrow> (\<exists>ks. pw_access_list p a = Some ks \<and> k \<in> ks)"
  by (auto simp: prewarm_is_storage_warm_def prewarm_ok_def split: option.splits)

lemma warm_short_spec:
  assumes "prewarm_ok p" "warm_short_address a p = (short, q)"
  shows "short \<longleftrightarrow> unat a < 320"
    and "\<exists>b. q = p\<lparr>pw_short := b\<rparr> \<and> length b = 5 \<and>
      bit_array_members b = (if unat a < 320 then insert (unat a) else id) (bit_array_members (pw_short p))"
proof -
  have range: "unat a div 64 < length (pw_short p)" if "unat a < 320"
    using assms(1) that by (simp add: prewarm_ok_def)
  show "short \<longleftrightarrow> unat a < 320"
    using assms(2) by (auto simp: warm_short_address_def short_address_unat split: if_splits)
  show "\<exists>b. q = p\<lparr>pw_short := b\<rparr> \<and> length b = 5 \<and>
      bit_array_members b = (if unat a < 320 then insert (unat a) else id) (bit_array_members (pw_short p))"
  proof (cases "unat a < 320")
    case True
    then obtain b where "bit_array_set (pw_short p) (unat a) = Some b" "length b = 5"
      "bit_array_members b = insert (unat a) (bit_array_members (pw_short p))"
      using bit_array_set_Some [OF range [OF True]] assms(1) by (auto simp: prewarm_ok_def)
    then show ?thesis
      using True assms(2) by (auto simp: warm_short_address_def short_address_unat)
  next
    case False
    then have "q = p"
      using assms(2) by (simp add: warm_short_address_def short_address_unat)
    then show ?thesis
      using False assms(1) by (intro exI [of _ "pw_short p"]) (simp add: prewarm_ok_def)
  qed
qed

lemma occupied_short [simp]: "pw_occupied (p\<lparr>pw_short := b\<rparr>) = pw_occupied p"
  by (simp add: pw_occupied_def)

lemma occupied_add:
  assumes "pw_inline_len p < length (pw_inline p)"
  shows "pw_occupied (p\<lparr>pw_inline := (pw_inline p)[pw_inline_len p := a], pw_inline_len := pw_inline_len p + 1\<rparr>)
    = pw_occupied p @ [a]"
  using assms by (simp add: pw_occupied_def take_Suc_conv_app_nth)

lemma warm_spec:
  assumes ok: "prewarm_ok p"
  shows "prewarm_ok (prewarm_warm a p) \<and> warm_addresses (prewarm_warm a p) = insert a (warm_addresses p) \<and>
    warm_slots (prewarm_warm a p) = warm_slots p"
proof -
  obtain short q where q: "warm_short_address a p = (short, q)"
    by fastforce
  obtain b where b: "q = p\<lparr>pw_short := b\<rparr>" "length b = 5"
    "bit_array_members b = (if unat a < 320 then insert (unat a) else id) (bit_array_members (pw_short p))"
    using warm_short_spec(2) [OF ok q] by blast
  have short: "short \<longleftrightarrow> unat a < 320"
    by (rule warm_short_spec(1) [OF ok q])
  have okq: "prewarm_ok q"
    using ok b by (simp add: prewarm_ok_def)
  have inj: "unat x = unat a \<longleftrightarrow> x = a" for x :: address
    by (simp add: word_unat_eq_iff)
  consider "unat a < 320" | "\<not> unat a < 320" "a \<in> set (pw_occupied q)"
    | "\<not> unat a < 320" "a \<notin> set (pw_occupied q)" "pw_inline_len q < length (pw_inline q)"
    | "\<not> unat a < 320" "a \<notin> set (pw_occupied q)" "\<not> pw_inline_len q < length (pw_inline q)"
    by blast
  then show ?thesis
  proof cases
    case 1
    then have w: "prewarm_warm a p = q"
      using q short by (simp add: prewarm_warm_def)
    show ?thesis
      unfolding w using 1 b okq ok inj
      by (auto simp: warm_addresses_def warm_slots_def is_warm_iff is_storage_warm_iff)
  next
    case 2
    then have w: "prewarm_warm a p = q"
      using q short by (simp add: prewarm_warm_def)
    show ?thesis
      unfolding w using 2 b okq ok
      by (auto simp: warm_addresses_def warm_slots_def is_warm_iff is_storage_warm_iff)
  next
    case 3
    let ?r = "q\<lparr>pw_inline := (pw_inline q)[pw_inline_len q := a], pw_inline_len := pw_inline_len q + 1\<rparr>"
    have w: "prewarm_warm a p = ?r"
      using 3 q short by (simp add: prewarm_warm_def)
    have "prewarm_ok ?r"
      using okq 3 occupied_add [OF 3(3), of a] by (auto simp: prewarm_ok_def)
    then show ?thesis
      unfolding w using 3 b okq ok occupied_add [OF 3(3), of a]
      by (auto simp: warm_addresses_def warm_slots_def is_warm_iff is_storage_warm_iff)
  next
    case 4
    let ?r = "q\<lparr>pw_access_list :=
        (pw_access_list q)(a \<mapsto> (case pw_access_list q a of Some ks \<Rightarrow> ks | None \<Rightarrow> {}))\<rparr>"
    have w: "prewarm_warm a p = ?r"
      using 4 q short by (simp add: prewarm_warm_def)
    have "prewarm_ok ?r"
      using okq by (auto simp: prewarm_ok_def pw_occupied_def split: option.splits)
    then show ?thesis
      unfolding w using 4 b okq ok
      by (auto simp: warm_addresses_def warm_slots_def is_warm_iff is_storage_warm_iff pw_occupied_def
          split: option.splits if_splits)
  qed
qed

lemma warm_storage_spec:
  assumes ok: "prewarm_ok p"
  shows "prewarm_ok (prewarm_warm_storage a ks p) \<and>
    warm_addresses (prewarm_warm_storage a ks p) = insert a (warm_addresses p) \<and>
    warm_slots (prewarm_warm_storage a ks p) = warm_slots p \<union> {a} \<times> set ks"
proof -
  obtain short q where q: "warm_short_address a p = (short, q)"
    by fastforce
  obtain b where b: "q = p\<lparr>pw_short := b\<rparr>" "length b = 5"
    "bit_array_members b = (if unat a < 320 then insert (unat a) else id) (bit_array_members (pw_short p))"
    using warm_short_spec(2) [OF ok q] by blast
  have short: "short \<longleftrightarrow> unat a < 320"
    by (rule warm_short_spec(1) [OF ok q])
  have okq: "prewarm_ok q"
    using ok b by (simp add: prewarm_ok_def)
  have inj: "unat x = unat a \<longleftrightarrow> x = a" for x :: address
    by (simp add: word_unat_eq_iff)
  show ?thesis
  proof (cases "short \<and> ks = []")
    case True
    then have w: "prewarm_warm_storage a ks p = q"
      using q by (simp add: prewarm_warm_storage_def)
    show ?thesis
      unfolding w using True short b okq ok inj
      by (auto simp: warm_addresses_def warm_slots_def is_warm_iff is_storage_warm_iff)
  next
    case False
    let ?r = "q\<lparr>pw_access_list :=
        (pw_access_list q)(a \<mapsto> (case pw_access_list q a of Some ks \<Rightarrow> ks | None \<Rightarrow> {}) \<union> set ks),
        pw_has_storage := (pw_has_storage q \<or> ks \<noteq> [])\<rparr>"
    have w: "prewarm_warm_storage a ks p = ?r"
      using False q by (auto simp: prewarm_warm_storage_def)
    have okr: "prewarm_ok ?r"
      using okq by (auto simp: prewarm_ok_def pw_occupied_def split: option.splits)
    have "warm_addresses ?r = insert a (warm_addresses p)"
      using b okr ok inj
      by (auto simp: warm_addresses_def is_warm_iff pw_occupied_def split: if_splits)
    moreover have "warm_slots ?r = warm_slots p \<union> {a} \<times> set ks"
      using b okr ok
      by (auto simp: warm_slots_def is_storage_warm_iff split: option.splits if_splits)
    ultimately show ?thesis
      unfolding w using okr by blast
  qed
qed

lemma position_Some:
  assumes "position x xs = Some i"
  shows "i < length xs" "xs ! i = x"
  using assms by (auto simp: position_def find_Some_iff)

lemma position_None: "position x xs = None \<Longrightarrow> x \<notin> set xs"
  by (auto simp: position_def find_None_iff in_set_conv_nth)

text \<open>Swapping an element with the last of an array and dropping the last removes the element.\<close>

lemma swap_remove:
  assumes "i < n" "n \<le> length xs" "distinct (take n xs)"
  shows "distinct (take (n - 1) (xs[i := xs ! (n - 1), n - 1 := xs ! i]))"
    and "set (take (n - 1) (xs[i := xs ! (n - 1), n - 1 := xs ! i])) = set (take n xs) - {xs ! i}"
proof -
  obtain m where n: "n = Suc m"
    using assms(1) by (cases n) simp_all
  let ?ys = "take m xs"
  have t: "take n xs = ?ys @ [xs ! m]"
    using assms(2) by (simp add: n take_Suc_conv_app_nth)
  have r: "take (n - 1) (xs[i := xs ! (n - 1), n - 1 := xs ! i]) = ?ys[i := xs ! m]"
    unfolding n diff_Suc_1 take_update_swap by (simp add: list_update_beyond)
  have d: "distinct ?ys" "xs ! m \<notin> set ?ys"
    using assms(3) t by simp_all
  show "distinct (take (n - 1) (xs[i := xs ! (n - 1), n - 1 := xs ! i]))"
    unfolding r using d by (simp add: distinct_list_update)
  show "set (take (n - 1) (xs[i := xs ! (n - 1), n - 1 := xs ! i])) = set (take n xs) - {xs ! i}"
  proof (cases "i = m")
    case True
    then show ?thesis
      unfolding r t using d by (simp add: list_update_beyond)
  next
    case False
    then have i: "i < length ?ys" "?ys ! i = xs ! i"
      using assms(1,2) n by simp_all
    have "set (?ys[i := xs ! m]) = insert (xs ! m) (set ?ys - {?ys ! i})"
      using d(1) i(1) by (rule set_update_distinct)
    moreover have "xs ! i \<noteq> xs ! m"
      using d(2) nth_mem [OF i(1)] i(2) by metis
    ultimately show ?thesis
      unfolding r t i(2) set_append list.set by blast
  qed
qed

lemma remove_spec:
  assumes ok: "prewarm_ok p"
  shows "prewarm_ok (prewarm_remove a p) \<and> warm_addresses (prewarm_remove a p) = warm_addresses p - {a} \<and>
    warm_slots (prewarm_remove a p) = warm_slots p - {a} \<times> UNIV"
proof -
  have inj: "unat x = unat a \<longleftrightarrow> x = a" for x :: address
    by (simp add: word_unat_eq_iff)
  define q where "q = (case short_address a of
      Some i \<Rightarrow> (case bit_array_unset (pw_short p) i of Some b \<Rightarrow> p\<lparr>pw_short := b\<rparr> | None \<Rightarrow> p) | None \<Rightarrow> p)"
  obtain b where b: "q = p\<lparr>pw_short := b\<rparr>" "length b = 5"
    "unat a < 320 \<Longrightarrow> bit_array_members b = bit_array_members (pw_short p) - {unat a}"
    "\<not> unat a < 320 \<Longrightarrow> b = pw_short p"
  proof (cases "unat a < 320")
    case True
    then have "unat a div 64 < length (pw_short p)"
      using ok by (simp add: prewarm_ok_def)
    then obtain b where "bit_array_unset (pw_short p) (unat a) = Some b" "length b = 5"
      "bit_array_members b = bit_array_members (pw_short p) - {unat a}"
      using bit_array_unset_Some ok by (fastforce simp: prewarm_ok_def)
    then show ?thesis
      using True that [of b] by (simp add: q_def short_address_unat)
  next
    case False
    then show ?thesis
      using ok that [of "pw_short p"] by (simp add: q_def short_address_unat prewarm_ok_def)
  qed
  define r where "r = (case position a (pw_occupied q) of
      Some index \<Rightarrow> q\<lparr>pw_inline_len := pw_inline_len q - 1,
        pw_inline := (pw_inline q)[index := pw_inline q ! (pw_inline_len q - 1), pw_inline_len q - 1 := pw_inline q ! index]\<rparr>
    | None \<Rightarrow> q)"
  have okq: "prewarm_ok q"
    using ok b by (simp add: prewarm_ok_def)
  have occ: "distinct (pw_occupied r) \<and> set (pw_occupied r) = set (pw_occupied q) - {a} \<and>
      length (pw_inline r) = 3 \<and> pw_inline_len r \<le> 3 \<and> pw_short r = b \<and>
      pw_access_list r = pw_access_list p \<and> pw_has_storage r = pw_has_storage p"
  proof (cases "position a (pw_occupied q)")
    case None
    then show ?thesis
      using okq b position_None [OF None] by (auto simp: r_def prewarm_ok_def)
  next
    case (Some i)
    have i: "i < pw_inline_len q" "pw_inline q ! i = a"
      using position_Some [OF Some] by (simp_all add: pw_occupied_def)
    then show ?thesis
      using okq b Some swap_remove [of i "pw_inline_len q" "pw_inline q"]
      by (auto simp: r_def prewarm_ok_def pw_occupied_def)
  qed
  have w: "prewarm_remove a p = r\<lparr>pw_access_list := (pw_access_list r)(a := None)\<rparr>"
    unfolding prewarm_remove_def r_def q_def Let_def ..
  have o: "pw_occupied (r\<lparr>pw_access_list := m\<rparr>) = pw_occupied r" for m
    by (simp add: pw_occupied_def)
  have okr: "prewarm_ok (prewarm_remove a p)"
    unfolding w using ok occ b(2) o by (auto simp: prewarm_ok_def split: if_splits)
  have sel: "pw_short (prewarm_remove a p) = b"
    "set (pw_occupied (prewarm_remove a p)) = set (pw_occupied p) - {a}"
    "pw_access_list (prewarm_remove a p) = (pw_access_list p)(a := None)"
    using occ b(1) by (simp_all add: w o)
  have "prewarm_is_warm (prewarm_remove a p) x \<longleftrightarrow> prewarm_is_warm p x \<and> x \<noteq> a" for x
  proof (cases "x = a")
    case True
    then show ?thesis
      unfolding is_warm_iff [OF okr] is_warm_iff [OF ok] sel using b(3) by auto
  next
    case False
    then have "unat x \<in> bit_array_members b \<longleftrightarrow> unat x \<in> bit_array_members (pw_short p)"
      using b(3,4) inj [of x] by (cases "unat a < 320") auto
    then show ?thesis
      unfolding is_warm_iff [OF okr] is_warm_iff [OF ok] sel using False by auto
  qed
  moreover have "prewarm_is_storage_warm (prewarm_remove a p) x k \<longleftrightarrow> prewarm_is_storage_warm p x k \<and> x \<noteq> a" for x k
    unfolding is_storage_warm_iff [OF okr] is_storage_warm_iff [OF ok] sel by auto
  ultimately show ?thesis
    using okr by (auto simp: warm_addresses_def warm_slots_def)
qed

lemma prewarm_clear_empty: "warm_addresses (prewarm_clear p) = {}" "warm_slots (prewarm_clear p) = {}"
  by (auto simp: warm_addresses_def warm_slots_def prewarm_is_warm_def prewarm_is_storage_warm_def prewarm_clear_def
      pw_occupied_def bit_array_get_def bit_array_clear_def split: option.splits if_splits)

lemma clear_spec:
  assumes "prewarm_ok p"
  shows "prewarm_ok (prewarm_clear p) \<and> warm_addresses (prewarm_clear p) = {} \<and> warm_slots (prewarm_clear p) = {}"
proof -
  have ok: "prewarm_ok (prewarm_clear p)"
    using assms by (simp add: prewarm_ok_def prewarm_clear_def pw_occupied_def bit_array_clear_def)
  then show ?thesis
    by (simp add: prewarm_clear_empty)
qed

lemma new_spec: "prewarm_ok prewarm_new \<and> warm_addresses prewarm_new = {} \<and> warm_slots prewarm_new = {}"
proof -
  have ok: "prewarm_ok prewarm_new"
    by (simp add: prewarm_ok_def prewarm_new_def pw_occupied_def bit_array_new_def)
  then show ?thesis
    by (auto simp: warm_addresses_def warm_slots_def is_warm_iff is_storage_warm_iff)
       (simp_all add: prewarm_new_def pw_occupied_def bit_array_new_def bit_array_members_def)
qed

lemma warm_short_addresses_spec:
  assumes ok: "prewarm_ok p" and len: "length b = 5"
  shows "prewarm_ok (warm_short_addresses b p) \<and>
    warm_addresses (warm_short_addresses b p) =
      warm_addresses p \<union> {a. unat a < 320 \<and> bit_array_get b (unat a) = Some True} \<and>
    warm_slots (warm_short_addresses b p) = warm_slots p"
proof -
  have b: "length (bit_array_union (pw_short p) b) = 5"
    "bit_array_members (bit_array_union (pw_short p) b) = bit_array_members (pw_short p) \<union> bit_array_members b"
    using bit_array_union_members [of "pw_short p" b] ok len by (simp_all add: prewarm_ok_def)
  have okb: "prewarm_ok (warm_short_addresses b p)"
    using ok b(1) by (simp add: warm_short_addresses_def prewarm_ok_def)
  have get: "bit_array_get b (unat a) = Some True \<longleftrightarrow> unat a \<in> bit_array_members b" if "unat a < 320" for a :: address
    using that len by (intro bit_array_get_iff) simp
  have "prewarm_is_warm (warm_short_addresses b p) a \<longleftrightarrow>
      prewarm_is_warm p a \<or> unat a < 320 \<and> bit_array_get b (unat a) = Some True" for a
    unfolding is_warm_iff [OF okb] is_warm_iff [OF ok] using get [of a] b(2)
    by (auto simp: warm_short_addresses_def)
  moreover have "warm_slots (warm_short_addresses b p) = warm_slots p"
    by (simp add: warm_slots_def prewarm_is_storage_warm_def warm_short_addresses_def)
  ultimately show ?thesis
    using okb by (auto simp: warm_addresses_def)
qed

section \<open>Refinement\<close>

text \<open>A state and its abstract view, with operations that the view follows.\<close>

locale refinement =
  fixes ok :: "'s \<Rightarrow> bool"
    and abs :: "'s \<Rightarrow> 'a"
    and legal :: "'o \<Rightarrow> bool"
    and step :: "'o \<Rightarrow> 's \<Rightarrow> 's"
    and astep :: "'o \<Rightarrow> 'a \<Rightarrow> 'a"
  assumes step_ok: "ok s \<Longrightarrow> legal x \<Longrightarrow> ok (step x s)"
    and step_abs: "ok s \<Longrightarrow> legal x \<Longrightarrow> abs (step x s) = astep x (abs s)"
begin

lemma fold_refines:
  "ok s \<Longrightarrow> list_all legal xs \<Longrightarrow>
    ok (fold step xs s) \<and> abs (fold step xs s) = fold astep xs (abs s)"
  by (induction xs arbitrary: s) (simp_all add: step_ok step_abs)

end

datatype warm_op =
    Warm address | Warm_Storage address "evm_word list" | Warm_Shorts bit_array
  | Cool address | Warm_Clear

text \<open>The type of the bit array fixes its number of words.\<close>

definition warm_op_legal :: "warm_op \<Rightarrow> bool" where
  "warm_op_legal x = (case x of Warm_Shorts b \<Rightarrow> length b = SHORT_ADDRESS_CAP div 64 | _ \<Rightarrow> True)"

definition warm_step :: "warm_op \<Rightarrow> prewarm_set \<Rightarrow> prewarm_set" where
  "warm_step x p = (case x of
     Warm a \<Rightarrow> prewarm_warm a p | Warm_Storage a ks \<Rightarrow> prewarm_warm_storage a ks p
   | Warm_Shorts b \<Rightarrow> warm_short_addresses b p
   | Cool a \<Rightarrow> prewarm_remove a p | Warm_Clear \<Rightarrow> prewarm_clear p)"

definition warm_view :: "prewarm_set \<Rightarrow> address set \<times> (address \<times> evm_word) set" where
  "warm_view p = (warm_addresses p, warm_slots p)"

definition set_step ::
    "warm_op \<Rightarrow> address set \<times> (address \<times> evm_word) set \<Rightarrow> address set \<times> (address \<times> evm_word) set" where
  "set_step x v = (case v of (A, S) \<Rightarrow> case x of
     Warm a \<Rightarrow> (insert a A, S) | Warm_Storage a ks \<Rightarrow> (insert a A, S \<union> {a} \<times> set ks)
   | Warm_Shorts b \<Rightarrow> (A \<union> {a. unat a < SHORT_ADDRESS_CAP \<and> bit_array_get b (unat a) = Some True}, S)
   | Cool a \<Rightarrow> (A - {a}, S - {a} \<times> UNIV) | Warm_Clear \<Rightarrow> ({}, {}))"

lemmas warm_specs = warm_spec warm_storage_spec warm_short_addresses_spec remove_spec clear_spec

interpretation warm: refinement prewarm_ok warm_view warm_op_legal warm_step set_step
proof
  show "prewarm_ok (warm_step x p)" if "prewarm_ok p" "warm_op_legal x" for p x
    using that by (cases x) (simp_all add: warm_step_def warm_op_legal_def warm_specs)
  show "warm_view (warm_step x p) = set_step x (warm_view p)" if "prewarm_ok p" "warm_op_legal x" for p x
    using that by (cases x)
      (simp_all add: warm_view_def set_step_def warm_step_def warm_op_legal_def warm_specs)
qed

text \<open>
  C17:  The pre-warmed set is a set.  After any sequence of its operations on a new set, the bulk
  union of a bit array of short addresses included, an address
  is warm exactly if it is in the set of addresses the same operations build on plain
  sets, and a slot is warm exactly if it is in the set of slots: the bit array, the
  inline array with its swap-removal and the storage hint never show.
\<close>

theorem prewarm_set_is_a_set:
  assumes "list_all warm_op_legal ops"
  shows "(prewarm_is_warm (fold warm_step ops prewarm_new) a \<longleftrightarrow> a \<in> fst (fold set_step ops ({}, {}))) \<and>
   (prewarm_is_storage_warm (fold warm_step ops prewarm_new) a k \<longleftrightarrow> (a, k) \<in> snd (fold set_step ops ({}, {})))"
proof -
  have "warm_view prewarm_new = ({}, {})"
    using new_spec by (simp add: warm_view_def)
  then have "warm_view (fold warm_step ops prewarm_new) = fold set_step ops ({}, {})"
    using warm.fold_refines [of prewarm_new ops] new_spec assms by simp
  then show ?thesis
    by (metis (mono_tags, lifting) case_prodI case_prodD fst_conv mem_Collect_eq snd_conv
        warm_addresses_def warm_slots_def warm_view_def)
qed

theorem prewarm_set_is_a_set_witness:
  "prewarm_is_warm (fold warm_step [Warm 9, Warm_Shorts [2, 0, 0, 0, 0], Warm_Storage 400 [7], Cool 9] prewarm_new) 1 \<and>
   \<not> prewarm_is_warm (fold warm_step [Warm 9, Warm_Shorts [2, 0, 0, 0, 0], Warm_Storage 400 [7], Cool 9] prewarm_new) 9"
  using prewarm_set_is_a_set [of "[Warm 9, Warm_Shorts [2, 0, 0, 0, 0], Warm_Storage 400 [7], Cool 9]" 1 0]
    prewarm_set_is_a_set [of "[Warm 9, Warm_Shorts [2, 0, 0, 0, 0], Warm_Storage 400 [7], Cool 9]" 9 0]
  by (simp add: warm_op_legal_def set_step_def bit_array_get_def)

end
