(* ===== verification/Gas_Tracker.thy ===== *)
theory Gas_Tracker
  imports Instr_Stop
begin

text \<open>
  Gas accounting (\<open>interpreter/gas.rs\<close>): the tracker of execution gas,
  state gas (EIP-8037) and refunds, the wrapper the interpreter carries, and the
  memory-expansion counter.

  The state-gas lemmas read a tracker through three integers: \<open>exec_funds\<close>,
  the execution gas had every state charge been covered by the reservoir,
  \<open>pool_funds\<close>, the reservoir minus what spilled out of it, and the signed
  net state gas.  Every operation acts on these by plain addition as long as
  nothing saturates, and their sums are what a rollback restores.
\<close>

section \<open>The tracker\<close>

record gas_tracker =
  remaining :: u64
  gas_limit :: u64
  reservoir :: u64
  state_gas_spent :: i64
  state_gas_spilled :: u64
  refunded :: i64

definition from_parts :: "u64 \<Rightarrow> u64 \<Rightarrow> u64 \<Rightarrow> gas_tracker" where
  "from_parts lim rem res =
    \<lparr>remaining = rem, gas_limit = lim, reservoir = res,
     state_gas_spent = 0, state_gas_spilled = 0, refunded = 0\<rparr>"

definition new_with_execution_gas_and_reservoir :: "u64 \<Rightarrow> u64 \<Rightarrow> gas_tracker" where
  "new_with_execution_gas_and_reservoir lim res = from_parts lim lim res"

definition new_tracker :: "u64 \<Rightarrow> gas_tracker" where
  "new_tracker lim = new_with_execution_gas_and_reservoir lim 0"

definition new_spent_with_reservoir :: "u64 \<Rightarrow> u64 \<Rightarrow> gas_tracker" where
  "new_spent_with_reservoir lim res = from_parts lim 0 res"

definition new_used_gas :: "u64 \<Rightarrow> u64 \<Rightarrow> u64 \<Rightarrow> gas_tracker" where
  "new_used_gas lim used_gas res = from_parts lim (saturating_sub lim used_gas) res"

definition absorb_returned_reservoir :: "u64 \<Rightarrow> gas_tracker \<Rightarrow> gas_tracker" where
  "absorb_returned_reservoir res g =
    (let to_remaining = (if res < state_gas_spilled g then res else state_gas_spilled g) in
     g\<lparr>remaining := saturating_add (remaining g) to_remaining,
       state_gas_spilled := state_gas_spilled g - to_remaining,
       reservoir := res - to_remaining\<rparr>)"

definition add_state_gas_spent :: "i64 \<Rightarrow> gas_tracker \<Rightarrow> gas_tracker" where
  "add_state_gas_spent delta g =
    g\<lparr>state_gas_spent := i64_saturating_add (state_gas_spent g) delta\<rparr>"

definition remaining_excluding_state_spill :: "gas_tracker \<Rightarrow> u64" where
  "remaining_excluding_state_spill g = saturating_add (remaining g) (state_gas_spilled g)"

definition add_state_gas_spilled :: "u64 \<Rightarrow> gas_tracker \<Rightarrow> gas_tracker" where
  "add_state_gas_spilled delta g =
    g\<lparr>state_gas_spilled := saturating_add (state_gas_spilled g) delta\<rparr>"

definition gas_spent :: "gas_tracker \<Rightarrow> u64" where
  "gas_spent g = saturating_sub (gas_limit g) (remaining g)"

definition gas_used :: "gas_tracker \<Rightarrow> u64" where
  "gas_used g = saturating_sub (gas_spent g) (refunded g)"

definition set_spent :: "u64 \<Rightarrow> gas_tracker \<Rightarrow> gas_tracker" where
  "set_spent spent g = g\<lparr>remaining := saturating_sub (gas_limit g) spent\<rparr>"

definition spend :: "u64 \<Rightarrow> (gas_tracker, instr_stop, unit) sres" where
  "spend cost g =
    (let g' = g\<lparr>remaining := remaining g - cost\<rparr> in
     if remaining g < cost then (Inl OutOfGas, g') else (Inr (), g'))"

definition try_spend :: "u64 \<Rightarrow> (gas_tracker, instr_stop, unit) sres" where
  "try_spend cost g =
    (if remaining g < cost then (Inl OutOfGas, g)
     else (Inr (), g\<lparr>remaining := remaining g - cost\<rparr>))"

definition spend_state :: "u64 \<Rightarrow> (gas_tracker, instr_stop, unit) sres" where
  "spend_state cost g =
    (if reservoir g \<ge> cost then
       (Inr (), (add_state_gas_spent cost g)\<lparr>reservoir := reservoir g - cost\<rparr>)
     else
       let spill = cost - reservoir g in
       bindE (spend spill)
         (\<lambda>_. modifyE (\<lambda>g. (add_state_gas_spilled spill (add_state_gas_spent cost g))
                             \<lparr>reservoir := 0\<rparr>)) g)"

definition try_spend_state :: "u64 \<Rightarrow> (gas_tracker, instr_stop, unit) sres" where
  "try_spend_state cost g =
    (if remaining g < saturating_sub cost (reservoir g) then (Inl OutOfGas, g)
     else spend_state cost g)"

definition rollback_state_gas :: "gas_tracker \<Rightarrow> gas_tracker" where
  "rollback_state_gas g =
    g\<lparr>reservoir := saturating_sub (saturating_add_signed (reservoir g) (state_gas_spent g))
                    (state_gas_spilled g),
      remaining := remaining_excluding_state_spill g,
      state_gas_spent := 0,
      state_gas_spilled := 0\<rparr>"

definition refill_reservoir :: "u64 \<Rightarrow> gas_tracker \<Rightarrow> gas_tracker" where
  "refill_reservoir amount g =
    (let to_remaining = (if amount < state_gas_spilled g then amount else state_gas_spilled g) in
     g\<lparr>remaining := saturating_add (remaining g) to_remaining,
       state_gas_spilled := state_gas_spilled g - to_remaining,
       reservoir := saturating_add (reservoir g) (amount - to_remaining),
       state_gas_spent := i64_saturating_sub (state_gas_spent g) amount\<rparr>)"

definition record_refund :: "i64 \<Rightarrow> gas_tracker \<Rightarrow> gas_tracker" where
  "record_refund refund g = g\<lparr>refunded := refunded g + refund\<rparr>"

definition erase_cost :: "u64 \<Rightarrow> gas_tracker \<Rightarrow> gas_tracker" where
  "erase_cost returned g = g\<lparr>remaining := remaining g + returned\<rparr>"

definition settle_gas :: "instr_stop \<Rightarrow> gas_tracker \<Rightarrow> gas_tracker" where
  "settle_gas stop g =
    (let g = (if \<not> is_success stop then (rollback_state_gas g)\<lparr>refunded := 0\<rparr> else g) in
     if is_halt stop then g\<lparr>remaining := 0\<rparr> else g)"

definition merge_child_gas :: "gas_tracker \<Rightarrow> instr_stop \<Rightarrow> gas_tracker \<Rightarrow> gas_tracker" where
  "merge_child_gas child stop g =
    (let g = (if is_success stop \<or> is_frame_revert stop then erase_cost (remaining child) g else g);
         g = (if is_success stop
              then record_refund (refunded child)
                     (add_state_gas_spilled (state_gas_spilled child)
                       (add_state_gas_spent (state_gas_spent child) g))
              else g)
     in absorb_returned_reservoir (reservoir child) g)"

definition spend_all :: "gas_tracker \<Rightarrow> gas_tracker" where
  "spend_all g = g\<lparr>remaining := 0\<rparr>"

section \<open>Dispatch counter, memory counter and the interpreter's wrapper\<close>

record remaining_gas =
  rg_remaining :: u64

definition rg_spend :: "u64 \<Rightarrow> (remaining_gas, instr_stop, unit) sres" where
  "rg_spend cost r =
    (let r' = r\<lparr>rg_remaining := rg_remaining r - cost\<rparr> in
     if rg_remaining r < cost then (Inl OutOfGas, r') else (Inr (), r'))"

record memory_gas =
  words_num :: usize
  expansion_cost :: u64

definition new_memory_gas :: memory_gas where
  "new_memory_gas = \<lparr>words_num = 0, expansion_cost = 0\<rparr>"

definition set_words_num :: "usize \<Rightarrow> u64 \<Rightarrow> memory_gas \<Rightarrow> u64 option \<times> memory_gas" where
  "set_words_num n cost m =
    (checked_sub cost (expansion_cost m), m\<lparr>words_num := n, expansion_cost := cost\<rparr>)"

record gas =
  tracker :: gas_tracker
  memory_gas_of :: memory_gas

definition new_gas :: "u64 \<Rightarrow> u64 \<Rightarrow> gas" where
  "new_gas lim res =
    \<lparr>tracker = new_with_execution_gas_and_reservoir lim res, memory_gas_of = new_memory_gas\<rparr>"

definition on_tracker :: "(gas_tracker, 'e, 'a) sres \<Rightarrow> (gas, 'e, 'a) sres" where
  "on_tracker m g = (case m (tracker g) of (r, t) \<Rightarrow> (r, g\<lparr>tracker := t\<rparr>))"

definition gas_spend :: "u64 \<Rightarrow> (gas, instr_stop, unit) sres" where
  "gas_spend amount = on_tracker (spend amount)"

definition gas_spend_state :: "u64 \<Rightarrow> (gas, instr_stop, unit) sres" where
  "gas_spend_state cost = on_tracker (spend_state cost)"

section \<open>Trees of frames and the two-pool reading\<close>

text \<open>
  A frame's charges, with the frames it opens nested inside: a child starts with
  the gas its parent paid for it and the parent's reservoir, its gas is settled
  for its stop reason and merged back.  The reading to compare with keeps two
  integers, execution funds and the state-gas pool, which do not interfere
  except that the pool may run into debt up to the execution funds left.
\<close>

definition exec_funds :: "gas_tracker \<Rightarrow> int" where
  "exec_funds g = uint (remaining g) + uint (state_gas_spilled g)"

definition pool_funds :: "gas_tracker \<Rightarrow> int" where
  "pool_funds g = uint (reservoir g) - uint (state_gas_spilled g)"

definition gas_rel :: "int \<Rightarrow> int \<Rightarrow> int \<Rightarrow> gas_tracker \<Rightarrow> int \<times> int \<Rightarrow> bool" where
  "gas_rel L R B g s \<longleftrightarrow>
     s = (exec_funds g, pool_funds g) \<and>
     (uint (state_gas_spilled g) = 0 \<or> uint (reservoir g) = 0) \<and>
     sint (state_gas_spent g) = R - pool_funds g \<and>
     exec_funds g \<le> L \<and> uint (remaining g) + uint (reservoir g) \<le> B \<and>
     0 \<le> R \<and> R \<le> B \<and> L \<le> B"

definition two_62 :: int where "two_62 = 4611686018427387904"

definition pool_kept :: "int \<Rightarrow> gas_tracker \<Rightarrow> bool" where
  "pool_kept R g \<longleftrightarrow>
     sint (state_gas_spent g) = R - pool_funds g \<and> uint (state_gas_spilled g) < two_62"

datatype gas_op =
    Spend u64
  | SpendState u64
  | Refill u64
  | Frame u64 "gas_op list" instr_stop

fun run_op :: "gas_op \<Rightarrow> (gas_tracker, instr_stop, unit) sres"
and run_ops :: "gas_op list \<Rightarrow> (gas_tracker, instr_stop, unit) sres" where
  "run_op (Spend c) g = spend c g"
| "run_op (SpendState c) g = spend_state c g"
| "run_op (Refill a) g = (Inr (), refill_reservoir a g)"
| "run_op (Frame lim ops stop) g =
    (case spend lim g of
       (Inl e, g') \<Rightarrow> (Inl e, g')
     | (Inr _, g') \<Rightarrow>
        (case run_ops ops (new_with_execution_gas_and_reservoir lim (reservoir g')) of
           (Inl e, c) \<Rightarrow> (Inr (), merge_child_gas (settle_gas e c) e g')
         | (Inr _, c) \<Rightarrow> (Inr (), merge_child_gas (settle_gas stop c) stop g')))"
| "run_ops [] g = (Inr (), g)"
| "run_ops (op # ops) g =
    (case run_op op g of (Inl e, g') \<Rightarrow> (Inl e, g') | (Inr _, g') \<Rightarrow> run_ops ops g')"

fun spec_op :: "gas_op \<Rightarrow> int \<times> int \<Rightarrow> (int \<times> int) option"
and spec_ops :: "gas_op list \<Rightarrow> int \<times> int \<Rightarrow> (int \<times> int) option" where
  "spec_op (Spend c) (E, P) = (if uint c \<le> E + min 0 P then Some (E - uint c, P) else None)"
| "spec_op (SpendState c) (E, P) = (if uint c \<le> E + P then Some (E, P - uint c) else None)"
| "spec_op (Refill a) (E, P) = Some (E, P + uint a)"
| "spec_op (Frame lim ops stop) (E, P) =
    (if uint lim \<le> E + min 0 P then
       (case spec_ops ops (uint lim, max 0 P) of
          None \<Rightarrow> Some (E - uint lim, P)
        | Some (E', P') \<Rightarrow>
            if is_success stop then Some (E - uint lim + E', P + (P' - max 0 P))
            else if is_frame_revert stop then Some (E - uint lim + E', P)
            else Some (E - uint lim, P))
     else None)"
| "spec_ops [] s = Some s"
| "spec_ops (op # ops) s = (case spec_op op s of None \<Rightarrow> None | Some s' \<Rightarrow> spec_ops ops s')"

fun refills :: "gas_op \<Rightarrow> int" where
  "refills (Spend c) = 0"
| "refills (SpendState c) = 0"
| "refills (Refill a) = uint a"
| "refills (Frame lim ops stop) = sum_list (map refills ops)"

definition gas_outcome :: "int \<Rightarrow> int \<Rightarrow> int \<Rightarrow> (instr_stop + unit) \<times> gas_tracker
    \<Rightarrow> (int \<times> int) option \<Rightarrow> bool" where
  "gas_outcome L R B out spec =
    (case (out, spec) of
       ((Inr _, g), Some s) \<Rightarrow> gas_rel L R B g s
     | ((Inl e, g), None) \<Rightarrow> e = OutOfGas \<and> pool_kept R g
     | _ \<Rightarrow> False)"

section \<open>Charging a counter\<close>

fun charge_all :: "(u64 \<Rightarrow> ('g, 'e, unit) sres) \<Rightarrow> u64 list \<Rightarrow> ('g, 'e, unit) sres" where
  "charge_all charge [] g = (Inr (), g)"
| "charge_all charge (c # cs) g = bindE (charge c) (\<lambda>_. charge_all charge cs) g"

locale exec_meter =
  fixes left :: "'g \<Rightarrow> u64"
    and charge :: "u64 \<Rightarrow> ('g, instr_stop, unit) sres"
  assumes charge_left: "left (snd (charge c g)) = left g - c"
    and charge_result: "fst (charge c g) = (if left g < c then Inl OutOfGas else Inr ())"
begin

lemma charge_split:
  "charge c g = ((if left g < c then Inl OutOfGas else Inr ()), snd (charge c g))"
  by (metis charge_result prod.collapse)

lemma charge_all_exact:
  "if sum_list (map unat cs) \<le> unat (left g)
   then fst (charge_all charge cs g) = Inr ()
        \<and> unat (left (snd (charge_all charge cs g))) = unat (left g) - sum_list (map unat cs)
   else fst (charge_all charge cs g) = Inl OutOfGas"
proof (induction cs arbitrary: g)
  case (Cons c cs)
  show ?case
    using Cons [of "snd (charge c g)"] charge_left [of c g]
    by (subst (1 2 3) charge_all.simps, unfold bindE_def, subst (1 2 3) charge_split)
      (auto simp: u_arith split: if_splits)
qed simp

end

interpretation tracker_meter: exec_meter remaining spend
  by unfold_locales (simp_all add: spend_def Let_def)

interpretation dispatch_meter: exec_meter rg_remaining rg_spend
  by unfold_locales (simp_all add: rg_spend_def Let_def)

interpretation gas_meter: exec_meter "\<lambda>g. remaining (tracker g)" gas_spend
  by unfold_locales (simp_all add: gas_spend_def on_tracker_def spend_def Let_def)

section \<open>Simulation of the two pools\<close>

lemmas rel_defs = gas_rel_def exec_funds_def pool_funds_def two_62_def


lemma spend_Inr_iff:
  "spend c g = (Inr (), g') \<longleftrightarrow> c \<le> remaining g \<and> g' = g\<lparr>remaining := remaining g - c\<rparr>"
  by (auto simp: spend_def Let_def not_less)

lemma tracker_view:
  obtains r p s where "uint (remaining g) = r" "uint (reservoir g) = p"
    "uint (state_gas_spilled g) = s" "0 \<le> r" "0 \<le> p" "0 \<le> s"
  by (simp add: that)

lemma uint_view:
  obtains k where "uint w = k" "0 \<le> k"
  by (simp add: that)

lemma spend_sim:
  assumes "gas_rel L R B g (E, P)" "B < two_62"
  shows "if uint c \<le> E + min 0 P
         then \<exists>g'. spend c g = (Inr (), g') \<and> gas_rel L R B g' (E - uint c, P) \<and> reservoir g' = reservoir g
              \<and> gas_rel (L - uint c) R B g' (E - uint c, P)
         else \<exists>g'. spend c g = (Inl OutOfGas, g') \<and> pool_kept R g'"
proof -
  obtain r p s where v: "uint (remaining g) = r" "uint (reservoir g) = p"
    "uint (state_gas_spilled g) = s" and nn: "0 \<le> r" "0 \<le> p" "0 \<le> s"
    by (rule tracker_view)
  obtain k where k: "uint c = k" and kn: "0 \<le> k"
    by (rule uint_view)
  show ?thesis
    using assms nn kn
    by (auto simp: v k rel_defs spend_def word_less_def uint_diff_exact pool_kept_def min_def)
qed

lemma spend_state_sim:
  assumes "gas_rel L R B g (E, P)" "B < two_62"
  shows "if uint c \<le> E + P
         then \<exists>g'. spend_state c g = (Inr (), g') \<and> gas_rel L R B g' (E, P - uint c)
         else \<exists>g'. spend_state c g = (Inl OutOfGas, g') \<and> pool_kept R g'"
proof -
  obtain r p s where v: "uint (remaining g) = r" "uint (reservoir g) = p"
    "uint (state_gas_spilled g) = s" and nn: "0 \<le> r" "0 \<le> p" "0 \<le> s"
    by (rule tracker_view)
  obtain k where k: "uint c = k" and kn: "0 \<le> k"
    by (rule uint_view)
  show ?thesis
    using assms nn kn
    by (auto simp: v k rel_defs spend_state_def add_state_gas_spent_def add_state_gas_spilled_def
        word_le_def word_less_def uint_diff_exact Let_def bindE_def spend_def modifyE_def
        i64_saturating_add_def sint_eq_uint_small pool_kept_def uint_saturating_add min_def max_def)
qed

lemma refill_sim:
  assumes "gas_rel L R B g (E, P)" "B + uint a < two_62"
  shows "gas_rel L R (B + uint a) (refill_reservoir a g) (E, P + uint a)"
proof -
  obtain r p s where v: "uint (remaining g) = r" "uint (reservoir g) = p"
    "uint (state_gas_spilled g) = s" and nn: "0 \<le> r" "0 \<le> p" "0 \<le> s"
    by (rule tracker_view)
  obtain k where k: "uint a = k" and kn: "0 \<le> k"
    by (rule uint_view)
  show ?thesis
    using assms nn kn
    by (auto simp: v k rel_defs refill_reservoir_def Let_def word_less_def uint_diff_exact
      i64_saturating_sub_def sint_eq_uint_small uint_saturating_add min_def max_def)
qed

lemma gas_rel_pool_kept: "gas_rel L R B g s \<Longrightarrow> B < two_62 \<Longrightarrow> pool_kept R g"
proof -
  assume "gas_rel L R B g s" "B < two_62"
  moreover obtain r where "uint (remaining g) = r" "0 \<le> r"
    by (rule uint_view)
  ultimately show "pool_kept R g"
    by (simp add: rel_defs pool_kept_def)
qed

lemma settle_failed:
  assumes "pool_kept R g" "0 \<le> R" "R < two_62" "\<not> is_success stop"
  shows "uint (reservoir (settle_gas stop g)) = R"
    and "state_gas_spent (settle_gas stop g) = 0"
    and "state_gas_spilled (settle_gas stop g) = 0"
    and "refunded (settle_gas stop g) = 0"
    and "is_halt stop \<Longrightarrow> remaining (settle_gas stop g) = 0"
proof -
  obtain r p s where v: "uint (remaining g) = r" "uint (reservoir g) = p"
    "uint (state_gas_spilled g) = s" and nn: "0 \<le> r" "0 \<le> p" "0 \<le> s"
    by (rule tracker_view)
  show "uint (reservoir (settle_gas stop g)) = R"
    using assms nn
    by (auto simp: v settle_gas_def Let_def rollback_state_gas_def uint_saturating_sub
        uint_saturating_add_signed rel_defs pool_kept_def)
qed (use assms in \<open>simp_all add: settle_gas_def rollback_state_gas_def Let_def\<close>)

lemma settle_frame_revert:
  assumes "gas_rel L R B g (E, P)" "B < two_62" "is_frame_revert stop"
  shows "uint (remaining (settle_gas stop g)) = E"
proof -
  have "\<not> is_success stop" "\<not> is_halt stop"
    using assms(3) success_not_frame_revert frame_revert_not_halt by blast+
  then show ?thesis
    using assms
    by (auto simp: settle_gas_def Let_def rollback_state_gas_def rel_defs uint_saturating_add
        remaining_excluding_state_spill_def)
qed

lemma absorb_sim:
  assumes "uint (remaining g) + uint (state_gas_spilled g) = E" "E \<le> L"
    and "sint (state_gas_spent g) = R - (uint res - uint (state_gas_spilled g))"
    and "uint (remaining g) + uint res \<le> B" "0 \<le> R" "R \<le> B" "L \<le> B" "B < two_62"
  shows "gas_rel L R B (absorb_returned_reservoir res g) (E, uint res - uint (state_gas_spilled g))"
proof -
  obtain r p s where v: "uint (remaining g) = r" "uint (reservoir g) = p"
    "uint (state_gas_spilled g) = s" and nn: "0 \<le> r" "0 \<le> p" "0 \<le> s"
    by (rule tracker_view)
  obtain k where k: "uint res = k" and kn: "0 \<le> k"
    by (rule uint_view)
  show ?thesis
    using assms nn kn
    by (auto simp: v k rel_defs absorb_returned_reservoir_def Let_def word_less_def uint_diff_exact
        uint_saturating_add min_def)
qed

lemma merge_success_sim:
  assumes rel: "gas_rel (L - uint lim) R B g (E, P)"
    and crel: "gas_rel (uint lim) (uint (reservoir g)) (uint lim + uint (reservoir g) + W) c (E', P')"
    and "is_success stop" "B + W < two_62" "0 \<le> W" "L \<le> B" "uint lim \<le> B"
    and tot: "uint (remaining g) + uint (reservoir g) \<le> B - uint lim"
  shows "gas_rel L R (B + W) (merge_child_gas c stop g) (E + E', P + (P' - uint (reservoir g)))"
proof -
  let ?g = "record_refund (refunded c) (add_state_gas_spilled (state_gas_spilled c)
              (add_state_gas_spent (state_gas_spent c) (erase_cost (remaining c) g)))"
  obtain r p s where v: "uint (remaining g) = r" "uint (reservoir g) = p"
    "uint (state_gas_spilled g) = s" and nn: "0 \<le> r" "0 \<le> p" "0 \<le> s"
    by (rule tracker_view)
  obtain cr cp cs where cv: "uint (remaining c) = cr" "uint (reservoir c) = cp"
    "uint (state_gas_spilled c) = cs" and cn: "0 \<le> cr" "0 \<le> cp" "0 \<le> cs"
    by (rule tracker_view)
  obtain k where k: "uint lim = k" and kn: "0 \<le> k"
    by (rule uint_view)
  note defs = v cv k rel_defs erase_cost_def add_state_gas_spent_def add_state_gas_spilled_def
      record_refund_def uint_add_exact uint_saturating_add i64_saturating_add_def
  have rem: "uint (remaining ?g) = r + cr"
    using assms nn cn kn by (auto simp: defs)
  have spl: "uint (state_gas_spilled ?g) = s + cs"
    using assms nn cn kn by (auto simp: defs)
  have net: "sint (state_gas_spent ?g) = sint (state_gas_spent g) + sint (state_gas_spent c)"
    using assms nn cn kn by (auto simp: defs)
  have "gas_rel L R (B + W) (absorb_returned_reservoir (reservoir c) ?g)
          (E + E', uint (reservoir c) - uint (state_gas_spilled ?g))"
    by (rule absorb_sim) (use assms nn cn kn in \<open>auto simp: rem spl net v cv k rel_defs\<close>)
  moreover have "uint (reservoir c) - uint (state_gas_spilled ?g) = P + (P' - uint (reservoir g))"
    using assms by (simp add: spl v cv rel_defs)
  ultimately show ?thesis
    using \<open>is_success stop\<close> by (simp add: merge_child_gas_def)
qed

lemma merge_failed_sim:
  assumes rel: "gas_rel (L - uint lim) R B g (E, P)"
    and c: "reservoir c = reservoir g" "uint (remaining c) = E'" "E' \<le> uint lim"
    and stop: "\<not> is_success stop" "is_halt stop \<Longrightarrow> E' = 0"
    and "B < two_62" "L \<le> B" "uint lim \<le> B"
    and tot: "uint (remaining g) + uint (reservoir g) \<le> B - uint lim"
  shows "gas_rel L R B (merge_child_gas c stop g) (E + E', P)"
proof -
  obtain r p s where v: "uint (remaining g) = r" "uint (reservoir g) = p"
    "uint (state_gas_spilled g) = s" and nn: "0 \<le> r" "0 \<le> p" "0 \<le> s"
    by (rule tracker_view)
  obtain k where k: "uint lim = k" and kn: "0 \<le> k"
    by (rule uint_view)
  have en: "0 \<le> E'"
    using c(2) by auto
  let ?g = "if is_frame_revert stop then erase_cost (remaining c) g else g"
  have rem: "uint (remaining ?g) = r + E'"
    using assms nn kn en by (auto simp: v k rel_defs erase_cost_def uint_add_exact is_halt_def)
  have spl: "state_gas_spilled ?g = state_gas_spilled g" "state_gas_spent ?g = state_gas_spent g"
    by (simp_all add: erase_cost_def)
  have "gas_rel L R B (absorb_returned_reservoir (reservoir c) ?g)
          (E + E', uint (reservoir c) - uint (state_gas_spilled ?g))"
    by (rule absorb_sim) (use assms nn kn en in \<open>auto simp: rem spl v k rel_defs\<close>)
  then show ?thesis
    using assms by (auto simp: spl merge_child_gas_def rel_defs)
qed

lemma refills_nonneg: "0 \<le> refills op"
  by (induction op) (auto intro!: sum_list_nonneg)

lemma sum_refills_nonneg: "0 \<le> sum_list (map refills ops)"
  by (auto intro!: sum_list_nonneg simp: refills_nonneg)

lemma gas_outcome_Some: "gas_outcome L R B out (Some s) \<longleftrightarrow> (\<exists>g. out = (Inr (), g) \<and> gas_rel L R B g s)"
  by (auto simp: gas_outcome_def split: prod.splits sum.splits)

lemma gas_outcome_None: "gas_outcome L R B out None \<longleftrightarrow> (\<exists>g. out = (Inl OutOfGas, g) \<and> pool_kept R g)"
  by (auto simp: gas_outcome_def split: prod.splits sum.splits)

lemmas gas_outcome_iff = gas_outcome_Some gas_outcome_None

lemma new_frame_rel:
  "gas_rel (uint lim) (uint res) (uint lim + uint res)
     (new_with_execution_gas_and_reservoir lim res) (uint lim, uint res)"
  by (simp add: rel_defs new_with_execution_gas_and_reservoir_def from_parts_def)

lemma frame_sim:
  assumes rel: "gas_rel L R B g (E, P)" and lim: "uint lim \<le> E + min 0 P"
    and B: "B + W < two_62" and W: "0 \<le> W" and sp: "spend lim g = (Inr (), g')"
    and rel': "gas_rel (L - uint lim) R B g' (E - uint lim, P)" and res: "reservoir g' = reservoir g"
    and out: "gas_outcome (uint lim) (uint (reservoir g)) (uint lim + uint (reservoir g) + W) (r, c) spec"
    and stop: "stop' = (case r of Inl e \<Rightarrow> e | Inr _ \<Rightarrow> stop)"
  shows "gas_rel L R (B + W) (merge_child_gas (settle_gas stop' c) stop' g')
     (case spec of None \<Rightarrow> (E - uint lim, P)
      | Some (E', P') \<Rightarrow> if is_success stop then (E - uint lim + E', P + (P' - max 0 P))
          else if is_frame_revert stop then (E - uint lim + E', P) else (E - uint lim, P))"
proof -
  obtain q p s where v: "uint (remaining g) = q" "uint (reservoir g) = p"
    "uint (state_gas_spilled g) = s" and nn: "0 \<le> q" "0 \<le> p" "0 \<le> s"
    by (rule tracker_view)
  obtain k where k: "uint lim = k" and kn: "0 \<le> k"
    by (rule uint_view)
  have qk: "k \<le> q" and pP: "p = max 0 P" and LB: "L \<le> B" and kB: "uint lim \<le> B"
    using rel lim nn kn by (auto simp: v k rel_defs)
  have q': "uint (remaining g') = q - k"
    using sp qk by (auto simp: spend_def Let_def word_less_def v k uint_diff_exact split: if_splits)
  have tot: "uint (remaining g') + uint (reservoir g') \<le> B - uint lim"
    using rel by (simp add: q' res v k rel_defs)
  have pB: "0 \<le> p" "p < two_62" "k + p + W < two_62"
    using rel B W nn qk by (auto simp: v rel_defs)
  have widen: "gas_rel L R B h t \<Longrightarrow> gas_rel L R (B + W) h t" for h t
    using W by (auto simp: gas_rel_def)
  have failed: "gas_rel L R (B + W) (merge_child_gas (settle_gas stop' c) stop' g') (E - uint lim + E', P)"
    if "pool_kept p c" "\<not> is_success stop'" "uint (remaining (settle_gas stop' c)) = E'"
      "E' \<le> uint lim" "is_halt stop' \<Longrightarrow> E' = 0" for E'
  proof -
    have "uint (reservoir (settle_gas stop' c)) = p"
      using settle_failed(1) that pB by blast
    then have "reservoir (settle_gas stop' c) = reservoir g'"
      by (simp add: res v flip: word_uint_eq_iff) (simp add: v word_uint_eq_iff)
    with that show ?thesis
      using B W LB kB tot by (intro widen merge_failed_sim [OF rel']) auto
  qed
  show ?thesis
  proof (cases spec)
    case None
    then have "r = Inl OutOfGas" "pool_kept p c"
      using out by (auto simp: gas_outcome_iff v)
    then show ?thesis
      using None failed [of 0] settle_failed(5) [of p c OutOfGas] pB stop kn by (simp add: k)
  next
    case (Some s')
    obtain E' P' where s': "s' = (E', P')"
      by fastforce
    have r: "r = Inr ()" and crel: "gas_rel k p (k + p + W) c (E', P')"
      using out Some s' by (auto simp: gas_outcome_iff v k)
    have kept: "pool_kept p c"
      using crel pB gas_rel_pool_kept by blast
    consider "is_success stop" | "is_frame_revert stop" | "is_halt stop"
      by (auto simp: is_halt_def)
    then show ?thesis
    proof cases
      case 1
      have "gas_rel L R (B + W) (merge_child_gas c stop g') (E - uint lim + E', P + (P' - uint (reservoir g')))"
        by (rule merge_success_sim [OF rel'])
          (use crel 1 B W LB kB tot in \<open>auto simp: res v k\<close>)
      then show ?thesis
        using 1 Some s' r stop pP by (simp add: settle_gas_def success_not_halt res v)
    next
      case 2
      then have ns: "\<not> is_success stop" "\<not> is_halt stop"
        using success_not_frame_revert frame_revert_not_halt by blast+
      have "uint (remaining (settle_gas stop' c)) = E'" "E' \<le> uint lim"
        using settle_frame_revert [OF crel] 2 pB stop r crel by (auto simp: k gas_rel_def)
      then show ?thesis
        using failed [of E'] kept 2 ns Some s' r stop by simp
    next
      case 3
      then have ns: "\<not> is_success stop" "\<not> is_frame_revert stop"
        by (auto simp: is_halt_def)
      have "uint (remaining (settle_gas stop' c)) = 0"
        using settle_failed(5) [of p c stop'] kept 3 ns pB stop r by simp
      then show ?thesis
        using failed [of 0] kept 3 ns Some s' r stop kn by (simp add: k)
    qed
  qed
qed

lemma run_op_sim:
  "gas_rel L R B g s \<Longrightarrow> B + refills op < two_62 \<Longrightarrow>
    gas_outcome L R (B + refills op) (run_op op g) (spec_op op s)"
  and run_ops_sim:
  "gas_rel L R B g s \<Longrightarrow> B + sum_list (map refills ops) < two_62 \<Longrightarrow>
    gas_outcome L R (B + sum_list (map refills ops)) (run_ops ops g) (spec_ops ops s)"
proof (induction op g and ops g arbitrary: L R B s and L R B s rule: run_op_run_ops.induct)
  case (1 c g)
  then show ?case
    using spend_sim [of L R B g "fst s" "snd s" c] by (cases s) (auto simp: gas_outcome_iff split: if_splits)
next
  case (2 c g)
  then show ?case
    using spend_state_sim [of L R B g "fst s" "snd s" c] by (cases s) (auto simp: gas_outcome_iff split: if_splits)
next
  case (3 a g)
  then show ?case
    using refill_sim [of L R B g "fst s" "snd s" a] by (cases s) (auto simp: gas_outcome_iff)
next
  case (4 lim ops stop g)
  let ?W = "sum_list (map refills ops)"
  obtain E P where s: "s = (E, P)"
    by fastforce
  note rel = "4.prems"(1) [unfolded s]
  have B: "B + ?W < two_62" "0 \<le> ?W" "B < two_62"
    using "4.prems"(2) sum_refills_nonneg [of ops] by simp_all
  note sim = spend_sim [OF rel B(3), of lim]
  show ?case
  proof (cases "uint lim \<le> E + min 0 P")
    case False
    then show ?thesis
      using sim s by (auto simp: gas_outcome_iff)
  next
    case True
    then obtain g' where sp: "spend lim g = (Inr (), g')"
      and rel': "gas_rel (L - uint lim) R B g' (E - uint lim, P)" and res: "reservoir g' = reservoir g"
      using sim by auto
    let ?c0 = "new_with_execution_gas_and_reservoir lim (reservoir g')"
    obtain r c where run: "run_ops ops ?c0 = (r, c)"
      by fastforce
    have P: "uint (reservoir g) = max 0 P" and lB: "uint lim + uint (reservoir g) \<le> B"
      using rel True by (auto simp: rel_defs)
    have out: "gas_outcome (uint lim) (uint (reservoir g)) (uint lim + uint (reservoir g) + ?W) (r, c)
        (spec_ops ops (uint lim, max 0 P))"
      using "4.IH" [OF sp [symmetric] refl new_frame_rel] run B lB res P by simp
    note fs = frame_sim [OF rel True B(1,2) sp rel' res out refl, of stop]
    show ?thesis
      using fs True run sp s
      by (auto simp: gas_outcome_Some split: sum.splits option.splits if_splits)
  qed
next
  case (5 g)
  then show ?case
    by (simp add: gas_outcome_iff)
next
  case (6 op ops g)
  have nn: "0 \<le> refills op" "0 \<le> sum_list (map refills ops)"
    by (rule refills_nonneg, rule sum_refills_nonneg)
  then have "gas_outcome L R (B + refills op) (run_op op g) (spec_op op s)"
    using "6.IH"(1) "6.prems" by simp
  then show ?case
    using "6.IH"(2) [of _ _ _ L R "B + refills op"] "6.prems" nn
    by (cases "spec_op op s") (auto simp: gas_outcome_iff add.assoc)
qed

section \<open>Properties\<close>

text \<open>
  C8: Whatever tree of nested frames charges, refills and calls, the tracker
  refines the two-pool reading: it runs out of gas exactly when the reading
  does, and otherwise its counters denote the reading's two pools, the net
  state gas is what the pool lost since the frame started, and state gas is
  never held in the reservoir while some is owed to execution gas.
\<close>

theorem nested_frames_refine_two_pools:
  assumes "uint lim + uint res + sum_list (map refills ops) < two_62"
  shows "case run_ops ops (new_with_execution_gas_and_reservoir lim res) of
      (Inl e, g) \<Rightarrow> e = OutOfGas \<and> spec_ops ops (uint lim, uint res) = None
    | (Inr _, g) \<Rightarrow>
        spec_ops ops (uint lim, uint res) = Some (exec_funds g, pool_funds g)
        \<and> sint (state_gas_spent g) = uint res - pool_funds g
        \<and> (state_gas_spilled g = 0 \<or> reservoir g = 0)"
  using run_ops_sim [OF new_frame_rel assms]
  by (cases "spec_ops ops (uint lim, uint res)") (auto simp: gas_outcome_iff gas_rel_def uint_0_iff)

theorem nested_frames_refine_two_pools_witness:
  "spec_ops [SpendState 30, Frame 40 [SpendState 15, Spend 5] Return, Refill 10] (100, 20)
    = Some (95, - 15)
   \<and> fst (run_ops [SpendState 30, Frame 40 [SpendState 15, Spend 5] Return, Refill 10]
        (new_with_execution_gas_and_reservoir 100 20)) = Inr ()"
  using nested_frames_refine_two_pools
    [of 100 20 "[SpendState 30, Frame 40 [SpendState 15, Spend 5] Return, Refill 10]"]
  by (auto simp: two_62_def is_success_def split: prod.splits sum.splits)

text \<open>
  C13: A frame that does not succeed gives back the reservoir it inherited,
  however its state charges were split between reservoir and execution gas, also
  when it stops by running out of gas in the middle of a state charge; it keeps
  no state gas and no refund, and a halt consumes its execution gas.
\<close>

theorem failed_frame_restores_reservoir:
  assumes "uint lim + uint res + sum_list (map refills ops) < two_62"
    and "run_ops ops (new_with_execution_gas_and_reservoir lim res) = (r, g)"
    and "stop' = (case r of Inl e \<Rightarrow> e | Inr _ \<Rightarrow> stop)" and "\<not> is_success stop'"
  shows "reservoir (settle_gas stop' g) = res
    \<and> state_gas_spent (settle_gas stop' g) = 0 \<and> state_gas_spilled (settle_gas stop' g) = 0
    \<and> refunded (settle_gas stop' g) = 0
    \<and> uint (remaining (settle_gas stop' g)) = (if is_halt stop' then 0 else exec_funds g)"
proof -
  let ?W = "sum_list (map refills ops)"
  have out: "gas_outcome (uint lim) (uint res) (uint lim + uint res + ?W) (r, g)
      (spec_ops ops (uint lim, uint res))"
    using run_ops_sim [OF new_frame_rel assms(1)] assms(2) by simp
  have kept: "pool_kept (uint res) g"
    using out gas_rel_pool_kept [OF _ assms(1)]
    by (cases "spec_ops ops (uint lim, uint res)") (auto simp: gas_outcome_iff)
  have "uint res < two_62"
    using assms(1) sum_refills_nonneg [of ops] uint_ge_0 [of lim] by linarith
  note settled = settle_failed [OF kept uint_ge_0 this assms(4)]
  have "uint (remaining (settle_gas stop' g)) = exec_funds g" if "\<not> is_halt stop'"
  proof -
    have fr: "is_frame_revert stop'"
      using that assms(4) by (simp add: is_halt_def)
    then obtain s where "gas_rel (uint lim) (uint res) (uint lim + uint res + ?W) g s"
      using out assms(3) by (cases "spec_ops ops (uint lim, uint res)") (auto simp: gas_outcome_iff)
    moreover from this have "s = (exec_funds g, pool_funds g)"
      by (simp add: gas_rel_def)
    ultimately show ?thesis
      using settle_frame_revert [OF _ assms(1) fr] by blast
  qed
  then show ?thesis
    using settled by (auto simp: word_uint_eq_iff)
qed

theorem failed_frame_restores_reservoir_witness:
  "reservoir (settle_gas Revert (snd (run_ops [SpendState 30, Refill 4, Spend 7]
      (new_with_execution_gas_and_reservoir 100 20)))) = 20"
proof -
  let ?run = "run_ops [SpendState 30, Refill 4, Spend 7] (new_with_execution_gas_and_reservoir 100 20)"
  have "?run = (Inr (), snd ?run)"
    by code_simp
  from failed_frame_restores_reservoir [OF _ this, of Revert Revert]
  show ?thesis
    by (simp add: two_62_def is_success_def)
qed

text \<open>
  C22: A sequence of execution-gas charges goes through exactly when their exact
  sum is covered by the remaining gas, and then leaves exactly the difference;
  otherwise it stops with out-of-gas.
\<close>

theorem spend_sequence_exact:
  "if sum_list (map unat cs) \<le> unat (remaining g)
   then fst (charge_all spend cs g) = Inr ()
        \<and> unat (remaining (snd (charge_all spend cs g))) = unat (remaining g) - sum_list (map unat cs)
   else fst (charge_all spend cs g) = Inl OutOfGas"
  by (rule tracker_meter.charge_all_exact)

end
