(* ===== verification/Opcodes.thy ===== *)
theory Opcodes
  imports Evm_Prelude
begin

text \<open>
  The opcode bytes of \<open>interpreter/opcode.rs\<close>, the instruction implementation each
  of them names and its stack and immediate metadata (the \<open>opcodes!\<close> table).
  Instruction implementations are grouped by the source module that holds them,
  one enumeration per module of \<open>interpreter/instructions\<close>; the const
  parameters of \<open>push\<close>, \<open>dup\<close>, \<open>swap\<close>, \<open>log\<close> and
  \<open>create\<close> are their arguments.
\<close>

section \<open>Instruction implementations and opcode bytes\<close>

datatype control_instr =
    I_stop | I_jump | I_jumpi | I_pc | I_gas | I_jumpdest | I_return | I_revert | I_invalid

datatype arithmetic_instr =
    I_add | I_mul | I_sub | I_div | I_sdiv | I_rem | I_smod | I_addmod | I_mulmod | I_exp
  | I_signextend

datatype bitwise_instr =
    I_lt | I_gt | I_slt | I_sgt | I_eq | I_iszero | I_bitand | I_bitor | I_bitxor | I_not
  | I_byte | I_shl | I_shr | I_sar | I_clz

datatype crypto_instr =
    I_keccak256

datatype env_instr =
    I_address | I_balance | I_origin | I_caller | I_callvalue | I_calldataload | I_calldatasize
  | I_calldatacopy | I_codesize | I_codecopy | I_gasprice | I_extcodesize | I_extcodecopy
  | I_returndatasize | I_returndatacopy | I_extcodehash

datatype block_instr =
    I_blockhash | I_coinbase | I_timestamp | I_block_number | I_difficulty | I_gaslimit
  | I_chainid | I_selfbalance | I_basefee | I_blobhash | I_blobbasefee | I_slotnum

datatype stack_instr =
    I_pop | I_push nat | I_dup nat | I_swap nat | I_dupn | I_swapn | I_exchange

datatype memory_instr =
    I_mload | I_mstore | I_mstore8 | I_msize | I_mcopy

datatype host_instr =
    I_sload | I_sstore | I_tload | I_tstore | I_log nat

datatype system_instr =
    I_create bool | I_call | I_callcode | I_delegatecall | I_staticcall | I_selfdestruct

datatype instr =
    Control control_instr
  | Arithmetic arithmetic_instr
  | Bitwise bitwise_instr
  | Crypto crypto_instr
  | Env env_instr
  | Block block_instr
  | Stack stack_instr
  | Memory memory_instr
  | Host host_instr
  | System system_instr

abbreviation (input) op_STOP :: u8 where "op_STOP \<equiv> 0x00"
abbreviation (input) op_ADD :: u8 where "op_ADD \<equiv> 0x01"
abbreviation (input) op_MUL :: u8 where "op_MUL \<equiv> 0x02"
abbreviation (input) op_SUB :: u8 where "op_SUB \<equiv> 0x03"
abbreviation (input) op_DIV :: u8 where "op_DIV \<equiv> 0x04"
abbreviation (input) op_SDIV :: u8 where "op_SDIV \<equiv> 0x05"
abbreviation (input) op_MOD :: u8 where "op_MOD \<equiv> 0x06"
abbreviation (input) op_SMOD :: u8 where "op_SMOD \<equiv> 0x07"
abbreviation (input) op_ADDMOD :: u8 where "op_ADDMOD \<equiv> 0x08"
abbreviation (input) op_MULMOD :: u8 where "op_MULMOD \<equiv> 0x09"
abbreviation (input) op_EXP :: u8 where "op_EXP \<equiv> 0x0A"
abbreviation (input) op_SIGNEXTEND :: u8 where "op_SIGNEXTEND \<equiv> 0x0B"
abbreviation (input) op_LT :: u8 where "op_LT \<equiv> 0x10"
abbreviation (input) op_GT :: u8 where "op_GT \<equiv> 0x11"
abbreviation (input) op_SLT :: u8 where "op_SLT \<equiv> 0x12"
abbreviation (input) op_SGT :: u8 where "op_SGT \<equiv> 0x13"
abbreviation (input) op_EQ :: u8 where "op_EQ \<equiv> 0x14"
abbreviation (input) op_ISZERO :: u8 where "op_ISZERO \<equiv> 0x15"
abbreviation (input) op_AND :: u8 where "op_AND \<equiv> 0x16"
abbreviation (input) op_OR :: u8 where "op_OR \<equiv> 0x17"
abbreviation (input) op_XOR :: u8 where "op_XOR \<equiv> 0x18"
abbreviation (input) op_NOT :: u8 where "op_NOT \<equiv> 0x19"
abbreviation (input) op_BYTE :: u8 where "op_BYTE \<equiv> 0x1A"
abbreviation (input) op_SHL :: u8 where "op_SHL \<equiv> 0x1B"
abbreviation (input) op_SHR :: u8 where "op_SHR \<equiv> 0x1C"
abbreviation (input) op_SAR :: u8 where "op_SAR \<equiv> 0x1D"
abbreviation (input) op_CLZ :: u8 where "op_CLZ \<equiv> 0x1E"
abbreviation (input) op_KECCAK256 :: u8 where "op_KECCAK256 \<equiv> 0x20"
abbreviation (input) op_ADDRESS :: u8 where "op_ADDRESS \<equiv> 0x30"
abbreviation (input) op_BALANCE :: u8 where "op_BALANCE \<equiv> 0x31"
abbreviation (input) op_ORIGIN :: u8 where "op_ORIGIN \<equiv> 0x32"
abbreviation (input) op_CALLER :: u8 where "op_CALLER \<equiv> 0x33"
abbreviation (input) op_CALLVALUE :: u8 where "op_CALLVALUE \<equiv> 0x34"
abbreviation (input) op_CALLDATALOAD :: u8 where "op_CALLDATALOAD \<equiv> 0x35"
abbreviation (input) op_CALLDATASIZE :: u8 where "op_CALLDATASIZE \<equiv> 0x36"
abbreviation (input) op_CALLDATACOPY :: u8 where "op_CALLDATACOPY \<equiv> 0x37"
abbreviation (input) op_CODESIZE :: u8 where "op_CODESIZE \<equiv> 0x38"
abbreviation (input) op_CODECOPY :: u8 where "op_CODECOPY \<equiv> 0x39"
abbreviation (input) op_GASPRICE :: u8 where "op_GASPRICE \<equiv> 0x3A"
abbreviation (input) op_EXTCODESIZE :: u8 where "op_EXTCODESIZE \<equiv> 0x3B"
abbreviation (input) op_EXTCODECOPY :: u8 where "op_EXTCODECOPY \<equiv> 0x3C"
abbreviation (input) op_RETURNDATASIZE :: u8 where "op_RETURNDATASIZE \<equiv> 0x3D"
abbreviation (input) op_RETURNDATACOPY :: u8 where "op_RETURNDATACOPY \<equiv> 0x3E"
abbreviation (input) op_EXTCODEHASH :: u8 where "op_EXTCODEHASH \<equiv> 0x3F"
abbreviation (input) op_BLOCKHASH :: u8 where "op_BLOCKHASH \<equiv> 0x40"
abbreviation (input) op_COINBASE :: u8 where "op_COINBASE \<equiv> 0x41"
abbreviation (input) op_TIMESTAMP :: u8 where "op_TIMESTAMP \<equiv> 0x42"
abbreviation (input) op_NUMBER :: u8 where "op_NUMBER \<equiv> 0x43"
abbreviation (input) op_DIFFICULTY :: u8 where "op_DIFFICULTY \<equiv> 0x44"
abbreviation (input) op_GASLIMIT :: u8 where "op_GASLIMIT \<equiv> 0x45"
abbreviation (input) op_CHAINID :: u8 where "op_CHAINID \<equiv> 0x46"
abbreviation (input) op_SELFBALANCE :: u8 where "op_SELFBALANCE \<equiv> 0x47"
abbreviation (input) op_BASEFEE :: u8 where "op_BASEFEE \<equiv> 0x48"
abbreviation (input) op_BLOBHASH :: u8 where "op_BLOBHASH \<equiv> 0x49"
abbreviation (input) op_BLOBBASEFEE :: u8 where "op_BLOBBASEFEE \<equiv> 0x4A"
abbreviation (input) op_SLOTNUM :: u8 where "op_SLOTNUM \<equiv> 0x4B"
abbreviation (input) op_POP :: u8 where "op_POP \<equiv> 0x50"
abbreviation (input) op_MLOAD :: u8 where "op_MLOAD \<equiv> 0x51"
abbreviation (input) op_MSTORE :: u8 where "op_MSTORE \<equiv> 0x52"
abbreviation (input) op_MSTORE8 :: u8 where "op_MSTORE8 \<equiv> 0x53"
abbreviation (input) op_SLOAD :: u8 where "op_SLOAD \<equiv> 0x54"
abbreviation (input) op_SSTORE :: u8 where "op_SSTORE \<equiv> 0x55"
abbreviation (input) op_JUMP :: u8 where "op_JUMP \<equiv> 0x56"
abbreviation (input) op_JUMPI :: u8 where "op_JUMPI \<equiv> 0x57"
abbreviation (input) op_PC :: u8 where "op_PC \<equiv> 0x58"
abbreviation (input) op_MSIZE :: u8 where "op_MSIZE \<equiv> 0x59"
abbreviation (input) op_GAS :: u8 where "op_GAS \<equiv> 0x5A"
abbreviation (input) op_JUMPDEST :: u8 where "op_JUMPDEST \<equiv> 0x5B"
abbreviation (input) op_TLOAD :: u8 where "op_TLOAD \<equiv> 0x5C"
abbreviation (input) op_TSTORE :: u8 where "op_TSTORE \<equiv> 0x5D"
abbreviation (input) op_MCOPY :: u8 where "op_MCOPY \<equiv> 0x5E"
abbreviation (input) op_PUSH0 :: u8 where "op_PUSH0 \<equiv> 0x5F"
abbreviation (input) op_PUSH1 :: u8 where "op_PUSH1 \<equiv> 0x60"
abbreviation (input) op_PUSH2 :: u8 where "op_PUSH2 \<equiv> 0x61"
abbreviation (input) op_PUSH3 :: u8 where "op_PUSH3 \<equiv> 0x62"
abbreviation (input) op_PUSH4 :: u8 where "op_PUSH4 \<equiv> 0x63"
abbreviation (input) op_PUSH5 :: u8 where "op_PUSH5 \<equiv> 0x64"
abbreviation (input) op_PUSH6 :: u8 where "op_PUSH6 \<equiv> 0x65"
abbreviation (input) op_PUSH7 :: u8 where "op_PUSH7 \<equiv> 0x66"
abbreviation (input) op_PUSH8 :: u8 where "op_PUSH8 \<equiv> 0x67"
abbreviation (input) op_PUSH9 :: u8 where "op_PUSH9 \<equiv> 0x68"
abbreviation (input) op_PUSH10 :: u8 where "op_PUSH10 \<equiv> 0x69"
abbreviation (input) op_PUSH11 :: u8 where "op_PUSH11 \<equiv> 0x6A"
abbreviation (input) op_PUSH12 :: u8 where "op_PUSH12 \<equiv> 0x6B"
abbreviation (input) op_PUSH13 :: u8 where "op_PUSH13 \<equiv> 0x6C"
abbreviation (input) op_PUSH14 :: u8 where "op_PUSH14 \<equiv> 0x6D"
abbreviation (input) op_PUSH15 :: u8 where "op_PUSH15 \<equiv> 0x6E"
abbreviation (input) op_PUSH16 :: u8 where "op_PUSH16 \<equiv> 0x6F"
abbreviation (input) op_PUSH17 :: u8 where "op_PUSH17 \<equiv> 0x70"
abbreviation (input) op_PUSH18 :: u8 where "op_PUSH18 \<equiv> 0x71"
abbreviation (input) op_PUSH19 :: u8 where "op_PUSH19 \<equiv> 0x72"
abbreviation (input) op_PUSH20 :: u8 where "op_PUSH20 \<equiv> 0x73"
abbreviation (input) op_PUSH21 :: u8 where "op_PUSH21 \<equiv> 0x74"
abbreviation (input) op_PUSH22 :: u8 where "op_PUSH22 \<equiv> 0x75"
abbreviation (input) op_PUSH23 :: u8 where "op_PUSH23 \<equiv> 0x76"
abbreviation (input) op_PUSH24 :: u8 where "op_PUSH24 \<equiv> 0x77"
abbreviation (input) op_PUSH25 :: u8 where "op_PUSH25 \<equiv> 0x78"
abbreviation (input) op_PUSH26 :: u8 where "op_PUSH26 \<equiv> 0x79"
abbreviation (input) op_PUSH27 :: u8 where "op_PUSH27 \<equiv> 0x7A"
abbreviation (input) op_PUSH28 :: u8 where "op_PUSH28 \<equiv> 0x7B"
abbreviation (input) op_PUSH29 :: u8 where "op_PUSH29 \<equiv> 0x7C"
abbreviation (input) op_PUSH30 :: u8 where "op_PUSH30 \<equiv> 0x7D"
abbreviation (input) op_PUSH31 :: u8 where "op_PUSH31 \<equiv> 0x7E"
abbreviation (input) op_PUSH32 :: u8 where "op_PUSH32 \<equiv> 0x7F"
abbreviation (input) op_DUP1 :: u8 where "op_DUP1 \<equiv> 0x80"
abbreviation (input) op_DUP2 :: u8 where "op_DUP2 \<equiv> 0x81"
abbreviation (input) op_DUP3 :: u8 where "op_DUP3 \<equiv> 0x82"
abbreviation (input) op_DUP4 :: u8 where "op_DUP4 \<equiv> 0x83"
abbreviation (input) op_DUP5 :: u8 where "op_DUP5 \<equiv> 0x84"
abbreviation (input) op_DUP6 :: u8 where "op_DUP6 \<equiv> 0x85"
abbreviation (input) op_DUP7 :: u8 where "op_DUP7 \<equiv> 0x86"
abbreviation (input) op_DUP8 :: u8 where "op_DUP8 \<equiv> 0x87"
abbreviation (input) op_DUP9 :: u8 where "op_DUP9 \<equiv> 0x88"
abbreviation (input) op_DUP10 :: u8 where "op_DUP10 \<equiv> 0x89"
abbreviation (input) op_DUP11 :: u8 where "op_DUP11 \<equiv> 0x8A"
abbreviation (input) op_DUP12 :: u8 where "op_DUP12 \<equiv> 0x8B"
abbreviation (input) op_DUP13 :: u8 where "op_DUP13 \<equiv> 0x8C"
abbreviation (input) op_DUP14 :: u8 where "op_DUP14 \<equiv> 0x8D"
abbreviation (input) op_DUP15 :: u8 where "op_DUP15 \<equiv> 0x8E"
abbreviation (input) op_DUP16 :: u8 where "op_DUP16 \<equiv> 0x8F"
abbreviation (input) op_SWAP1 :: u8 where "op_SWAP1 \<equiv> 0x90"
abbreviation (input) op_SWAP2 :: u8 where "op_SWAP2 \<equiv> 0x91"
abbreviation (input) op_SWAP3 :: u8 where "op_SWAP3 \<equiv> 0x92"
abbreviation (input) op_SWAP4 :: u8 where "op_SWAP4 \<equiv> 0x93"
abbreviation (input) op_SWAP5 :: u8 where "op_SWAP5 \<equiv> 0x94"
abbreviation (input) op_SWAP6 :: u8 where "op_SWAP6 \<equiv> 0x95"
abbreviation (input) op_SWAP7 :: u8 where "op_SWAP7 \<equiv> 0x96"
abbreviation (input) op_SWAP8 :: u8 where "op_SWAP8 \<equiv> 0x97"
abbreviation (input) op_SWAP9 :: u8 where "op_SWAP9 \<equiv> 0x98"
abbreviation (input) op_SWAP10 :: u8 where "op_SWAP10 \<equiv> 0x99"
abbreviation (input) op_SWAP11 :: u8 where "op_SWAP11 \<equiv> 0x9A"
abbreviation (input) op_SWAP12 :: u8 where "op_SWAP12 \<equiv> 0x9B"
abbreviation (input) op_SWAP13 :: u8 where "op_SWAP13 \<equiv> 0x9C"
abbreviation (input) op_SWAP14 :: u8 where "op_SWAP14 \<equiv> 0x9D"
abbreviation (input) op_SWAP15 :: u8 where "op_SWAP15 \<equiv> 0x9E"
abbreviation (input) op_SWAP16 :: u8 where "op_SWAP16 \<equiv> 0x9F"
abbreviation (input) op_LOG0 :: u8 where "op_LOG0 \<equiv> 0xA0"
abbreviation (input) op_LOG1 :: u8 where "op_LOG1 \<equiv> 0xA1"
abbreviation (input) op_LOG2 :: u8 where "op_LOG2 \<equiv> 0xA2"
abbreviation (input) op_LOG3 :: u8 where "op_LOG3 \<equiv> 0xA3"
abbreviation (input) op_LOG4 :: u8 where "op_LOG4 \<equiv> 0xA4"
abbreviation (input) op_DUPN :: u8 where "op_DUPN \<equiv> 0xE6"
abbreviation (input) op_SWAPN :: u8 where "op_SWAPN \<equiv> 0xE7"
abbreviation (input) op_EXCHANGE :: u8 where "op_EXCHANGE \<equiv> 0xE8"
abbreviation (input) op_CREATE :: u8 where "op_CREATE \<equiv> 0xF0"
abbreviation (input) op_CALL :: u8 where "op_CALL \<equiv> 0xF1"
abbreviation (input) op_CALLCODE :: u8 where "op_CALLCODE \<equiv> 0xF2"
abbreviation (input) op_RETURN :: u8 where "op_RETURN \<equiv> 0xF3"
abbreviation (input) op_DELEGATECALL :: u8 where "op_DELEGATECALL \<equiv> 0xF4"
abbreviation (input) op_CREATE2 :: u8 where "op_CREATE2 \<equiv> 0xF5"
abbreviation (input) op_STATICCALL :: u8 where "op_STATICCALL \<equiv> 0xFA"
abbreviation (input) op_REVERT :: u8 where "op_REVERT \<equiv> 0xFD"
abbreviation (input) op_INVALID :: u8 where "op_INVALID \<equiv> 0xFE"
abbreviation (input) op_SELFDESTRUCT :: u8 where "op_SELFDESTRUCT \<equiv> 0xFF"

section \<open>Opcode metadata\<close>

record op_info =
  op_name :: string
  op_inputs :: u8
  op_outputs :: u8
  op_terminating :: bool
  op_immediate_size :: u8

definition op_info_new :: "string \<Rightarrow> op_info" where
  "op_info_new name =
    \<lparr>op_name = name, op_inputs = 0, op_outputs = 0, op_terminating = False, op_immediate_size = 0\<rparr>"

definition immediate_size :: "op_info \<Rightarrow> u8 \<Rightarrow> op_info" where
  "immediate_size info n = info\<lparr>op_immediate_size := n\<rparr>"

definition terminating :: "op_info \<Rightarrow> op_info" where
  "terminating info = info\<lparr>op_terminating := True\<rparr>"

definition stack_io :: "op_info \<Rightarrow> u8 \<Rightarrow> u8 \<Rightarrow> op_info" where
  "stack_io info i out = info\<lparr>op_inputs := i, op_outputs := out\<rparr>"

definition op_info_unknown :: op_info where
  "op_info_unknown = terminating (op_info_new ''UNKNOWN'')"

definition op_plain :: "string \<Rightarrow> u8 \<Rightarrow> u8 \<Rightarrow> op_info" where
  "op_plain name i out = stack_io (op_info_new name) i out"

definition op_terminal :: "string \<Rightarrow> u8 \<Rightarrow> u8 \<Rightarrow> op_info" where
  "op_terminal name i out = terminating (stack_io (op_info_new name) i out)"

definition op_immediate :: "string \<Rightarrow> u8 \<Rightarrow> u8 \<Rightarrow> u8 \<Rightarrow> op_info" where
  "op_immediate name i out n = immediate_size (stack_io (op_info_new name) i out) n"

definition opcodes_low :: "(u8 \<times> instr \<times> op_info) list" where
  "opcodes_low =
   [(op_STOP, Control I_stop, op_terminal ''STOP'' 0 0),
    (op_ADD, Arithmetic I_add, op_plain ''ADD'' 2 1),
    (op_MUL, Arithmetic I_mul, op_plain ''MUL'' 2 1),
    (op_SUB, Arithmetic I_sub, op_plain ''SUB'' 2 1),
    (op_DIV, Arithmetic I_div, op_plain ''DIV'' 2 1),
    (op_SDIV, Arithmetic I_sdiv, op_plain ''SDIV'' 2 1),
    (op_MOD, Arithmetic I_rem, op_plain ''MOD'' 2 1),
    (op_SMOD, Arithmetic I_smod, op_plain ''SMOD'' 2 1),
    (op_ADDMOD, Arithmetic I_addmod, op_plain ''ADDMOD'' 3 1),
    (op_MULMOD, Arithmetic I_mulmod, op_plain ''MULMOD'' 3 1),
    (op_EXP, Arithmetic I_exp, op_plain ''EXP'' 2 1),
    (op_SIGNEXTEND, Arithmetic I_signextend, op_plain ''SIGNEXTEND'' 2 1),
    (op_LT, Bitwise I_lt, op_plain ''LT'' 2 1),
    (op_GT, Bitwise I_gt, op_plain ''GT'' 2 1),
    (op_SLT, Bitwise I_slt, op_plain ''SLT'' 2 1),
    (op_SGT, Bitwise I_sgt, op_plain ''SGT'' 2 1),
    (op_EQ, Bitwise I_eq, op_plain ''EQ'' 2 1),
    (op_ISZERO, Bitwise I_iszero, op_plain ''ISZERO'' 1 1),
    (op_AND, Bitwise I_bitand, op_plain ''AND'' 2 1),
    (op_OR, Bitwise I_bitor, op_plain ''OR'' 2 1),
    (op_XOR, Bitwise I_bitxor, op_plain ''XOR'' 2 1),
    (op_NOT, Bitwise I_not, op_plain ''NOT'' 1 1),
    (op_BYTE, Bitwise I_byte, op_plain ''BYTE'' 2 1),
    (op_SHL, Bitwise I_shl, op_plain ''SHL'' 2 1),
    (op_SHR, Bitwise I_shr, op_plain ''SHR'' 2 1),
    (op_SAR, Bitwise I_sar, op_plain ''SAR'' 2 1),
    (op_CLZ, Bitwise I_clz, op_plain ''CLZ'' 1 1),
    (op_KECCAK256, Crypto I_keccak256, op_plain ''KECCAK256'' 2 1),
    (op_ADDRESS, Env I_address, op_plain ''ADDRESS'' 0 1),
    (op_BALANCE, Env I_balance, op_plain ''BALANCE'' 1 1),
    (op_ORIGIN, Env I_origin, op_plain ''ORIGIN'' 0 1),
    (op_CALLER, Env I_caller, op_plain ''CALLER'' 0 1),
    (op_CALLVALUE, Env I_callvalue, op_plain ''CALLVALUE'' 0 1),
    (op_CALLDATALOAD, Env I_calldataload, op_plain ''CALLDATALOAD'' 1 1),
    (op_CALLDATASIZE, Env I_calldatasize, op_plain ''CALLDATASIZE'' 0 1),
    (op_CALLDATACOPY, Env I_calldatacopy, op_plain ''CALLDATACOPY'' 3 0),
    (op_CODESIZE, Env I_codesize, op_plain ''CODESIZE'' 0 1),
    (op_CODECOPY, Env I_codecopy, op_plain ''CODECOPY'' 3 0),
    (op_GASPRICE, Env I_gasprice, op_plain ''GASPRICE'' 0 1),
    (op_EXTCODESIZE, Env I_extcodesize, op_plain ''EXTCODESIZE'' 1 1),
    (op_EXTCODECOPY, Env I_extcodecopy, op_plain ''EXTCODECOPY'' 4 0),
    (op_RETURNDATASIZE, Env I_returndatasize, op_plain ''RETURNDATASIZE'' 0 1),
    (op_RETURNDATACOPY, Env I_returndatacopy, op_plain ''RETURNDATACOPY'' 3 0),
    (op_EXTCODEHASH, Env I_extcodehash, op_plain ''EXTCODEHASH'' 1 1),
    (op_BLOCKHASH, Block I_blockhash, op_plain ''BLOCKHASH'' 1 1),
    (op_COINBASE, Block I_coinbase, op_plain ''COINBASE'' 0 1),
    (op_TIMESTAMP, Block I_timestamp, op_plain ''TIMESTAMP'' 0 1),
    (op_NUMBER, Block I_block_number, op_plain ''NUMBER'' 0 1),
    (op_DIFFICULTY, Block I_difficulty, op_plain ''DIFFICULTY'' 0 1),
    (op_GASLIMIT, Block I_gaslimit, op_plain ''GASLIMIT'' 0 1),
    (op_CHAINID, Block I_chainid, op_plain ''CHAINID'' 0 1),
    (op_SELFBALANCE, Block I_selfbalance, op_plain ''SELFBALANCE'' 0 1),
    (op_BASEFEE, Block I_basefee, op_plain ''BASEFEE'' 0 1),
    (op_BLOBHASH, Block I_blobhash, op_plain ''BLOBHASH'' 1 1),
    (op_BLOBBASEFEE, Block I_blobbasefee, op_plain ''BLOBBASEFEE'' 0 1),
    (op_SLOTNUM, Block I_slotnum, op_plain ''SLOTNUM'' 0 1),
    (op_POP, Stack I_pop, op_plain ''POP'' 1 0),
    (op_MLOAD, Memory I_mload, op_plain ''MLOAD'' 1 1),
    (op_MSTORE, Memory I_mstore, op_plain ''MSTORE'' 2 0),
    (op_MSTORE8, Memory I_mstore8, op_plain ''MSTORE8'' 2 0),
    (op_SLOAD, Host I_sload, op_plain ''SLOAD'' 1 1),
    (op_SSTORE, Host I_sstore, op_plain ''SSTORE'' 2 0),
    (op_JUMP, Control I_jump, op_plain ''JUMP'' 1 0),
    (op_JUMPI, Control I_jumpi, op_plain ''JUMPI'' 2 0),
    (op_PC, Control I_pc, op_plain ''PC'' 0 1),
    (op_MSIZE, Memory I_msize, op_plain ''MSIZE'' 0 1),
    (op_GAS, Control I_gas, op_plain ''GAS'' 0 1),
    (op_JUMPDEST, Control I_jumpdest, op_plain ''JUMPDEST'' 0 0),
    (op_TLOAD, Host I_tload, op_plain ''TLOAD'' 1 1),
    (op_TSTORE, Host I_tstore, op_plain ''TSTORE'' 2 0),
    (op_MCOPY, Memory I_mcopy, op_plain ''MCOPY'' 3 0)]"

definition opcodes_push :: "(u8 \<times> instr \<times> op_info) list" where
  "opcodes_push =
   [(op_PUSH0, Stack (I_push 0), op_plain ''PUSH0'' 0 1),
    (op_PUSH1, Stack (I_push 1), op_immediate ''PUSH1'' 0 1 1),
    (op_PUSH2, Stack (I_push 2), op_immediate ''PUSH2'' 0 1 2),
    (op_PUSH3, Stack (I_push 3), op_immediate ''PUSH3'' 0 1 3),
    (op_PUSH4, Stack (I_push 4), op_immediate ''PUSH4'' 0 1 4),
    (op_PUSH5, Stack (I_push 5), op_immediate ''PUSH5'' 0 1 5),
    (op_PUSH6, Stack (I_push 6), op_immediate ''PUSH6'' 0 1 6),
    (op_PUSH7, Stack (I_push 7), op_immediate ''PUSH7'' 0 1 7),
    (op_PUSH8, Stack (I_push 8), op_immediate ''PUSH8'' 0 1 8),
    (op_PUSH9, Stack (I_push 9), op_immediate ''PUSH9'' 0 1 9),
    (op_PUSH10, Stack (I_push 10), op_immediate ''PUSH10'' 0 1 10),
    (op_PUSH11, Stack (I_push 11), op_immediate ''PUSH11'' 0 1 11),
    (op_PUSH12, Stack (I_push 12), op_immediate ''PUSH12'' 0 1 12),
    (op_PUSH13, Stack (I_push 13), op_immediate ''PUSH13'' 0 1 13),
    (op_PUSH14, Stack (I_push 14), op_immediate ''PUSH14'' 0 1 14),
    (op_PUSH15, Stack (I_push 15), op_immediate ''PUSH15'' 0 1 15),
    (op_PUSH16, Stack (I_push 16), op_immediate ''PUSH16'' 0 1 16),
    (op_PUSH17, Stack (I_push 17), op_immediate ''PUSH17'' 0 1 17),
    (op_PUSH18, Stack (I_push 18), op_immediate ''PUSH18'' 0 1 18),
    (op_PUSH19, Stack (I_push 19), op_immediate ''PUSH19'' 0 1 19),
    (op_PUSH20, Stack (I_push 20), op_immediate ''PUSH20'' 0 1 20),
    (op_PUSH21, Stack (I_push 21), op_immediate ''PUSH21'' 0 1 21),
    (op_PUSH22, Stack (I_push 22), op_immediate ''PUSH22'' 0 1 22),
    (op_PUSH23, Stack (I_push 23), op_immediate ''PUSH23'' 0 1 23),
    (op_PUSH24, Stack (I_push 24), op_immediate ''PUSH24'' 0 1 24),
    (op_PUSH25, Stack (I_push 25), op_immediate ''PUSH25'' 0 1 25),
    (op_PUSH26, Stack (I_push 26), op_immediate ''PUSH26'' 0 1 26),
    (op_PUSH27, Stack (I_push 27), op_immediate ''PUSH27'' 0 1 27),
    (op_PUSH28, Stack (I_push 28), op_immediate ''PUSH28'' 0 1 28),
    (op_PUSH29, Stack (I_push 29), op_immediate ''PUSH29'' 0 1 29),
    (op_PUSH30, Stack (I_push 30), op_immediate ''PUSH30'' 0 1 30),
    (op_PUSH31, Stack (I_push 31), op_immediate ''PUSH31'' 0 1 31),
    (op_PUSH32, Stack (I_push 32), op_immediate ''PUSH32'' 0 1 32)]"

definition opcodes_dup_swap :: "(u8 \<times> instr \<times> op_info) list" where
  "opcodes_dup_swap =
   [(op_DUP1, Stack (I_dup 1), op_plain ''DUP1'' 1 2),
    (op_DUP2, Stack (I_dup 2), op_plain ''DUP2'' 2 3),
    (op_DUP3, Stack (I_dup 3), op_plain ''DUP3'' 3 4),
    (op_DUP4, Stack (I_dup 4), op_plain ''DUP4'' 4 5),
    (op_DUP5, Stack (I_dup 5), op_plain ''DUP5'' 5 6),
    (op_DUP6, Stack (I_dup 6), op_plain ''DUP6'' 6 7),
    (op_DUP7, Stack (I_dup 7), op_plain ''DUP7'' 7 8),
    (op_DUP8, Stack (I_dup 8), op_plain ''DUP8'' 8 9),
    (op_DUP9, Stack (I_dup 9), op_plain ''DUP9'' 9 10),
    (op_DUP10, Stack (I_dup 10), op_plain ''DUP10'' 10 11),
    (op_DUP11, Stack (I_dup 11), op_plain ''DUP11'' 11 12),
    (op_DUP12, Stack (I_dup 12), op_plain ''DUP12'' 12 13),
    (op_DUP13, Stack (I_dup 13), op_plain ''DUP13'' 13 14),
    (op_DUP14, Stack (I_dup 14), op_plain ''DUP14'' 14 15),
    (op_DUP15, Stack (I_dup 15), op_plain ''DUP15'' 15 16),
    (op_DUP16, Stack (I_dup 16), op_plain ''DUP16'' 16 17),
    (op_SWAP1, Stack (I_swap 1), op_plain ''SWAP1'' 2 2),
    (op_SWAP2, Stack (I_swap 2), op_plain ''SWAP2'' 3 3),
    (op_SWAP3, Stack (I_swap 3), op_plain ''SWAP3'' 4 4),
    (op_SWAP4, Stack (I_swap 4), op_plain ''SWAP4'' 5 5),
    (op_SWAP5, Stack (I_swap 5), op_plain ''SWAP5'' 6 6),
    (op_SWAP6, Stack (I_swap 6), op_plain ''SWAP6'' 7 7),
    (op_SWAP7, Stack (I_swap 7), op_plain ''SWAP7'' 8 8),
    (op_SWAP8, Stack (I_swap 8), op_plain ''SWAP8'' 9 9),
    (op_SWAP9, Stack (I_swap 9), op_plain ''SWAP9'' 10 10),
    (op_SWAP10, Stack (I_swap 10), op_plain ''SWAP10'' 11 11),
    (op_SWAP11, Stack (I_swap 11), op_plain ''SWAP11'' 12 12),
    (op_SWAP12, Stack (I_swap 12), op_plain ''SWAP12'' 13 13),
    (op_SWAP13, Stack (I_swap 13), op_plain ''SWAP13'' 14 14),
    (op_SWAP14, Stack (I_swap 14), op_plain ''SWAP14'' 15 15),
    (op_SWAP15, Stack (I_swap 15), op_plain ''SWAP15'' 16 16),
    (op_SWAP16, Stack (I_swap 16), op_plain ''SWAP16'' 17 17)]"

definition opcodes_high :: "(u8 \<times> instr \<times> op_info) list" where
  "opcodes_high =
   [(op_LOG0, Host (I_log 0), op_plain ''LOG0'' 2 0),
    (op_LOG1, Host (I_log 1), op_plain ''LOG1'' 3 0),
    (op_LOG2, Host (I_log 2), op_plain ''LOG2'' 4 0),
    (op_LOG3, Host (I_log 3), op_plain ''LOG3'' 5 0),
    (op_LOG4, Host (I_log 4), op_plain ''LOG4'' 6 0),
    (op_DUPN, Stack I_dupn, op_immediate ''DUPN'' 0 1 1),
    (op_SWAPN, Stack I_swapn, op_immediate ''SWAPN'' 0 0 1),
    (op_EXCHANGE, Stack I_exchange, op_immediate ''EXCHANGE'' 0 0 1),
    (op_CREATE, System (I_create False), op_plain ''CREATE'' 3 1),
    (op_CALL, System I_call, op_plain ''CALL'' 7 1),
    (op_CALLCODE, System I_callcode, op_plain ''CALLCODE'' 7 1),
    (op_RETURN, Control I_return, op_terminal ''RETURN'' 2 0),
    (op_DELEGATECALL, System I_delegatecall, op_plain ''DELEGATECALL'' 6 1),
    (op_CREATE2, System (I_create True), op_plain ''CREATE2'' 4 1),
    (op_STATICCALL, System I_staticcall, op_plain ''STATICCALL'' 6 1),
    (op_REVERT, Control I_revert, op_terminal ''REVERT'' 2 0),
    (op_INVALID, Control I_invalid, op_terminal ''INVALID'' 0 0),
    (op_SELFDESTRUCT, System I_selfdestruct, op_terminal ''SELFDESTRUCT'' 1 0)]"

definition OPCODES :: "(u8 \<times> instr \<times> op_info) list" where
  "OPCODES = opcodes_low @ opcodes_push @ opcodes_dup_swap @ opcodes_high"

definition OPCODE_INFO :: "u8 \<Rightarrow> op_info option" where
  "OPCODE_INFO opcode = map_option snd (map_of OPCODES opcode)"

definition opcode_info :: "u8 \<Rightarrow> op_info" where
  "opcode_info opcode = (case OPCODE_INFO opcode of Some info \<Rightarrow> info | None \<Rightarrow> op_info_unknown)"

definition is_push :: "u8 \<Rightarrow> bool" where
  "is_push opcode = (op_PUSH1 \<le> opcode \<and> opcode \<le> op_PUSH32)"

definition io_diff :: "u8 \<Rightarrow> int" where
  "io_diff opcode = uint (op_outputs (opcode_info opcode)) - uint (op_inputs (opcode_info opcode))"

definition modifies_memory :: "u8 \<Rightarrow> bool" where
  "modifies_memory opcode =
    (opcode \<in> {op_EXTCODECOPY, op_MLOAD, op_MSTORE, op_MSTORE8, op_MCOPY, op_KECCAK256, op_CODECOPY,
      op_CALLDATACOPY, op_RETURNDATACOPY, op_CALL, op_CALLCODE, op_DELEGATECALL, op_STATICCALL,
      op_LOG0, op_LOG1, op_LOG2, op_LOG3, op_LOG4, op_RETURN, op_REVERT, op_CREATE, op_CREATE2})"

end
