(* ===== verification/Gas_Params.thy ===== *)
theory Gas_Params
  imports Evm_Utils
begin

text \<open>
  Gas schedule constants (\<open>interpreter/gas.rs\<close>), the dynamic gas parameter
  table and the cost formulas over it (\<open>version/gas_params.rs\<close>), and the
  \<open>SSTORE\<close> outcome they price (\<open>evm/mod.rs\<close>).  The parameter table is an
  array indexed by an enumeration, modelled as a function.
\<close>

section \<open>Constants\<close>

abbreviation gas_ZERO :: u32 where "gas_ZERO \<equiv> 0"
abbreviation gas_BASE :: u32 where "gas_BASE \<equiv> 2"
abbreviation gas_VERYLOW :: u32 where "gas_VERYLOW \<equiv> 3"
abbreviation gas_LOW :: u32 where "gas_LOW \<equiv> 5"
abbreviation gas_MID :: u32 where "gas_MID \<equiv> 8"
abbreviation gas_HIGH :: u32 where "gas_HIGH \<equiv> 10"
abbreviation gas_JUMPDEST :: u32 where "gas_JUMPDEST \<equiv> 1"
abbreviation gas_EXP :: u32 where "gas_EXP \<equiv> 10"
abbreviation gas_MEMORY :: u32 where "gas_MEMORY \<equiv> 3"
abbreviation gas_LOG :: u32 where "gas_LOG \<equiv> 375"
abbreviation gas_LOGDATA :: u32 where "gas_LOGDATA \<equiv> 8"
abbreviation gas_LOGTOPIC :: u32 where "gas_LOGTOPIC \<equiv> 375"
abbreviation gas_KECCAK256 :: u32 where "gas_KECCAK256 \<equiv> 30"
abbreviation gas_KECCAK256WORD :: u32 where "gas_KECCAK256WORD \<equiv> 6"
abbreviation gas_COPY :: u32 where "gas_COPY \<equiv> 3"
abbreviation gas_BLOCKHASH :: u32 where "gas_BLOCKHASH \<equiv> 20"
abbreviation gas_CREATE :: u32 where "gas_CREATE \<equiv> 32000"
abbreviation gas_CALLVALUE :: u32 where "gas_CALLVALUE \<equiv> 9000"
abbreviation gas_NEWACCOUNT :: u32 where "gas_NEWACCOUNT \<equiv> 25000"
abbreviation gas_SELFDESTRUCT_REFUND :: u32 where "gas_SELFDESTRUCT_REFUND \<equiv> 24000"
abbreviation gas_CODEDEPOSIT :: u32 where "gas_CODEDEPOSIT \<equiv> 200"
abbreviation gas_SSTORE_SET :: u32 where "gas_SSTORE_SET \<equiv> 20000"
abbreviation gas_SSTORE_RESET :: u32 where "gas_SSTORE_RESET \<equiv> 5000"
abbreviation gas_REFUND_SSTORE_CLEARS :: u32 where "gas_REFUND_SSTORE_CLEARS \<equiv> 15000"
abbreviation gas_STANDARD_TOKEN_COST :: u32 where "gas_STANDARD_TOKEN_COST \<equiv> 4"
abbreviation gas_NON_ZERO_BYTE_MULTIPLIER :: u32 where
  "gas_NON_ZERO_BYTE_MULTIPLIER \<equiv> 17"
abbreviation gas_NON_ZERO_BYTE_MULTIPLIER_ISTANBUL :: u32 where
  "gas_NON_ZERO_BYTE_MULTIPLIER_ISTANBUL \<equiv> 4"
abbreviation gas_TOTAL_COST_FLOOR_PER_TOKEN :: u32 where
  "gas_TOTAL_COST_FLOOR_PER_TOKEN \<equiv> 10"
abbreviation gas_TOTAL_COST_FLOOR_PER_TOKEN_AMSTERDAM :: u32 where
  "gas_TOTAL_COST_FLOOR_PER_TOKEN_AMSTERDAM \<equiv> 16"
abbreviation gas_INITCODE_WORD_COST :: u32 where "gas_INITCODE_WORD_COST \<equiv> 2"
abbreviation gas_CALL_STIPEND :: u32 where "gas_CALL_STIPEND \<equiv> 2300"
abbreviation gas_ISTANBUL_SLOAD_GAS :: u32 where "gas_ISTANBUL_SLOAD_GAS \<equiv> 800"
abbreviation gas_ACCESS_LIST_ADDRESS :: u32 where "gas_ACCESS_LIST_ADDRESS \<equiv> 2400"
abbreviation gas_ACCESS_LIST_STORAGE_KEY :: u32 where
  "gas_ACCESS_LIST_STORAGE_KEY \<equiv> 1900"
abbreviation gas_COLD_SLOAD_COST :: u32 where "gas_COLD_SLOAD_COST \<equiv> 2100"
abbreviation gas_COLD_ACCOUNT_ACCESS_COST :: u32 where
  "gas_COLD_ACCOUNT_ACCESS_COST \<equiv> 2600"
abbreviation gas_EIP2930_ACCESS_LIST_ADDRESS :: u32 where
  "gas_EIP2930_ACCESS_LIST_ADDRESS \<equiv> 2400"
abbreviation gas_EIP2930_ACCESS_LIST_STORAGE_KEY :: u32 where
  "gas_EIP2930_ACCESS_LIST_STORAGE_KEY \<equiv> 1900"
abbreviation gas_EIP7981_ACCESS_LIST_DATA_COST_PER_BYTE :: u32 where
  "gas_EIP7981_ACCESS_LIST_DATA_COST_PER_BYTE \<equiv> 64"
abbreviation gas_EIP7981_ACCESS_LIST_FLOOR_BYTE_MULTIPLIER :: u32 where
  "gas_EIP7981_ACCESS_LIST_FLOOR_BYTE_MULTIPLIER \<equiv> 4"
abbreviation gas_WARM_STORAGE_READ_COST :: u32 where "gas_WARM_STORAGE_READ_COST \<equiv> 100"
abbreviation gas_COLD_ACCOUNT_ACCESS_COST_ADDITIONAL :: u32 where
  "gas_COLD_ACCOUNT_ACCESS_COST_ADDITIONAL \<equiv> gas_COLD_ACCOUNT_ACCESS_COST - gas_WARM_STORAGE_READ_COST"
abbreviation gas_WARM_SSTORE_RESET :: u32 where
  "gas_WARM_SSTORE_RESET \<equiv> gas_SSTORE_RESET - gas_COLD_SLOAD_COST"
abbreviation gas_EIP7702_PER_AUTH_BASE_COST :: u32 where
  "gas_EIP7702_PER_AUTH_BASE_COST \<equiv> 12500"
abbreviation gas_EIP7702_PER_EMPTY_ACCOUNT_COST :: u32 where
  "gas_EIP7702_PER_EMPTY_ACCOUNT_COST \<equiv> 25000"
abbreviation gas_EIP8038_COLD_ACCOUNT_ACCESS :: u32 where
  "gas_EIP8038_COLD_ACCOUNT_ACCESS \<equiv> 3000"
abbreviation gas_EIP8038_COLD_STORAGE_ACCESS :: u32 where
  "gas_EIP8038_COLD_STORAGE_ACCESS \<equiv> 2100"
abbreviation gas_EIP8038_ACCOUNT_WRITE :: u32 where "gas_EIP8038_ACCOUNT_WRITE \<equiv> 9000"
abbreviation gas_EIP8038_STORAGE_WRITE :: u32 where "gas_EIP8038_STORAGE_WRITE \<equiv> 10000"
abbreviation gas_EIP8038_STORAGE_CLEAR_REFUND :: u32 where
  "gas_EIP8038_STORAGE_CLEAR_REFUND \<equiv> (gas_EIP8038_STORAGE_WRITE + gas_EIP8038_COLD_STORAGE_ACCESS) * 4800 div 5000"
abbreviation gas_EIP8038_CREATE_ACCESS :: u32 where
  "gas_EIP8038_CREATE_ACCESS \<equiv> gas_EIP8038_ACCOUNT_WRITE + gas_EIP8038_COLD_ACCOUNT_ACCESS"
abbreviation gas_EIP8038_ACCESS_LIST_ADDRESS_COST :: u32 where
  "gas_EIP8038_ACCESS_LIST_ADDRESS_COST \<equiv> gas_EIP8038_COLD_ACCOUNT_ACCESS - gas_WARM_STORAGE_READ_COST"
abbreviation gas_EIP8038_ACCESS_LIST_STORAGE_KEY_COST :: u32 where
  "gas_EIP8038_ACCESS_LIST_STORAGE_KEY_COST \<equiv> gas_EIP8038_COLD_STORAGE_ACCESS - gas_WARM_STORAGE_READ_COST"
abbreviation gas_EIP8038_COLD_ACCOUNT_ACCESS_ADDITIONAL :: u32 where
  "gas_EIP8038_COLD_ACCOUNT_ACCESS_ADDITIONAL \<equiv> gas_EIP8038_COLD_ACCOUNT_ACCESS - gas_WARM_STORAGE_READ_COST"
abbreviation gas_EIP8038_COLD_STORAGE_ACCESS_ADDITIONAL :: u32 where
  "gas_EIP8038_COLD_STORAGE_ACCESS_ADDITIONAL \<equiv> gas_EIP8038_COLD_STORAGE_ACCESS - gas_WARM_STORAGE_READ_COST"
abbreviation gas_EIP8038_CALL_VALUE :: u32 where
  "gas_EIP8038_CALL_VALUE \<equiv> gas_EIP8038_ACCOUNT_WRITE + gas_CALL_STIPEND"
abbreviation gas_EIP7702_AUTH_TUPLE_BYTES :: u32 where
  "gas_EIP7702_AUTH_TUPLE_BYTES \<equiv> 101"
abbreviation gas_EIP7702_ECRECOVER_COST :: u32 where "gas_EIP7702_ECRECOVER_COST \<equiv> 3000"
abbreviation gas_EIP8038_EIP7702_PER_AUTH_BASE_REGULAR :: u32 where
  "gas_EIP8038_EIP7702_PER_AUTH_BASE_REGULAR \<equiv> gas_EIP7702_AUTH_TUPLE_BYTES * gas_TOTAL_COST_FLOOR_PER_TOKEN_AMSTERDAM + gas_EIP7702_ECRECOVER_COST + gas_EIP8038_COLD_ACCOUNT_ACCESS + 2 * gas_WARM_STORAGE_READ_COST"
abbreviation gas_EIP2780_TX_BASE_COST :: u32 where "gas_EIP2780_TX_BASE_COST \<equiv> 12000"
abbreviation gas_EIP2780_TX_VALUE_COST :: u32 where "gas_EIP2780_TX_VALUE_COST \<equiv> 6000"

section \<open>The parameter table\<close>

datatype (plugins only: code) gas_id =
    ExpByte | ExtcodecopyPerWord | CopyPerWord | Logdata | Logtopic | McopyPerWord
  | Keccak256PerWord | MemoryLinearCost | MemoryQuadraticReduction | InitcodePerWord | Create
  | CallStipendReduction | TransferValueCost | ColdAccountAdditionalCost | NewAccountCost
  | WarmStorageReadCost | SstoreStatic | SstoreSetWithoutLoadCost
  | SstoreResetWithoutColdLoadCost | SstoreClearingSlotRefund | SelfdestructRefund | CallStipend
  | MaxRefundQuotient | ColdStorageAdditionalCost | ColdStorageCost
  | NewAccountCostForSelfdestruct | CodeDepositCost | TxEip7702PerEmptyAccountCost
  | TxTokenNonZeroByteMultiplier | TxTokenCost | TxFloorCostPerToken | TxFloorCostBase
  | TxFloorZeroByteMultiplier | TxAccessListAddressCost | TxAccessListStorageKeyCost
  | TxAccessListFloorByteMultiplier | TxBaseStipend | TxCreateCost | TxInitcodeCost
  | SstoreSetRefund | SstoreResetRefund | TxEip7702AuthRefund | SstoreSetState | NewAccountState
  | CodeDepositState | CreateState | TxEip7702PerAuthState | TxValueCost | TxCreateAccessCost
  | Custom0 | Custom1 | Custom2 | Custom3 | Custom4 | Custom5 | Custom6 | Custom7

type_synonym gas_params = "gas_id \<Rightarrow> u32"

definition gp_empty :: gas_params where
  "gp_empty = (\<lambda>_. 0)"

definition gp_get :: "gas_params \<Rightarrow> gas_id \<Rightarrow> u64" where
  "gp_get gp gid = ucast (gp gid)"

definition gp_set :: "gas_params \<Rightarrow> gas_id \<Rightarrow> u32 \<Rightarrow> gas_params" where
  "gp_set gp gid cost = gp(gid := cost)"

section \<open>Memory, copy, hash and call costs\<close>

definition memory_cost :: "gas_params \<Rightarrow> usize \<Rightarrow> u64" where
  "memory_cost gp len =
    saturating_add (saturating_mul (gp_get gp MemoryLinearCost) len)
      (saturating_mul len len div gp_get gp MemoryQuadraticReduction)"

fun bit_len_nat :: "nat \<Rightarrow> nat" where
  "bit_len_nat n = (if n = 0 then 0 else Suc (bit_len_nat (n div 2)))"

declare bit_len_nat.simps [simp del]

definition bit_len :: "evm_word \<Rightarrow> usize" where
  "bit_len w = word_of_nat (bit_len_nat (unat w))"

definition exp_cost :: "gas_params \<Rightarrow> evm_word \<Rightarrow> u64" where
  "exp_cost gp pw =
    (if pw = 0 then 0
     else saturating_mul (gp_get gp ExpByte) (div_ceil (bit_len pw) 8))"

definition per_word_cost :: "gas_params \<Rightarrow> gas_id \<Rightarrow> usize \<Rightarrow> u64" where
  "per_word_cost gp gid len = saturating_mul (gp_get gp gid) (num_words len)"

definition copy_cost :: "gas_params \<Rightarrow> usize \<Rightarrow> u64" where
  "copy_cost gp len = per_word_cost gp CopyPerWord len"

definition extcodecopy_cost :: "gas_params \<Rightarrow> usize \<Rightarrow> u64" where
  "extcodecopy_cost gp len = per_word_cost gp ExtcodecopyPerWord len"

definition mcopy_cost :: "gas_params \<Rightarrow> usize \<Rightarrow> u64" where
  "mcopy_cost gp len = per_word_cost gp McopyPerWord len"

definition keccak256_word_cost :: "gas_params \<Rightarrow> usize \<Rightarrow> u64" where
  "keccak256_word_cost gp len = per_word_cost gp Keccak256PerWord len"

definition log_cost :: "gas_params \<Rightarrow> u8 \<Rightarrow> usize \<Rightarrow> u64" where
  "log_cost gp n len =
    saturating_add (saturating_mul (gp_get gp Logdata) len)
      (saturating_mul (gp_get gp Logtopic) (ucast n))"

definition initcode_cost :: "gas_params \<Rightarrow> usize \<Rightarrow> u64" where
  "initcode_cost gp len = per_word_cost gp InitcodePerWord len"

definition create2_cost :: "gas_params \<Rightarrow> usize \<Rightarrow> u64" where
  "create2_cost gp len = saturating_add (gp_get gp Create) (keccak256_word_cost gp len)"

definition call_stipend_reduction :: "gas_params \<Rightarrow> u64 \<Rightarrow> u64" where
  "call_stipend_reduction gp lim = lim - lim div gp_get gp CallStipendReduction"

section \<open>Storage writes\<close>

record sstore =
  original_value :: evm_word
  present_value :: evm_word
  new_value :: evm_word
  ss_is_cold :: bool

definition is_noop :: "sstore \<Rightarrow> bool" where
  "is_noop v = (new_value v = present_value v)"

definition is_clean :: "sstore \<Rightarrow> bool" where
  "is_clean v = (original_value v = present_value v)"

definition resets_original :: "sstore \<Rightarrow> bool" where
  "resets_original v = (original_value v = new_value v)"

definition original_is_zero :: "sstore \<Rightarrow> bool" where
  "original_is_zero v = (original_value v = 0)"

definition present_is_zero :: "sstore \<Rightarrow> bool" where
  "present_is_zero v = (present_value v = 0)"

definition new_is_zero :: "sstore \<Rightarrow> bool" where
  "new_is_zero v = (new_value v = 0)"

lemmas sstore_preds = is_noop_def is_clean_def resets_original_def original_is_zero_def
  present_is_zero_def new_is_zero_def

definition sstore_dynamic_gas :: "gas_params \<Rightarrow> bool \<Rightarrow> sstore \<Rightarrow> u64" where
  "sstore_dynamic_gas gp is_eip2200 v =
    (if \<not> is_eip2200 then
       if present_is_zero v \<and> \<not> new_is_zero v then gp_get gp SstoreSetWithoutLoadCost
       else gp_get gp SstoreResetWithoutColdLoadCost
     else
       (if ss_is_cold v then gp_get gp ColdStorageCost else 0)
       + (if \<not> is_noop v \<and> is_clean v then
            if original_is_zero v then gp_get gp SstoreSetWithoutLoadCost
            else gp_get gp SstoreResetWithoutColdLoadCost
          else 0))"

definition sstore_refund :: "gas_params \<Rightarrow> bool \<Rightarrow> sstore \<Rightarrow> i64" where
  "sstore_refund gp is_eip2200 v =
    (let clearing_slot_refund = gp_get gp SstoreClearingSlotRefund in
     if \<not> is_eip2200 then
       if \<not> present_is_zero v \<and> new_is_zero v then clearing_slot_refund else 0
     else if is_noop v then 0
     else if is_clean v \<and> new_is_zero v then clearing_slot_refund
     else
       (if \<not> original_is_zero v then
          if present_is_zero v then - clearing_slot_refund
          else if new_is_zero v then clearing_slot_refund else 0
        else 0)
       + (if resets_original v then
            if original_is_zero v then gp_get gp SstoreSetRefund else gp_get gp SstoreResetRefund
          else 0))"

definition sstore_state_gas :: "gas_params \<Rightarrow> sstore \<Rightarrow> u64" where
  "sstore_state_gas gp v =
    (if \<not> is_noop v \<and> is_clean v \<and> original_is_zero v then gp_get gp SstoreSetState else 0)"

definition sstore_state_gas_refill :: "gas_params \<Rightarrow> sstore \<Rightarrow> u64" where
  "sstore_state_gas_refill gp v =
    (if \<not> is_noop v \<and> resets_original v \<and> original_is_zero v then gp_get gp SstoreSetState else 0)"

section \<open>State gas, account and transaction costs\<close>

definition create_state_gas :: "gas_params \<Rightarrow> u64" where
  "create_state_gas gp = gp_get gp CreateState"

definition new_account_state_gas :: "gas_params \<Rightarrow> u64" where
  "new_account_state_gas gp = gp_get gp NewAccountState"

definition eip7702_auth_state_gas :: "gas_params \<Rightarrow> u64" where
  "eip7702_auth_state_gas gp =
    saturating_add (new_account_state_gas gp) (gp_get gp TxEip7702PerAuthState)"

definition code_deposit_state_gas :: "gas_params \<Rightarrow> usize \<Rightarrow> u64" where
  "code_deposit_state_gas gp len = saturating_mul (gp_get gp CodeDepositState) len"

definition cold_account_additional_cost :: "gas_params \<Rightarrow> u64" where
  "cold_account_additional_cost gp = gp_get gp ColdAccountAdditionalCost"

definition selfdestruct_cold_cost :: "gas_params \<Rightarrow> u64" where
  "selfdestruct_cold_cost gp =
    saturating_add (cold_account_additional_cost gp) (gp_get gp WarmStorageReadCost)"

definition selfdestruct_cost :: "gas_params \<Rightarrow> bool \<Rightarrow> bool \<Rightarrow> u64" where
  "selfdestruct_cost gp should_charge_topup is_cold =
    (if should_charge_topup then gp_get gp NewAccountCostForSelfdestruct else 0)
    + (if is_cold then selfdestruct_cold_cost gp else 0)"

fun chunks :: "nat \<Rightarrow> 'a list \<Rightarrow> 'a list list" where
  "chunks n [] = []"
| "chunks n (x # xs) = (if n = 0 then [] else take n (x # xs) # chunks n (drop n (x # xs)))"

definition count_zero_bytes :: "u8 \<Rightarrow> bytes \<Rightarrow> u64" where
  "count_zero_bytes STEP data =
    sum_list (map (\<lambda>c. ucast (sum_list (map (\<lambda>b. if b = 0 then STEP else 0) c)))
      (chunks (192 div unat STEP) data)) div ucast STEP"

definition tx_calldata_tokens :: "gas_params \<Rightarrow> bytes \<Rightarrow> u64 \<times> u64" where
  "tx_calldata_tokens gp input =
    (let zero_bytes = count_zero_bytes 1 input;
         non_zero_tokens =
           (word_of_nat (length input) - zero_bytes) * gp_get gp TxTokenNonZeroByteMultiplier
     in (zero_bytes + non_zero_tokens,
         zero_bytes * gp_get gp TxFloorZeroByteMultiplier + non_zero_tokens))"

definition tx_floor_cost_with_base :: "gas_params \<Rightarrow> u64 \<Rightarrow> u64 \<Rightarrow> u64 \<Rightarrow> u64 \<Rightarrow> u64" where
  "tx_floor_cost_with_base gp base floor_tokens access_list_accounts access_list_storage_keys =
    (let access_list_bytes =
           saturating_add (saturating_mul access_list_accounts 20)
             (saturating_mul access_list_storage_keys 32);
         tokens = saturating_add floor_tokens
             (saturating_mul access_list_bytes (gp_get gp TxAccessListFloorByteMultiplier))
     in saturating_add base (saturating_mul tokens (gp_get gp TxFloorCostPerToken)))"

definition tx_floor_cost_with_tokens :: "gas_params \<Rightarrow> u64 \<Rightarrow> u64 \<Rightarrow> u64 \<Rightarrow> u64" where
  "tx_floor_cost_with_tokens gp floor_tokens access_list_accounts access_list_storage_keys =
    tx_floor_cost_with_base gp (gp_get gp TxFloorCostBase) floor_tokens access_list_accounts
      access_list_storage_keys"

section \<open>Accounting of a sequence of writes to one slot\<close>

text \<open>
  The gas \<open>SSTORE\<close> charges minus the refunds it grants for the writes a transaction makes to
  one warm slot, the static charge of every write included, and the price a slot's change from
  its original value has.
\<close>

fun sstore_net_gas :: "gas_params \<Rightarrow> evm_word \<Rightarrow> evm_word \<Rightarrow> evm_word list \<Rightarrow> int" where
  "sstore_net_gas gp orig present [] = 0"
| "sstore_net_gas gp orig present (v # vs) =
    (let w = \<lparr>original_value = orig, present_value = present, new_value = v, ss_is_cold = False\<rparr>
     in uint (gp_get gp SstoreStatic) + uint (sstore_dynamic_gas gp True w)
        - sint (sstore_refund gp True w) + sstore_net_gas gp orig v vs)"

fun sstore_net_state_gas :: "gas_params \<Rightarrow> evm_word \<Rightarrow> evm_word \<Rightarrow> evm_word list \<Rightarrow> int" where
  "sstore_net_state_gas gp orig present [] = 0"
| "sstore_net_state_gas gp orig present (v # vs) =
    (let w = \<lparr>original_value = orig, present_value = present, new_value = v, ss_is_cold = False\<rparr>
     in uint (sstore_state_gas gp w) - uint (sstore_state_gas_refill gp w)
        + sstore_net_state_gas gp orig v vs)"

definition slot_price :: "gas_params \<Rightarrow> evm_word \<Rightarrow> evm_word \<Rightarrow> int" where
  "slot_price gp orig v =
    (if v = orig then 0
     else if orig = 0 then uint (gp_get gp SstoreSetWithoutLoadCost)
     else uint (gp_get gp SstoreResetWithoutColdLoadCost)
          - (if v = 0 then uint (gp_get gp SstoreClearingSlotRefund) else 0))"

definition balanced_refunds :: "gas_params \<Rightarrow> bool" where
  "balanced_refunds gp \<longleftrightarrow>
     gp SstoreSetRefund = gp SstoreSetWithoutLoadCost \<and>
     gp SstoreResetRefund = gp SstoreResetWithoutColdLoadCost"

section \<open>Lemmas\<close>

lemma unat_gp_get_lt: "unat (gp_get gp i) < 4294967296"
proof -
  have "unat (gp_get gp i) = unat (gp i) mod 2 ^ 64"
    by (simp add: gp_get_def unsigned_ucast_eq take_bit_eq_mod)
  then show ?thesis
    using unat_lt_word [of "gp i"] by simp
qed

lemma unat_memory_cost:
  "unat (memory_cost gp len) =
    min (2 ^ 64 - 1)
      (min (2 ^ 64 - 1) (unat (gp_get gp MemoryLinearCost) * unat len)
       + min (2 ^ 64 - 1) (unat len * unat len) div unat (gp_get gp MemoryQuadraticReduction))"
  by (simp add: memory_cost_def unat_saturating_add unat_saturating_mul unat_div_distrib)

lemma memory_cost_mono: "a \<le> b \<Longrightarrow> memory_cost gp a \<le> memory_cost gp b"
  unfolding word_le_nat_alt unat_memory_cost
  by (intro min.mono add_mono div_le_mono mult_le_mono order_refl)

lemma memory_cost_exact:
  assumes "unat len \<le> 2147483648"
  shows "unat (memory_cost gp len) = unat (gp_get gp MemoryLinearCost) * unat len
      + unat len * unat len div unat (gp_get gp MemoryQuadraticReduction)"
proof -
  have lin: "unat (gp_get gp MemoryLinearCost) * unat len \<le> 4294967296 * 2147483648"
    using assms unat_gp_get_lt [of gp MemoryLinearCost] by (intro mult_le_mono) simp_all
  have quad: "unat len * unat len \<le> 2147483648 * 2147483648"
    using assms by (intro mult_le_mono)
  have "unat len * unat len div unat (gp_get gp MemoryQuadraticReduction) \<le> 2147483648 * 2147483648"
    using quad by (rule order_trans [OF div_le_dividend])
  with lin have "unat (gp_get gp MemoryLinearCost) * unat len
      + unat len * unat len div unat (gp_get gp MemoryQuadraticReduction) \<le> 2 ^ 64 - 1"
    by simp
  then show ?thesis
    using lin quad unfolding unat_memory_cost by simp
qed

lemma bit_len_nat_le_iff: "bit_len_nat n \<le> k \<longleftrightarrow> n < 2 ^ k"
proof (induction n arbitrary: k rule: bit_len_nat.induct)
  case (1 n)
  show ?case
  proof (cases "n = 0")
    case True
    then show ?thesis
      by (simp add: bit_len_nat.simps)
  next
    case False
    show ?thesis
    proof (cases k)
      case 0
      then show ?thesis
        using False by (subst bit_len_nat.simps) simp
    next
      case (Suc j)
      have "n < 2 * 2 ^ j \<longleftrightarrow> n div 2 < 2 ^ j"
        by linarith
      then show ?thesis
        using False Suc "1.IH" [of j] by (subst bit_len_nat.simps) simp
    qed
  qed
qed

lemma exp_cost_bytes:
  assumes "pw \<noteq> 0"
  obtains n where "exp_cost gp pw = saturating_mul (gp_get gp ExpByte) (word_of_nat n)"
    and "unat pw < 256 ^ n" and "256 ^ (n - 1) \<le> unat pw" and "0 < n" and "n \<le> 32"
proof -
  define k where "k = bit_len_nat (unat pw)"
  have ub: "unat pw < 2 ^ k" and k: "k \<le> 256"
    using bit_len_nat_le_iff [of "unat pw"] unat_lt_word [of pw] by (auto simp: k_def)
  have pos: "0 < k"
    using assms by (simp add: k_def bit_len_nat.simps unat_gt_0)
  then have lb: "2 ^ (k - 1) \<le> unat pw"
    using bit_len_nat_le_iff [of "unat pw" "k - 1"] unfolding k_def [symmetric] by linarith
  have len: "unat (bit_len pw) = k"
    using k by (simp add: bit_len_def k_def unat_of_nat)
  define n where "n = (k + 7) div 8"
  have nk: "k \<le> 8 * n" "8 * (n - 1) \<le> k - 1" "0 < n" "n \<le> 32"
    using pos k by (auto simp: n_def)
  have "unat (div_ceil (bit_len pw) 8) = n"
    by (simp add: unat_div_ceil len n_def)
  then have "div_ceil (bit_len pw) 8 = word_of_nat n"
    using nk(4) by (simp add: word_unat_eq_iff unat_of_nat)
  moreover have "unat pw < 256 ^ n"
    using ub nk(1) power_increasing [of k "8 * n" "2::nat"] by (simp add: power_mult)
  moreover have "256 ^ (n - 1) \<le> unat pw"
    using lb power_increasing [OF nk(2), of "2::nat"] by (simp add: power_mult)
  ultimately show ?thesis
    using that [of n] nk assms by (simp add: exp_cost_def)
qed

lemma u8_zero_sum:
  fixes STEP :: u8
  assumes "unat STEP * length c < 256"
  shows "unat (sum_list (map (\<lambda>b. if b = 0 then STEP else (0 :: u8)) c))
    = unat STEP * length (filter (\<lambda>b. b = 0) (c :: bytes))"
  using assms
proof (induction c)
  case (Cons b c)
  have le: "unat STEP * length (filter (\<lambda>b. b = 0) c) \<le> unat STEP * length c"
    by (intro mult_le_mono) simp_all
  moreover have "unat STEP * length (b # c) = unat STEP + unat STEP * length c"
    by simp
  ultimately have "unat STEP + unat STEP * length (filter (\<lambda>b. b = 0) c) < 256"
    using Cons.prems by linarith
  then show ?case
    using Cons by (auto simp: unat_word_ariths)
qed simp

lemma chunk_sums:
  assumes "0 < n" "\<And>c. length c \<le> n \<Longrightarrow> f c = k * length (filter P c)"
  shows "sum_list (map f (chunks n xs)) = k * length (filter P xs)"
  using assms
proof (induction n xs rule: chunks.induct)
  case (2 n x xs)
  let ?xs = "x # xs"
  have "length (filter P ?xs) = length (filter P (take n ?xs)) + length (filter P (drop n ?xs))"
    by (metis append_take_drop_id filter_append length_append)
  moreover have "f (take n ?xs) = k * length (filter P (take n ?xs))"
    by (rule "2.prems"(2)) simp
  ultimately show ?case
    using 2 by (simp add: algebra_simps del: filter.simps drop_Suc_Cons take_Suc_Cons)
qed simp

lemma word_of_nat_sum: "sum_list (map (\<lambda>c. word_of_nat (f c)) xs) = (word_of_nat (sum_list (map f xs)) :: 'a::len word)"
  by (induction xs) simp_all

lemma count_zero_bytes_correct:
  assumes "STEP = 1 \<or> STEP = 2" "length data < 9223372036854775808"
  shows "count_zero_bytes STEP data = word_of_nat (length (filter (\<lambda>b. b = 0) data))"
proof -
  let ?f = "\<lambda>c :: bytes. unat (sum_list (map (\<lambda>b. if b = 0 then STEP else (0 :: u8)) c))"
  let ?z = "length (filter (\<lambda>b. b = 0) data)"
  have z: "?z < 9223372036854775808"
    using assms(2) length_filter_le [of "\<lambda>b. b = 0" data] by linarith
  have s: "unat STEP = 1 \<or> unat STEP = 2"
    using assms(1) by auto
  have "sum_list (map ?f (chunks (192 div unat STEP) data)) = unat STEP * ?z"
  proof (rule chunk_sums)
    show "0 < 192 div unat STEP"
      using s by auto
    show "?f c = unat STEP * length (filter (\<lambda>b. b = 0) c)" if "length c \<le> 192 div unat STEP" for c
      using that s by (subst u8_zero_sum) auto
  qed
  then have "sum_list (map (\<lambda>c. word_of_nat (?f c) :: u64) (chunks (192 div unat STEP) data))
      = word_of_nat (unat STEP * ?z)"
    by (simp only: word_of_nat_sum)
  then have eq: "count_zero_bytes STEP data = word_of_nat (unat STEP * ?z) div ucast STEP"
    unfolding count_zero_bytes_def of_nat_unat by (rule arg_cong)
  have "unat STEP * ?z < 2 ^ LENGTH(64)"
    using s z by auto
  then have "unat (word_of_nat (unat STEP * ?z) :: u64) = unat STEP * ?z"
    by (simp only: unat_of_nat mod_less)
  moreover have "unat (ucast STEP :: u64) = unat STEP"
    using assms(1) by auto
  ultimately have "unat (count_zero_bytes STEP data) = ?z"
    unfolding eq unat_div_distrib using s by auto
  then show ?thesis
    using z by (simp add: word_unat_eq_iff unat_of_nat)
qed

lemma uint_gp_get_lt: "uint (gp_get gp i) < 4294967296"
proof -
  have "int (unat (gp_get gp i)) < 4294967296"
    using unat_gp_get_lt [of gp i] by linarith
  then show ?thesis
    by (simp only: unat_int_uint)
qed

lemma sint_gp_get: "sint (gp_get gp i) = uint (gp_get gp i)"
  using uint_gp_get_lt [of gp i] by (intro sint_eq_uint_small) simp

lemma sint_add_small:
  fixes a b :: i64
  assumes "\<bar>sint a\<bar> \<le> 4611686018427387904" "\<bar>sint b\<bar> < 4611686018427387904"
  shows "sint (a + b) = sint a + sint b"
  using assms by (simp add: sint_word_ariths signed_take_bit_int_eq_self)

lemma sint_minus_small:
  fixes a :: i64
  assumes "\<bar>sint a\<bar> \<le> 4611686018427387904"
  shows "sint (- a) = - sint a"
  using assms by (simp add: sint_word_ariths signed_take_bit_int_eq_self)

lemma sstore_step_price:
  fixes gp orig p v
  defines "w \<equiv> \<lparr>original_value = orig, present_value = p, new_value = v, ss_is_cold = False\<rparr>"
  assumes "balanced_refunds gp"
  shows "uint (sstore_dynamic_gas gp True w) - sint (sstore_refund gp True w)
    = slot_price gp orig v - slot_price gp orig p"
proof -
  have b: "gp_get gp SstoreSetRefund = gp_get gp SstoreSetWithoutLoadCost"
    "gp_get gp SstoreResetRefund = gp_get gp SstoreResetWithoutColdLoadCost"
    using assms by (simp_all add: balanced_refunds_def gp_get_def)
  obtain S R C where v: "uint (gp_get gp SstoreSetWithoutLoadCost) = S"
    "uint (gp_get gp SstoreResetWithoutColdLoadCost) = R" "uint (gp_get gp SstoreClearingSlotRefund) = C"
    and nn: "0 \<le> S" "0 \<le> R" "0 \<le> C" and ub: "S < 4294967296" "R < 4294967296" "C < 4294967296"
    using uint_gp_get_lt by auto
  show ?thesis
    using nn ub
    by (auto simp: w_def sstore_dynamic_gas_def sstore_refund_def sstore_preds slot_price_def Let_def
        b v sint_gp_get sint_add_small sint_minus_small)
qed

lemma sstore_net_gas_eq:
  "balanced_refunds gp \<Longrightarrow>
    sstore_net_gas gp orig p vs = int (length vs) * uint (gp_get gp SstoreStatic)
      + slot_price gp orig (last (p # vs)) - slot_price gp orig p"
proof (induction vs arbitrary: p)
  case (Cons v vs)
  then show ?case
    using sstore_step_price [OF Cons.prems, of orig p v] Cons.IH [OF Cons.prems, of v]
    by (simp add: Let_def distrib_right)
qed simp

lemma sstore_net_state_gas_eq:
  "sstore_net_state_gas gp orig p vs =
    (if orig = 0 \<and> last (p # vs) \<noteq> 0 then uint (gp_get gp SstoreSetState) else 0)
    - (if orig = 0 \<and> p \<noteq> 0 then uint (gp_get gp SstoreSetState) else 0)"
  by (induction vs arbitrary: p)
    (auto simp: Let_def sstore_state_gas_def sstore_state_gas_refill_def sstore_preds)

section \<open>Properties\<close>

text \<open>
  C23: The EIP-8037 state gas charged for a slot's writes, minus what restoring
  writes refill, depends only on the original and the final value: a slot created in
  the transaction pays once, and one that ends as it began pays nothing.
\<close>

theorem sstore_state_gas_path_independent:
  "sstore_net_state_gas gp orig orig vs =
    (if orig = 0 \<and> last (orig # vs) \<noteq> 0 then uint (gp_get gp SstoreSetState) else 0)"
  by (simp add: sstore_net_state_gas_eq)

text \<open>
  C24: Counting zero calldata bytes in chunks with one byte-wide counter per chunk,
  in either of the two step variants, gives the number of zero bytes.
\<close>

theorem count_zero_bytes_counts:
  assumes "STEP = 1 \<or> STEP = 2" "length data < 9223372036854775808"
  shows "count_zero_bytes STEP data = word_of_nat (length (filter (\<lambda>b. b = 0) data))"
  using assms by (rule count_zero_bytes_correct)

theorem count_zero_bytes_counts_witness:
  "count_zero_bytes 2 [0, 7, 0, 0, 1] = 3"
  using count_zero_bytes_counts [of 2 "[0, 7, 0, 0, 1]"] by simp

text \<open>
  C25: The memory cost never decreases with the word count, also where the formula
  saturates, so a growth of memory always has a well-defined cost increase.
\<close>

theorem memory_cost_monotone:
  assumes "a \<le> b"
  shows "memory_cost gp a \<le> memory_cost gp b"
  using assms by (rule memory_cost_mono)

theorem memory_cost_monotone_witness:
  "memory_cost (\<lambda>_. 3) 5 \<le> memory_cost (\<lambda>_. 3) 1000"
  using memory_cost_monotone [of 5 1000 "\<lambda>_. 3"] by simp



end
