(* ===== verification/Spec_Version.thy ===== *)
theory Spec_Version
  imports Opcodes Gas_Params "HOL-Library.Sublist"
begin

text \<open>
  Hardforks and what they configure: the ordered specification identifiers
  (\<open>spec_id.rs\<close>), the feature bitmap (\<open>version/features.rs\<close>), the opcode
  configuration (\<open>version/opcode_config.rs\<close>) and the per-fork tables with the base
  version built from them (\<open>version/mod.rs\<close>).  The tables are transcribed entry by
  entry; a base configuration applies the tables of every fork the specification
  enables, in order.
\<close>

section \<open>Specification identifiers\<close>

datatype spec_id =
    FRONTIER | HOMESTEAD | TANGERINE | SPURIOUS_DRAGON | BYZANTIUM | PETERSBURG | ISTANBUL
  | BERLIN | LONDON | MERGE | SHANGHAI | CANCUN | PRAGUE | OSAKA | AMSTERDAM

definition SPEC_IDS :: "spec_id list" where
  "SPEC_IDS = [FRONTIER, HOMESTEAD, TANGERINE, SPURIOUS_DRAGON, BYZANTIUM, PETERSBURG, ISTANBUL,
     BERLIN, LONDON, MERGE, SHANGHAI, CANCUN, PRAGUE, OSAKA, AMSTERDAM]"

fun spec_as_u32 :: "spec_id \<Rightarrow> u32" where
  "spec_as_u32 FRONTIER = 0"
| "spec_as_u32 HOMESTEAD = 1"
| "spec_as_u32 TANGERINE = 2"
| "spec_as_u32 SPURIOUS_DRAGON = 3"
| "spec_as_u32 BYZANTIUM = 4"
| "spec_as_u32 PETERSBURG = 5"
| "spec_as_u32 ISTANBUL = 6"
| "spec_as_u32 BERLIN = 7"
| "spec_as_u32 LONDON = 8"
| "spec_as_u32 MERGE = 9"
| "spec_as_u32 SHANGHAI = 10"
| "spec_as_u32 CANCUN = 11"
| "spec_as_u32 PRAGUE = 12"
| "spec_as_u32 OSAKA = 13"
| "spec_as_u32 AMSTERDAM = 14"

definition try_from_u32 :: "u32 \<Rightarrow> spec_id option" where
  "try_from_u32 n = (if n \<le> spec_as_u32 AMSTERDAM then Some (SPEC_IDS ! unat n) else None)"

definition spec_prev :: "spec_id \<Rightarrow> spec_id option" where
  "spec_prev s = try_from_u32 (spec_as_u32 s - 1)"

definition spec_next :: "spec_id \<Rightarrow> spec_id option" where
  "spec_next s = try_from_u32 (spec_as_u32 s + 1)"

definition enables :: "spec_id \<Rightarrow> spec_id \<Rightarrow> bool" where
  "enables s other = (spec_as_u32 s \<ge> spec_as_u32 other)"

lemma spec_as_u32_inject: "spec_as_u32 a = spec_as_u32 b \<Longrightarrow> a = b"
  by (cases a; cases b) simp_all

instantiation spec_id :: linorder
begin

definition less_eq_spec_id :: "spec_id \<Rightarrow> spec_id \<Rightarrow> bool" where
  "a \<le> b \<longleftrightarrow> spec_as_u32 a \<le> spec_as_u32 b"

definition less_spec_id :: "spec_id \<Rightarrow> spec_id \<Rightarrow> bool" where
  "a < b \<longleftrightarrow> spec_as_u32 a < spec_as_u32 b"

instance
proof
  fix a b :: spec_id
  show "a \<le> b \<Longrightarrow> b \<le> a \<Longrightarrow> a = b"
    by (auto simp: less_eq_spec_id_def intro: spec_as_u32_inject)
qed (auto simp: less_eq_spec_id_def less_spec_id_def)

end

section \<open>Features\<close>

type_synonym evm_features = u64

definition from_bit :: "nat \<Rightarrow> evm_features" where
  "from_bit n = push_bit n 1"

definition features_contains :: "evm_features \<Rightarrow> evm_features \<Rightarrow> bool" where
  "features_contains f other = (f AND other = other)"

definition features_intersects :: "evm_features \<Rightarrow> evm_features \<Rightarrow> bool" where
  "features_intersects f other = (f AND other \<noteq> 0)"

definition features_insert :: "evm_features \<Rightarrow> evm_features \<Rightarrow> evm_features" where
  "features_insert f other = f OR other"

definition features_remove :: "evm_features \<Rightarrow> evm_features \<Rightarrow> evm_features" where
  "features_remove f other = f AND NOT other"

definition features_set :: "evm_features \<Rightarrow> evm_features \<Rightarrow> bool \<Rightarrow> evm_features" where
  "features_set f other on = (if on then features_insert f other else features_remove f other)"

abbreviation TX_CHAIN_ID_CHECK :: evm_features where "TX_CHAIN_ID_CHECK \<equiv> from_bit 0"
abbreviation NONCE_CHECK :: evm_features where "NONCE_CHECK \<equiv> from_bit 1"
abbreviation BALANCE_CHECK :: evm_features where "BALANCE_CHECK \<equiv> from_bit 2"
abbreviation BLOCK_GAS_LIMIT_CHECK :: evm_features where "BLOCK_GAS_LIMIT_CHECK \<equiv> from_bit 3"
abbreviation EIP3607 :: evm_features where "EIP3607 \<equiv> from_bit 4"
abbreviation PRIORITY_FEE_CHECK :: evm_features where "PRIORITY_FEE_CHECK \<equiv> from_bit 5"
abbreviation CODE_SIZE_CHECK :: evm_features where "CODE_SIZE_CHECK \<equiv> from_bit 6"
abbreviation BASE_FEE_CHECK :: evm_features where "BASE_FEE_CHECK \<equiv> from_bit 7"
abbreviation BLOB_BASE_FEE_CHECK :: evm_features where "BLOB_BASE_FEE_CHECK \<equiv> from_bit 8"
abbreviation BALANCE_TOP_UP :: evm_features where "BALANCE_TOP_UP \<equiv> from_bit 9"
abbreviation FEE_CHARGE :: evm_features where "FEE_CHARGE \<equiv> from_bit 10"
abbreviation LOG_COLLECTION :: evm_features where "LOG_COLLECTION \<equiv> from_bit 11"
abbreviation EIP2 :: evm_features where "EIP2 \<equiv> from_bit 12"
abbreviation EIP150 :: evm_features where "EIP150 \<equiv> from_bit 13"
abbreviation EIP161 :: evm_features where "EIP161 \<equiv> from_bit 14"
abbreviation EIP2028 :: evm_features where "EIP2028 \<equiv> from_bit 15"
abbreviation EIP2200 :: evm_features where "EIP2200 \<equiv> from_bit 16"
abbreviation EIP2929 :: evm_features where "EIP2929 \<equiv> from_bit 17"
abbreviation EIP3529 :: evm_features where "EIP3529 \<equiv> from_bit 18"
abbreviation EIP3541 :: evm_features where "EIP3541 \<equiv> from_bit 19"
abbreviation EIP4399 :: evm_features where "EIP4399 \<equiv> from_bit 20"
abbreviation EIP3651 :: evm_features where "EIP3651 \<equiv> from_bit 21"
abbreviation EIP3860 :: evm_features where "EIP3860 \<equiv> from_bit 22"
abbreviation EIP6780 :: evm_features where "EIP6780 \<equiv> from_bit 23"
abbreviation EIP7623 :: evm_features where "EIP7623 \<equiv> from_bit 24"
abbreviation EIP7702 :: evm_features where "EIP7702 \<equiv> from_bit 25"
abbreviation EIP8037 :: evm_features where "EIP8037 \<equiv> from_bit 26"
abbreviation EIP7708 :: evm_features where "EIP7708 \<equiv> from_bit 27"
abbreviation EIP8246 :: evm_features where "EIP8246 \<equiv> from_bit 28"
abbreviation EIP2780 :: evm_features where "EIP2780 \<equiv> from_bit 29"

section \<open>Fork tables\<close>

definition AMSTERDAM_CPSB :: u32 where "AMSTERDAM_CPSB = 1530"

definition frontier_features :: "evm_features list" where
  "frontier_features =
   [TX_CHAIN_ID_CHECK, NONCE_CHECK, BALANCE_CHECK, BALANCE_TOP_UP, BLOCK_GAS_LIMIT_CHECK, EIP3607,
    BASE_FEE_CHECK, BLOB_BASE_FEE_CHECK, PRIORITY_FEE_CHECK, FEE_CHARGE, LOG_COLLECTION]"

definition frontier_ops :: "(u8 \<times> instr \<times> u32) list" where
  "frontier_ops =
   [(op_STOP, Control I_stop, gas_ZERO), (op_ADD, Arithmetic I_add, gas_VERYLOW),
    (op_MUL, Arithmetic I_mul, gas_LOW), (op_SUB, Arithmetic I_sub, gas_VERYLOW),
    (op_DIV, Arithmetic I_div, gas_LOW), (op_SDIV, Arithmetic I_sdiv, gas_LOW),
    (op_MOD, Arithmetic I_rem, gas_LOW), (op_SMOD, Arithmetic I_smod, gas_LOW),
    (op_ADDMOD, Arithmetic I_addmod, gas_MID), (op_MULMOD, Arithmetic I_mulmod, gas_MID),
    (op_EXP, Arithmetic I_exp, gas_EXP), (op_SIGNEXTEND, Arithmetic I_signextend, gas_LOW),
    (op_LT, Bitwise I_lt, gas_VERYLOW), (op_GT, Bitwise I_gt, gas_VERYLOW),
    (op_SLT, Bitwise I_slt, gas_VERYLOW), (op_SGT, Bitwise I_sgt, gas_VERYLOW),
    (op_EQ, Bitwise I_eq, gas_VERYLOW), (op_ISZERO, Bitwise I_iszero, gas_VERYLOW),
    (op_AND, Bitwise I_bitand, gas_VERYLOW), (op_OR, Bitwise I_bitor, gas_VERYLOW),
    (op_XOR, Bitwise I_bitxor, gas_VERYLOW), (op_NOT, Bitwise I_not, gas_VERYLOW),
    (op_BYTE, Bitwise I_byte, gas_VERYLOW), (op_KECCAK256, Crypto I_keccak256, gas_KECCAK256),
    (op_ADDRESS, Env I_address, gas_BASE), (op_BALANCE, Env I_balance, 20),
    (op_ORIGIN, Env I_origin, gas_BASE), (op_CALLER, Env I_caller, gas_BASE),
    (op_CALLVALUE, Env I_callvalue, gas_BASE), (op_CALLDATALOAD, Env I_calldataload, gas_VERYLOW),
    (op_CALLDATASIZE, Env I_calldatasize, gas_BASE),
    (op_CALLDATACOPY, Env I_calldatacopy, gas_VERYLOW), (op_CODESIZE, Env I_codesize, gas_BASE),
    (op_CODECOPY, Env I_codecopy, gas_VERYLOW), (op_GASPRICE, Env I_gasprice, gas_BASE),
    (op_EXTCODESIZE, Env I_extcodesize, 20), (op_EXTCODECOPY, Env I_extcodecopy, 20),
    (op_BLOCKHASH, Block I_blockhash, gas_BLOCKHASH), (op_COINBASE, Block I_coinbase, gas_BASE),
    (op_TIMESTAMP, Block I_timestamp, gas_BASE), (op_NUMBER, Block I_block_number, gas_BASE),
    (op_DIFFICULTY, Block I_difficulty, gas_BASE), (op_GASLIMIT, Block I_gaslimit, gas_BASE),
    (op_POP, Stack I_pop, gas_BASE), (op_MLOAD, Memory I_mload, gas_VERYLOW),
    (op_MSTORE, Memory I_mstore, gas_VERYLOW), (op_MSTORE8, Memory I_mstore8, gas_VERYLOW),
    (op_SLOAD, Host I_sload, 50), (op_SSTORE, Host I_sstore, gas_ZERO),
    (op_JUMP, Control I_jump, gas_MID), (op_JUMPI, Control I_jumpi, gas_HIGH),
    (op_PC, Control I_pc, gas_BASE), (op_MSIZE, Memory I_msize, gas_BASE),
    (op_GAS, Control I_gas, gas_BASE), (op_JUMPDEST, Control I_jumpdest, gas_JUMPDEST),
    (op_PUSH1, Stack (I_push 1), gas_VERYLOW), (op_PUSH2, Stack (I_push 2), gas_VERYLOW),
    (op_PUSH3, Stack (I_push 3), gas_VERYLOW), (op_PUSH4, Stack (I_push 4), gas_VERYLOW),
    (op_PUSH5, Stack (I_push 5), gas_VERYLOW), (op_PUSH6, Stack (I_push 6), gas_VERYLOW),
    (op_PUSH7, Stack (I_push 7), gas_VERYLOW), (op_PUSH8, Stack (I_push 8), gas_VERYLOW),
    (op_PUSH9, Stack (I_push 9), gas_VERYLOW), (op_PUSH10, Stack (I_push 10), gas_VERYLOW),
    (op_PUSH11, Stack (I_push 11), gas_VERYLOW), (op_PUSH12, Stack (I_push 12), gas_VERYLOW),
    (op_PUSH13, Stack (I_push 13), gas_VERYLOW), (op_PUSH14, Stack (I_push 14), gas_VERYLOW),
    (op_PUSH15, Stack (I_push 15), gas_VERYLOW), (op_PUSH16, Stack (I_push 16), gas_VERYLOW),
    (op_PUSH17, Stack (I_push 17), gas_VERYLOW), (op_PUSH18, Stack (I_push 18), gas_VERYLOW),
    (op_PUSH19, Stack (I_push 19), gas_VERYLOW), (op_PUSH20, Stack (I_push 20), gas_VERYLOW),
    (op_PUSH21, Stack (I_push 21), gas_VERYLOW), (op_PUSH22, Stack (I_push 22), gas_VERYLOW),
    (op_PUSH23, Stack (I_push 23), gas_VERYLOW), (op_PUSH24, Stack (I_push 24), gas_VERYLOW),
    (op_PUSH25, Stack (I_push 25), gas_VERYLOW), (op_PUSH26, Stack (I_push 26), gas_VERYLOW),
    (op_PUSH27, Stack (I_push 27), gas_VERYLOW), (op_PUSH28, Stack (I_push 28), gas_VERYLOW),
    (op_PUSH29, Stack (I_push 29), gas_VERYLOW), (op_PUSH30, Stack (I_push 30), gas_VERYLOW),
    (op_PUSH31, Stack (I_push 31), gas_VERYLOW), (op_PUSH32, Stack (I_push 32), gas_VERYLOW),
    (op_DUP1, Stack (I_dup 1), gas_VERYLOW), (op_DUP2, Stack (I_dup 2), gas_VERYLOW),
    (op_DUP3, Stack (I_dup 3), gas_VERYLOW), (op_DUP4, Stack (I_dup 4), gas_VERYLOW),
    (op_DUP5, Stack (I_dup 5), gas_VERYLOW), (op_DUP6, Stack (I_dup 6), gas_VERYLOW),
    (op_DUP7, Stack (I_dup 7), gas_VERYLOW), (op_DUP8, Stack (I_dup 8), gas_VERYLOW),
    (op_DUP9, Stack (I_dup 9), gas_VERYLOW), (op_DUP10, Stack (I_dup 10), gas_VERYLOW),
    (op_DUP11, Stack (I_dup 11), gas_VERYLOW), (op_DUP12, Stack (I_dup 12), gas_VERYLOW),
    (op_DUP13, Stack (I_dup 13), gas_VERYLOW), (op_DUP14, Stack (I_dup 14), gas_VERYLOW),
    (op_DUP15, Stack (I_dup 15), gas_VERYLOW), (op_DUP16, Stack (I_dup 16), gas_VERYLOW),
    (op_SWAP1, Stack (I_swap 1), gas_VERYLOW), (op_SWAP2, Stack (I_swap 2), gas_VERYLOW),
    (op_SWAP3, Stack (I_swap 3), gas_VERYLOW), (op_SWAP4, Stack (I_swap 4), gas_VERYLOW),
    (op_SWAP5, Stack (I_swap 5), gas_VERYLOW), (op_SWAP6, Stack (I_swap 6), gas_VERYLOW),
    (op_SWAP7, Stack (I_swap 7), gas_VERYLOW), (op_SWAP8, Stack (I_swap 8), gas_VERYLOW),
    (op_SWAP9, Stack (I_swap 9), gas_VERYLOW), (op_SWAP10, Stack (I_swap 10), gas_VERYLOW),
    (op_SWAP11, Stack (I_swap 11), gas_VERYLOW), (op_SWAP12, Stack (I_swap 12), gas_VERYLOW),
    (op_SWAP13, Stack (I_swap 13), gas_VERYLOW), (op_SWAP14, Stack (I_swap 14), gas_VERYLOW),
    (op_SWAP15, Stack (I_swap 15), gas_VERYLOW), (op_SWAP16, Stack (I_swap 16), gas_VERYLOW),
    (op_LOG0, Host (I_log 0), gas_LOG), (op_LOG1, Host (I_log 1), gas_LOG),
    (op_LOG2, Host (I_log 2), gas_LOG), (op_LOG3, Host (I_log 3), gas_LOG),
    (op_LOG4, Host (I_log 4), gas_LOG), (op_CREATE, System (I_create False), gas_ZERO),
    (op_CALL, System I_call, 40), (op_CALLCODE, System I_callcode, 40),
    (op_RETURN, Control I_return, gas_ZERO), (op_SELFDESTRUCT, System I_selfdestruct, gas_ZERO)]"

definition frontier_dynamic_gas :: "(gas_id \<times> u32) list" where
  "frontier_dynamic_gas =
   [(ExpByte, 10),
    (Logdata, gas_LOGDATA),
    (Logtopic, gas_LOGTOPIC),
    (CopyPerWord, gas_COPY),
    (ExtcodecopyPerWord, gas_COPY),
    (McopyPerWord, gas_COPY),
    (Keccak256PerWord, gas_KECCAK256WORD),
    (MemoryLinearCost, gas_MEMORY),
    (MemoryQuadraticReduction, 512),
    (InitcodePerWord, gas_INITCODE_WORD_COST),
    (Create, gas_CREATE),
    (CallStipendReduction, 64),
    (TransferValueCost, gas_CALLVALUE),
    (NewAccountCost, gas_NEWACCOUNT),
    (SstoreStatic, gas_SSTORE_RESET),
    (SstoreSetWithoutLoadCost, gas_SSTORE_SET - gas_SSTORE_RESET),
    (SstoreSetRefund, gas_SSTORE_SET - gas_SSTORE_RESET),
    (SstoreClearingSlotRefund, gas_REFUND_SSTORE_CLEARS),
    (SelfdestructRefund, gas_SELFDESTRUCT_REFUND),
    (CallStipend, gas_CALL_STIPEND),
    (MaxRefundQuotient, 2),
    (CodeDepositCost, gas_CODEDEPOSIT),
    (TxTokenNonZeroByteMultiplier, gas_NON_ZERO_BYTE_MULTIPLIER),
    (TxTokenCost, gas_STANDARD_TOKEN_COST),
    (TxBaseStipend, 21000)]"

definition homestead_features :: "evm_features list" where
  "homestead_features =
   [EIP2]"

definition homestead_ops :: "(u8 \<times> instr \<times> u32) list" where
  "homestead_ops =
   [(op_DELEGATECALL, System I_delegatecall, 40)]"

definition homestead_dynamic_gas :: "(gas_id \<times> u32) list" where
  "homestead_dynamic_gas =
   [(TxCreateCost, gas_CREATE)]"

definition tangerine_features :: "evm_features list" where
  "tangerine_features =
   [EIP150]"

definition tangerine_static_gas :: "(u8 \<times> u32) list" where
  "tangerine_static_gas =
   [(op_SLOAD, 200), (op_BALANCE, 400), (op_EXTCODESIZE, 700), (op_EXTCODECOPY, 700),
    (op_CREATE, gas_ZERO), (op_CALL, 700), (op_CALLCODE, 700), (op_DELEGATECALL, 700),
    (op_SELFDESTRUCT, 5000)]"

definition tangerine_dynamic_gas :: "(gas_id \<times> u32) list" where
  "tangerine_dynamic_gas =
   [(NewAccountCostForSelfdestruct, gas_NEWACCOUNT)]"

definition spurious_dragon_features :: "evm_features list" where
  "spurious_dragon_features =
   [EIP161, CODE_SIZE_CHECK]"

definition spurious_dragon_static_gas :: "(u8 \<times> u32) list" where
  "spurious_dragon_static_gas =
   [(op_EXP, gas_EXP)]"

definition spurious_dragon_dynamic_gas :: "(gas_id \<times> u32) list" where
  "spurious_dragon_dynamic_gas =
   [(ExpByte, 50)]"

definition byzantium_ops :: "(u8 \<times> instr \<times> u32) list" where
  "byzantium_ops =
   [(op_RETURNDATASIZE, Env I_returndatasize, gas_BASE),
    (op_RETURNDATACOPY, Env I_returndatacopy, gas_VERYLOW),
    (op_STATICCALL, System I_staticcall, 700), (op_REVERT, Control I_revert, gas_ZERO)]"

definition petersburg_ops :: "(u8 \<times> instr \<times> u32) list" where
  "petersburg_ops =
   [(op_SHL, Bitwise I_shl, gas_VERYLOW), (op_SHR, Bitwise I_shr, gas_VERYLOW),
    (op_SAR, Bitwise I_sar, gas_VERYLOW), (op_EXTCODEHASH, Env I_extcodehash, 400),
    (op_CREATE2, System (I_create True), gas_ZERO)]"

definition istanbul_features :: "evm_features list" where
  "istanbul_features =
   [EIP2028, EIP2200]"

definition istanbul_ops :: "(u8 \<times> instr \<times> u32) list" where
  "istanbul_ops =
   [(op_CHAINID, Block I_chainid, gas_BASE), (op_SELFBALANCE, Block I_selfbalance, gas_LOW)]"

definition istanbul_static_gas :: "(u8 \<times> u32) list" where
  "istanbul_static_gas =
   [(op_SLOAD, gas_ISTANBUL_SLOAD_GAS), (op_BALANCE, 700), (op_EXTCODEHASH, 700),
    (op_SSTORE, gas_ZERO)]"

definition istanbul_dynamic_gas :: "(gas_id \<times> u32) list" where
  "istanbul_dynamic_gas =
   [(SstoreStatic, gas_ISTANBUL_SLOAD_GAS),
    (SstoreSetWithoutLoadCost, gas_SSTORE_SET - gas_ISTANBUL_SLOAD_GAS),
    (SstoreResetWithoutColdLoadCost, gas_SSTORE_RESET - gas_ISTANBUL_SLOAD_GAS),
    (SstoreSetRefund, gas_SSTORE_SET - gas_ISTANBUL_SLOAD_GAS),
    (SstoreResetRefund, gas_SSTORE_RESET - gas_ISTANBUL_SLOAD_GAS),
    (TxTokenNonZeroByteMultiplier, gas_NON_ZERO_BYTE_MULTIPLIER_ISTANBUL)]"

definition berlin_features :: "evm_features list" where
  "berlin_features =
   [EIP2929]"

definition berlin_static_gas :: "(u8 \<times> u32) list" where
  "berlin_static_gas =
   [(op_SLOAD, gas_WARM_STORAGE_READ_COST), (op_BALANCE, gas_WARM_STORAGE_READ_COST),
    (op_EXTCODESIZE, gas_WARM_STORAGE_READ_COST), (op_EXTCODEHASH, gas_WARM_STORAGE_READ_COST),
    (op_EXTCODECOPY, gas_WARM_STORAGE_READ_COST), (op_SSTORE, gas_ZERO),
    (op_CALL, gas_WARM_STORAGE_READ_COST), (op_CALLCODE, gas_WARM_STORAGE_READ_COST),
    (op_DELEGATECALL, gas_WARM_STORAGE_READ_COST), (op_STATICCALL, gas_WARM_STORAGE_READ_COST),
    (op_SELFDESTRUCT, 5000)]"

definition berlin_dynamic_gas :: "(gas_id \<times> u32) list" where
  "berlin_dynamic_gas =
   [(SstoreStatic, gas_WARM_STORAGE_READ_COST),
    (ColdAccountAdditionalCost, gas_COLD_ACCOUNT_ACCESS_COST_ADDITIONAL),
    (ColdStorageAdditionalCost, gas_COLD_SLOAD_COST - gas_WARM_STORAGE_READ_COST),
    (ColdStorageCost, gas_COLD_SLOAD_COST),
    (WarmStorageReadCost, gas_WARM_STORAGE_READ_COST),
    (SstoreResetWithoutColdLoadCost, gas_WARM_SSTORE_RESET - gas_WARM_STORAGE_READ_COST),
    (SstoreSetWithoutLoadCost, gas_SSTORE_SET - gas_WARM_STORAGE_READ_COST),
    (SstoreSetRefund, gas_SSTORE_SET - gas_WARM_STORAGE_READ_COST),
    (SstoreResetRefund, gas_WARM_SSTORE_RESET - gas_WARM_STORAGE_READ_COST),
    (TxAccessListAddressCost, gas_EIP2930_ACCESS_LIST_ADDRESS),
    (TxAccessListStorageKeyCost, gas_EIP2930_ACCESS_LIST_STORAGE_KEY)]"

definition london_features :: "evm_features list" where
  "london_features =
   [EIP3529, EIP3541]"

definition london_ops :: "(u8 \<times> instr \<times> u32) list" where
  "london_ops =
   [(op_BASEFEE, Block I_basefee, gas_BASE)]"

definition london_static_gas :: "(u8 \<times> u32) list" where
  "london_static_gas =
   [(op_SSTORE, gas_ZERO), (op_SELFDESTRUCT, 5000)]"

definition london_dynamic_gas :: "(gas_id \<times> u32) list" where
  "london_dynamic_gas =
   [(SstoreClearingSlotRefund, gas_WARM_SSTORE_RESET + gas_EIP2930_ACCESS_LIST_STORAGE_KEY),
    (SelfdestructRefund, 0),
    (MaxRefundQuotient, 5)]"

definition merge_features :: "evm_features list" where
  "merge_features =
   [EIP4399]"

definition shanghai_features :: "evm_features list" where
  "shanghai_features =
   [EIP3651, EIP3860]"

definition shanghai_ops :: "(u8 \<times> instr \<times> u32) list" where
  "shanghai_ops =
   [(op_PUSH0, Stack (I_push 0), gas_BASE)]"

definition shanghai_static_gas :: "(u8 \<times> u32) list" where
  "shanghai_static_gas =
   [(op_CREATE, gas_ZERO), (op_CREATE2, gas_ZERO)]"

definition shanghai_dynamic_gas :: "(gas_id \<times> u32) list" where
  "shanghai_dynamic_gas =
   [(TxInitcodeCost, gas_INITCODE_WORD_COST)]"

definition cancun_features :: "evm_features list" where
  "cancun_features =
   [EIP6780]"

definition cancun_ops :: "(u8 \<times> instr \<times> u32) list" where
  "cancun_ops =
   [(op_BLOBHASH, Block I_blobhash, gas_VERYLOW), (op_BLOBBASEFEE, Block I_blobbasefee, gas_BASE),
    (op_TLOAD, Host I_tload, gas_WARM_STORAGE_READ_COST),
    (op_TSTORE, Host I_tstore, gas_WARM_STORAGE_READ_COST),
    (op_MCOPY, Memory I_mcopy, gas_VERYLOW)]"

definition prague_features :: "evm_features list" where
  "prague_features =
   [EIP7623, EIP7702]"

definition prague_dynamic_gas :: "(gas_id \<times> u32) list" where
  "prague_dynamic_gas =
   [(TxEip7702PerEmptyAccountCost, gas_EIP7702_PER_EMPTY_ACCOUNT_COST),
    (TxEip7702AuthRefund, gas_EIP7702_PER_EMPTY_ACCOUNT_COST - gas_EIP7702_PER_AUTH_BASE_COST),
    (TxFloorCostPerToken, gas_TOTAL_COST_FLOOR_PER_TOKEN),
    (TxFloorCostBase, 21000),
    (TxFloorZeroByteMultiplier, 1)]"

definition osaka_ops :: "(u8 \<times> instr \<times> u32) list" where
  "osaka_ops =
   [(op_CLZ, Bitwise I_clz, gas_LOW)]"

definition amsterdam_features :: "evm_features list" where
  "amsterdam_features =
   [EIP8037, EIP7708, EIP8246, EIP2780]"

definition amsterdam_ops :: "(u8 \<times> instr \<times> u32) list" where
  "amsterdam_ops =
   [(op_DUPN, Stack I_dupn, gas_VERYLOW), (op_SWAPN, Stack I_swapn, gas_VERYLOW),
    (op_EXCHANGE, Stack I_exchange, gas_VERYLOW), (op_SLOTNUM, Block I_slotnum, gas_BASE)]"

definition amsterdam_static_gas :: "(u8 \<times> u32) list" where
  "amsterdam_static_gas =
   [(op_CREATE, gas_ZERO), (op_CREATE2, gas_ZERO), (op_SSTORE, gas_ZERO),
    (op_CALL, gas_WARM_STORAGE_READ_COST), (op_CALLCODE, gas_WARM_STORAGE_READ_COST),
    (op_DELEGATECALL, gas_WARM_STORAGE_READ_COST), (op_STATICCALL, gas_WARM_STORAGE_READ_COST),
    (op_EXTCODESIZE, gas_WARM_STORAGE_READ_COST + gas_WARM_STORAGE_READ_COST),
    (op_EXTCODECOPY, gas_WARM_STORAGE_READ_COST + gas_WARM_STORAGE_READ_COST),
    (op_SELFDESTRUCT, 5000)]"

definition amsterdam_dynamic_gas :: "(gas_id \<times> u32) list" where
  "amsterdam_dynamic_gas =
   [(CodeDepositCost, 0),
    (SstoreSetState, 64 * AMSTERDAM_CPSB),
    (NewAccountState, 120 * AMSTERDAM_CPSB),
    (CodeDepositState, AMSTERDAM_CPSB),
    (CreateState, 120 * AMSTERDAM_CPSB),
    (TxFloorCostPerToken, gas_TOTAL_COST_FLOOR_PER_TOKEN_AMSTERDAM),
    (TxFloorCostBase, gas_EIP2780_TX_BASE_COST),
    (TxFloorZeroByteMultiplier, gas_NON_ZERO_BYTE_MULTIPLIER_ISTANBUL),
    (TxAccessListFloorByteMultiplier, gas_EIP7981_ACCESS_LIST_FLOOR_BYTE_MULTIPLIER),
    (TxEip7702AuthRefund, 0),
    (TxEip7702PerAuthState, 23 * AMSTERDAM_CPSB),
    (ColdAccountAdditionalCost, gas_EIP8038_COLD_ACCOUNT_ACCESS_ADDITIONAL),
    (ColdStorageAdditionalCost, gas_EIP8038_COLD_STORAGE_ACCESS_ADDITIONAL),
    (ColdStorageCost, gas_EIP8038_COLD_STORAGE_ACCESS_ADDITIONAL),
    (TransferValueCost, gas_EIP8038_CALL_VALUE),
    (NewAccountCost, 0),
    (NewAccountCostForSelfdestruct, gas_EIP8038_ACCOUNT_WRITE),
    (SstoreSetWithoutLoadCost, gas_EIP8038_STORAGE_WRITE),
    (SstoreResetWithoutColdLoadCost, gas_EIP8038_STORAGE_WRITE),
    (SstoreSetRefund, gas_EIP8038_STORAGE_WRITE),
    (SstoreResetRefund, gas_EIP8038_STORAGE_WRITE),
    (SstoreClearingSlotRefund, gas_EIP8038_STORAGE_CLEAR_REFUND),
    (Create, gas_EIP8038_CREATE_ACCESS),
    (TxCreateCost, gas_EIP8038_CREATE_ACCESS),
    (TxAccessListAddressCost, gas_EIP8038_ACCESS_LIST_ADDRESS_COST + 20 * gas_EIP7981_ACCESS_LIST_DATA_COST_PER_BYTE),
    (TxAccessListStorageKeyCost, gas_EIP8038_ACCESS_LIST_STORAGE_KEY_COST + 32 * gas_EIP7981_ACCESS_LIST_DATA_COST_PER_BYTE),
    (TxEip7702PerEmptyAccountCost, gas_EIP8038_EIP7702_PER_AUTH_BASE_REGULAR),
    (TxBaseStipend, gas_EIP2780_TX_BASE_COST),
    (TxValueCost, gas_EIP2780_TX_VALUE_COST),
    (TxCreateAccessCost, gas_EIP8038_CREATE_ACCESS)]"

section \<open>Opcode configuration\<close>

record opcode_config =
  static_gas_table :: "u8 \<Rightarrow> u16"
  instruction_impls :: "u8 \<Rightarrow> instr option"
  revisions :: "u8 \<Rightarrow> u8"
  instruction_sets :: "u8 \<Rightarrow> u8"

definition opcode_config_empty :: opcode_config where
  "opcode_config_empty =
    \<lparr>static_gas_table = (\<lambda>_. 0), instruction_impls = (\<lambda>_. None), revisions = (\<lambda>_. 0),
     instruction_sets = (\<lambda>_. 0)\<rparr>"

definition bump_revision :: "u8 \<Rightarrow> opcode_config \<Rightarrow> opcode_config" where
  "bump_revision opcode v = v\<lparr>revisions := (revisions v)(opcode := revisions v opcode + 1)\<rparr>"

definition set_static_gas :: "u8 \<Rightarrow> u16 \<Rightarrow> opcode_config \<Rightarrow> opcode_config" where
  "set_static_gas opcode cost v =
    (if static_gas_table v opcode \<noteq> cost
     then bump_revision opcode (v\<lparr>static_gas_table := (static_gas_table v)(opcode := cost)\<rparr>)
     else v)"

definition set_instruction :: "u8 \<Rightarrow> instr \<Rightarrow> u16 \<Rightarrow> opcode_config \<Rightarrow> opcode_config" where
  "set_instruction opcode i cost v =
    (let v = set_static_gas opcode cost v;
         v = v\<lparr>instruction_sets := (instruction_sets v)(opcode := instruction_sets v opcode + 1)\<rparr>
     in bump_revision opcode (v\<lparr>instruction_impls := (instruction_impls v)(opcode \<mapsto> i)\<rparr>))"

definition is_defined :: "opcode_config \<Rightarrow> u8 \<Rightarrow> bool" where
  "is_defined v opcode = (instruction_impls v opcode \<noteq> None)"

definition config_instruction :: "opcode_config \<Rightarrow> u8 \<Rightarrow> instr" where
  "config_instruction v opcode =
    (case instruction_impls v opcode of Some i \<Rightarrow> i | None \<Rightarrow> Control I_invalid)"

definition is_overridden :: "opcode_config \<Rightarrow> opcode_config \<Rightarrow> u8 \<Rightarrow> bool" where
  "is_overridden v base opcode = (instruction_sets v opcode \<noteq> instruction_sets base opcode)"

section \<open>Base versions\<close>

definition apply_opcode_config ::
    "(u8 \<times> instr \<times> u32) list \<Rightarrow> (u8 \<times> u32) list \<Rightarrow> opcode_config \<Rightarrow> opcode_config" where
  "apply_opcode_config ops costs v =
    fold (\<lambda>(opcode, cost). set_static_gas opcode (ucast cost)) costs
      (fold (\<lambda>(opcode, i, cost). set_instruction opcode i (ucast cost)) ops v)"

definition FORK_OPS :: "(spec_id \<times> (u8 \<times> instr \<times> u32) list \<times> (u8 \<times> u32) list) list" where
  "FORK_OPS =
   [(FRONTIER, frontier_ops, []),
    (HOMESTEAD, homestead_ops, []),
    (TANGERINE, [], tangerine_static_gas),
    (SPURIOUS_DRAGON, [], spurious_dragon_static_gas),
    (BYZANTIUM, byzantium_ops, []),
    (PETERSBURG, petersburg_ops, []),
    (ISTANBUL, istanbul_ops, istanbul_static_gas),
    (BERLIN, [], berlin_static_gas),
    (LONDON, london_ops, london_static_gas),
    (SHANGHAI, shanghai_ops, shanghai_static_gas),
    (CANCUN, cancun_ops, []),
    (OSAKA, osaka_ops, []),
    (AMSTERDAM, amsterdam_ops, amsterdam_static_gas)]"

definition FORK_FEATURES :: "(spec_id \<times> evm_features list) list" where
  "FORK_FEATURES =
   [(FRONTIER, frontier_features),
    (HOMESTEAD, homestead_features),
    (TANGERINE, tangerine_features),
    (SPURIOUS_DRAGON, spurious_dragon_features),
    (ISTANBUL, istanbul_features),
    (BERLIN, berlin_features),
    (LONDON, london_features),
    (MERGE, merge_features),
    (SHANGHAI, shanghai_features),
    (CANCUN, cancun_features),
    (PRAGUE, prague_features),
    (AMSTERDAM, amsterdam_features)]"

definition FORK_DYNAMIC_GAS :: "(spec_id \<times> (gas_id \<times> u32) list) list" where
  "FORK_DYNAMIC_GAS =
   [(FRONTIER, frontier_dynamic_gas),
    (HOMESTEAD, homestead_dynamic_gas),
    (TANGERINE, tangerine_dynamic_gas),
    (SPURIOUS_DRAGON, spurious_dragon_dynamic_gas),
    (ISTANBUL, istanbul_dynamic_gas),
    (BERLIN, berlin_dynamic_gas),
    (LONDON, london_dynamic_gas),
    (SHANGHAI, shanghai_dynamic_gas),
    (PRAGUE, prague_dynamic_gas),
    (AMSTERDAM, amsterdam_dynamic_gas)]"

definition base_features :: "spec_id \<Rightarrow> evm_features" where
  "base_features s =
    fold (\<lambda>(fork, fs) f. if enables s fork then fold (\<lambda>x f. features_insert f x) fs f else f)
      FORK_FEATURES 0"

definition base_gas_params :: "spec_id \<Rightarrow> gas_params" where
  "base_gas_params s =
    fold (\<lambda>(fork, tbl) gp. if enables s fork then fold (\<lambda>(i, c) gp. gp_set gp i c) tbl gp else gp)
      FORK_DYNAMIC_GAS gp_empty"

definition base_opcode_config :: "spec_id \<Rightarrow> opcode_config" where
  "base_opcode_config s =
    fold (\<lambda>(fork, ops, costs) v. if enables s fork then apply_opcode_config ops costs v else v)
      FORK_OPS opcode_config_empty"

record version =
  gas_params :: gas_params
  features :: evm_features
  chain_id :: u64
  tx_gas_limit_cap :: u64
  memory_limit :: u64
  max_code_size :: usize
  max_initcode_size :: usize
  max_blobs_per_tx :: usize
  initial_call_depth :: u16

definition CALL_DEPTH_LIMIT :: u16 where
  "CALL_DEPTH_LIMIT = 1024"

definition MAX_CODE_SIZE :: usize where
  "MAX_CODE_SIZE = 0x6000"

definition MAX_INITCODE_SIZE :: usize where
  "MAX_INITCODE_SIZE = 2 * MAX_CODE_SIZE"

definition MAX_CODE_SIZE_AMSTERDAM :: usize where
  "MAX_CODE_SIZE_AMSTERDAM = 0x10000"

definition MAX_INITCODE_SIZE_AMSTERDAM :: usize where
  "MAX_INITCODE_SIZE_AMSTERDAM = 2 * MAX_CODE_SIZE_AMSTERDAM"

definition MAX_TX_TOTAL_GAS_LIMIT_AMSTERDAM :: u64 where
  "MAX_TX_TOTAL_GAS_LIMIT_AMSTERDAM = push_bit 32 1 - 1"

definition feature :: "version \<Rightarrow> evm_features \<Rightarrow> bool" where
  "feature v f = features_contains (features v) f"

definition tx_gas_caps :: "version \<Rightarrow> u64 \<times> u64" where
  "tx_gas_caps v =
    (if feature v EIP8037 then (MAX_TX_TOTAL_GAS_LIMIT_AMSTERDAM, tx_gas_limit_cap v)
     else (tx_gas_limit_cap v, - 1))"

definition assert_valid :: "version \<Rightarrow> bool" where
  "assert_valid v =
    (initial_call_depth v < - 1 - CALL_DEPTH_LIMIT \<and> gp_get (gas_params v) MaxRefundQuotient \<noteq> 0)"

definition max_call_depth :: "version \<Rightarrow> u16" where
  "max_call_depth v = initial_call_depth v + CALL_DEPTH_LIMIT"

definition base_tx_gas_limit_cap :: "u64 \<Rightarrow> spec_id \<Rightarrow> u64" where
  "base_tx_gas_limit_cap MAX_TX_GAS_LIMIT_OSAKA s =
    (if enables s OSAKA then MAX_TX_GAS_LIMIT_OSAKA else - 1)"

definition base_max_code_size :: "spec_id \<Rightarrow> usize" where
  "base_max_code_size s = (if enables s AMSTERDAM then MAX_CODE_SIZE_AMSTERDAM else MAX_CODE_SIZE)"

definition base_max_initcode_size :: "spec_id \<Rightarrow> usize" where
  "base_max_initcode_size s =
    (if enables s AMSTERDAM then MAX_INITCODE_SIZE_AMSTERDAM else MAX_INITCODE_SIZE)"

definition base_max_blobs_per_tx :: "usize \<Rightarrow> spec_id \<Rightarrow> usize" where
  "base_max_blobs_per_tx MAX_BLOBS_PER_BLOCK_DENCUN s =
    (if enables s PRAGUE \<and> \<not> enables s OSAKA then 9 else MAX_BLOBS_PER_BLOCK_DENCUN)"

definition base_version :: "u64 \<Rightarrow> usize \<Rightarrow> spec_id \<Rightarrow> version" where
  "base_version MAX_TX_GAS_LIMIT_OSAKA MAX_BLOBS_PER_BLOCK_DENCUN s =
    \<lparr>gas_params = base_gas_params s, features = base_features s, chain_id = 1,
     tx_gas_limit_cap = base_tx_gas_limit_cap MAX_TX_GAS_LIMIT_OSAKA s,
     memory_limit = push_bit 32 1 - 1,
     max_code_size = base_max_code_size s, max_initcode_size = base_max_initcode_size s,
     max_blobs_per_tx = base_max_blobs_per_tx MAX_BLOBS_PER_BLOCK_DENCUN s,
     initial_call_depth = 0\<rparr>"

section \<open>Agreement of the fork tables with the opcode table\<close>

definition known_opcode :: "u8 \<Rightarrow> instr \<Rightarrow> bool" where
  "known_opcode opcode i = (map_option fst (map_of OPCODES opcode) = Some i)"

definition impls_known :: "opcode_config \<Rightarrow> bool" where
  "impls_known v = (\<forall>opcode i. instruction_impls v opcode = Some i \<longrightarrow> known_opcode opcode i)"

definition OPCODE_IMPLS :: "(u8 \<times> instr) list" where
  "OPCODE_IMPLS = map (\<lambda>(opcode, i, info). (opcode, i)) OPCODES"

section \<open>Lemmas on the tables\<close>

lemma enables_iff: "enables s t \<longleftrightarrow> t \<le> s"
  by (simp add: enables_def less_eq_spec_id_def)

lemma enables_trans: "enables a b \<Longrightarrow> enables b c \<Longrightarrow> enables a c"
  unfolding enables_iff by (rule order_trans)

lemma base_divisors_all:
  "list_all (\<lambda>s. gp_get (base_gas_params s) MemoryQuadraticReduction \<noteq> 0
     \<and> gp_get (base_gas_params s) CallStipendReduction \<noteq> 0
     \<and> gp_get (base_gas_params s) MaxRefundQuotient \<noteq> 0) SPEC_IDS"
  by code_simp

lemma base_refunds_all:
  "list_all (\<lambda>s. enables s ISTANBUL \<longrightarrow> balanced_refunds (base_gas_params s)) SPEC_IDS"
  by code_simp

lemma spec_in_SPEC_IDS: "s \<in> set SPEC_IDS"
  by (cases s) (simp_all add: SPEC_IDS_def)

lemma opcodes_sorted: "sorted_wrt (<) (map fst OPCODES)"
proof -
  have "successively (<) (map fst OPCODES)"
    by code_simp
  then show ?thesis
    by (simp add: successively_conv_sorted_wrt)
qed

lemma fork_ops_listed:
  "list_all (\<lambda>(_, ops, _). subseq (map (\<lambda>(opcode, i, cost). (opcode, i)) ops) OPCODE_IMPLS
     \<or> list_all (\<lambda>(opcode, i, cost). (opcode, i) \<in> set OPCODE_IMPLS) ops) FORK_OPS"
  by code_simp

lemma listed_known: "(opcode, i) \<in> set OPCODE_IMPLS \<Longrightarrow> known_opcode opcode i"
proof -
  assume "(opcode, i) \<in> set OPCODE_IMPLS"
  then obtain info where "(opcode, i, info) \<in> set OPCODES"
    by (auto simp: OPCODE_IMPLS_def)
  moreover have "distinct (map fst OPCODES)"
    using opcodes_sorted by (simp add: strict_sorted_iff)
  ultimately show ?thesis
    by (simp add: known_opcode_def)
qed

lemma fork_ops_known:
  "list_all (\<lambda>(_, ops, _). list_all (\<lambda>(opcode, i, cost). known_opcode opcode i) ops) FORK_OPS"
  using fork_ops_listed
  by (force simp: list_all_iff intro: listed_known dest: list_emb_set)

lemma impls_bump [simp]: "instruction_impls (bump_revision opcode v) = instruction_impls v"
  by (simp add: bump_revision_def)

lemma impls_set_static_gas [simp]: "instruction_impls (set_static_gas opcode cost v) = instruction_impls v"
  by (simp add: set_static_gas_def)

lemma impls_set_instruction [simp]:
  "instruction_impls (set_instruction opcode i cost v) = (instruction_impls v)(opcode \<mapsto> i)"
  by (simp add: set_instruction_def Let_def)

lemma impls_fold_static_gas [simp]:
  "instruction_impls (fold (\<lambda>(opcode, cost). set_static_gas opcode (ucast cost)) costs v) = instruction_impls v"
  by (induction costs arbitrary: v) auto

lemma impls_fold_set:
  "instruction_impls (fold (\<lambda>(opcode, i, cost). set_instruction opcode i (ucast cost)) ops v) opcode =
    (case map_of (rev (map (\<lambda>(a, b, c). (a, b)) ops)) opcode of
       Some i \<Rightarrow> Some i | None \<Rightarrow> instruction_impls v opcode)"
  by (induction ops arbitrary: v) (auto split: option.splits simp: map_add_def)

lemma impls_apply:
  "instruction_impls (apply_opcode_config ops costs v) opcode =
    (case map_of (rev (map (\<lambda>(a, b, c). (a, b)) ops)) opcode of
       Some i \<Rightarrow> Some i | None \<Rightarrow> instruction_impls v opcode)"
  by (simp add: apply_opcode_config_def impls_fold_set)

lemma impls_fold_forks:
  "instruction_impls (fold (\<lambda>(fork, ops, costs) v.
      if enables s fork then apply_opcode_config ops costs v else v) forks v) opcode =
    fold (\<lambda>(fork, ops, costs) r. if enables s fork
        then case map_of (rev (map (\<lambda>(a, b, c). (a, b)) ops)) opcode of Some i \<Rightarrow> Some i | None \<Rightarrow> r
        else r) forks (instruction_impls v opcode)"
  by (induction forks arbitrary: v) (auto simp: impls_apply)

lemma base_opcode_lookup:
  "instruction_impls (base_opcode_config s) opcode =
    fold (\<lambda>(fork, ops, costs) r. if enables s fork
        then case map_of (rev (map (\<lambda>(a, b, c). (a, b)) ops)) opcode of Some i \<Rightarrow> Some i | None \<Rightarrow> r
        else r) FORK_OPS None"
  by (simp add: base_opcode_config_def impls_fold_forks opcode_config_empty_def)

lemma apply_known:
  assumes "list_all (\<lambda>(opcode, i, cost). known_opcode opcode i) ops" "impls_known v"
  shows "impls_known (apply_opcode_config ops costs v)"
  using assms
  by (auto simp: impls_known_def impls_apply list_all_iff split: option.splits
      dest!: map_of_SomeD)

lemma fold_forks_known:
  assumes "list_all (\<lambda>(_, ops, _). list_all (\<lambda>(opcode, i, cost). known_opcode opcode i) ops) forks"
    and "impls_known v"
  shows "impls_known (fold (\<lambda>(fork, ops, costs) v.
      if enables s fork then apply_opcode_config ops costs v else v) forks v)"
  using assms by (induction forks arbitrary: v) (auto simp: apply_known)

lemma base_impls_known: "impls_known (base_opcode_config s)"
  unfolding base_opcode_config_def
proof (rule fold_forks_known)
  show "list_all (\<lambda>(_, ops, _). list_all (\<lambda>(opcode, i, cost). known_opcode opcode i) ops) FORK_OPS"
    by (rule fork_ops_known)
  show "impls_known opcode_config_empty"
    by (simp add: impls_known_def opcode_config_empty_def)
qed

lemma apply_grows: "is_defined v opcode \<Longrightarrow> is_defined (apply_opcode_config ops costs v) opcode"
  by (auto simp: is_defined_def impls_apply split: option.splits)

lemma apply_mono:
  assumes "is_defined v opcode \<Longrightarrow> is_defined w opcode" "is_defined (apply_opcode_config ops costs v) opcode"
  shows "is_defined (apply_opcode_config ops costs w) opcode"
  using assms
  by (auto simp: is_defined_def impls_apply split: option.splits)

lemma fold_forks_mono:
  assumes "enables t s" "is_defined v opcode \<Longrightarrow> is_defined w opcode"
    and "is_defined (fold (\<lambda>(fork, ops, costs) v.
      if enables s fork then apply_opcode_config ops costs v else v) forks v) opcode"
  shows "is_defined (fold (\<lambda>(fork, ops, costs) v.
      if enables t fork then apply_opcode_config ops costs v else v) forks w) opcode"
  using assms(2,3)
proof (induction forks arbitrary: v w)
  case (Cons x forks)
  obtain fork ops costs where x: "x = (fork, ops, costs)"
    by (cases x) auto
  show ?case
    using Cons.prems Cons.IH [of "apply_opcode_config ops costs v" "apply_opcode_config ops costs w"]
      Cons.IH [of v "apply_opcode_config ops costs w"] Cons.IH [of v w]
      apply_mono [of v opcode w ops costs] apply_grows [of w opcode ops costs]
      enables_trans [OF assms(1), of fork]
    by (auto simp: x split: if_splits)
qed simp


section \<open>Properties\<close>

text \<open>
  C20: Every base version can be installed and run: it passes the validity check, and
  the divisors of the memory, call-stipend and refund formulas are non-zero in every
  specification, so none of those divisions can panic.
\<close>

theorem base_version_valid:
  "assert_valid (base_version osaka_cap dencun_blobs s)
   \<and> gp_get (gas_params (base_version osaka_cap dencun_blobs s)) MemoryQuadraticReduction \<noteq> 0
   \<and> gp_get (gas_params (base_version osaka_cap dencun_blobs s)) CallStipendReduction \<noteq> 0
   \<and> gp_get (gas_params (base_version osaka_cap dencun_blobs s)) MaxRefundQuotient \<noteq> 0"
proof -
  have "(0 :: u16) < - 1 - CALL_DEPTH_LIMIT"
    by code_simp
  then show ?thesis
    using base_divisors_all spec_in_SPEC_IDS [of s]
    by (simp add: list_all_iff base_version_def assert_valid_def)
qed

text \<open>
  C18: In every specification with EIP-2200 net metering, the gas a transaction pays
  for its writes to one warm slot, charges minus refunds, is the static charge of each
  write plus a price that depends only on the slot's original and final value: on the values
  in between nothing depends, and returning to the original value costs the static charges alone.
\<close>

theorem sstore_net_gas_path_independent:
  assumes "enables s ISTANBUL"
  shows "sstore_net_gas (base_gas_params s) orig orig vs =
    int (length vs) * uint (gp_get (base_gas_params s) SstoreStatic)
    + slot_price (base_gas_params s) orig (last (orig # vs))"
proof -
  have "balanced_refunds (base_gas_params s)"
    using base_refunds_all spec_in_SPEC_IDS [of s] assms by (auto simp: list_all_iff)
  then show ?thesis
    by (simp add: sstore_net_gas_eq slot_price_def)
qed

theorem sstore_net_gas_path_independent_witness:
  "sstore_net_gas (base_gas_params LONDON) 5 5 [7, 0, 9, 0, 5] = 5 * 100"
proof -
  have "gp_get (base_gas_params LONDON) SstoreStatic = 100"
    by code_simp
  then show ?thesis
    using sstore_net_gas_path_independent [of LONDON 5 "[7, 0, 9, 0, 5]"]
    by (simp add: enables_def slot_price_def)
qed

text \<open>
  C19: The base opcode configuration of every specification dispatches a defined
  opcode to the implementation the opcode table names for that byte.
\<close>

theorem base_config_matches_opcode_table:
  assumes "instruction_impls (base_opcode_config s) opcode = Some i"
  shows "\<exists>info. map_of OPCODES opcode = Some (i, info)"
  using base_impls_known [of s] assms by (auto simp: impls_known_def known_opcode_def)

theorem base_config_matches_opcode_table_witness:
  "\<exists>info. map_of OPCODES op_ADD = Some (Arithmetic I_add, info)"
proof -
  have "instruction_impls (base_opcode_config FRONTIER) op_ADD = Some (Arithmetic I_add)"
    unfolding base_opcode_lookup by code_simp
  then show ?thesis
    by (rule base_config_matches_opcode_table)
qed

text \<open>
  C27: A later specification defines every opcode an earlier one defines.
\<close>

theorem opcodes_stay_defined:
  assumes "enables t s" "is_defined (base_opcode_config s) opcode"
  shows "is_defined (base_opcode_config t) opcode"
  using fold_forks_mono [OF assms(1)] assms(2) unfolding base_opcode_config_def by blast

theorem opcodes_stay_defined_witness:
  "is_defined (base_opcode_config PRAGUE) op_DELEGATECALL"
proof (rule opcodes_stay_defined)
  show "enables PRAGUE HOMESTEAD"
    by (simp add: enables_def)
  show "is_defined (base_opcode_config HOMESTEAD) op_DELEGATECALL"
    unfolding is_defined_def base_opcode_lookup by code_simp
qed

end
