(* ===== verification/Evm_Bytecode.thy ===== *)
theory Evm_Bytecode
  imports Opcodes Evm_Utils
begin

text \<open>
  Bytecode containers (\<open>bytecode/mod.rs\<close>), the jump table
  (\<open>bytecode/jump_table.rs\<close>) and legacy padding and jump destination analysis
  (\<open>bytecode/analysis.rs\<close>).  Offsets into a byte slice are natural numbers: a slice
  never holds more than \<open>isize::MAX\<close> bytes, so no offset computed here wraps.  The
  block loop of the vectorised analysis is modelled for an arbitrary sequence of kernels; a
  kernel's own lane arithmetic is CPU intrinsics and enters through \<open>kernel_ok\<close>, the
  contract documented on \<open>Kernel::block\<close>.  The two lazily filled caches
  (\<open>OnceLock\<close>) are option-valued fields.
\<close>

section \<open>Jump tables\<close>

record jump_table =
  jt_table :: bytes
  jt_bit_len :: nat

definition jump_table_new :: "nat \<Rightarrow> jump_table" where
  "jump_table_new bit_len = \<lparr>jt_table = replicate ((bit_len + 7) div 8) 0, jt_bit_len = bit_len\<rparr>"

definition jump_table_default :: jump_table where
  "jump_table_default = \<lparr>jt_table = [], jt_bit_len = 0\<rparr>"

text \<open>\<open>size_assert\<close> panics when the slice has too few bits.\<close>

definition jump_table_from_slice :: "bytes \<Rightarrow> nat \<Rightarrow> unit fault + jump_table" where
  "jump_table_from_slice sl bit_len =
     (if bit_len \<le> length sl * 8 then Inr \<lparr>jt_table = sl, jt_bit_len = bit_len\<rparr> else Inl Panic)"

definition table_bit :: "bytes \<Rightarrow> nat \<Rightarrow> bool" where
  "table_bit table i \<longleftrightarrow> and (table ! (i div 8)) (push_bit (i mod 8) 1) \<noteq> 0"

definition is_valid :: "jump_table \<Rightarrow> nat \<Rightarrow> bool" where
  "is_valid jt pc = (if jt_bit_len jt \<le> pc then False else table_bit (jt_table jt) pc)"

section \<open>Jump destination analysis\<close>

definition mark :: "bytes \<Rightarrow> nat \<Rightarrow> bytes" where
  "mark table offset =
     table[offset div 8 := or (table ! (offset div 8)) (push_bit (offset mod 8) 1)]"

function analyze_scalar :: "bytes \<Rightarrow> bytes \<Rightarrow> nat \<Rightarrow> bytes" where
  "analyze_scalar code table pc =
     (if pc < length code then
        let last_byte = code ! pc in
        if last_byte = op_JUMPDEST then analyze_scalar code (mark table pc) (pc + 1)
        else
          let push_offset = last_byte - op_PUSH1 in
          if push_offset < 32 then analyze_scalar code table (pc + (unat push_offset + 2))
          else analyze_scalar code table (pc + 1)
      else table)"
  by pat_completeness auto
termination by (relation "measure (\<lambda>(code, table, pc). length code - pc)") auto

declare analyze_scalar.simps [simp del]

text \<open>
  A vectorised kernel analyses blocks of \<open>K_LEN\<close> bytes.  \<open>K_block\<close> maps a block
  and the offset of its first instruction to the JUMPDEST bits of the block and the offset of
  the first instruction of the next block.
\<close>

record kernel =
  K_LEN :: nat
  K_block :: "bytes \<Rightarrow> nat \<Rightarrow> 128 word \<times> nat"

definition to_le_bytes :: "nat \<Rightarrow> 128 word \<Rightarrow> bytes" where
  "to_le_bytes n w = map (\<lambda>i. ucast (drop_bit (8 * i) w)) [0..<n]"

function analyze_blocks :: "kernel \<Rightarrow> bytes \<Rightarrow> bytes \<times> nat \<times> nat \<Rightarrow> bytes \<times> nat \<times> nat" where
  "analyze_blocks k code (table, pc, entry) =
     (if 0 < K_LEN k \<and> pc + K_LEN k \<le> length code then
        let (bits, entry') = K_block k (take (K_LEN k) (drop pc code)) entry;
            dst = pc div 8;
            n = K_LEN k div 8
        in analyze_blocks k code
             (take dst table @ to_le_bytes n bits @ drop (dst + n) table, pc + K_LEN k, entry')
      else (table, pc, entry))"
  by pat_completeness auto
termination by (relation "measure (\<lambda>(k, code, table, pc, entry). length code - pc)") auto

declare analyze_blocks.simps [simp del]

text \<open>
  \<open>kernels\<close> is the sequence of kernels the target runs: \<open>[Sse41x4, Sse41]\<close>,
  \<open>[Avx2, Sse41]\<close>, \<open>[Avx512Vbmix2, Avx512Vbmi, Sse41]\<close>, \<open>[Neonx4, Neon]\<close>,
  or none on other targets and on CPUs without the features.
\<close>

definition analyze_simd :: "kernel list \<Rightarrow> bytes \<Rightarrow> bytes \<Rightarrow> bytes \<times> nat" where
  "analyze_simd kernels code table =
     (if length code < 16 then (table, 0)
      else let (table, pc, entry) = fold (\<lambda>k. analyze_blocks k code) kernels (table, 0, 0)
           in (table, pc + entry))"

definition analyze_legacy :: "kernel list \<Rightarrow> bytes \<Rightarrow> jump_table" where
  "analyze_legacy kernels bytecode =
     (let jumps = jump_table_new (length bytecode);
          (table, pc) = analyze_simd kernels bytecode (jt_table jumps)
      in jumps\<lparr>jt_table := analyze_scalar bytecode table pc\<rparr>)"

abbreviation PADDING :: nat where "PADDING \<equiv> 33"

definition pad_legacy :: "bytes \<Rightarrow> bytes" where
  "pad_legacy bytecode =
     (if bytecode = [] then [op_STOP]
      else if PADDING \<le> length bytecode
              \<and> drop (length bytecode - PADDING) bytecode = replicate PADDING 0 then bytecode
      else bytecode @ replicate PADDING 0)"

section \<open>Bytecode\<close>

datatype bytecode_kind = Legacy | Eip7702

datatype eip7702_decode_error = InvalidLength | InvalidMagic | UnsupportedVersion

datatype bytecode_decode_error = Eip7702Error eip7702_decode_error

record bytecode_inner =
  bc_kind :: bytecode_kind
  bc_bytecode :: bytes
  bc_original_len :: nat
  bc_jump_table :: "jump_table option"
  bc_hash :: "b256 option"

text \<open>\<open>Bytecode(Option<Arc<BytecodeInner>>)\<close>: \<open>None\<close> is the empty code.\<close>

type_synonym bytecode = "bytecode_inner option"

abbreviation EIP7702_MAGIC_BYTES :: bytes where "EIP7702_MAGIC_BYTES \<equiv> [0xEF, 0x01]"
abbreviation EIP7702_VERSION :: u8 where "EIP7702_VERSION \<equiv> 0"
abbreviation EIP7702_BYTECODE_LEN :: nat where "EIP7702_BYTECODE_LEN \<equiv> 23"

definition bytecode_new :: bytecode where
  "bytecode_new = None"

text \<open>
  The static empty code is created with its hash cell holding \<open>KECCAK256_EMPTY\<close>, the
  Keccak-256 digest of no bytes, a constant of the primitives library.  The cell is left empty
  here, so that the digest function stays a parameter of \<open>hash_slow\<close> alone.
\<close>

definition empty_inner :: bytecode_inner where
  "empty_inner =
     \<lparr>bc_kind = Legacy, bc_bytecode = [op_STOP], bc_original_len = 0,
      bc_jump_table = None, bc_hash = None\<rparr>"

definition inner :: "bytecode \<Rightarrow> bytecode_inner" where
  "inner bc = (case bc of Some i \<Rightarrow> i | None \<Rightarrow> empty_inner)"

definition new_legacy :: "bytes \<Rightarrow> bytecode" where
  "new_legacy raw =
     (if raw = [] then bytecode_new
      else Some \<lparr>bc_kind = Legacy, bc_bytecode = pad_legacy raw, bc_original_len = length raw,
                 bc_jump_table = None, bc_hash = None\<rparr>)"

definition from_valid_eip7702 :: "bytes \<Rightarrow> bytecode" where
  "from_valid_eip7702 bytes =
     Some \<lparr>bc_kind = Eip7702, bc_bytecode = bytes, bc_original_len = length bytes,
           bc_jump_table = None, bc_hash = None\<rparr>"

definition new_eip7702 :: "address \<Rightarrow> bytecode" where
  "new_eip7702 address =
     from_valid_eip7702 (EIP7702_MAGIC_BYTES @ [EIP7702_VERSION] @ to_be_bytes 20 address)"

definition check_eip7702 :: "bytes \<Rightarrow> eip7702_decode_error + unit" where
  "check_eip7702 bytes =
     (if length bytes \<noteq> EIP7702_BYTECODE_LEN then Inl InvalidLength
      else if take 2 bytes \<noteq> EIP7702_MAGIC_BYTES then Inl InvalidMagic
      else if bytes ! 2 \<noteq> EIP7702_VERSION then Inl UnsupportedVersion
      else Inr ())"

definition new_eip7702_raw :: "bytes \<Rightarrow> eip7702_decode_error + bytecode" where
  "new_eip7702_raw bytes =
     (case check_eip7702 bytes of Inl e \<Rightarrow> Inl e | Inr _ \<Rightarrow> Inr (from_valid_eip7702 bytes))"

definition new_raw_checked :: "bytes \<Rightarrow> bytecode_decode_error + bytecode" where
  "new_raw_checked bytes =
     (if take 2 bytes = EIP7702_MAGIC_BYTES then
        case new_eip7702_raw bytes of Inl e \<Rightarrow> Inl (Eip7702Error e) | Inr bc \<Rightarrow> Inr bc
      else Inr (new_legacy bytes))"

definition new_raw :: "bytes \<Rightarrow> unit fault + bytecode" where
  "new_raw bytecode = (case new_raw_checked bytecode of Inl e \<Rightarrow> Inl Panic | Inr bc \<Rightarrow> Inr bc)"

definition from_stored :: "bytes \<Rightarrow> bytecode" where
  "from_stored bytes =
     (case check_eip7702 bytes of
        Inr _ \<Rightarrow> from_valid_eip7702 bytes
      | Inl _ \<Rightarrow> new_legacy bytes)"

definition new_analyzed :: "bytes \<Rightarrow> nat \<Rightarrow> jump_table \<Rightarrow> unit fault + bytecode" where
  "new_analyzed bytecode original_len jt =
     (if \<not> original_len \<le> length bytecode then Inl Panic
      else if \<not> original_len \<le> jt_bit_len jt then Inl Panic
      else if bytecode = [] then Inl Panic
      else Inr (Some \<lparr>bc_kind = Legacy, bc_bytecode = bytecode, bc_original_len = original_len,
                      bc_jump_table = Some jt, bc_hash = None\<rparr>))"

definition kind :: "bytecode \<Rightarrow> bytecode_kind" where
  "kind bc = bc_kind (inner bc)"

definition is_legacy :: "bytecode \<Rightarrow> bool" where
  "is_legacy bc \<longleftrightarrow> kind bc = Legacy"

definition is_eip7702 :: "bytecode \<Rightarrow> bool" where
  "is_eip7702 bc \<longleftrightarrow> kind bc = Eip7702"

definition eip7702_address :: "bytecode \<Rightarrow> address option" where
  "eip7702_address bc =
     (if is_eip7702 bc then Some (from_be_bytes (take 20 (drop 3 (bc_bytecode (inner bc)))))
      else None)"

definition bytes_slice :: "bytecode \<Rightarrow> bytes" where
  "bytes_slice bc = bc_bytecode (inner bc)"

definition original_byte_slice :: "bytecode \<Rightarrow> bytes" where
  "original_byte_slice bc = take (bc_original_len (inner bc)) (bc_bytecode (inner bc))"

definition bytecode_len :: "bytecode \<Rightarrow> nat" where
  "bytecode_len bc = (case bc of None \<Rightarrow> 0 | Some i \<Rightarrow> bc_original_len i)"

definition bytecode_is_empty :: "bytecode \<Rightarrow> bool" where
  "bytecode_is_empty bc \<longleftrightarrow> bytecode_len bc = 0"

text \<open>The jump table an access returns; a filled cell is returned as it is.\<close>

definition get_jump_table :: "kernel list \<Rightarrow> bytecode \<Rightarrow> jump_table" where
  "get_jump_table kernels bc =
     (case bc_jump_table (inner bc) of
        Some jt \<Rightarrow> jt
      | None \<Rightarrow>
          if is_legacy bc then analyze_legacy kernels (original_byte_slice bc)
          else jump_table_default)"

definition legacy_jump_table :: "kernel list \<Rightarrow> bytecode \<Rightarrow> jump_table option" where
  "legacy_jump_table kernels bc = (if is_legacy bc then Some (get_jump_table kernels bc) else None)"

definition hash_slow :: "(bytes \<Rightarrow> b256) \<Rightarrow> bytecode \<Rightarrow> b256" where
  "hash_slow keccak256 bc =
     (case bc_hash (inner bc) of
        Some h \<Rightarrow> h
      | None \<Rightarrow> keccak256 (original_byte_slice bc))"

definition seed_hash :: "bytecode \<Rightarrow> b256 \<Rightarrow> bytecode" where
  "seed_hash bc hash =
     (if bytecode_is_empty bc \<or> hash = 0 then bc
      else map_option (\<lambda>i. if bc_hash i = None then i\<lparr>bc_hash := Some hash\<rparr> else i) bc)"

text \<open>\<open>PartialEq\<close>: bytecodes are compared by their unpadded bytes.\<close>

definition bytecode_eq :: "bytecode \<Rightarrow> bytecode \<Rightarrow> bool" where
  "bytecode_eq a b \<longleftrightarrow> original_byte_slice a = original_byte_slice b"

section \<open>Instruction boundaries\<close>

text \<open>
  The specification of a jump destination: instruction boundaries are the offsets reached from
  0 by skipping each instruction and the data of each PUSH.
\<close>

definition push_len :: "u8 \<Rightarrow> nat" where
  "push_len b = (if is_push b then unat b - 0x5F else 0)"

inductive instr_start :: "bytes \<Rightarrow> nat \<Rightarrow> bool" for code where
  start_zero: "instr_start code 0"
| start_next: "instr_start code (pc + push_len (code ! pc) + 1)"
    if "instr_start code pc" "pc < length code"

definition push_data :: "bytes \<Rightarrow> nat \<Rightarrow> bool" where
  "push_data code i \<longleftrightarrow>
     (\<exists>pc. instr_start code pc \<and> pc < length code \<and> pc < i \<and> i \<le> pc + push_len (code ! pc))"

function instr_starts :: "bytes \<Rightarrow> nat \<Rightarrow> nat list" where
  "instr_starts code pc =
     (if pc < length code then pc # instr_starts code (pc + push_len (code ! pc) + 1) else [])"
  by pat_completeness auto
termination by (relation "measure (\<lambda>(code, pc). length code - pc)") auto

function scan_end :: "bytes \<Rightarrow> nat \<Rightarrow> nat" where
  "scan_end code pc =
     (if pc < length code then scan_end code (pc + push_len (code ! pc) + 1) else pc)"
  by pat_completeness auto
termination by (relation "measure (\<lambda>(code, pc). length code - pc)") auto

declare instr_starts.simps [simp del] scan_end.simps [simp del]

definition kernel_ok :: "kernel \<Rightarrow> bool" where
  "kernel_ok k \<longleftrightarrow> 0 < K_LEN k \<and> K_LEN k \<le> 128 \<and> 8 dvd K_LEN k \<and>
     (\<forall>block entry. length block = K_LEN k \<longrightarrow> entry \<le> 32 \<longrightarrow>
        (\<forall>j < K_LEN k. bit (fst (K_block k block entry)) j \<longleftrightarrow>
             j \<in> set (instr_starts block entry) \<and> block ! j = op_JUMPDEST) \<and>
        K_LEN k + snd (K_block k block entry) = scan_end block entry)"

text \<open>A kernel without lanes, which scans its block byte by byte.\<close>

definition scalar_kernel :: "nat \<Rightarrow> kernel" where
  "scalar_kernel n =
     \<lparr>K_LEN = n,
      K_block = \<lambda>block entry.
        (foldr (\<lambda>j w. if block ! j = op_JUMPDEST then or w (push_bit j 1) else w)
           (instr_starts block entry) 0,
         scan_end block entry - n)\<rparr>"

lemma push_len_le: "push_len b \<le> 32"
  by (auto simp: push_len_def is_push_def word_le_nat_alt)

lemma push_offset_lt_iff: "b - op_PUSH1 < 32 \<longleftrightarrow> is_push b"
  by (auto simp: is_push_def word_le_nat_alt word_less_nat_alt unat_sub_if_size word_size)

lemma push_offset_len: "is_push b \<Longrightarrow> push_len b = Suc (unat (b - op_PUSH1))"
  by (auto simp: push_len_def is_push_def word_le_nat_alt unat_sub_if_size word_size)

lemma push_len_JUMPDEST: "push_len 0x5B = 0"
  by (simp add: push_len_def is_push_def)

lemma push_len_plain: "\<not> is_push b \<Longrightarrow> push_len b = 0"
  by (simp add: push_len_def)

lemma instr_starts_mem:
  "i \<in> set (instr_starts code pc) \<longleftrightarrow>
     pc < length code \<and> (i = pc \<or> i \<in> set (instr_starts code (pc + push_len (code ! pc) + 1)))"
  by (subst instr_starts.simps) auto

lemma instr_starts_bounds: "i \<in> set (instr_starts code pc) \<Longrightarrow> pc \<le> i \<and> i < length code"
proof (induction code pc rule: instr_starts.induct)
  case (1 code pc)
  show ?case
    using 1(2) 1(1) by (subst (asm) instr_starts.simps) (fastforce split: if_splits)
qed

lemma scan_end_bounds: "pc \<le> length code + 32 \<Longrightarrow> length code \<le> scan_end code pc \<and> scan_end code pc \<le> length code + 32"
proof (induction code pc rule: scan_end.induct)
  case (1 code pc)
  show ?case
    using 1 push_len_le [of "code ! pc"] by (subst (1 2) scan_end.simps) auto
qed

lemma instr_starts_split:
  "m \<le> length code \<Longrightarrow>
     set (instr_starts code pc) =
       set (instr_starts (take m code) pc) \<union> set (instr_starts code (scan_end (take m code) pc))"
proof (induction code pc rule: instr_starts.induct)
  case (1 code pc)
  show ?case
  proof (cases "pc < m")
    case True
    then show ?thesis
      using 1 by (subst instr_starts.simps, subst (2) instr_starts.simps, subst scan_end.simps) auto
  next
    case False
    then show ?thesis
      by (simp add: instr_starts.simps [of "take m code"] scan_end.simps [of "take m code"])
  qed
qed

lemma scan_end_split:
  "m \<le> length code \<Longrightarrow> scan_end code pc = scan_end code (scan_end (take m code) pc)"
proof (induction code pc rule: scan_end.induct)
  case (1 code pc)
  show ?case
  proof (cases "pc < m")
    case True
    then show ?thesis
      using 1 by (subst scan_end.simps, subst (3) scan_end.simps) auto
  next
    case False
    then show ?thesis
      by (simp add: scan_end.simps [of "take m code"])
  qed
qed

lemma instr_starts_shift:
  "k \<le> length code \<Longrightarrow> instr_starts code (k + e) = map ((+) k) (instr_starts (drop k code) e)"
proof (induction "drop k code" e rule: instr_starts.induct)
  case (1 pc)
  show ?case
  proof (cases "k + pc < length code")
    case True
    then show ?thesis
      using 1 by (subst (1 2) instr_starts.simps) (auto simp: add.assoc)
  next
    case False
    then show ?thesis
      by (simp add: instr_starts.simps)
  qed
qed

lemma scan_end_shift:
  "k \<le> length code \<Longrightarrow> scan_end code (k + e) = k + scan_end (drop k code) e"
proof (induction "drop k code" e rule: scan_end.induct)
  case (1 pc)
  show ?case
  proof (cases "k + pc < length code")
    case True
    then show ?thesis
      using 1 by (subst (1 2) scan_end.simps) (auto simp: add.assoc)
  next
    case False
    then show ?thesis
      by (simp add: scan_end.simps)
  qed
qed

section \<open>The analysis marks exactly the jump destinations\<close>

lemma table_bit_iff: "table_bit table i \<longleftrightarrow> bit (table ! (i div 8)) (i mod 8)"
  by (simp add: table_bit_def bit_iff_and_push_bit_not_eq_0)

lemma length_mark [simp]: "length (mark table p) = length table"
  by (simp add: mark_def)

lemma table_bit_mark:
  assumes "p div 8 < length table"
  shows "table_bit (mark table p) i \<longleftrightarrow> i = p \<or> table_bit table i"
proof (cases "i div 8 = p div 8")
  case True
  then have "i = p \<longleftrightarrow> i mod 8 = p mod 8"
    by (metis div_mult_mod_eq)
  then show ?thesis
    using assms True
    by (auto simp: table_bit_iff mark_def bit_or_iff bit_exp_iff possible_bit_def)
next
  case False
  then show ?thesis
    by (auto simp: table_bit_iff mark_def nth_list_update)
qed

lemma length_analyze_scalar [simp]: "length (analyze_scalar code table pc) = length table"
  by (induction code table pc rule: analyze_scalar.induct)
     (subst analyze_scalar.simps, simp add: Let_def)

lemma analyze_scalar_step:
  "analyze_scalar code table pc =
     (if pc < length code
      then analyze_scalar code (if code ! pc = op_JUMPDEST then mark table pc else table)
             (pc + push_len (code ! pc) + 1)
      else table)"
  by (subst analyze_scalar.simps)
     (auto simp: Let_def push_offset_lt_iff push_offset_len push_len_JUMPDEST push_len_plain)

lemma analyze_scalar_bits:
  "length code \<le> 8 * length table \<Longrightarrow>
     table_bit (analyze_scalar code table pc) i \<longleftrightarrow>
       table_bit table i \<or> i \<in> set (instr_starts code pc) \<and> code ! i = op_JUMPDEST"
proof (induction "length code - pc" arbitrary: table pc rule: less_induct)
  case less
  show ?case
  proof (cases "pc < length code")
    case True
    let ?t = "if code ! pc = op_JUMPDEST then mark table pc else table"
    have "table_bit (analyze_scalar code ?t (pc + push_len (code ! pc) + 1)) i \<longleftrightarrow>
        table_bit ?t i \<or>
        i \<in> set (instr_starts code (pc + push_len (code ! pc) + 1)) \<and> code ! i = op_JUMPDEST"
      using True less.prems by (intro less.hyps) auto
    moreover have "pc div 8 < length table"
      using True less.prems by linarith
    ultimately show ?thesis
      using True by (subst analyze_scalar_step, subst instr_starts.simps) (auto simp: table_bit_mark)
  next
    case False
    then show ?thesis
      by (subst analyze_scalar_step, subst instr_starts.simps) simp
  qed
qed

lemma length_to_le_bytes: "length (to_le_bytes n w) = n"
  by (simp add: to_le_bytes_def)

lemma bit_to_le_bytes:
  "i < n \<Longrightarrow> j < 8 \<Longrightarrow> bit (to_le_bytes n w ! i) j \<longleftrightarrow> bit w (8 * i + j)"
  by (simp add: to_le_bytes_def bit_ucast_iff bit_drop_bit_eq)

lemma table_bit_block:
  fixes w :: "128 word"
  assumes "8 dvd pc" "8 dvd n" "pc div 8 + n div 8 \<le> length table"
  shows "table_bit (take (pc div 8) table @ to_le_bytes (n div 8) w @ drop (pc div 8 + n div 8) table) i
           \<longleftrightarrow> (if pc \<le> i \<and> i < pc + n then bit w (i - pc) else table_bit table i)"
proof -
  obtain p q where [simp]: "pc = 8 * p" "n = 8 * q"
    using assms by (elim dvdE)
  obtain r c where [simp]: "i = 8 * r + c" and c: "c < 8"
    by (metis mult_div_mod_eq mod_less_divisor zero_less_numeral)
  have [simp]: "(8 * r + c) div 8 = r" "(8 * r + c) mod 8 = c"
    using c by simp_all
  consider "r < p" | "p \<le> r" "r < p + q" | "p + q \<le> r"
    by linarith
  then show ?thesis
  proof cases
    case 1
    moreover from this have "\<not> 8 * p \<le> 8 * r + c"
      using c by linarith
    ultimately show ?thesis
      using assms by (simp add: table_bit_iff nth_append)
  next
    case 2
    moreover from this have "8 * (r - p) + c = 8 * r + c - 8 * p"
      "8 * p \<le> 8 * r + c" "8 * r + c < 8 * p + 8 * q" "\<not> q \<le> r - p"
      using c by linarith+
    ultimately show ?thesis
      using assms by (simp add: table_bit_iff nth_append bit_to_le_bytes not_less length_to_le_bytes c)
  next
    case 3
    moreover from this have "\<not> 8 * r + c < 8 * p + 8 * q" "\<not> r - p < q"
      by linarith+
    ultimately show ?thesis
      using assms by (simp add: table_bit_iff nth_append length_to_le_bytes)
  qed
qed

text \<open>The state between two blocks: everything before \<open>pc\<close> is analysed, nothing after it.\<close>

definition scanned :: "bytes \<Rightarrow> bytes \<times> nat \<times> nat \<Rightarrow> bool" where
  "scanned code = (\<lambda>(table, pc, entry).
     8 dvd pc \<and> pc \<le> length code \<and> length table = (length code + 7) div 8 \<and> entry \<le> 32 \<and>
     pc + entry = scan_end (take pc code) 0 \<and>
     (\<forall>i < length code. table_bit table i \<longleftrightarrow>
        i \<in> set (instr_starts (take pc code) 0) \<and> code ! i = op_JUMPDEST))"

lemma scanned_block:
  assumes k: "kernel_ok k" and s: "scanned code (table, pc, entry)"
    and b: "pc + K_LEN k \<le> length code"
    and kb: "K_block k (take (K_LEN k) (drop pc code)) entry = (bits, entry')"
  shows "scanned code
    (take (pc div 8) table @ to_le_bytes (K_LEN k div 8) bits @
       drop (pc div 8 + K_LEN k div 8) table, pc + K_LEN k, entry')"
proof -
  let ?n = "K_LEN k" and ?block = "take (K_LEN k) (drop pc code)"
  let ?pre = "take (pc + ?n) code"
  have blk: "?block = drop pc ?pre" and lblk: "length ?block = ?n" and tp: "take pc ?pre = take pc code"
    using b by (auto simp: take_drop add.commute)
  have e: "entry \<le> 32" and pe: "pc + entry = scan_end (take pc code) 0"
    and dv: "8 dvd pc" "8 dvd ?n" and lt: "length table = (length code + 7) div 8"
    using s k by (auto simp: scanned_def kernel_ok_def)
  have bits: "\<And>j. j < ?n \<Longrightarrow> bit bits j \<longleftrightarrow> j \<in> set (instr_starts ?block entry) \<and> ?block ! j = op_JUMPDEST"
    and ent: "?n + entry' = scan_end ?block entry"
    using k [unfolded kernel_ok_def, THEN conjunct2, THEN conjunct2, THEN conjunct2, rule_format,
        OF lblk e] kb
    by simp_all
  have "pc + ?n + entry' = scan_end ?pre (pc + entry)"
    using ent blk b by (simp add: scan_end_shift)
  also have "\<dots> = scan_end ?pre 0"
    using scan_end_split [of pc ?pre 0] b by (simp add: tp pe)
  finally have e1: "pc + ?n + entry' = scan_end ?pre 0" .
  have e32: "entry' \<le> 32"
    using scan_end_bounds [of entry ?block] e ent lblk by simp
  have fits: "pc div 8 + ?n div 8 \<le> length table"
    using b dv lt by (simp add: div_le_mono flip: div_add)
  have "set (instr_starts ?pre 0) =
      set (instr_starts (take pc code) 0) \<union> (+) pc ` set (instr_starts ?block entry)"
    using instr_starts_split [of pc ?pre 0] b
    by (simp add: tp pe [symmetric] instr_starts_shift blk)
  moreover have "i \<in> set (instr_starts (take pc code) 0) \<Longrightarrow> i < pc" for i
    using instr_starts_bounds by fastforce
  moreover have "i \<in> (+) pc ` set (instr_starts ?block entry) \<longleftrightarrow>
      pc \<le> i \<and> i < pc + ?n \<and> i - pc \<in> set (instr_starts ?block entry)" for i
    using instr_starts_bounds [of "i - pc" ?block entry] lblk by force
  ultimately have mem: "i \<in> set (instr_starts ?pre 0) \<longleftrightarrow>
      (if pc \<le> i \<and> i < pc + ?n then i - pc \<in> set (instr_starts ?block entry)
       else i \<in> set (instr_starts (take pc code) 0))" for i
    by (metis Un_iff leD)
  have "table_bit (take (pc div 8) table @ to_le_bytes (?n div 8) bits @
        drop (pc div 8 + ?n div 8) table) i \<longleftrightarrow> i \<in> set (instr_starts ?pre 0) \<and> code ! i = op_JUMPDEST"
    if "i < length code" for i
  proof (cases "pc \<le> i \<and> i < pc + ?n")
    case True
    then have "i - pc < ?n" "?block ! (i - pc) = code ! i"
      using b by auto
    then show ?thesis
      using True by (simp only: table_bit_block [OF dv fits] mem bits if_True simp_thms)
  next
    case False
    then show ?thesis
      using s that by (simp only: table_bit_block [OF dv fits] mem if_False simp_thms) (simp add: scanned_def)
  qed
  then show ?thesis
    using e1 b dv lt e32 fits by (simp add: scanned_def to_le_bytes_def)
qed

lemma scanned_analyze_blocks:
  "kernel_ok k \<Longrightarrow> scanned code st \<Longrightarrow> scanned code (analyze_blocks k code st)"
proof (induction k code st rule: analyze_blocks.induct)
  case (1 k code table pc entry)
  obtain bits entry' where kb: "K_block k (take (K_LEN k) (drop pc code)) entry = (bits, entry')"
    by fastforce
  show ?case
    using 1(1) [OF _ kb [symmetric] refl refl] 1(2,3) scanned_block [OF 1(2,3) _ kb]
    by (subst analyze_blocks.simps) (simp add: kb Let_def)
qed

lemma scanned_fold:
  "\<forall>k \<in> set ks. kernel_ok k \<Longrightarrow> scanned code st \<Longrightarrow>
     scanned code (fold (\<lambda>k. analyze_blocks k code) ks st)"
  by (induction ks arbitrary: st) (auto simp: scanned_analyze_blocks)

lemma scanned_start: "scanned code (jt_table (jump_table_new (length code)), 0, 0)"
  by (auto simp: scanned_def jump_table_new_def scan_end.simps [of "[]"]
       instr_starts.simps [of "[]"] table_bit_iff)

lemma scanned_finish:
  assumes "scanned code (table, pc, entry)" and i: "i < length code"
  shows "table_bit (analyze_scalar code table (pc + entry)) i \<longleftrightarrow>
           i \<in> set (instr_starts code 0) \<and> code ! i = op_JUMPDEST"
  using assms instr_starts_split [of pc code 0]
  by (auto simp: scanned_def analyze_scalar_bits)

lemma analyze_legacy_starts:
  assumes ks: "\<forall>k \<in> set kernels. kernel_ok k"
  shows "is_valid (analyze_legacy kernels code) pc \<longleftrightarrow>
           pc \<in> set (instr_starts code 0) \<and> code ! pc = op_JUMPDEST"
proof -
  obtain table p e where st: "(if length code < 16 then (jt_table (jump_table_new (length code)), 0, 0)
      else fold (\<lambda>k. analyze_blocks k code) kernels (jt_table (jump_table_new (length code)), 0, 0))
      = (table, p, e)"
    by (metis prod_cases3)
  have "scanned code (table, p, e)"
    using scanned_fold [OF ks scanned_start] scanned_start by (auto simp flip: st)
  moreover have "analyze_legacy kernels code =
      (jump_table_new (length code))\<lparr>jt_table := analyze_scalar code table (p + e)\<rparr>"
    using st by (auto simp: analyze_legacy_def analyze_simd_def Let_def split: if_splits)
  ultimately show ?thesis
    using instr_starts_bounds [of pc code 0]
    by (auto simp: is_valid_def scanned_finish jump_table_new_def)
qed

lemma instr_starts_sound:
  "i \<in> set (instr_starts code pc) \<Longrightarrow> instr_start code pc \<Longrightarrow> instr_start code i"
proof (induction code pc rule: instr_starts.induct)
  case (1 code pc)
  then show ?case
    using instr_starts_mem [of i code pc] start_next by blast
qed

lemma instr_starts_step:
  "i \<in> set (instr_starts code pc) \<Longrightarrow> i + push_len (code ! i) + 1 < length code \<Longrightarrow>
     i + push_len (code ! i) + 1 \<in> set (instr_starts code pc)"
proof (induction code pc rule: instr_starts.induct)
  case (1 code pc)
  then show ?case
    using instr_starts_mem [of _ code pc] instr_starts_mem [of _ code "pc + push_len (code ! pc) + 1"]
    by metis
qed

lemma instr_starts_iff: "i \<in> set (instr_starts code 0) \<longleftrightarrow> instr_start code i \<and> i < length code"
proof
  assume "instr_start code i \<and> i < length code"
  then have "instr_start code i" "i < length code" by auto
  then show "i \<in> set (instr_starts code 0)"
  proof (induction rule: instr_start.induct)
    case start_zero
    then show ?case using instr_starts_mem [of 0 code 0] by simp
  next
    case (start_next pc)
    then show ?case using instr_starts_step by auto
  qed
qed (auto simp: instr_starts_bounds intro: instr_starts_sound start_zero)

lemma instr_starts_gap:
  "q \<in> set (instr_starts code pc) \<Longrightarrow> i \<in> set (instr_starts code pc) \<Longrightarrow> q < i \<Longrightarrow>
     q + push_len (code ! q) < i"
proof (induction code pc rule: instr_starts.induct)
  case (1 code pc)
  let ?next = "pc + push_len (code ! pc) + 1"
  have lt: "pc < length code" and q: "q = pc \<or> q \<in> set (instr_starts code ?next)"
    using 1(2) instr_starts_mem by blast+
  moreover have i: "i \<in> set (instr_starts code ?next)"
    using 1(2-4) instr_starts_bounds [of q code pc] instr_starts_mem [of i code pc] by auto
  ultimately show ?case
    using 1(1) [OF lt _ i] 1(4) instr_starts_bounds [OF i] by auto
qed

lemma instr_starts_cover:
  "pc \<le> i \<Longrightarrow> i < length code \<Longrightarrow>
     i \<in> set (instr_starts code pc) \<or>
     (\<exists>q \<in> set (instr_starts code pc). q < i \<and> i \<le> q + push_len (code ! q))"
proof (induction code pc rule: instr_starts.induct)
  case (1 code pc)
  have "pc \<in> set (instr_starts code pc)"
    using 1(2,3) instr_starts_mem [of pc code pc] by simp
  then show ?case
    using 1 instr_starts_mem [of _ code pc]
    by (cases "pc + push_len (code ! pc) + 1 \<le> i") (auto simp: not_le less_Suc_eq_le le_less)
qed

lemma instr_start_iff_not_push_data:
  assumes "i < length code"
  shows "instr_start code i \<longleftrightarrow> \<not> push_data code i"
  using instr_starts_cover [of 0 i code] instr_starts_gap [of _ code 0 i] assms
  by (fastforce simp: push_data_def instr_starts_iff)

lemma bit_scalar_kernel:
  fixes block :: bytes
  assumes "j < 128"
  shows "bit (foldr (\<lambda>j w. if block ! j = op_JUMPDEST then or w (push_bit j 1) else w) xs (0 :: 128 word)) j
           \<longleftrightarrow> j \<in> set xs \<and> block ! j = op_JUMPDEST"
  using assms by (induction xs) (auto simp: bit_or_iff bit_exp_iff possible_bit_def)

lemma scalar_kernel_ok: "0 < n \<Longrightarrow> n \<le> 128 \<Longrightarrow> 8 dvd n \<Longrightarrow> kernel_ok (scalar_kernel n)"
  using scan_end_bounds by (auto simp: kernel_ok_def scalar_kernel_def bit_scalar_kernel)

text \<open>
  C16:  For every code and every sequence of kernels that meet their contract, the jump table
  accepts exactly the JUMPDEST bytes of the code that are not part of the data of a PUSH:
  the vectorised and the scalar part of the analysis together implement the documented rule.
\<close>

theorem analyze_legacy_exact:
  assumes "\<forall>k \<in> set kernels. kernel_ok k"
  shows "is_valid (analyze_legacy kernels code) pc \<longleftrightarrow>
           pc < length code \<and> code ! pc = op_JUMPDEST \<and> \<not> push_data code pc"
  using assms by (auto simp: analyze_legacy_starts instr_starts_iff instr_start_iff_not_push_data)

theorem analyze_legacy_exact_witness:
  "\<not> is_valid (analyze_legacy [scalar_kernel 32, scalar_kernel 16] (replicate 15 op_JUMPDEST @ [0x61, op_JUMPDEST, op_STOP, op_JUMPDEST])) 16
     = push_data (replicate 15 op_JUMPDEST @ [0x61, op_JUMPDEST, op_STOP, op_JUMPDEST]) 16"
  using analyze_legacy_exact [of "[scalar_kernel 32, scalar_kernel 16]"
      "replicate 15 op_JUMPDEST @ [0x61, op_JUMPDEST, op_STOP, op_JUMPDEST]" 16]
  by (simp add: scalar_kernel_ok nth_append)

lemma pad_legacy_tail: "code \<noteq> [] \<Longrightarrow> \<exists>pre. pad_legacy code = pre @ replicate PADDING 0"
  unfolding pad_legacy_def by (metis append_take_drop_id)

lemma pad_legacy_original: "take (length code) (pad_legacy code) = code"
  by (simp add: pad_legacy_def)

text \<open>
  C35:  Every byte of padded legacy code other than STOP is followed by at least 33 more bytes
  of the allocation.  An instruction has at most 32 immediate bytes, so reading the immediates
  of the instruction at any in-bounds offset, and the opcode after them, stays in bounds.
\<close>

theorem new_legacy_in_bounds:
  assumes "pc < length (bytes_slice (new_legacy raw))"
    and "bytes_slice (new_legacy raw) ! pc \<noteq> op_STOP"
  shows "pc + 33 < length (bytes_slice (new_legacy raw))"
proof (cases "raw = []")
  case True
  then show ?thesis
    using assms by (simp add: bytes_slice_def new_legacy_def inner_def bytecode_new_def empty_inner_def)
next
  case False
  then obtain pre where "bytes_slice (new_legacy raw) = pre @ replicate PADDING 0"
    using pad_legacy_tail by (auto simp: bytes_slice_def new_legacy_def inner_def)
  then show ?thesis
    using assms by (auto simp: nth_append split: if_splits)
qed

theorem new_legacy_in_bounds_witness:
  "(1 :: nat) + 33 < length (bytes_slice (new_legacy [0x60, 0x7F]))"
  by (rule new_legacy_in_bounds) (simp_all add: bytes_slice_def new_legacy_def inner_def pad_legacy_def)

lemma check_eip7702_iff:
  "check_eip7702 bs = Inr () \<longleftrightarrow> (\<exists>a. length a = 20 \<and> bs = [0xEF, 0x01, 0x00] @ a)"
proof
  assume ok: "check_eip7702 bs = Inr ()"
  then have "take 3 bs = [0xEF, 0x01, 0x00]"
    by (auto simp: check_eip7702_def take_Suc_conv_app_nth numeral_eq_Suc split: if_splits)
  then have "bs = [0xEF, 0x01, 0x00] @ drop 3 bs"
    by (metis append_take_drop_id)
  then show "\<exists>a. length a = 20 \<and> bs = [0xEF, 0x01, 0x00] @ a"
    using ok by (auto simp: check_eip7702_def split: if_splits intro!: exI [of _ "drop 3 bs"])
qed (auto simp: check_eip7702_def)

lemma original_new_legacy [simp]: "original_byte_slice (new_legacy bs) = bs"
  by (auto simp: original_byte_slice_def new_legacy_def inner_def bytecode_new_def empty_inner_def
      pad_legacy_original)

lemma original_from_valid [simp]: "original_byte_slice (from_valid_eip7702 bs) = bs"
  by (simp add: original_byte_slice_def from_valid_eip7702_def inner_def)

lemma kind_new_legacy [simp]: "kind (new_legacy bs) = Legacy"
  by (simp add: kind_def new_legacy_def inner_def bytecode_new_def empty_inner_def)

lemma kind_from_valid [simp]: "kind (from_valid_eip7702 bs) = Eip7702"
  by (simp add: kind_def from_valid_eip7702_def inner_def)

text \<open>
  C36:  Delegation designators round trip: the code built for an address is accepted again from
  its raw bytes by both decoders as the same code, and yields the address.
\<close>

theorem eip7702_roundtrip:
  "new_raw_checked (original_byte_slice (new_eip7702 a)) = Inr (new_eip7702 a) \<and>
   from_stored (original_byte_slice (new_eip7702 a)) = new_eip7702 a \<and>
   eip7702_address (new_eip7702 a) = Some a"
proof -
  have ok: "check_eip7702 ([0xEF, 0x01] @ [0] @ to_be_bytes 20 a) = Inr ()"
    by (simp add: check_eip7702_def)
  then show ?thesis
    by (simp add: new_eip7702_def new_raw_checked_def new_eip7702_raw_def from_stored_def
        eip7702_address_def is_eip7702_def inner_def from_valid_eip7702_def kind_def
        original_byte_slice_def from_to_be_bytes)
qed

text \<open>
  C37:  Code read from state is always accepted and keeps its bytes.  It is a delegation exactly
  when it is the three prefix bytes and a 20 byte address.  The checked constructor rejects
  a byte string exactly when it has the magic prefix without being such a designator, with the reason
  (its length, or else its version), and otherwise agrees with it.
\<close>

theorem from_stored_spec:
  "original_byte_slice (from_stored bs) = bs \<and>
   (is_eip7702 (from_stored bs) \<longleftrightarrow> (\<exists>a. length a = 20 \<and> bs = [0xEF, 0x01, 0x00] @ a)) \<and>
   new_raw_checked bs =
     (if take 2 bs = [0xEF, 0x01] \<and> \<not> (\<exists>a. length a = 20 \<and> bs = [0xEF, 0x01, 0x00] @ a)
      then Inl (Eip7702Error (if length bs = 23 then UnsupportedVersion else InvalidLength))
      else Inr (from_stored bs))"
proof (cases "check_eip7702 bs")
  case (Inl e)
  moreover from this have "\<not> (\<exists>a. length a = 20 \<and> bs = [0xEF, 0x01, 0x00] @ a)"
    by (metis check_eip7702_iff sum.distinct(1))
  ultimately show ?thesis
    by (auto simp: from_stored_def is_eip7702_def is_legacy_def new_raw_checked_def new_eip7702_raw_def
        check_eip7702_def split: if_splits)
next
  case (Inr u)
  then have "\<exists>a. length a = 20 \<and> bs = [0xEF, 0x01, 0x00] @ a"
    by (metis check_eip7702_iff old.unit.exhaust)
  with Inr show ?thesis
    by (auto simp: from_stored_def is_eip7702_def new_raw_checked_def new_eip7702_raw_def)
qed

lemma hash_slow_seeded:
  assumes "h = keccak256 (original_byte_slice bc)" and "bc_hash (inner bc) = None"
  shows "hash_slow keccak256 (seed_hash bc h) = hash_slow keccak256 bc"
  using assms
  by (auto simp: hash_slow_def seed_hash_def inner_def original_byte_slice_def split: option.splits)

end
