(* ===== verification/Evm_Message.thy ===== *)
theory Evm_Message
  imports Gas_Tracker Spec_Version Evm_Bytecode
begin

text \<open>
  The data exchanged between a frame and its host: call and create messages and
  their results (\<open>interpreter/message.rs\<close>, \<open>interpreter/host.rs\<close>), the block
  and transaction environment (\<open>evm/env.rs\<close>), the results of account and storage
  operations (\<open>evm/mod.rs\<close>) and the errors (\<open>error.rs\<close>).  Extension fields of
  custom EVM types are left out.  The erased error inside a database error is a
  string.  Address derivation is Keccak-256 and RLP of the primitives library
  and is a parameter.
\<close>

section \<open>Errors\<close>

datatype database_error = DatabaseError string bool

datatype load_error = ColdLoadSkipped | LoadDatabase database_error

datatype execution_error = ExecDatabase database_error | ExecFatal string

datatype host_error = Halt instr_stop | Execution execution_error

definition host_error_of_load :: "load_error \<Rightarrow> host_error" where
  "host_error_of_load e =
     (case e of ColdLoadSkipped \<Rightarrow> Halt OutOfGas | LoadDatabase d \<Rightarrow> Execution (ExecDatabase d))"

section \<open>Environment and host results\<close>

record tx_env =
  tx_origin :: address
  tx_gas_price :: evm_word
  tx_chain_id :: evm_word
  tx_blob_hashes :: "evm_word list"

record block_env =
  be_number :: evm_word
  be_beneficiary :: address
  be_timestamp :: evm_word
  be_gas_limit :: evm_word
  be_basefee :: evm_word
  be_difficulty :: evm_word
  be_prevrandao :: evm_word
  be_blob_basefee :: evm_word
  be_slot_num :: evm_word

record account_load =
  al_balance :: evm_word
  al_nonce :: u64
  al_code_hash :: b256
  al_code :: bytecode
  al_is_empty :: bool
  al_is_empty_for_new_account_gas :: bool
  al_is_cold :: bool

record sload =
  sl_value :: evm_word
  sl_is_cold :: bool

record selfdestruct_result =
  sd_had_value :: bool
  sd_value :: evm_word
  sd_target_is_empty :: bool
  sd_is_cold :: bool
  sd_previously_destroyed :: bool

section \<open>Messages\<close>

datatype message_kind =
  Kind_Call | Kind_DelegateCall | Kind_CallCode | Kind_Create | Kind_Create2 | Kind_StaticCall

definition is_create :: "message_kind \<Rightarrow> bool" where
  "is_create k = (k = Kind_Create \<or> k = Kind_Create2)"

record message =
  msg_kind :: message_kind
  msg_depth :: u16
  msg_gas_limit :: u64
  msg_reservoir :: u64
  msg_destination :: address
  msg_call_target :: address
  msg_caller :: address
  msg_input :: bytes
  msg_value :: evm_word
  msg_code :: bytecode
  msg_code_address :: address
  msg_caller_is_static :: bool
  msg_salt :: b256

definition msg_is_static :: "message \<Rightarrow> bool" where
  "msg_is_static m = (msg_caller_is_static m \<or> msg_kind m = Kind_StaticCall)"

definition is_direct_call :: "message \<Rightarrow> bool" where
  "is_direct_call m = (msg_destination m = msg_call_target m)"

text \<open>Address derivation of the primitives library: CREATE from the creator and its nonce, CREATE2
  from the creator, the salt and the hash of the initcode.\<close>

record crypto =
  keccak256 :: "bytes \<Rightarrow> b256"
  create_address :: "address \<Rightarrow> u64 \<Rightarrow> address"
  create2_address :: "address \<Rightarrow> b256 \<Rightarrow> b256 \<Rightarrow> address"

text \<open>An instance of these functions, for evaluating the model.\<close>

definition bare_crypto :: crypto where
  "bare_crypto = \<lparr>keccak256 = (\<lambda>_. 0), create_address = (\<lambda>_ _. 0), create2_address = (\<lambda>_ _ _. 0)\<rparr>"

definition derive_create_destination ::
    "crypto \<Rightarrow> message_kind \<Rightarrow> address \<Rightarrow> b256 \<Rightarrow> bytes \<Rightarrow> u64 \<Rightarrow> address" where
  "derive_create_destination c k caller salt init_code nonce =
     (case k of
        Kind_Create2 \<Rightarrow> create2_address c caller salt (keccak256 c init_code)
      | _ \<Rightarrow> create_address c caller nonce)"

definition create_preaccess_failure ::
    "evm_word \<Rightarrow> u64 \<Rightarrow> evm_word \<Rightarrow> u16 \<Rightarrow> version \<Rightarrow> instr_stop option" where
  "create_preaccess_failure balance nonce v depth ver =
     (if depth > max_call_depth ver then Some CallTooDeep
      else if balance < v then Some OutOfFunds
      else if depth > initial_call_depth ver \<and> nonce = - 1 then Some NonceOverflow
      else None)"

section \<open>Message results\<close>

record message_result =
  mr_stop :: instr_stop
  mr_gas :: gas_tracker
  mr_output :: bytes
  mr_created_address :: "address option"

definition mr_is_success :: "message_result \<Rightarrow> bool" where
  "mr_is_success r = is_success (mr_stop r)"

definition created_address_for_parent :: "message_result \<Rightarrow> evm_word" where
  "created_address_for_parent r =
     (case mr_created_address r of
        Some a \<Rightarrow> if is_success (mr_stop r) then address_to_word a else 0
      | None \<Rightarrow> 0)"

text \<open>\<open>None\<close> is the division by a zero quotient, which panics.\<close>

definition final_refund :: "u64 \<Rightarrow> u64 \<Rightarrow> message_result \<Rightarrow> u64 option" where
  "final_refund limit max_refund_quotient r =
     (if sint (refunded (mr_gas r)) \<le> 0 then Some 0
      else
        let spent = saturating_sub (saturating_sub limit (remaining (mr_gas r))) (reservoir (mr_gas r));
            refund = refunded (mr_gas r)
        in if max_refund_quotient = 0 then None
           else let cap = spent div max_refund_quotient in
                Some (if refund < cap then refund else cap))"

definition gas_remaining_after_final_refund :: "u64 \<Rightarrow> u64 \<Rightarrow> message_result \<Rightarrow> u64 option" where
  "gas_remaining_after_final_refund limit max_refund_quotient r =
     (case final_refund limit max_refund_quotient r of
        None \<Rightarrow> None
      | Some refund \<Rightarrow>
          let rem = saturating_add (saturating_add (remaining (mr_gas r)) (reservoir (mr_gas r))) refund
          in Some (if rem < limit then rem else limit))"

definition gas_used_after_final_refund :: "u64 \<Rightarrow> u64 \<Rightarrow> message_result \<Rightarrow> u64 option" where
  "gas_used_after_final_refund limit max_refund_quotient r =
     map_option (saturating_sub limit) (gas_remaining_after_final_refund limit max_refund_quotient r)"

section \<open>Refund lemmas\<close>

lemma unat_pos_sint: "0 \<le> sint w \<Longrightarrow> unat w = nat (sint w)" for w :: i64
proof -
  assume "0 \<le> sint w"
  then have "uint w = sint w"
    using sint_lt [of w] by (subst uint_sint, intro take_bit_int_eq_self) simp_all
  then show ?thesis
    by (metis nat_int unat_int_uint)
qed

lemma final_refund_eq:
  assumes "q \<noteq> 0"
    and spent: "spent = unat l - unat (remaining (mr_gas r)) - unat (reservoir (mr_gas r))"
  shows "\<exists>x. final_refund l q r = Some x \<and>
           unat x = min (nat (sint (refunded (mr_gas r)))) (spent div unat q)"
proof (cases "sint (refunded (mr_gas r)) \<le> 0")
  case False
  then have "unat (refunded (mr_gas r)) = nat (sint (refunded (mr_gas r)))"
    by (simp add: unat_pos_sint)
  then show ?thesis
    using False assms
    by (auto simp: final_refund_def Let_def u_arith unat_div min_def)
qed (simp add: final_refund_def)

text \<open>
  C40: At the end of a transaction whose unused gas does not exceed the limit, the refund is
  the recorded one, when positive, capped at the configured fraction of the gas spent, the
  idle state-gas reservoir not counting as spent; and the gas used is what was spent minus that
  refund.
\<close>

theorem final_refund_capped:
  assumes "q \<noteq> 0"
    and "unat (remaining (mr_gas r)) + unat (reservoir (mr_gas r)) + spent = unat l"
  shows "\<exists>x u. final_refund l q r = Some x \<and>
           unat x = min (nat (sint (refunded (mr_gas r)))) (spent div unat q) \<and>
           gas_used_after_final_refund l q r = Some u \<and> unat u = spent - unat x"
proof -
  have "spent = unat l - unat (remaining (mr_gas r)) - unat (reservoir (mr_gas r))"
    using assms(2) by linarith
  then obtain x where x: "final_refund l q r = Some x"
    "unat x = min (nat (sint (refunded (mr_gas r)))) (spent div unat q)"
    using final_refund_eq [OF assms(1)] by metis
  have le: "unat x \<le> spent"
    unfolding x(2) by (simp add: min.coboundedI2)
  define rem where
    "rem = saturating_add (saturating_add (remaining (mr_gas r)) (reservoir (mr_gas r))) x"
  have rem: "unat rem = unat (remaining (mr_gas r)) + unat (reservoir (mr_gas r)) + unat x"
    using assms(2) le unat_u64_lt [of l] unfolding rem_def by (simp add: unat_saturating_add)
  then have "\<not> rem < l \<longleftrightarrow> rem = l"
    using assms(2) le unfolding word_less_nat_alt word_unat_eq_iff by linarith
  then have "gas_used_after_final_refund l q r = Some (saturating_sub l rem)"
    by (auto simp: gas_used_after_final_refund_def gas_remaining_after_final_refund_def
        x(1) rem_def [symmetric])
  moreover have "unat (saturating_sub l rem) = spent - unat x"
    using rem assms(2) by (simp add: unat_saturating_sub)
  ultimately show ?thesis
    using x by blast
qed

theorem final_refund_capped_witness:
  "\<exists>x u. final_refund 100000 5
       \<lparr>mr_stop = Stop, mr_gas = (new_used_gas 100000 50000 0)\<lparr>refunded := 19900\<rparr>,
        mr_output = [], mr_created_address = None\<rparr> = Some x \<and> unat x = 10000 \<and>
     gas_used_after_final_refund 100000 5
       \<lparr>mr_stop = Stop, mr_gas = (new_used_gas 100000 50000 0)\<lparr>refunded := 19900\<rparr>,
        mr_output = [], mr_created_address = None\<rparr> = Some u \<and> unat u = 40000"
  using final_refund_capped [of 5 "\<lparr>mr_stop = Stop,
      mr_gas = (new_used_gas 100000 50000 0)\<lparr>refunded := 19900\<rparr>,
      mr_output = [], mr_created_address = None\<rparr>" 50000 100000]
  by (auto simp: new_used_gas_def from_parts_def saturating_sub_def)

end
