(* ===== verification/Evm_State.thy ===== *)
theory Evm_State
  imports Prewarm_Set Evm_Message
begin

text \<open>
  The state of a transaction (\<open>evm/state\<close>): account and storage overlays over a database, the
  revert journal, logs and transient storage.  The database is a record of read operations
  on its own state, which may cache.  A mutation handle is a value that holds the account
  and the snapshot it will journal when it is dropped.  Pooled allocations have no
  state and are left out, and so is the optional account extension.
\<close>

unbundle bit_operations_syntax

section \<open>Accounts\<close>

record account_info =
  ai_balance :: evm_word
  ai_nonce :: u64
  ai_code_hash :: b256
  ai_code :: "bytecode option"

text \<open>The hash of no bytes, a constant of the primitives library.\<close>

abbreviation KECCAK256_EMPTY :: "crypto \<Rightarrow> b256" where
  "KECCAK256_EMPTY C \<equiv> keccak256 C []"

definition account_info_default :: "crypto \<Rightarrow> account_info" where
  "account_info_default C =
     \<lparr>ai_balance = 0, ai_nonce = 0, ai_code_hash = KECCAK256_EMPTY C, ai_code = Some bytecode_new\<rparr>"

definition clone_no_code :: "account_info \<Rightarrow> account_info" where
  "clone_no_code i = i\<lparr>ai_code := None\<rparr>"

definition is_empty_code_hash :: "crypto \<Rightarrow> account_info \<Rightarrow> bool" where
  "is_empty_code_hash C i \<longleftrightarrow> ai_code_hash i = KECCAK256_EMPTY C"

definition info_is_empty :: "crypto \<Rightarrow> account_info \<Rightarrow> bool" where
  "info_is_empty C i \<longleftrightarrow> ai_balance i = 0 \<and> ai_nonce i = 0 \<and> is_empty_code_hash C i"

text \<open>\<open>PartialEq\<close>: the code is a cache for the hash and is not compared.\<close>

definition account_info_eq :: "account_info \<Rightarrow> account_info \<Rightarrow> bool" where
  "account_info_eq a b \<longleftrightarrow>
     ai_balance a = ai_balance b \<and> ai_nonce a = ai_nonce b \<and> ai_code_hash a = ai_code_hash b"

type_synonym account_flags = u8

abbreviation FLAG_WARM :: account_flags where "FLAG_WARM \<equiv> 1"
abbreviation FLAG_TOUCHED :: account_flags where "FLAG_TOUCHED \<equiv> 2"
abbreviation FLAG_DESTROYED :: account_flags where "FLAG_DESTROYED \<equiv> 8"
abbreviation FLAG_CREATED :: account_flags where "FLAG_CREATED \<equiv> 16"
abbreviation FLAG_DISCARDS_STORAGE :: account_flags where "FLAG_DISCARDS_STORAGE \<equiv> 32"

definition flags_has :: "account_flags \<Rightarrow> account_flags \<Rightarrow> bool" where
  "flags_has fs f \<longleftrightarrow> fs AND f = f"

definition flags_minus :: "account_flags \<Rightarrow> account_flags \<Rightarrow> account_flags" where
  "flags_minus fs f = fs AND NOT f"

section \<open>Storage overlays\<close>

record 'a tracked =
  tr_original :: 'a
  tr_current :: 'a

definition tracked_new :: "'a \<Rightarrow> 'a tracked" where
  "tracked_new v = \<lparr>tr_original = v, tr_current = v\<rparr>"

definition set_current :: "'a \<Rightarrow> 'a tracked \<Rightarrow> 'a tracked" where
  "set_current v t = t\<lparr>tr_current := v\<rparr>"

definition tracked_is_changed :: "'a tracked \<Rightarrow> bool" where
  "tracked_is_changed t \<longleftrightarrow> tr_original t \<noteq> tr_current t"

record storage_slot =
  slot_value :: "evm_word tracked"
  slot_is_warm :: bool

definition slot_loaded :: "evm_word \<Rightarrow> bool \<Rightarrow> storage_slot" where
  "slot_loaded v warm = \<lparr>slot_value = tracked_new v, slot_is_warm = warm\<rparr>"

definition slot_is_changed :: "bool \<Rightarrow> storage_slot \<Rightarrow> bool" where
  "slot_is_changed wiped s =
     (if wiped then tr_current (slot_value s) \<noteq> 0 else tracked_is_changed (slot_value s))"

record storage_overlay =
  so_wiped :: bool
  so_slots :: "evm_word \<rightharpoonup> storage_slot"

definition overlay_default :: storage_overlay where
  "overlay_default = \<lparr>so_wiped = False, so_slots = Map.empty\<rparr>"

record acct =
  ac_original :: "account_info option"
  ac_present :: "account_info option"
  ac_flags :: account_flags
  ac_storage :: storage_overlay

definition acct_is_created :: "acct \<Rightarrow> bool" where
  "acct_is_created a = flags_has (ac_flags a) FLAG_CREATED"

definition discards_storage :: "acct \<Rightarrow> bool" where
  "discards_storage a = flags_has (ac_flags a) FLAG_DISCARDS_STORAGE"

definition acct_mark_created :: "acct \<Rightarrow> acct" where
  "acct_mark_created a = a\<lparr>ac_flags := ac_flags a OR FLAG_CREATED\<rparr>"

definition acct_mark_created_discarding_storage :: "acct \<Rightarrow> acct" where
  "acct_mark_created_discarding_storage a =
     (let a = acct_mark_created a in a\<lparr>ac_flags := ac_flags a OR FLAG_DISCARDS_STORAGE\<rparr>)"

definition acct_is_changed :: "acct \<Rightarrow> bool" where
  "acct_is_changed a =
     (case (ac_original a, ac_present a) of
        (None, None) \<Rightarrow> False | (Some x, Some y) \<Rightarrow> \<not> account_info_eq x y | _ \<Rightarrow> True)"

definition is_existing_dead :: "crypto \<Rightarrow> acct \<Rightarrow> bool" where
  "is_existing_dead C a = (case ac_present a of None \<Rightarrow> False | Some i \<Rightarrow> info_is_empty C i)"

definition changed_code :: "acct \<Rightarrow> (b256 \<times> bytecode) option" where
  "changed_code a =
     Option.bind (ac_present a) (\<lambda>i. Option.bind (ai_code i) (\<lambda>code.
       if map_option ai_code_hash (ac_original a) \<noteq> Some (ai_code_hash i) \<and> \<not> bytecode_is_empty code
       then Some (ai_code_hash i, code) else None))"

section \<open>Journal and state\<close>

record state_checkpoint =
  cp_journal_len :: nat
  cp_logs_len :: nat

datatype journal_entry =
    AccountChange address "account_info option" account_flags
  | StorageChange address evm_word evm_word
  | TransientStorageChange address evm_word "evm_word option"
  | StorageWarmed address evm_word

record log =
  lg_address :: address
  lg_topics :: "b256 list"
  lg_data :: bytes

record 'd database =
  db_account :: "address \<Rightarrow> ('d, database_error, account_info option) sres"
  db_code_by_hash :: "b256 \<Rightarrow> ('d, database_error, bytecode) sres"
  db_storage :: "address \<Rightarrow> evm_word \<Rightarrow> ('d, database_error, evm_word) sres"
  db_block_hash :: "evm_word \<Rightarrow> ('d, database_error, b256) sres"
  db_check_slot :: "address \<Rightarrow> evm_word \<Rightarrow> ('d, database_error, unit) sres"

text \<open>A database that holds nothing, for evaluating the model.\<close>

definition bare_db :: "unit database" where
  "bare_db =
     \<lparr>db_account = (\<lambda>_ d. (Inr None, d)), db_code_by_hash = (\<lambda>_ d. (Inr bytecode_new, d)),
      db_storage = (\<lambda>_ _ d. (Inr 0, d)), db_block_hash = (\<lambda>_ d. (Inr 0, d)),
      db_check_slot = (\<lambda>_ _ d. (Inr (), d))\<rparr>"

record 'd state =
  st_accounts :: "address \<rightharpoonup> acct"
  st_transient :: "address \<times> evm_word \<rightharpoonup> evm_word"
  st_database :: 'd
  st_journal :: "journal_entry list"
  st_logs :: "log list"
  st_prewarm :: prewarm_set

type_synonym ('d, 'a) dbres = "('d state, database_error, 'a) sres"

definition state_new :: "'d \<Rightarrow> 'd state" where
  "state_new d =
     \<lparr>st_accounts = Map.empty, st_transient = Map.empty, st_database = d, st_journal = [],
      st_logs = [], st_prewarm = prewarm_new\<rparr>"

definition checkpoint :: "'d state \<Rightarrow> state_checkpoint" where
  "checkpoint st = \<lparr>cp_journal_len = length (st_journal st), cp_logs_len = length (st_logs st)\<rparr>"

definition push_journal :: "journal_entry \<Rightarrow> 'd state \<Rightarrow> 'd state" where
  "push_journal e st = st\<lparr>st_journal := st_journal st @ [e]\<rparr>"

definition on_db :: "('d, 'e, 'a) sres \<Rightarrow> ('d state, 'e, 'a) sres" where
  "on_db m st = (case m (st_database st) of (r, d) \<Rightarrow> (r, st\<lparr>st_database := d\<rparr>))"

definition read_unloaded_slot :: "'d database \<Rightarrow> address \<Rightarrow> evm_word \<Rightarrow> bool \<Rightarrow> ('d, evm_word) dbres" where
  "read_unloaded_slot D a key reads_zero =
     (if reads_zero then bindE (on_db (db_check_slot D a key)) (\<lambda>_. returnE 0)
      else on_db (db_storage D a key))"

definition state_log :: "log \<Rightarrow> 'd state \<Rightarrow> 'd state" where
  "state_log l st = st\<lparr>st_logs := st_logs st @ [l]\<rparr>"

definition clear_transaction_state :: "'d state \<Rightarrow> 'd state" where
  "clear_transaction_state st =
     st\<lparr>st_accounts := Map.empty, st_transient := Map.empty, st_prewarm := prewarm_clear (st_prewarm st),
        st_journal := [], st_logs := []\<rparr>"

section \<open>Loading accounts\<close>

definition take_logs :: "'d state \<Rightarrow> log list \<times> 'd state" where
  "take_logs st = (st_logs st, st\<lparr>st_logs := []\<rparr>)"

definition prewarm :: "address \<Rightarrow> 'd state \<Rightarrow> 'd state" where
  "prewarm a st = st\<lparr>st_prewarm := prewarm_warm a (st_prewarm st)\<rparr>"

definition prewarm_storage :: "address \<Rightarrow> evm_word list \<Rightarrow> 'd state \<Rightarrow> 'd state" where
  "prewarm_storage a slots st = st\<lparr>st_prewarm := prewarm_warm_storage a slots (st_prewarm st)\<rparr>"

definition prewarm_storage_slot :: "address \<Rightarrow> evm_word \<Rightarrow> 'd state \<Rightarrow> 'd state" where
  "prewarm_storage_slot a key = prewarm_storage a [key]"

definition put_account :: "address \<Rightarrow> acct \<Rightarrow> 'd state \<Rightarrow> 'd state" where
  "put_account a acc st = st\<lparr>st_accounts := (st_accounts st)(a \<mapsto> acc)\<rparr>"

definition loaded_account :: "account_info option \<Rightarrow> bool \<Rightarrow> acct" where
  "loaded_account info warm =
     \<lparr>ac_original = info, ac_present = info, ac_flags = (if warm then FLAG_WARM else 0),
      ac_storage = overlay_default\<rparr>"

definition account_raw_with_skip ::
    "'d database \<Rightarrow> address \<Rightarrow> bool \<Rightarrow> ('d state, load_error, acct) sres" where
  "account_raw_with_skip D a skip_cold st =
     (case st_accounts st a of
        Some acc \<Rightarrow>
          if skip_cold \<and> \<not> flags_has (ac_flags acc) FLAG_WARM \<and> prewarm_is_cold (st_prewarm st) a
          then (Inl ColdLoadSkipped, st)
          else (Inr acc, st)
      | None \<Rightarrow>
          let is_warm = prewarm_is_warm (st_prewarm st) a in
          if skip_cold \<and> \<not> is_warm then (Inl ColdLoadSkipped, st)
          else
            case on_db (db_account D a) st of
              (Inl e, st) \<Rightarrow> (Inl (LoadDatabase e), st)
            | (Inr original, st) \<Rightarrow>
                let acc = loaded_account original is_warm in (Inr acc, put_account a acc st))"

definition account_raw :: "'d database \<Rightarrow> address \<Rightarrow> ('d, acct) dbres" where
  "account_raw D a st =
     (case st_accounts st a of
        Some acc \<Rightarrow> (Inr acc, st)
      | None \<Rightarrow>
          case on_db (db_account D a) st of
            (Inl e, st) \<Rightarrow> (Inl e, st)
          | (Inr original, st) \<Rightarrow>
              let acc = loaded_account original (prewarm_is_warm (st_prewarm st) a)
              in (Inr acc, put_account a acc st))"

definition account_info_untracked :: "'d database \<Rightarrow> address \<Rightarrow> ('d, account_info option) dbres" where
  "account_info_untracked D a st =
     (case st_accounts st a of Some acc \<Rightarrow> (Inr (ac_present acc), st) | None \<Rightarrow> on_db (db_account D a) st)"

text \<open>\<open>account_raw\<close> is the load that skips nothing: the other error does not occur.\<close>

lemma account_raw_no_skip:
  "account_raw_with_skip D a False st =
     (case account_raw D a st of (Inl e, st') \<Rightarrow> (Inl (LoadDatabase e), st') | (Inr acc, st') \<Rightarrow> (Inr acc, st'))"
  by (auto simp: account_raw_with_skip_def account_raw_def on_db_def Let_def split: option.splits prod.splits sum.splits)

section \<open>Account handles\<close>

record handle =
  hd_address :: address
  hd_tracked :: acct
  hd_snapshot :: "journal_entry option"

definition handle_new :: "address \<Rightarrow> acct \<Rightarrow> handle" where
  "handle_new a acc = \<lparr>hd_address = a, hd_tracked = acc, hd_snapshot = None\<rparr>"

text \<open>Dropping the handle: the account is what the overlay holds, and the snapshot is journaled.\<close>

definition handle_drop :: "handle \<Rightarrow> 'd state \<Rightarrow> 'd state" where
  "handle_drop h st =
     (let st = put_account (hd_address h) (hd_tracked h) st in
      case hd_snapshot h of None \<Rightarrow> st | Some e \<Rightarrow> push_journal e st)"

definition record_change :: "handle \<Rightarrow> handle" where
  "record_change h =
     (if hd_snapshot h = None
      then h\<lparr>hd_snapshot := Some (AccountChange (hd_address h) (ac_present (hd_tracked h)) (ac_flags (hd_tracked h)))\<rparr>
      else h)"

definition insert_flag :: "account_flags \<Rightarrow> handle \<Rightarrow> handle" where
  "insert_flag f h = h\<lparr>hd_tracked := (hd_tracked h)\<lparr>ac_flags := ac_flags (hd_tracked h) OR f\<rparr>\<rparr>"

definition h_exists :: "handle \<Rightarrow> bool" where
  "h_exists h \<longleftrightarrow> ac_present (hd_tracked h) \<noteq> None"

definition h_balance :: "handle \<Rightarrow> evm_word" where
  "h_balance h = (case ac_present (hd_tracked h) of None \<Rightarrow> 0 | Some i \<Rightarrow> ai_balance i)"

definition h_nonce :: "handle \<Rightarrow> u64" where
  "h_nonce h = (case ac_present (hd_tracked h) of None \<Rightarrow> 0 | Some i \<Rightarrow> ai_nonce i)"

definition h_is_warm :: "prewarm_set \<Rightarrow> handle \<Rightarrow> bool" where
  "h_is_warm p h \<longleftrightarrow> flags_has (ac_flags (hd_tracked h)) FLAG_WARM \<or> prewarm_is_warm p (hd_address h)"

definition is_destructed :: "handle \<Rightarrow> bool" where
  "is_destructed h = flags_has (ac_flags (hd_tracked h)) FLAG_DESTROYED"

definition is_touched :: "handle \<Rightarrow> bool" where
  "is_touched h = flags_has (ac_flags (hd_tracked h)) FLAG_TOUCHED"

definition h_is_created :: "handle \<Rightarrow> bool" where
  "h_is_created h \<longleftrightarrow> h_exists h \<and> acct_is_created (hd_tracked h)"

definition is_empty_for_new_account_gas :: "crypto \<Rightarrow> evm_features \<Rightarrow> handle \<Rightarrow> bool" where
  "is_empty_for_new_account_gas C fs h =
     (if features_contains fs EIP161
      then (case ac_present (hd_tracked h) of None \<Rightarrow> True | Some i \<Rightarrow> info_is_empty C i)
      else ac_present (hd_tracked h) = None \<and> \<not> is_touched h)"

text \<open>The code of an account: held by the info, or read by its hash.\<close>

definition code_of_info :: "crypto \<Rightarrow> 'd database \<Rightarrow> account_info option \<Rightarrow> ('d, bytecode) dbres" where
  "code_of_info C D info =
     (case info of
        None \<Rightarrow> returnE bytecode_new
      | Some i \<Rightarrow>
          if is_empty_code_hash C i then returnE bytecode_new
          else
            bindE (case ai_code i of
                     Some code \<Rightarrow>
                       if \<not> bytecode_is_empty code then returnE code
                       else on_db (db_code_by_hash D (ai_code_hash i))
                   | None \<Rightarrow> on_db (db_code_by_hash D (ai_code_hash i))) (\<lambda>code.
            returnE (seed_hash code (ai_code_hash i))))"

definition load_code :: "crypto \<Rightarrow> 'd database \<Rightarrow> handle \<Rightarrow> ('d, bytecode) dbres" where
  "load_code C D h = code_of_info C D (ac_present (hd_tracked h))"

definition original_code :: "crypto \<Rightarrow> 'd database \<Rightarrow> handle \<Rightarrow> ('d, bytecode) dbres" where
  "original_code C D h = code_of_info C D (ac_original (hd_tracked h))"

definition code_untracked :: "crypto \<Rightarrow> 'd database \<Rightarrow> address \<Rightarrow> ('d, bytecode) dbres" where
  "code_untracked C D a = bindE (account_info_untracked D a) (code_of_info C D)"

definition touch :: "handle \<Rightarrow> handle" where
  "touch h = (if \<not> is_touched h then insert_flag FLAG_TOUCHED (record_change h) else h)"

definition mark_destructed :: "handle \<Rightarrow> handle" where
  "mark_destructed h =
     touch (if \<not> is_destructed h then insert_flag FLAG_DESTROYED (record_change h) else h)"

definition h_warm :: "prewarm_set \<Rightarrow> handle \<Rightarrow> bool \<times> handle" where
  "h_warm p h = (if h_is_warm p h then (False, h) else (True, insert_flag FLAG_WARM (record_change h)))"

text \<open>\<open>present_mut\<close> with the assignment that follows it.\<close>

definition update_present :: "crypto \<Rightarrow> (account_info \<Rightarrow> account_info) \<Rightarrow> handle \<Rightarrow> handle" where
  "update_present C f h =
     (let h = record_change h;
          i = (case ac_present (hd_tracked h) of Some i \<Rightarrow> i | None \<Rightarrow> account_info_default C)
      in h\<lparr>hd_tracked := (hd_tracked h)\<lparr>ac_present := Some (f i)\<rparr>\<rparr>)"

definition set_balance :: "crypto \<Rightarrow> evm_word \<Rightarrow> handle \<Rightarrow> handle" where
  "set_balance C balance h = update_present C (\<lambda>i. i\<lparr>ai_balance := balance\<rparr>) (touch h)"

definition add_balance :: "crypto \<Rightarrow> evm_word \<Rightarrow> handle \<Rightarrow> handle" where
  "add_balance C delta h = (if delta = 0 then touch h else set_balance C (h_balance h + delta) h)"

definition set_nonce :: "crypto \<Rightarrow> u64 \<Rightarrow> handle \<Rightarrow> handle" where
  "set_nonce C nonce h = update_present C (\<lambda>i. i\<lparr>ai_nonce := nonce\<rparr>) (touch h)"

definition bump_nonce :: "crypto \<Rightarrow> handle \<Rightarrow> bool \<times> handle" where
  "bump_nonce C h =
     (let h = touch h in
      case checked_add (h_nonce h) 1 of
        None \<Rightarrow> (False, h)
      | Some nonce \<Rightarrow> (True, update_present C (\<lambda>i. i\<lparr>ai_nonce := nonce\<rparr>) h))"

definition set_code :: "crypto \<Rightarrow> b256 \<Rightarrow> bytecode \<Rightarrow> handle \<Rightarrow> handle" where
  "set_code C code_hash code h =
     update_present C (\<lambda>i. i\<lparr>ai_code_hash := code_hash, ai_code := Some code\<rparr>) (touch h)"

definition set_code_slow :: "crypto \<Rightarrow> bytecode \<Rightarrow> handle \<Rightarrow> handle" where
  "set_code_slow C code h = set_code C (hash_slow (keccak256 C) code) code h"

definition set_delegation :: "crypto \<Rightarrow> address \<Rightarrow> handle \<Rightarrow> handle" where
  "set_delegation C delegated_address h =
     (let code = (if delegated_address = 0 then bytecode_new else new_eip7702 delegated_address)
      in snd (bump_nonce C (set_code_slow C code h)))"

definition h_mark_created :: "handle \<Rightarrow> handle" where
  "h_mark_created h = (let h = record_change h in h\<lparr>hd_tracked := acct_mark_created (hd_tracked h)\<rparr>)"

definition h_mark_created_discarding_storage :: "handle \<Rightarrow> handle" where
  "h_mark_created_discarding_storage h =
     (let h = record_change h in h\<lparr>hd_tracked := acct_mark_created_discarding_storage (hd_tracked h)\<rparr>)"

definition snapshot_update :: "crypto \<Rightarrow> (account_info \<Rightarrow> account_info) \<Rightarrow> handle \<Rightarrow> handle" where
  "snapshot_update C f h =
     (case hd_snapshot h of
        Some (AccountChange a previous flags) \<Rightarrow>
          h\<lparr>hd_snapshot := Some (AccountChange a
              (Some (f (case previous of Some i \<Rightarrow> i | None \<Rightarrow> account_info_default C))) flags)\<rparr>
      | _ \<Rightarrow> h)"

definition override_balance :: "crypto \<Rightarrow> evm_word \<Rightarrow> handle \<Rightarrow> handle" where
  "override_balance C balance h =
     snapshot_update C (\<lambda>i. i\<lparr>ai_balance := balance\<rparr>) (update_present C (\<lambda>i. i\<lparr>ai_balance := balance\<rparr>) h)"

definition override_nonce :: "crypto \<Rightarrow> u64 \<Rightarrow> handle \<Rightarrow> handle" where
  "override_nonce C nonce h =
     snapshot_update C (\<lambda>i. i\<lparr>ai_nonce := nonce\<rparr>) (update_present C (\<lambda>i. i\<lparr>ai_nonce := nonce\<rparr>) h)"

text \<open>The account of an address, for the duration of one handle.\<close>

definition with_account :: "'d database \<Rightarrow> address \<Rightarrow> (handle \<Rightarrow> 'a \<times> handle) \<Rightarrow> ('d, 'a) dbres" where
  "with_account D a f =
     bindE (account_raw D a) (\<lambda>acc st.
       case f (handle_new a acc) of (x, h) \<Rightarrow> (Inr x, handle_drop h st))"

definition with_account_skip ::
    "'d database \<Rightarrow> address \<Rightarrow> bool \<Rightarrow> (handle \<Rightarrow> 'a \<times> handle) \<Rightarrow> ('d state, load_error, 'a) sres" where
  "with_account_skip D a skip_cold f =
     bindE (account_raw_with_skip D a skip_cold) (\<lambda>acc st.
       case f (handle_new a acc) of (x, h) \<Rightarrow> (Inr x, handle_drop h st))"


section \<open>Storage slots\<close>

text \<open>A borrowed slot of a loaded account; the handle of a slot refers to one that exists.\<close>

definition slot_of :: "'d state \<Rightarrow> address \<Rightarrow> evm_word \<Rightarrow> storage_slot option" where
  "slot_of st a key = Option.bind (st_accounts st a) (\<lambda>acc. so_slots (ac_storage acc) key)"

definition put_slot :: "evm_word \<Rightarrow> storage_slot \<Rightarrow> acct \<Rightarrow> acct" where
  "put_slot key slot acc =
     acc\<lparr>ac_storage := (ac_storage acc)\<lparr>so_slots := (so_slots (ac_storage acc))(key \<mapsto> slot)\<rparr>\<rparr>"

definition update_slot :: "address \<Rightarrow> evm_word \<Rightarrow> (storage_slot \<Rightarrow> storage_slot) \<Rightarrow> 'd state \<Rightarrow> 'd state" where
  "update_slot a key f st =
     (case st_accounts st a of
        None \<Rightarrow> st
      | Some acc \<Rightarrow>
          case so_slots (ac_storage acc) key of
            None \<Rightarrow> st
          | Some slot \<Rightarrow> put_account a (put_slot key (f slot) acc) st)"

definition set_storage_warm :: "address \<Rightarrow> evm_word \<Rightarrow> bool \<Rightarrow> 'd state \<Rightarrow> 'd state" where
  "set_storage_warm a key warm = update_slot a key (\<lambda>slot. slot\<lparr>slot_is_warm := warm\<rparr>)"

definition set_account_warm :: "address \<Rightarrow> bool \<Rightarrow> 'd state \<Rightarrow> 'd state" where
  "set_account_warm a warm st =
     (case st_accounts st a of
        None \<Rightarrow> st
      | Some acc \<Rightarrow>
          put_account a (acc\<lparr>ac_flags :=
            (if warm then ac_flags acc OR FLAG_WARM else flags_minus (ac_flags acc) FLAG_WARM)\<rparr>) st)"

text \<open>\<open>into_slot_inner\<close> on the storage of the loaded account \<open>acc\<close>; the first argument is the constant \<open>WARM\<close>.\<close>

definition into_slot_inner ::
    "bool \<Rightarrow> 'd database \<Rightarrow> address \<Rightarrow> acct \<Rightarrow> evm_word \<Rightarrow> bool
      \<Rightarrow> ('d state, load_error, storage_slot \<times> bool) sres" where
  "into_slot_inner WARM D a acc key skip_cold_load st =
     (let prewarmed = prewarm_is_storage_warm (st_prewarm st) a key;
          finish = (\<lambda>slot is_cold st.
            if WARM \<and> is_cold
            then let slot = slot\<lparr>slot_is_warm := True\<rparr> in
                 (Inr (slot, is_cold),
                  push_journal (StorageWarmed a key) (put_account a (put_slot key slot acc) st))
            else (Inr (slot, is_cold), put_account a (put_slot key slot acc) st))
      in case so_slots (ac_storage acc) key of
           Some slot \<Rightarrow>
             let is_cold = (if WARM \<or> skip_cold_load then \<not> slot_is_warm slot \<and> \<not> prewarmed else False) in
             if skip_cold_load \<and> is_cold then (Inl ColdLoadSkipped, st) else finish slot is_cold st
         | None \<Rightarrow>
             if skip_cold_load \<and> \<not> prewarmed then (Inl ColdLoadSkipped, st)
             else
               case read_unloaded_slot D a key (so_wiped (ac_storage acc) \<or> discards_storage acc) st of
                 (Inl e, st) \<Rightarrow> (Inl (LoadDatabase e), st)
               | (Inr v, st) \<Rightarrow> finish (slot_loaded v prewarmed) (\<not> prewarmed) st)"

text \<open>\<open>State::storage\<close> and the load of one of its slots.\<close>

definition state_storage_slot ::
    "bool \<Rightarrow> 'd database \<Rightarrow> address \<Rightarrow> evm_word \<Rightarrow> bool
      \<Rightarrow> ('d state, load_error, storage_slot \<times> bool) sres" where
  "state_storage_slot WARM D a key skip_cold_load st =
     (case account_raw D a st of
        (Inl e, st) \<Rightarrow> (Inl (LoadDatabase e), st)
      | (Inr acc, st) \<Rightarrow> into_slot_inner WARM D a acc key skip_cold_load st)"

definition slot_set :: "address \<Rightarrow> evm_word \<Rightarrow> storage_slot \<Rightarrow> evm_word \<Rightarrow> 'd state \<Rightarrow> 'd state" where
  "slot_set a key slot v st =
     (let previous = tr_current (slot_value slot) in
      if previous = v then st
      else push_journal (StorageChange a key previous)
             (update_slot a key (\<lambda>_. slot\<lparr>slot_value := set_current v (slot_value slot)\<rparr>) st))"

definition slot_write ::
    "address \<Rightarrow> evm_word \<Rightarrow> storage_slot \<Rightarrow> evm_word \<Rightarrow> 'd state \<Rightarrow> (evm_word \<times> evm_word) \<times> 'd state" where
  "slot_write a key slot v st =
     ((tr_original (slot_value slot), tr_current (slot_value slot)), slot_set a key slot v st)"

definition storage_slot_untracked :: "'d database \<Rightarrow> address \<Rightarrow> evm_word \<Rightarrow> ('d, evm_word) dbres" where
  "storage_slot_untracked D a key st =
     (case slot_of st a key of
        Some slot \<Rightarrow> (Inr (tr_current (slot_value slot)), st)
      | None \<Rightarrow>
          read_unloaded_slot D a key
            (case st_accounts st a of
               None \<Rightarrow> False | Some acc \<Rightarrow> so_wiped (ac_storage acc) \<or> discards_storage acc) st)"

definition state_get_storage :: "'d state \<Rightarrow> address \<Rightarrow> evm_word \<Rightarrow> evm_word option" where
  "state_get_storage st a key = map_option (\<lambda>slot. tr_current (slot_value slot)) (slot_of st a key)"

definition zero_loaded :: "storage_overlay \<Rightarrow> storage_overlay" where
  "zero_loaded so =
     so\<lparr>so_slots := (\<lambda>key. map_option (\<lambda>slot. slot\<lparr>slot_value := set_current 0 (slot_value slot)\<rparr>)
                       (so_slots so key))\<rparr>"

definition wipe :: "storage_overlay \<Rightarrow> storage_overlay" where
  "wipe so = zero_loaded (so\<lparr>so_wiped := True\<rparr>)"

section \<open>Value transfer, creation and transient storage\<close>

definition transfer :: "crypto \<Rightarrow> 'd database \<Rightarrow> address \<Rightarrow> address \<Rightarrow> evm_word \<Rightarrow> ('d, bool) dbres" where
  "transfer C D from to v =
     (if v = 0 then with_account D to (\<lambda>h. (True, touch h))
      else if from = to then
        with_account D from (\<lambda>h. if h_balance h < v then (False, h) else (True, touch h))
      else
        bindE (with_account D from (\<lambda>h.
                 case checked_sub (h_balance h) v of
                   None \<Rightarrow> (False, h)
                 | Some new_from_balance \<Rightarrow> (True, touch (set_balance C new_from_balance h)))) (\<lambda>paid.
        if \<not> paid then returnE False
        else
          with_account D to (\<lambda>h.
            (True, touch (set_balance C (saturating_add (h_balance h) v) h)))))"

definition create_account ::
    "crypto \<Rightarrow> 'd database \<Rightarrow> address \<Rightarrow> address \<Rightarrow> evm_word \<Rightarrow> evm_features
      \<Rightarrow> ('d, instr_stop + unit) dbres" where
  "create_account C D caller a v fs =
     bindE (with_account D a (\<lambda>h.
              (case ac_present (hd_tracked h) of
                 None \<Rightarrow> False | Some i \<Rightarrow> ai_nonce i \<noteq> 0 \<or> \<not> is_empty_code_hash C i, h))) (\<lambda>collision.
     if collision then returnE (Inl CreateCollision)
     else
       bindE (if v \<noteq> 0
              then with_account D caller (\<lambda>h.
                     case checked_sub (h_balance h) v of
                       None \<Rightarrow> (False, h)
                     | Some new_caller_balance \<Rightarrow> (True, set_balance C new_caller_balance h))
              else returnE True) (\<lambda>paid.
       if \<not> paid then returnE (Inl OutOfFunds)
       else
         with_account D a (\<lambda>h.
           let info = \<lparr>ai_balance = h_balance h + v, ai_nonce = of_bool (features_contains fs EIP161),
                       ai_code_hash = KECCAK256_EMPTY C, ai_code = Some bytecode_new\<rparr>
           in (Inr (), touch (h_mark_created_discarding_storage (update_present C (\<lambda>_. info) h))))))"

definition tload :: "address \<Rightarrow> evm_word \<Rightarrow> 'd state \<Rightarrow> evm_word" where
  "tload a key st = (case st_transient st (a, key) of None \<Rightarrow> 0 | Some v \<Rightarrow> v)"

definition tstore :: "address \<Rightarrow> evm_word \<Rightarrow> evm_word \<Rightarrow> 'd state \<Rightarrow> 'd state" where
  "tstore a key v st =
     (case st_transient st (a, key) of
        Some previous \<Rightarrow>
          if previous = v then st
          else
            let st = push_journal (TransientStorageChange a key (Some previous)) st in
            st\<lparr>st_transient := (st_transient st)((a, key) := (if v = 0 then None else Some v))\<rparr>
      | None \<Rightarrow>
          if v = 0 then st
          else
            let st = push_journal (TransientStorageChange a key None) st in
            st\<lparr>st_transient := (st_transient st)((a, key) \<mapsto> v)\<rparr>)"

section \<open>Rollback\<close>

text \<open>The touch of the third precompile survives a rollback under EIP-161.\<close>

definition kept_flags :: "evm_features \<Rightarrow> address \<Rightarrow> account_flags" where
  "kept_flags fs a = (if features_contains fs EIP161 \<and> a = 3 then FLAG_TOUCHED else 0)"

fun undo_entry :: "evm_features \<Rightarrow> journal_entry \<Rightarrow> 'd state \<Rightarrow> 'd state" where
  "undo_entry fs (AccountChange a previous previous_flags) st =
     (case st_accounts st a of
        None \<Rightarrow> st
      | Some acc \<Rightarrow>
          put_account a (acc\<lparr>ac_present := previous,
            ac_flags := flags_minus previous_flags (kept_flags fs a) OR (ac_flags acc AND kept_flags fs a)\<rparr>) st)"
| "undo_entry fs (StorageChange a key previous) st =
     update_slot a key (\<lambda>slot. slot\<lparr>slot_value := set_current previous (slot_value slot)\<rparr>) st"
| "undo_entry fs (TransientStorageChange a key previous) st =
     st\<lparr>st_transient := (st_transient st)((a, key) :=
          (case previous of Some v \<Rightarrow> if v \<noteq> 0 then Some v else None | None \<Rightarrow> None))\<rparr>"
| "undo_entry fs (StorageWarmed a key) st = set_storage_warm a key False st"

lemma undo_entry_journal [simp]: "st_journal (undo_entry fs e st) = st_journal st"
  by (cases e) (simp_all add: update_slot_def set_storage_warm_def put_account_def split: option.splits)

function rollback_journal :: "evm_features \<Rightarrow> nat \<Rightarrow> 'd state \<Rightarrow> 'd state" where
  "rollback_journal fs n st =
     (if length (st_journal st) > n
      then rollback_journal fs n
             (undo_entry fs (last (st_journal st)) (st\<lparr>st_journal := butlast (st_journal st)\<rparr>))
      else st)"
  by pat_completeness auto
termination
  by (relation "measure (\<lambda>(_, _, st). length (st_journal st))") auto

declare rollback_journal.simps [simp del]

definition rollback :: "state_checkpoint \<Rightarrow> evm_features \<Rightarrow> 'd state \<Rightarrow> 'd state" where
  "rollback cp fs st =
     rollback_journal fs (cp_journal_len cp) (st\<lparr>st_logs := take (cp_logs_len cp) (st_logs st)\<rparr>)"

section \<open>Finalization\<close>

definition delete_for_finalization :: "handle \<Rightarrow> handle" where
  "delete_for_finalization h = h\<lparr>hd_tracked := (hd_tracked h)\<lparr>ac_present := None\<rparr>\<rparr>"

definition reset_selfdestructed_for_finalization :: "crypto \<Rightarrow> handle \<Rightarrow> handle" where
  "reset_selfdestructed_for_finalization C h =
     h\<lparr>hd_tracked := (hd_tracked h)\<lparr>ac_present :=
        Some ((account_info_default C)\<lparr>ai_balance := h_balance h\<rparr>)\<rparr>\<rparr>"

text \<open>\<open>State::storage\<close> with a change of the overlay.\<close>

definition with_storage :: "'d database \<Rightarrow> address \<Rightarrow> (storage_overlay \<Rightarrow> storage_overlay) \<Rightarrow> ('d, unit) dbres" where
  "with_storage D a f =
     bindE (account_raw D a) (\<lambda>acc st.
       (Inr (), put_account a (acc\<lparr>ac_storage := f (ac_storage acc)\<rparr>) st))"

definition materialize_empty_account_for_finalization ::
    "crypto \<Rightarrow> 'd database \<Rightarrow> address \<Rightarrow> ('d, unit) dbres" where
  "materialize_empty_account_for_finalization C D a =
     bindE (account_raw D a) (\<lambda>acc st.
       if ac_original acc = None \<and> ac_present acc = None
       then (Inr (), put_account a
               (acct_mark_created_discarding_storage (acc\<lparr>ac_present := Some (account_info_default C)\<rparr>)) st)
       else (Inr (), st))"

definition finalize_destroyed :: "crypto \<Rightarrow> 'd database \<Rightarrow> bool \<Rightarrow> address \<Rightarrow> ('d, unit) dbres" where
  "finalize_destroyed C D eip8246 a =
     bindE (with_account D a (\<lambda>h.
              let survives = eip8246 \<and> h_balance h \<noteq> 0
              in (survives, if survives then reset_selfdestructed_for_finalization C h
                            else delete_for_finalization h))) (\<lambda>survives.
     bindE (account_raw D a) (\<lambda>acc.
       with_storage D a (if survives \<and> discards_storage acc then zero_loaded else wipe)))"

definition finalize_touched :: "crypto \<Rightarrow> 'd database \<Rightarrow> bool \<Rightarrow> address \<Rightarrow> ('d, unit) dbres" where
  "finalize_touched C D eip161 a =
     (if eip161
      then bindE (with_account D a (\<lambda>h. ((), delete_for_finalization h))) (\<lambda>_. with_storage D a wipe)
      else materialize_empty_account_for_finalization C D a)"

fun for_each :: "('a \<Rightarrow> ('s, 'e, unit) sres) \<Rightarrow> 'a list \<Rightarrow> ('s, 'e, unit) sres" where
  "for_each f [] = returnE ()"
| "for_each f (x # xs) = bindE (f x) (\<lambda>_. for_each f xs)"

text \<open>The selection of the first pass.\<close>

definition is_destroyed_entry :: "acct \<Rightarrow> bool" where
  "is_destroyed_entry acc = flags_has (ac_flags acc) FLAG_DESTROYED"

definition is_finalize_entry :: "crypto \<Rightarrow> bool \<Rightarrow> acct \<Rightarrow> bool" where
  "is_finalize_entry C eip161 acc \<longleftrightarrow>
     \<not> is_destroyed_entry acc \<and> flags_has (ac_flags acc) FLAG_TOUCHED \<and>
     (if eip161 then is_existing_dead C acc else ac_present acc = None)"

text \<open>
  The pass over the accounts visits them in the order of the hash map, which is
  a parameter: \<open>order\<close> lists the loaded addresses.
\<close>

definition finalize_transaction ::
    "crypto \<Rightarrow> 'd database \<Rightarrow> version \<Rightarrow> address list \<Rightarrow> ('d, unit) dbres" where
  "finalize_transaction C D ver order st =
     (let eip161 = feature ver EIP161;
          entry_is = (\<lambda>P a. case st_accounts st a of None \<Rightarrow> False | Some acc \<Rightarrow> P acc);
          destroyed = filter (entry_is is_destroyed_entry) order;
          finalize = filter (entry_is (is_finalize_entry C eip161)) order
      in bindE (for_each (finalize_destroyed C D (feature ver EIP8246)) destroyed) (\<lambda>_.
         for_each (finalize_touched C D eip161) finalize) st)"

end
