(* ===== verification/State_Rollback.thy ===== *)
theory State_Rollback
  imports Evm_State
begin

text \<open>
  Rollback restores the checkpoint.  The journaled steps of the state form a step relation;
  every operation of the state is a sequence of them.  Undoing the journal of a reachable
  state gives back the checkpoint's state up to the read cache: accounts and slots that were
  loaded since then stay, unchanged and with the warmth of the transaction's pre-warmed
  set, and the touch of the third precompile stays under EIP-161.
\<close>

unbundle bit_operations_syntax

section \<open>Equality up to the read cache\<close>

definition clean_slot :: "prewarm_set \<Rightarrow> address \<Rightarrow> evm_word \<Rightarrow> storage_slot \<Rightarrow> bool" where
  "clean_slot p a key s \<longleftrightarrow>
     \<not> tracked_is_changed (slot_value s) \<and> slot_is_warm s = prewarm_is_storage_warm p a key"

definition slots_restored ::
    "prewarm_set \<Rightarrow> address \<Rightarrow> (evm_word \<rightharpoonup> storage_slot) \<Rightarrow> (evm_word \<rightharpoonup> storage_slot) \<Rightarrow> bool" where
  "slots_restored p a m m' \<longleftrightarrow>
     (\<forall>key s. m key = Some s \<longrightarrow> m' key = Some s) \<and>
     (\<forall>key s. m key = None \<longrightarrow> m' key = Some s \<longrightarrow> clean_slot p a key s)"

definition acct_restored :: "evm_features \<Rightarrow> prewarm_set \<Rightarrow> address \<Rightarrow> acct \<Rightarrow> acct \<Rightarrow> bool" where
  "acct_restored fs p a acc acc' \<longleftrightarrow>
     ac_original acc' = ac_original acc \<and> ac_present acc' = ac_present acc \<and>
     flags_minus (ac_flags acc') (kept_flags fs a) = flags_minus (ac_flags acc) (kept_flags fs a) \<and>
     so_wiped (ac_storage acc') = so_wiped (ac_storage acc) \<and>
     slots_restored p a (so_slots (ac_storage acc)) (so_slots (ac_storage acc'))"

text \<open>An account that was loaded since, as it was loaded.\<close>

definition clean_account :: "evm_features \<Rightarrow> prewarm_set \<Rightarrow> address \<Rightarrow> acct \<Rightarrow> bool" where
  "clean_account fs p a acc =
     acct_restored fs p a (loaded_account (ac_original acc) (prewarm_is_warm p a)) acc"

definition accounts_restored ::
    "evm_features \<Rightarrow> prewarm_set \<Rightarrow> (address \<rightharpoonup> acct) \<Rightarrow> (address \<rightharpoonup> acct) \<Rightarrow> bool" where
  "accounts_restored fs p m m' \<longleftrightarrow>
     (\<forall>a acc. m a = Some acc \<longrightarrow> (\<exists>acc'. m' a = Some acc' \<and> acct_restored fs p a acc acc')) \<and>
     (\<forall>a acc'. m a = None \<longrightarrow> m' a = Some acc' \<longrightarrow> clean_account fs p a acc')"

definition restored :: "evm_features \<Rightarrow> 'd state \<Rightarrow> 'd state \<Rightarrow> bool" where
  "restored fs st st' \<longleftrightarrow>
     accounts_restored fs (st_prewarm st) (st_accounts st) (st_accounts st') \<and>
     st_transient st' = st_transient st \<and> st_journal st' = st_journal st \<and>
     st_logs st' = st_logs st \<and> st_prewarm st' = st_prewarm st"

lemma slots_restored_refl [simp, intro]: "slots_restored p a m m"
  by (simp add: slots_restored_def)

lemma slots_restored_trans:
  "slots_restored p a m m' \<Longrightarrow> slots_restored p a m' m'' \<Longrightarrow> slots_restored p a m m''"
  unfolding slots_restored_def by (metis not_None_eq option.inject)

lemma acct_restored_refl [simp, intro]: "acct_restored fs p a acc acc"
  by (simp add: acct_restored_def)

lemma acct_restored_trans:
  "acct_restored fs p a x y \<Longrightarrow> acct_restored fs p a y z \<Longrightarrow> acct_restored fs p a x z"
  by (auto simp: acct_restored_def intro: slots_restored_trans)

lemma clean_account_loaded: "clean_account fs p a (loaded_account info (prewarm_is_warm p a))"
  by (simp add: clean_account_def loaded_account_def)

lemma clean_account_restored:
  "clean_account fs p a x \<Longrightarrow> acct_restored fs p a x y \<Longrightarrow> clean_account fs p a y"
  by (auto simp: clean_account_def acct_restored_def intro: slots_restored_trans)

lemma accounts_restored_refl [simp, intro]: "accounts_restored fs p m m"
  by (simp add: accounts_restored_def)

lemma accounts_restored_trans:
  assumes "accounts_restored fs p m m'" "accounts_restored fs p m' m''"
  shows "accounts_restored fs p m m''"
  unfolding accounts_restored_def
proof (intro conjI allI impI)
  fix a acc assume "m a = Some acc"
  then show "\<exists>acc'. m'' a = Some acc' \<and> acct_restored fs p a acc acc'"
    using assms unfolding accounts_restored_def by (meson acct_restored_trans)
next
  fix a acc' assume a: "m a = None" "m'' a = Some acc'"
  show "clean_account fs p a acc'"
  proof (cases "m' a")
    case None
    then show ?thesis using a assms(2) by (simp add: accounts_restored_def)
  next
    case (Some x)
    then obtain y where "m'' a = Some y" "acct_restored fs p a x y"
      using assms(2) unfolding accounts_restored_def by blast
    moreover have "clean_account fs p a x"
      using a Some assms(1) by (simp add: accounts_restored_def)
    ultimately show ?thesis using a by (auto intro: clean_account_restored)
  qed
qed

lemma restored_refl [simp, intro]: "restored fs st st"
  by (simp add: restored_def)

lemma restored_trans: "restored fs x y \<Longrightarrow> restored fs y z \<Longrightarrow> restored fs x z"
  by (auto simp: restored_def intro: accounts_restored_trans)

section \<open>The steps of the state\<close>

text \<open>
  A step changes the state and journals what it changed, adds a log, or extends the read
  cache.
\<close>

inductive evolves :: "evm_features \<Rightarrow> 'd state \<Rightarrow> 'd state \<Rightarrow> bool" for fs where
  ev_cache: "restored fs st st' \<Longrightarrow> evolves fs st st'"
| ev_account:
    "st_accounts st a = Some acc \<Longrightarrow> ac_original acc' = ac_original acc \<Longrightarrow>
     ac_storage acc' = ac_storage acc \<Longrightarrow>
     evolves fs st (push_journal (AccountChange a (ac_present acc) (ac_flags acc)) (put_account a acc' st))"
| ev_slot:
    "slot_of st a key = Some slot \<Longrightarrow>
     evolves fs st (push_journal (StorageChange a key (tr_current (slot_value slot)))
       (update_slot a key (\<lambda>_. slot\<lparr>slot_value := set_current v (slot_value slot)\<rparr>) st))"
| ev_warm:
    "slot_of st a key = Some slot \<Longrightarrow> \<not> slot_is_warm slot \<Longrightarrow>
     evolves fs st (push_journal (StorageWarmed a key)
       (update_slot a key (\<lambda>_. slot\<lparr>slot_is_warm := True\<rparr>) st))"
| ev_transient: "evolves fs st (tstore a key v st)"
| ev_log: "evolves fs st (state_log l st)"

abbreviation reaches :: "evm_features \<Rightarrow> 'd state \<Rightarrow> 'd state \<Rightarrow> bool" where
  "reaches fs \<equiv> (evolves fs)\<^sup>*\<^sup>*"

text \<open>A journal entry refers to a loaded account or slot.\<close>

fun entry_loaded :: "'d state \<Rightarrow> journal_entry \<Rightarrow> bool" where
  "entry_loaded st (AccountChange a _ _) = (st_accounts st a \<noteq> None)"
| "entry_loaded st (StorageChange a key _) = (slot_of st a key \<noteq> None)"
| "entry_loaded st (StorageWarmed a key) = (slot_of st a key \<noteq> None)"
| "entry_loaded st (TransientStorageChange _ _ _) = True"

text \<open>Transient storage holds no zero.\<close>

definition transient_ok :: "'d state \<Rightarrow> bool" where
  "transient_ok st \<longleftrightarrow> (\<forall>k. st_transient st k \<noteq> Some 0)"

definition undo_all :: "evm_features \<Rightarrow> journal_entry list \<Rightarrow> 'd state \<Rightarrow> 'd state" where
  "undo_all fs es = fold (undo_entry fs) (rev es)"

text \<open>What a rollback to a cursor does: undo the entries beyond it, latest first.\<close>

lemma undo_entry_set_journal:
  "undo_entry fs e (st\<lparr>st_journal := j\<rparr>) = (undo_entry fs e st)\<lparr>st_journal := j\<rparr>"
  by (cases e) (simp_all add: update_slot_def set_storage_warm_def put_account_def split: option.splits)

lemma undo_all_set_journal:
  "undo_all fs es (st\<lparr>st_journal := j\<rparr>) = (undo_all fs es st)\<lparr>st_journal := j\<rparr>"
  unfolding undo_all_def by (induction es arbitrary: st rule: rev_induct) (simp_all add: undo_entry_set_journal)

lemma undo_all_append: "undo_all fs (es @ es') st = undo_all fs es (undo_all fs es' st)"
  by (simp add: undo_all_def)

lemma undo_all_Nil [simp]: "undo_all fs [] st = st"
  by (simp add: undo_all_def)

lemma undo_all_single [simp]: "undo_all fs [e] st = undo_entry fs e st"
  by (simp add: undo_all_def)

lemma rollback_journal_undo:
  assumes "st_journal st = j @ es"
  shows "rollback_journal fs (length j) st = (undo_all fs es st)\<lparr>st_journal := j\<rparr>"
  using assms
proof (induction es arbitrary: st rule: rev_induct)
  case Nil
  then show ?case by (simp add: rollback_journal.simps [of fs _ st])
next
  case (snoc e es)
  then show ?case
    by (simp add: rollback_journal.simps [of fs _ st] butlast_append undo_all_append undo_entry_set_journal undo_all_set_journal)
qed


section \<open>Undoing is monotone in the read cache\<close>

lemma restored_put:
  assumes "restored fs st st'" "acct_restored fs (st_prewarm st) a x y"
  shows "restored fs (put_account a x st) (put_account a y st')"
  using assms by (auto simp: restored_def accounts_restored_def put_account_def)

lemma restored_account:
  assumes "restored fs st st'" "st_accounts st a = Some acc"
  obtains acc' where "st_accounts st' a = Some acc'" "acct_restored fs (st_prewarm st) a acc acc'"
  using assms unfolding restored_def accounts_restored_def by blast

lemma restored_slot: "restored fs st st' \<Longrightarrow> slot_of st a key = Some s \<Longrightarrow> slot_of st' a key = Some s"
  by (auto simp: slot_of_def bind_eq_Some_conv acct_restored_def slots_restored_def elim!: restored_account)

lemma acct_restored_put_slot:
  "acct_restored fs p a acc acc' \<Longrightarrow> acct_restored fs p a (put_slot key s acc) (put_slot key s acc')"
  by (simp add: acct_restored_def put_slot_def slots_restored_def)

lemma update_slot_eq:
  "slot_of st a key = Some s \<Longrightarrow>
     \<exists>acc. st_accounts st a = Some acc \<and> update_slot a key f st = put_account a (put_slot key (f s) acc) st"
  by (auto simp: slot_of_def update_slot_def bind_eq_Some_conv)

lemma update_slot_restored:
  assumes "restored fs st st'" "slot_of st a key = Some s"
  shows "restored fs (update_slot a key f st) (update_slot a key f st')"
proof -
  obtain acc where acc: "st_accounts st a = Some acc" "update_slot a key f st = put_account a (put_slot key (f s) acc) st"
    using update_slot_eq [OF assms(2)] by blast
  obtain acc' where acc': "st_accounts st' a = Some acc'" "update_slot a key f st' = put_account a (put_slot key (f s) acc') st'"
    using update_slot_eq [OF restored_slot [OF assms]] by blast
  show ?thesis
    using restored_account [OF assms(1) acc(1)] acc'
    by (auto simp: acc intro!: restored_put assms acct_restored_put_slot)
qed

lemma flags_restored_keep:
  "flags_minus (flags_minus f k OR (g AND k)) k = flags_minus f k"
  unfolding flags_minus_def by (rule bit_eqI) (auto simp: bit_simps)

lemma undo_entry_restored:
  assumes "restored fs st st'" "entry_loaded st e"
  shows "restored fs (undo_entry fs e st) (undo_entry fs e st')"
proof (cases e)
  case (AccountChange a p f)
  then obtain acc where acc: "st_accounts st a = Some acc" using assms(2) by auto
  then obtain acc' where acc': "st_accounts st' a = Some acc'" "acct_restored fs (st_prewarm st) a acc acc'"
    using restored_account [OF assms(1)] by blast
  have "acct_restored fs (st_prewarm st) a
     (acc\<lparr>ac_present := p, ac_flags := flags_minus f (kept_flags fs a) OR (ac_flags acc AND kept_flags fs a)\<rparr>)
     (acc'\<lparr>ac_present := p, ac_flags := flags_minus f (kept_flags fs a) OR (ac_flags acc' AND kept_flags fs a)\<rparr>)"
    using acc'(2) by (simp add: acct_restored_def flags_restored_keep)
  then show ?thesis
    using AccountChange acc acc'(1) by (simp add: restored_put assms(1))
next
  case (TransientStorageChange a k p)
  then show ?thesis using assms(1) by (simp add: restored_def)
qed (use assms in \<open>auto simp: set_storage_warm_def intro: update_slot_restored\<close>)

lemma slot_of_put_account:
  "slot_of (put_account a acc st) b key = (if b = a then so_slots (ac_storage acc) key else slot_of st b key)"
  by (simp add: slot_of_def put_account_def)

lemma slot_of_account: "st_accounts st a = Some acc \<Longrightarrow> slot_of st a key = so_slots (ac_storage acc) key"
  by (simp add: slot_of_def)

lemma slot_of_set_journal: "slot_of (st\<lparr>st_journal := j\<rparr>) a key = slot_of st a key"
  by (simp add: slot_of_def)

lemma slot_of_set_transient: "slot_of (st\<lparr>st_transient := t\<rparr>) a key = slot_of st a key"
  by (simp add: slot_of_def)

lemma slot_of_update_slot:
  "slot_of (update_slot a key f st) b k =
     (if b = a \<and> k = key then map_option f (slot_of st a key) else slot_of st b k)"
  by (auto simp: update_slot_def slot_of_def put_account_def put_slot_def split: option.splits)

lemma dom_update_slot: "(st_accounts (update_slot a key f st) b = None) = (st_accounts st b = None)"
  by (auto simp: update_slot_def put_account_def split: option.splits)

lemma entry_loaded_undo [simp]: "entry_loaded (undo_entry fs e st) e' = entry_loaded st e'"
proof -
  have "(st_accounts (undo_entry fs e st) b = None) = (st_accounts st b = None)" for b
    by (cases e) (auto simp: set_storage_warm_def dom_update_slot put_account_def split: option.splits)
  moreover have "(slot_of (undo_entry fs e st) b k = None) = (slot_of st b k = None)" for b k
    by (cases e) (auto simp: set_storage_warm_def slot_of_update_slot slot_of_put_account slot_of_account
        slot_of_set_transient split: option.splits)
  ultimately show ?thesis by (cases e') simp_all
qed

lemma undo_all_restored:
  assumes "restored fs st st'" "\<forall>e \<in> set es. entry_loaded st e"
  shows "restored fs (undo_all fs es st) (undo_all fs es st')"
  using assms
proof (induction es arbitrary: st st' rule: rev_induct)
  case (snoc e es)
  then show ?case
    by (simp add: undo_all_append undo_entry_restored)
qed simp

section \<open>Every step can be undone\<close>

lemma entry_loaded_restored: "restored fs st st' \<Longrightarrow> entry_loaded st e \<Longrightarrow> entry_loaded st' e"
  by (cases e) (auto dest: restored_slot elim: restored_account)

definition truncated :: "'d state \<Rightarrow> 'd state \<Rightarrow> 'd state" where
  "truncated st st' = st'\<lparr>st_journal := st_journal st, st_logs := st_logs st\<rparr>"

definition undoable :: "evm_features \<Rightarrow> 'd state \<Rightarrow> 'd state \<Rightarrow> bool" where
  "undoable fs st st' \<longleftrightarrow>
     (\<exists>es ls. st_journal st' = st_journal st @ es \<and> st_logs st' = st_logs st @ ls \<and>
        (\<forall>e \<in> set es. entry_loaded st' e) \<and> (\<forall>e. entry_loaded st e \<longrightarrow> entry_loaded st' e) \<and>
        restored fs st (truncated st (undo_all fs es st')))"

lemma undo_entry_set_logs: "undo_entry fs e (st\<lparr>st_logs := l\<rparr>) = (undo_entry fs e st)\<lparr>st_logs := l\<rparr>"
  by (cases e) (simp_all add: update_slot_def set_storage_warm_def put_account_def split: option.splits)

lemma undo_all_set_logs: "undo_all fs es (st\<lparr>st_logs := l\<rparr>) = (undo_all fs es st)\<lparr>st_logs := l\<rparr>"
  unfolding undo_all_def by (induction es arbitrary: st rule: rev_induct) (simp_all add: undo_entry_set_logs)

lemma truncated_undo_all: "truncated st (undo_all fs es (truncated st' x)) = truncated st (undo_all fs es x)"
  by (simp add: truncated_def undo_all_set_logs undo_all_set_journal)

lemma entry_loaded_set_logs: "entry_loaded (st\<lparr>st_logs := l\<rparr>) e = entry_loaded st e"
  by (cases e) (simp_all add: slot_of_def)

lemma restored_truncated: "restored fs x y \<Longrightarrow> restored fs (truncated st x) (truncated st y)"
  by (simp add: restored_def truncated_def)

lemma undoable_trans:
  assumes "undoable fs st st'" "undoable fs st' st''"
  shows "undoable fs st st''"
proof -
  obtain es ls where 1: "st_journal st' = st_journal st @ es" "st_logs st' = st_logs st @ ls"
      "\<forall>e \<in> set es. entry_loaded st' e" "\<And>e. entry_loaded st e \<Longrightarrow> entry_loaded st' e"
      "restored fs st (truncated st (undo_all fs es st'))"
    using assms(1) unfolding undoable_def by blast
  obtain es' ls' where 2: "st_journal st'' = st_journal st' @ es'" "st_logs st'' = st_logs st' @ ls'"
      "\<forall>e \<in> set es'. entry_loaded st'' e" "\<And>e. entry_loaded st' e \<Longrightarrow> entry_loaded st'' e"
      "restored fs st' (truncated st' (undo_all fs es' st''))"
    using assms(2) unfolding undoable_def by blast
  have "restored fs (truncated st (undo_all fs es st')) (truncated st (undo_all fs (es @ es') st''))"
    using restored_truncated [OF undo_all_restored [OF 2(5) 1(3)]]
    by (simp add: truncated_undo_all undo_all_append)
  with 1(5) have "restored fs st (truncated st (undo_all fs (es @ es') st''))"
    by (rule restored_trans)
  then show ?thesis
    unfolding undoable_def
    by (intro exI [of _ "es @ es'"] exI [of _ "ls @ ls'"]) (use 1 2 in auto)
qed

lemma undoable_entry:
  assumes "st_journal st' = st_journal st @ [e]" "st_logs st' = st_logs st" "entry_loaded st' e"
    and "\<And>a. st_accounts st a \<noteq> None \<Longrightarrow> st_accounts st' a \<noteq> None"
    and "\<And>a k. slot_of st a k \<noteq> None \<Longrightarrow> slot_of st' a k \<noteq> None"
    and "restored fs st (truncated st (undo_entry fs e st'))"
  shows "undoable fs st st'"
  unfolding undoable_def
proof (intro exI [of _ "[e]"] exI [of _ "[]"] conjI allI impI)
  fix e' assume "entry_loaded st e'"
  then show "entry_loaded st' e'"
    using assms(4,5) by (cases e') simp_all
qed (use assms in simp_all)

lemma undoable_restored: "restored fs st st' \<Longrightarrow> undoable fs st st'"
  unfolding undoable_def
  by (intro exI [of _ "[]"]) (auto intro: entry_loaded_restored simp: restored_def truncated_def)

lemma update_slot_back:
  assumes "slot_of st a key = Some slot" "g (f slot) = slot"
  shows "update_slot a key g (update_slot a key f st) = st"
  using assms
  by (auto simp: slot_of_def update_slot_def put_account_def put_slot_def bind_eq_Some_conv fun_upd_idem
      intro!: state.equality acct.equality)

lemma update_slot_fields [simp]:
  "st_journal (update_slot a key f st) = st_journal st" "st_logs (update_slot a key f st) = st_logs st"
  by (simp_all add: update_slot_def put_account_def split: option.splits)

lemma undoable_update_slot:
  assumes "undo_entry fs e (update_slot a key f st) = st"
    and "entry_loaded (update_slot a key f st) e"
  shows "undoable fs st (push_journal e (update_slot a key f st))"
proof (rule undoable_entry)
  show "entry_loaded (push_journal e (update_slot a key f st)) e"
    using assms(2) by (cases e) (simp_all add: push_journal_def slot_of_def)
  show "restored fs st (truncated st (undo_entry fs e (push_journal e (update_slot a key f st))))"
    by (simp add: push_journal_def undo_entry_set_journal assms(1) truncated_def)
qed (auto simp: push_journal_def dom_update_slot slot_of_set_journal slot_of_update_slot)

lemma undo_tstore:
  assumes "transient_ok st"
  shows "undoable fs st (tstore a key v st)"
proof (cases "tload a key st = v")
  case True
  then have "tstore a key v st = st"
    using assms by (auto simp: tload_def tstore_def transient_ok_def split: option.splits)
  then show ?thesis by (simp add: undoable_restored)
next
  case False
  then have j: "st_journal (tstore a key v st) = st_journal st @ [TransientStorageChange a key (st_transient st (a, key))]"
    by (auto simp: tload_def tstore_def push_journal_def split: option.splits)
  have a: "st_accounts (tstore a key v st) = st_accounts st" "st_logs (tstore a key v st) = st_logs st"
     "st_prewarm (tstore a key v st) = st_prewarm st"
    by (auto simp: tstore_def push_journal_def Let_def split: option.splits)
  have t: "st_transient (undo_entry fs (TransientStorageChange a key (st_transient st (a, key))) (tstore a key v st))
      = st_transient st"
    using assms by (auto simp: transient_ok_def tstore_def push_journal_def Let_def fun_upd_idem split: option.splits)
  show ?thesis
    using t by (intro undoable_entry [OF j]) (simp_all add: a slot_of_def truncated_def restored_def)
qed

lemma evolves_undoable:
  assumes "evolves fs st st'" "transient_ok st"
  shows "undoable fs st st'"
  using assms(1)
proof cases
  case ev_cache
  then show ?thesis by (rule undoable_restored)
next
  case (ev_account a acc acc')
  have "restored fs st (put_account a (acc'\<lparr>ac_present := ac_present acc,
      ac_flags := flags_minus (ac_flags acc) (kept_flags fs a) OR (ac_flags acc' AND kept_flags fs a)\<rparr>) st)"
    using restored_put [of fs st st a acc] ev_account
    by (simp add: acct_restored_def flags_restored_keep put_account_def fun_upd_idem)
  then show ?thesis
    using ev_account by (intro undoable_entry)
      (auto simp: push_journal_def put_account_def truncated_def slot_of_def restored_def)
next
  case (ev_slot a key slot v)
  then show ?thesis
    by (auto simp: slot_of_update_slot set_current_def intro!: undoable_update_slot update_slot_back)
next
  case (ev_warm a key slot)
  then show ?thesis
    by (auto simp: slot_of_update_slot set_storage_warm_def intro!: undoable_update_slot update_slot_back)
next
  case (ev_transient a key v)
  then show ?thesis using undo_tstore [OF assms(2)] by simp
next
  case (ev_log l)
  then show ?thesis
    unfolding undoable_def by (auto simp: state_log_def truncated_def entry_loaded_set_logs intro: exI [of _ "[]"])
qed


lemma evolves_transient_ok:
  assumes "evolves fs st st'" "transient_ok st"
  shows "transient_ok st'"
  using assms
  by cases (auto simp: restored_def transient_ok_def push_journal_def put_account_def update_slot_def
      state_log_def tstore_def Let_def split: option.splits if_splits)

lemma reaches_undoable:
  assumes "reaches fs st st'" "transient_ok st"
  shows "undoable fs st st' \<and> transient_ok st'"
  using assms
proof (induction rule: rtranclp_induct)
  case base
  then show ?case by (simp add: undoable_restored)
next
  case (step y z)
  then show ?case
    using undoable_trans evolves_undoable evolves_transient_ok by blast
qed

lemma undoable_rollback:
  assumes "undoable fs st st'"
  shows "restored fs st (rollback (checkpoint st) fs st')"
proof -
  obtain es ls where "st_journal st' = st_journal st @ es" "st_logs st' = st_logs st @ ls"
      "restored fs st (truncated st (undo_all fs es st'))"
    using assms unfolding undoable_def by blast
  then show ?thesis
    using rollback_journal_undo [of "st'\<lparr>st_logs := st_logs st\<rparr>" "st_journal st" es fs]
    by (simp add: rollback_def checkpoint_def truncated_def undo_all_set_logs restored_def)
qed

text \<open>So a rollback to the state where a sequence of steps began is itself one step of the cache.\<close>

lemma reaches_rollback:
  assumes "reaches fs st st'" "transient_ok st"
  shows "restored fs st (rollback (checkpoint st) fs st')"
  using reaches_undoable [OF assms] by (simp add: undoable_rollback)


section \<open>The operations of the state are sequences of steps\<close>

definition journaled :: "evm_features \<Rightarrow> ('d state, 'e, 'a) sres \<Rightarrow> bool" where
  "journaled fs m \<longleftrightarrow> (\<forall>st. reaches fs st (snd (m st)))"

named_theorems journal_rules "operations that only take journaled steps"

lemma journaled_return [journal_rules]: "journaled fs (returnE x)"
  by (simp add: journaled_def returnE_def)

lemma journaled_bind [journal_rules]:
  assumes "journaled fs m" "\<And>x. journaled fs (k x)"
  shows "journaled fs (bindE m k)"
  unfolding journaled_def
proof
  fix st
  show "reaches fs st (snd (bindE m k st))"
  proof (cases "m st")
    case (Pair r st')
    then have "reaches fs st st'" using assms(1) by (metis journaled_def snd_conv)
    moreover have "reaches fs st' (snd (k x st'))" for x
      using assms(2) by (simp add: journaled_def)
    ultimately show ?thesis
      using Pair by (cases r) (auto simp: bindE_def intro: rtranclp_trans)
  qed
qed

lemma journaled_if [journal_rules]:
  "(b \<Longrightarrow> journaled fs m) \<Longrightarrow> (\<not> b \<Longrightarrow> journaled fs m') \<Longrightarrow> journaled fs (if b then m else m')"
  by simp

lemma reaches_cache: "restored fs st st' \<Longrightarrow> reaches fs st st'"
  by (intro r_into_rtranclp ev_cache)

lemma on_db_restored: "restored fs st (snd (on_db m st))"
  by (simp add: on_db_def restored_def split: prod.splits)

lemma on_db_accounts: "st_accounts (snd (on_db m st)) = st_accounts st"
  by (simp add: on_db_def split: prod.splits)

lemma journaled_on_db [journal_rules]: "journaled fs (on_db m)"
  by (simp add: journaled_def reaches_cache on_db_restored)

lemma load_restored:
  assumes "st_accounts st a = None" "restored fs st st'" "st_accounts st' = st_accounts st"
    and "w = prewarm_is_warm (st_prewarm st') a"
  shows "restored fs st (put_account a (loaded_account i w) st')"
  using assms by (auto simp: restored_def accounts_restored_def put_account_def clean_account_loaded)

lemma account_raw_restored: "restored fs st (snd (account_raw D a st))"
proof (cases "st_accounts st a")
  case None
  then show ?thesis
    using on_db_restored [of fs st "db_account D a"] on_db_accounts [of "db_account D a" st]
    by (auto simp: account_raw_def Let_def split: prod.splits sum.splits intro: load_restored)
qed (simp add: account_raw_def)

lemma account_raw_loaded: "account_raw D a st = (Inr acc, st') \<Longrightarrow> st_accounts st' a = Some acc"
  by (auto simp: account_raw_def put_account_def Let_def split: option.splits prod.splits sum.splits)

lemma account_raw_with_skip_restored: "restored fs st (snd (account_raw_with_skip D a k st))"
proof (cases "st_accounts st a")
  case None
  then show ?thesis
    using on_db_restored [of fs st "db_account D a"] on_db_accounts [of "db_account D a" st]
    by (auto simp: account_raw_with_skip_def on_db_def Let_def split: prod.splits sum.splits
        intro!: load_restored)
qed (simp add: account_raw_with_skip_def)

lemma account_raw_with_skip_loaded:
  "account_raw_with_skip D a k st = (Inr acc, st') \<Longrightarrow> st_accounts st' a = Some acc"
  by (auto simp: account_raw_with_skip_def put_account_def Let_def
      split: option.splits prod.splits sum.splits if_splits)

text \<open>A handle journals the account as it was before its first change.\<close>

definition handle_step :: "handle \<Rightarrow> handle \<Rightarrow> bool" where
  "handle_step h h' \<longleftrightarrow>
     hd_address h' = hd_address h \<and> ac_original (hd_tracked h') = ac_original (hd_tracked h) \<and>
     ac_storage (hd_tracked h') = ac_storage (hd_tracked h) \<and>
     (if hd_snapshot h \<noteq> None then hd_snapshot h' = hd_snapshot h
      else hd_snapshot h' = None \<and> hd_tracked h' = hd_tracked h \<or>
           hd_snapshot h' = Some (AccountChange (hd_address h) (ac_present (hd_tracked h)) (ac_flags (hd_tracked h))))"

lemma handle_step_refl [simp, intro]: "handle_step h h"
  by (simp add: handle_step_def)

lemma handle_step_trans: "handle_step h h' \<Longrightarrow> handle_step h' h'' \<Longrightarrow> handle_step h h''"
  unfolding handle_step_def by (metis option.distinct(1))

lemma handle_step_record:
  "handle_step (record_change h) h' \<Longrightarrow> handle_step h h'"
  by (auto simp: handle_step_def record_change_def split: if_splits)

lemma handle_step_record_flag: "handle_step h (insert_flag f (record_change h))"
  by (rule handle_step_record) (auto simp: handle_step_def insert_flag_def record_change_def)

lemma handle_step_touch [simp]: "handle_step h (touch h)"
  by (simp add: touch_def handle_step_record_flag)

lemma handle_step_warm [simp]: "handle_step h (snd (h_warm p h))"
  by (simp add: h_warm_def handle_step_record_flag)

lemma handle_step_destructed [simp]: "handle_step h (mark_destructed h)"
  unfolding mark_destructed_def
  by (rule handle_step_trans [OF _ handle_step_touch]) (simp add: handle_step_record_flag)

lemma handle_step_present: "handle_step h (update_present C f h)"
  by (rule handle_step_record)
    (auto simp: handle_step_def update_present_def record_change_def Let_def)

lemma handle_step_created [simp]: "handle_step h (h_mark_created h)"
  by (rule handle_step_record)
    (auto simp: handle_step_def h_mark_created_def record_change_def Let_def acct_mark_created_def)

lemma handle_step_created_discarding [simp]: "handle_step h (h_mark_created_discarding_storage h)"
  by (rule handle_step_record)
    (auto simp: handle_step_def h_mark_created_discarding_storage_def record_change_def Let_def
      acct_mark_created_def acct_mark_created_discarding_storage_def)

lemma handle_step_setters [simp]:
  "handle_step h (set_balance C b h)" "handle_step h (set_nonce C n h)" "handle_step h (set_code C ch code h)"
  "handle_step h (add_balance C b h)" "handle_step h (snd (bump_nonce C h))"
  "handle_step h (set_code_slow C code h)"
  by (auto simp: set_balance_def set_nonce_def set_code_def add_balance_def bump_nonce_def set_code_slow_def
      Let_def split: option.splits intro: handle_step_trans [OF handle_step_touch handle_step_present])

lemma handle_step_delegation [simp]: "handle_step h (set_delegation C a h)"
  unfolding set_delegation_def Let_def by (rule handle_step_trans [OF handle_step_setters(6) handle_step_setters(5)])

lemma handle_drop_reaches:
  assumes "st_accounts st a = Some acc" "handle_step (handle_new a acc) h"
  shows "reaches fs st (handle_drop h st)"
proof -
  consider "hd_snapshot h = None" "hd_tracked h = acc" |
    "hd_snapshot h = Some (AccountChange a (ac_present acc) (ac_flags acc))"
    using assms(2) by (auto simp: handle_step_def handle_new_def)
  then show ?thesis
  proof cases
    case 1
    then have "handle_drop h st = st"
      using assms by (simp add: handle_drop_def handle_step_def handle_new_def put_account_def fun_upd_idem)
    then show ?thesis by simp
  next
    case 2
    then show ?thesis
      using assms by (auto simp: handle_drop_def handle_step_def handle_new_def intro!: r_into_rtranclp ev_account)
  qed
qed

lemma journaled_with_account [journal_rules]:
  assumes "\<And>h. handle_step h (snd (f h))"
  shows "journaled fs (with_account D a f)"
  unfolding journaled_def
proof
  fix st
  obtain r st' where r: "account_raw D a st = (r, st')" by fastforce
  then have "reaches fs st st'"
    using account_raw_restored [of fs st D a] by (simp add: reaches_cache)
  moreover have "reaches fs st' (handle_drop (snd (f (handle_new a acc))) st')" if "r = Inr acc" for acc
    using account_raw_loaded r that assms by (blast intro: handle_drop_reaches)
  ultimately show "reaches fs st (snd (with_account D a f st))"
    using r by (cases r) (auto simp: with_account_def bindE_def split: prod.splits intro: rtranclp_trans)
qed

lemma journaled_with_account_skip [journal_rules]:
  assumes "\<And>h. handle_step h (snd (f h))"
  shows "journaled fs (with_account_skip D a k f)"
  unfolding journaled_def
proof
  fix st
  obtain r st' where r: "account_raw_with_skip D a k st = (r, st')" by fastforce
  then have "reaches fs st st'"
    using account_raw_with_skip_restored [of fs st D a k] by (simp add: reaches_cache)
  moreover have "reaches fs st' (handle_drop (snd (f (handle_new a acc))) st')" if "r = Inr acc" for acc
    using account_raw_with_skip_loaded r that assms by (blast intro: handle_drop_reaches)
  ultimately show "reaches fs st (snd (with_account_skip D a k f st))"
    using r by (cases r) (auto simp: with_account_skip_def bindE_def split: prod.splits intro: rtranclp_trans)
qed

lemma journaled_transfer [journal_rules]: "journaled fs (transfer C D from to v)"
  unfolding transfer_def
  by (intro journal_rules)
    (auto split: option.splits intro: handle_step_trans [OF handle_step_setters(1) handle_step_touch])

lemma journaled_create_account [journal_rules]: "journaled fs (create_account C D caller a v fs')"
  unfolding create_account_def
  by (intro journal_rules)
    (auto simp: Let_def split: option.splits
      intro: handle_step_trans [OF handle_step_present handle_step_trans [OF handle_step_created_discarding handle_step_touch]])


lemma put_slot_restored:
  assumes "st_accounts st a = Some acc" "restored fs st st'" "st_accounts st' = st_accounts st"
    and "so_slots (ac_storage acc) key = None" "clean_slot (st_prewarm st) a key slot"
  shows "restored fs st (put_account a (put_slot key slot acc) st')"
proof -
  have "acct_restored fs (st_prewarm st) a acc (put_slot key slot acc)"
    using assms(4,5) by (auto simp: acct_restored_def put_slot_def slots_restored_def)
  then have "restored fs (put_account a acc st) (put_account a (put_slot key slot acc) st')"
    by (rule restored_put [OF assms(2)])
  then show ?thesis
    using assms(1) by (simp add: put_account_def fun_upd_idem)
qed

lemma read_unloaded_slot_restored:
  assumes "read_unloaded_slot D a key z st = (r, st')"
  shows "restored fs st st'" "st_accounts st' = st_accounts st"
  using assms on_db_restored [of fs st "db_check_slot D a key"] on_db_accounts [of "db_check_slot D a key" st]
    on_db_restored [of fs st "db_storage D a key"] on_db_accounts [of "db_storage D a key" st]
  by (auto simp: read_unloaded_slot_def bindE_def returnE_def split: prod.splits sum.splits if_splits)

lemma warm_slot_reaches:
  assumes "\<not> slot_is_warm slot"
  shows "reaches fs (put_account a (put_slot key slot acc) st)
    (push_journal (StorageWarmed a key) (put_account a (put_slot key (slot\<lparr>slot_is_warm := True\<rparr>) acc) st))"
proof -
  let ?st = "put_account a (put_slot key slot acc) st"
  have "update_slot a key (\<lambda>_. slot\<lparr>slot_is_warm := True\<rparr>) ?st =
      put_account a (put_slot key (slot\<lparr>slot_is_warm := True\<rparr>) acc) st"
    by (simp add: update_slot_def put_account_def put_slot_def)
  moreover have "slot_of ?st a key = Some slot"
    by (simp add: slot_of_def put_account_def put_slot_def)
  ultimately show ?thesis
    using assms ev_warm [of ?st a key slot fs] by (simp add: r_into_rtranclp)
qed

lemma put_slot_same:
  assumes "st_accounts st a = Some acc" "so_slots (ac_storage acc) key = Some slot"
  shows "put_account a (put_slot key slot acc) st = st"
  using assms by (auto simp: put_account_def put_slot_def fun_upd_idem intro!: state.equality acct.equality)

lemma into_slot_inner_reaches:
  assumes "st_accounts st a = Some acc"
  shows "reaches fs st (snd (into_slot_inner WARM D a acc key skip st))"
proof (cases "so_slots (ac_storage acc) key")
  case (Some slot)
  note same = put_slot_same [OF assms Some]
  show ?thesis
    using warm_slot_reaches [of slot fs a key acc st] Some
    by (auto simp: into_slot_inner_def Let_def same)
next
  case None
  obtain r st' where r: "read_unloaded_slot D a key (so_wiped (ac_storage acc) \<or> discards_storage acc) st = (r, st')"
    by fastforce
  note st' = read_unloaded_slot_restored [OF r]
  show ?thesis
  proof (cases r)
    case (Inl e)
    then show ?thesis
      using None r st' by (auto simp: into_slot_inner_def Let_def intro: reaches_cache)
  next
    case (Inr v)
    let ?w = "prewarm_is_storage_warm (st_prewarm st) a key"
    have "restored fs st (put_account a (put_slot key (slot_loaded v ?w) acc) st')"
      by (rule put_slot_restored [OF assms st' None])
        (simp add: clean_slot_def slot_loaded_def tracked_new_def tracked_is_changed_def)
    then have "reaches fs st (put_account a (put_slot key (slot_loaded v ?w) acc) st')"
      by (rule reaches_cache)
    moreover have "\<not> ?w \<Longrightarrow> \<not> slot_is_warm (slot_loaded v ?w)"
      by (simp add: slot_loaded_def)
    ultimately show ?thesis
      using None r Inr warm_slot_reaches [of "slot_loaded v ?w" fs a key acc st']
      by (auto simp: into_slot_inner_def Let_def)
  qed
qed

lemma into_slot_inner_slot:
  assumes "into_slot_inner WARM D a acc key skip st = (Inr (slot, cold), st')"
  shows "slot_of st' a key = Some slot"
  using assms
  by (auto simp: into_slot_inner_def Let_def slot_of_def push_journal_def put_account_def put_slot_def
      split: option.splits prod.splits sum.splits if_splits)

lemma journaled_storage_slot [journal_rules]: "journaled fs (state_storage_slot WARM D a key skip)"
  unfolding journaled_def
proof
  fix st
  obtain r st' where r: "account_raw D a st = (r, st')" by fastforce
  then have "reaches fs st st'"
    using account_raw_restored [of fs st D a] by (simp add: reaches_cache)
  then show "reaches fs st (snd (state_storage_slot WARM D a key skip st))"
    using r account_raw_loaded [of D a st]
    by (cases r) (auto simp: state_storage_slot_def intro: rtranclp_trans into_slot_inner_reaches)
qed

lemma storage_slot_slot:
  "state_storage_slot WARM D a key skip st = (Inr (slot, cold), st') \<Longrightarrow> slot_of st' a key = Some slot"
  by (auto simp: state_storage_slot_def split: prod.splits sum.splits intro: into_slot_inner_slot)

lemma slot_set_reaches:
  "slot_of st a key = Some slot \<Longrightarrow> reaches fs st (slot_set a key slot v st)"
  by (simp add: slot_set_def Let_def r_into_rtranclp ev_slot)

lemma tstore_reaches: "reaches fs st (tstore a key v st)"
  by (intro r_into_rtranclp ev_transient)

lemma log_reaches: "reaches fs st (state_log l st)"
  by (intro r_into_rtranclp ev_log)


section \<open>Programs over the state\<close>

text \<open>What the holder of an account handle can do to it.\<close>

datatype handle_op =
    H_Touch
  | H_Warm
  | H_SetBalance evm_word
  | H_AddBalance evm_word
  | H_SetNonce u64
  | H_BumpNonce
  | H_SetCode b256 bytecode
  | H_SetDelegation address
  | H_MarkCreated
  | H_MarkDestructed

fun apply_handle_op :: "crypto \<Rightarrow> prewarm_set \<Rightarrow> handle_op \<Rightarrow> handle \<Rightarrow> handle" where
  "apply_handle_op C p H_Touch h = touch h"
| "apply_handle_op C p H_Warm h = snd (h_warm p h)"
| "apply_handle_op C p (H_SetBalance b) h = set_balance C b h"
| "apply_handle_op C p (H_AddBalance b) h = add_balance C b h"
| "apply_handle_op C p (H_SetNonce n) h = set_nonce C n h"
| "apply_handle_op C p H_BumpNonce h = snd (bump_nonce C h)"
| "apply_handle_op C p (H_SetCode ch code) h = set_code C ch code h"
| "apply_handle_op C p (H_SetDelegation a) h = set_delegation C a h"
| "apply_handle_op C p H_MarkCreated h = h_mark_created h"
| "apply_handle_op C p H_MarkDestructed h = mark_destructed h"

text \<open>
  The operations between two checkpoints: a session with an account handle, a transfer, a creation,
  a slot load, a slot write, a transient store, a log, and a nested frame that is kept or reverted.
\<close>

datatype state_op =
    Op_Account address "handle_op list"
  | Op_Transfer address address evm_word
  | Op_Create address address evm_word
  | Op_Load bool address evm_word bool
  | Op_Write address evm_word evm_word
  | Op_Tstore address evm_word evm_word
  | Op_Log log
  | Op_Frame "state_op list" bool

fun exec_op :: "crypto \<Rightarrow> 'd database \<Rightarrow> evm_features \<Rightarrow> state_op \<Rightarrow> 'd state \<Rightarrow> 'd state"
  and exec_ops :: "crypto \<Rightarrow> 'd database \<Rightarrow> evm_features \<Rightarrow> state_op list \<Rightarrow> 'd state \<Rightarrow> 'd state" where
  "exec_op C D fs (Op_Account a ops) st =
     snd (with_account D a (\<lambda>h. ((), fold (apply_handle_op C (st_prewarm st)) ops h)) st)"
| "exec_op C D fs (Op_Transfer a b v) st = snd (transfer C D a b v st)"
| "exec_op C D fs (Op_Create caller a v) st = snd (create_account C D caller a v fs st)"
| "exec_op C D fs (Op_Load warm a key skip) st = snd (state_storage_slot warm D a key skip st)"
| "exec_op C D fs (Op_Write a key v) st =
     (case state_storage_slot True D a key False st of
        (Inl _, st) \<Rightarrow> st
      | (Inr (slot, _), st) \<Rightarrow> snd (slot_write a key slot v st))"
| "exec_op C D fs (Op_Tstore a key v) st = tstore a key v st"
| "exec_op C D fs (Op_Log l) st = state_log l st"
| "exec_op C D fs (Op_Frame ops reverted) st =
     (if reverted then rollback (checkpoint st) fs (exec_ops C D fs ops st) else exec_ops C D fs ops st)"
| "exec_ops C D fs [] st = st"
| "exec_ops C D fs (x # xs) st = exec_ops C D fs xs (exec_op C D fs x st)"

lemma handle_op_step: "handle_step h (apply_handle_op C p x h)"
  by (cases x) simp_all

lemma handle_ops_step: "handle_step h (fold (apply_handle_op C p) xs h)"
  by (induction xs arbitrary: h) (auto intro: handle_step_trans handle_op_step)

lemma journaledD: "journaled fs m \<Longrightarrow> reaches fs st (snd (m st))"
  by (simp add: journaled_def)

lemma write_reaches:
  "reaches fs st (case state_storage_slot True D a key False st of
      (Inl _, st) \<Rightarrow> st | (Inr (slot, _), st) \<Rightarrow> snd (slot_write a key slot v st))"
proof -
  obtain r st' where r: "state_storage_slot True D a key False st = (r, st')" by fastforce
  then have "reaches fs st st'"
    using journaledD [OF journaled_storage_slot, of fs st True D a key False] by simp
  then show ?thesis
    using r by (auto simp: slot_write_def split: sum.splits
        intro: rtranclp_trans slot_set_reaches storage_slot_slot)
qed

lemma exec_reaches:
  "transient_ok st \<Longrightarrow> reaches fs st (exec_op C D fs x st)"
  "transient_ok st \<Longrightarrow> reaches fs st (exec_ops C D fs xs st)"
proof (induction C D fs x st and C D fs xs st rule: exec_op_exec_ops.induct)
  case (1 C D fs a ops st)
  have "journaled fs (with_account D a (\<lambda>h. ((), fold (apply_handle_op C p) ops h)))" for p
    by (intro journal_rules) (simp add: handle_ops_step)
  from journaledD [OF this] show ?case by simp
next
  case (5 C D fs a key v st)
  then show ?case using write_reaches by simp
next
  case (8 C D fs ops reverted st)
  then show ?case by (auto intro: reaches_cache reaches_rollback)
next
  case (10 C D fs x xs st)
  then have "reaches fs st (exec_op C D fs x st)" "transient_ok (exec_op C D fs x st)"
    using reaches_undoable by blast+
  then show ?case using 10 by (simp add: rtranclp_trans)
qed (auto intro: journaledD journal_rules tstore_reaches log_reaches)

section \<open>Properties\<close>

text \<open>
  C4:  Rollback restores the checkpoint.  Take any state that a program over the state operations
  reaches from a new state with any pre-warmed set and database, run any further program,
  nested frames that revert included, and roll back: journal, logs, transient storage
  and pre-warmed set are as they were; every account and slot of the checkpoint has its value, its
  lifecycle flags and its warmth back (up to the touch of the third precompile under EIP-161);
  and whatever was loaded since is unchanged from its original and as warm as the pre-warmed
  set says.
\<close>

theorem rollback_restores_checkpoint:
  "let st = exec_ops C D fs before ((state_new d)\<lparr>st_prewarm := p\<rparr>)
   in restored fs st (rollback (checkpoint st) fs (exec_ops C D fs ops st))"
proof -
  have "transient_ok (exec_ops C D fs before ((state_new d)\<lparr>st_prewarm := p\<rparr>))"
    by (rule reaches_undoable [THEN conjunct2, OF exec_reaches(2)])
      (simp_all add: transient_ok_def state_new_def)
  then show ?thesis
    by (simp add: Let_def reaches_rollback exec_reaches(2))
qed

end
