(* ===== verification/State_Lifecycle.thy ===== *)
theory State_Lifecycle
  imports State_Rollback
begin

text \<open>
  Value transfer and transaction finalization of the state (\<open>evm/state/mod.rs\<close>): transfers
  conserve value, and the passes of finalization amount to one function on
  each account, in whatever order the hash map lists them.
\<close>

unbundle bit_operations_syntax

section \<open>Sessions on loaded accounts\<close>

lemma account_raw_loaded_eq: "st_accounts st a = Some acc \<Longrightarrow> account_raw D a st = (Inr acc, st)"
  by (simp add: account_raw_def)

lemma with_account_loaded:
  "st_accounts st a = Some acc \<Longrightarrow>
     with_account D a f st = (Inr (fst (f (handle_new a acc))), handle_drop (snd (f (handle_new a acc))) st)"
  by (simp add: with_account_def bindE_def account_raw_loaded_eq split: prod.splits)

lemma put_account_accounts [simp]: "st_accounts (put_account a acc st) = (st_accounts st)(a \<mapsto> acc)"
  by (simp add: put_account_def)

lemma put_account_twice [simp]: "put_account a y (put_account a x st) = put_account a y st"
  by (simp add: put_account_def)

lemma handle_drop_accounts:
  "st_accounts (handle_drop h st) = (st_accounts st)(hd_address h \<mapsto> hd_tracked h)"
  by (simp add: handle_drop_def push_journal_def Let_def split: option.splits)

section \<open>Value\<close>

definition acct_balance :: "acct \<Rightarrow> evm_word" where
  "acct_balance acc = (case ac_present acc of None \<Rightarrow> 0 | Some i \<Rightarrow> ai_balance i)"

definition balance_at :: "'d state \<Rightarrow> address \<Rightarrow> evm_word" where
  "balance_at st a = (case st_accounts st a of None \<Rightarrow> 0 | Some acc \<Rightarrow> acct_balance acc)"

lemma h_balance_new: "h_balance (handle_new a acc) = acct_balance acc"
  by (simp add: h_balance_def handle_new_def acct_balance_def)

lemma insert_flag_fields [simp]:
  "hd_address (insert_flag f h) = hd_address h" "ac_present (hd_tracked (insert_flag f h)) = ac_present (hd_tracked h)"
  by (simp_all add: insert_flag_def)

lemma record_change_fields [simp]:
  "hd_address (record_change h) = hd_address h" "hd_tracked (record_change h) = hd_tracked h"
  by (simp_all add: record_change_def)

lemma touch_fields [simp]:
  "hd_address (touch h) = hd_address h" "ac_present (hd_tracked (touch h)) = ac_present (hd_tracked h)"
  by (simp_all add: touch_def)

lemma acct_balance_touch [simp]: "acct_balance (hd_tracked (touch h)) = acct_balance (hd_tracked h)"
  by (simp add: acct_balance_def)

lemma set_balance_fields [simp]:
  "hd_address (set_balance C b h) = hd_address h" "acct_balance (hd_tracked (set_balance C b h)) = b"
  by (simp_all add: set_balance_def update_present_def Let_def acct_balance_def)

lemma handle_new_fields [simp]: "hd_address (handle_new a acc) = a" "hd_tracked (handle_new a acc) = acc"
  by (simp_all add: handle_new_def)

lemma balance_at_drop:
  "balance_at (handle_drop h st) b = (if b = hd_address h then acct_balance (hd_tracked h) else balance_at st b)"
  by (simp add: balance_at_def handle_drop_accounts)

lemma balance_at_loaded: "st_accounts st a = Some acc \<Longrightarrow> balance_at st a = acct_balance acc"
  by (simp add: balance_at_def)

text \<open>The outcome of a transfer between loaded accounts.\<close>

lemma transfer_outcome:
  assumes "st_accounts st from = Some x" "st_accounts st to = Some y"
  shows "\<exists>st'. transfer C D from to v st = (Inr (v = 0 \<or> v \<le> balance_at st from), st') \<and>
    (\<forall>a. balance_at st' a =
       (if v \<le> balance_at st from \<and> from \<noteq> to
        then if a = from then balance_at st from - v
             else if a = to then saturating_add (balance_at st to) v else balance_at st a
        else balance_at st a))"
proof (cases "v = 0 \<or> from = to \<or> balance_at st from < v")
  case True
  then show ?thesis
    using assms
    by (auto simp: transfer_def with_account_loaded h_balance_new balance_at_drop balance_at_loaded bindE_def
        returnE_def checked_sub_def saturating_add_def not_less)
next
  case False
  let ?h = "touch (set_balance C (acct_balance x - v) (handle_new from x))"
  have "st_accounts (handle_drop ?h st) to = Some y"
    using False assms by (auto simp: handle_drop_accounts)
  then show ?thesis
    using False assms
    by (auto simp: transfer_def with_account_loaded h_balance_new balance_at_drop balance_at_loaded bindE_def
        returnE_def checked_sub_def not_less)
qed

section \<open>Finalization\<close>

text \<open>The post-transaction account, as the account-lifetime rules define it.\<close>

definition finalized :: "crypto \<Rightarrow> version \<Rightarrow> acct \<Rightarrow> acct" where
  "finalized C ver acc =
     (if flags_has (ac_flags acc) FLAG_DESTROYED then
        (if feature ver EIP8246 \<and> acct_balance acc \<noteq> 0
         then acc\<lparr>ac_present := Some ((account_info_default C)\<lparr>ai_balance := acct_balance acc\<rparr>),
                  ac_storage := (if discards_storage acc then zero_loaded else wipe) (ac_storage acc)\<rparr>
         else acc\<lparr>ac_present := None, ac_storage := wipe (ac_storage acc)\<rparr>)
      else if flags_has (ac_flags acc) FLAG_TOUCHED then
        (if feature ver EIP161
         then if is_existing_dead C acc then acc\<lparr>ac_present := None, ac_storage := wipe (ac_storage acc)\<rparr> else acc
         else if ac_present acc = None \<and> ac_original acc = None
              then acct_mark_created_discarding_storage (acc\<lparr>ac_present := Some (account_info_default C)\<rparr>)
              else acc)
      else acc)"

lemma finalize_destroyed_loaded:
  assumes "st_accounts st a = Some acc" "is_destroyed_entry acc"
  shows "finalize_destroyed C D (feature ver EIP8246) a st = (Inr (), put_account a (finalized C ver acc) st)"
  using assms
  by (auto simp: finalize_destroyed_def bindE_def with_account_loaded account_raw_loaded_eq with_storage_def
      handle_drop_def Let_def delete_for_finalization_def reset_selfdestructed_for_finalization_def
      h_balance_new finalized_def is_destroyed_entry_def handle_new_def discards_storage_def h_balance_def acct_balance_def)

lemma finalize_touched_loaded:
  assumes "st_accounts st a = Some acc" "is_finalize_entry C (feature ver EIP161) acc"
  shows "finalize_touched C D (feature ver EIP161) a st = (Inr (), put_account a (finalized C ver acc) st)"
  using assms
  by (auto simp: finalize_touched_def bindE_def with_account_loaded account_raw_loaded_eq with_storage_def
      handle_drop_def Let_def delete_for_finalization_def materialize_empty_account_for_finalization_def
      is_finalize_entry_def finalized_def is_destroyed_entry_def handle_new_def put_account_def fun_upd_idem
      split: if_splits)

lemma for_each_accounts:
  assumes "distinct xs"
    and "\<And>a acc st. a \<in> set xs \<Longrightarrow> st_accounts st a = m a \<Longrightarrow> m a = Some acc \<Longrightarrow>
           f a st = (Inr (), put_account a (g acc) st)"
    and "\<forall>a \<in> set xs. m a \<noteq> None \<and> st_accounts st a = m a"
  shows "for_each f xs st =
    (Inr (), st\<lparr>st_accounts := (\<lambda>a. if a \<in> set xs then map_option g (m a) else st_accounts st a)\<rparr>)"
  using assms
proof (induction xs arbitrary: st)
  case Nil
  then show ?case by (simp add: returnE_def)
next
  case (Cons a xs)
  then obtain acc where acc: "m a = Some acc" "st_accounts st a = m a" by auto
  have f: "f a st = (Inr (), put_account a (g acc) st)"
    using Cons.prems(2) acc by simp
  have "for_each f xs (put_account a (g acc) st) = (Inr (), (put_account a (g acc) st)\<lparr>st_accounts :=
      (\<lambda>b. if b \<in> set xs then map_option g (m b) else st_accounts (put_account a (g acc) st) b)\<rparr>)"
    using Cons.prems by (intro Cons.IH) auto
  then show ?case
    using f acc Cons.prems(1) by (auto simp: bindE_def put_account_def fun_eq_iff intro!: state.equality)
qed

lemma finalize_transaction_pointwise:
  assumes "distinct order" "set order = dom (st_accounts st)"
  shows "finalize_transaction C D ver order st =
    (Inr (), st\<lparr>st_accounts := (\<lambda>a. map_option (finalized C ver) (st_accounts st a))\<rparr>)"
proof -
  define sel where "sel P = filter (\<lambda>a. case st_accounts st a of None \<Rightarrow> False | Some acc \<Rightarrow> P acc) order" for P
  let ?d = "sel is_destroyed_entry" and ?t = "sel (is_finalize_entry C (feature ver EIP161))"
  let ?m = "st_accounts st"
  define st1 where "st1 = st\<lparr>st_accounts := (\<lambda>a. if a \<in> set ?d then map_option (finalized C ver) (?m a) else ?m a)\<rparr>"
  have sel: "a \<in> set (sel P) \<longleftrightarrow> (\<exists>acc. ?m a = Some acc \<and> P acc)" for a P
    using assms(2) by (auto simp: sel_def split: option.splits)
  have distinct: "distinct (sel P)" for P
    using assms(1) by (simp add: sel_def)
  have "for_each (finalize_destroyed C D (feature ver EIP8246)) ?d st = (Inr (), st1)"
    unfolding st1_def
    by (rule for_each_accounts [OF distinct]) (auto simp: sel intro: finalize_destroyed_loaded)
  moreover have "for_each (finalize_touched C D (feature ver EIP161)) ?t st1 =
      (Inr (), st1\<lparr>st_accounts := (\<lambda>a. if a \<in> set ?t then map_option (finalized C ver) (?m a) else st_accounts st1 a)\<rparr>)"
    by (rule for_each_accounts [OF distinct])
       (auto simp: sel st1_def is_finalize_entry_def intro!: finalize_touched_loaded)
  moreover have "finalized C ver acc = acc"
    if "\<not> is_destroyed_entry acc" "\<not> is_finalize_entry C (feature ver EIP161) acc" for acc
    using that by (auto simp: is_destroyed_entry_def is_finalize_entry_def finalized_def)
  ultimately show ?thesis
    by (auto simp: finalize_transaction_def Let_def bindE_def sel_def [symmetric] sel st1_def fun_eq_iff
        intro!: state.equality)
       (auto simp: map_option_case split: option.splits)
qed


section \<open>Properties\<close>

text \<open>
  C14:  A transfer between two loaded accounts never fails and reports success exactly when the sender covers
  the value.  On success the sender has exactly the value less and the recipient exactly the value more;
  if the value is not covered, or the sender is the recipient, no balance changes, and the balance of every
  other account never does.  So value is conserved: the balances over any finite set of accounts that
  contains both parties have the same sum afterwards.  The recipient's balance must not saturate.
\<close>

theorem transfer_conserves_value:
  assumes "st_accounts st from = Some x" "st_accounts st to = Some y"
    and "finite A" "from \<in> A" "to \<in> A"
    and "unat (balance_at st to) + unat v < 2 ^ 256"
  shows "\<exists>st'. transfer C D from to v st = (Inr (v \<le> balance_at st from), st') \<and>
    (v \<le> balance_at st from \<longrightarrow> from \<noteq> to \<longrightarrow>
       unat (balance_at st' from) + unat v = unat (balance_at st from) \<and>
       unat (balance_at st' to) = unat (balance_at st to) + unat v) \<and>
    (\<forall>a. \<not> v \<le> balance_at st from \<or> from = to \<or> a \<noteq> from \<and> a \<noteq> to \<longrightarrow> balance_at st' a = balance_at st a) \<and>
    (\<Sum>a\<in>A. unat (balance_at st' a)) = (\<Sum>a\<in>A. unat (balance_at st a))"
proof -
  obtain st' where t: "transfer C D from to v st = (Inr (v = 0 \<or> v \<le> balance_at st from), st')"
    and b: "\<And>a. balance_at st' a =
       (if v \<le> balance_at st from \<and> from \<noteq> to
        then if a = from then balance_at st from - v
             else if a = to then saturating_add (balance_at st to) v else balance_at st a
        else balance_at st a)"
    using transfer_outcome [OF assms(1,2)] by blast
  have success: "(v = 0 \<or> v \<le> balance_at st from) = (v \<le> balance_at st from)" by auto
  have moved: "unat (balance_at st' from) + unat v = unat (balance_at st from) \<and>
      unat (balance_at st' to) = unat (balance_at st to) + unat v" if "v \<le> balance_at st from" "from \<noteq> to"
    using that assms(6) by (auto simp: b unat_sub word_le_nat_alt unat_saturating_add)
  have "(\<Sum>a\<in>A. unat (balance_at st' a)) = (\<Sum>a\<in>A. unat (balance_at st a))"
  proof (cases "v \<le> balance_at st from \<and> from \<noteq> to")
    case True
    have parts: "(\<Sum>a\<in>A. f a) = f from + f to + (\<Sum>a\<in>A - {from, to}. f a)" for f :: "address \<Rightarrow> nat"
      using True assms(3-5) sum.remove [of A "from" f] sum.remove [of "A - {from}" to f]
      by (auto simp: Diff_insert2 [symmetric])
    have "unat (balance_at st' from) + unat (balance_at st' to) = unat (balance_at st from) + unat (balance_at st to)"
      using moved True by simp
    moreover have "(\<Sum>a\<in>A - {from, to}. unat (balance_at st' a)) = (\<Sum>a\<in>A - {from, to}. unat (balance_at st a))"
      by (rule sum.cong) (auto simp: b)
    ultimately show ?thesis by (simp add: parts)
  next
    case False
    then show ?thesis by (auto simp: b)
  qed
  moreover have "\<forall>a. \<not> v \<le> balance_at st from \<or> from = to \<or> a \<noteq> from \<and> a \<noteq> to \<longrightarrow> balance_at st' a = balance_at st a"
    by (auto simp: b)
  ultimately show ?thesis
    using t [unfolded success] moved by blast
qed

text \<open>
  C15:  Finalization, in whatever order the accounts are visited, succeeds without a database read
  and replaces each account by its finalized form: self-destructed accounts are deleted with their
  storage, or under EIP-8246 keep just their balance; touched empty accounts are
  deleted under EIP-161; before it touched absent accounts come into existence; every
  other account is unchanged.
\<close>

theorem finalize_transaction_order_independent:
  assumes "distinct order" "set order = dom (st_accounts st)"
  shows "finalize_transaction C D ver order st =
    (Inr (), st\<lparr>st_accounts := (\<lambda>a. map_option (finalized C ver) (st_accounts st a))\<rparr>)"
  by (rule finalize_transaction_pointwise [OF assms])

text \<open>Two loaded accounts with balances 5 and 7, the first self-destructed.\<close>

definition sample_account :: "evm_word \<Rightarrow> account_flags \<Rightarrow> acct" where
  "sample_account b fl =
     (loaded_account (Some \<lparr>ai_balance = b, ai_nonce = 1, ai_code_hash = 0, ai_code = None\<rparr>) True)\<lparr>ac_flags := fl\<rparr>"

definition sample_state :: "unit state" where
  "sample_state = put_account 1 (sample_account 5 FLAG_DESTROYED) (put_account 2 (sample_account 7 0) (state_new ()))"

lemma sample_state_accounts:
  "st_accounts sample_state = [1 \<mapsto> sample_account 5 FLAG_DESTROYED, 2 \<mapsto> sample_account 7 0]"
  by (simp add: sample_state_def state_new_def fun_upd_twist)

theorem transfer_conserves_value_witness:
  "\<exists>st'. transfer bare_crypto bare_db 1 2 3 sample_state = (Inr True, st') \<and>
     unat (balance_at st' 1) + 3 = 5 \<and> unat (balance_at st' 2) = 10 \<and>
     (\<Sum>a\<in>{1, 2}. unat (balance_at st' a)) = 12"
proof -
  have b: "balance_at sample_state 1 = 5" "balance_at sample_state 2 = 7"
    by (simp_all add: balance_at_def sample_state_accounts acct_balance_def sample_account_def loaded_account_def)
  have "st_accounts sample_state 1 = Some (sample_account 5 FLAG_DESTROYED)"
    "st_accounts sample_state 2 = Some (sample_account 7 0)"
    by (simp_all add: sample_state_accounts)
  from transfer_conserves_value [OF this, of "{1, 2}" 3 bare_crypto bare_db]
  obtain st' where "transfer bare_crypto bare_db 1 2 3 sample_state = (Inr True, st')"
    "unat (balance_at st' 1) + 3 = 5" "unat (balance_at st' 2) = 10" "(\<Sum>a\<in>{1, 2}. unat (balance_at st' a)) = 12"
    by (auto simp: b)
  then show ?thesis by blast
qed

theorem finalize_transaction_order_independent_witness:
  "fst (finalize_transaction bare_crypto bare_db (base_version 0 6 PRAGUE) [2, 1] sample_state) = Inr ()"
proof -
  have "distinct [2, 1 :: address]" "set [2, 1] = dom (st_accounts sample_state)"
    by (simp_all add: sample_state_accounts)
  from finalize_transaction_order_independent [OF this] show ?thesis by simp
qed

end
