(* ===== verification/Evm_Stack.thy ===== *)
theory Evm_Stack
  imports Evm_Utils
begin

text \<open>
  The operand stack (\<open>interpreter/stack.rs\<close>) and the immediates of the
  stack instructions (\<open>interpreter/instructions/stack.rs\<close>).  The stack is the
  initialised slice of its backing array, bottom first, so that indices are those
  of the source; \<open>top_first\<close> is the reading in which the top comes first.
\<close>

section \<open>Operations\<close>

type_synonym stack = "evm_word list"

definition STACK_LIMIT :: nat where
  "STACK_LIMIT = 1024"

definition peek :: "nat \<Rightarrow> stack \<Rightarrow> evm_word option" where
  "peek n s = (if n + 1 \<le> length s then Some (s ! (length s - (n + 1))) else None)"

definition peekn :: "nat \<Rightarrow> stack \<Rightarrow> evm_word list option" where
  "peekn N s =
    (if length s < N then None else Some (map (\<lambda>i. s ! (length s - 1 - i)) [0..<N]))"

definition check_bounds :: "nat \<Rightarrow> nat \<Rightarrow> nat \<Rightarrow> instr_stop + unit" where
  "check_bounds len i out =
    (if len < i then Inl StackUnderflow
     else if out > i \<and> len - i = STACK_LIMIT then Inl StackOverflow
     else Inr ())"

text \<open>
  The preamble of an instruction: the input words, top first, and the stack at its
  new length.  An output shares the slot of the deepest input; without inputs
  it is a fresh slot, which the instruction writes before it succeeds.
\<close>

definition instr_stack_setup :: "nat \<Rightarrow> nat \<Rightarrow> (stack, instr_stop, evm_word list) sres" where
  "instr_stack_setup i out s =
    (case check_bounds (length s) i out of
       Inl e \<Rightarrow> (Inl e, s)
     | Inr _ \<Rightarrow> (Inr (rev (drop (length s - i) s)), take (length s - i + out) (s @ [0])))"

definition stack_push :: "evm_word \<Rightarrow> (stack, instr_stop, unit) sres" where
  "stack_push v s = (if length s = STACK_LIMIT then (Inl StackOverflow, s) else (Inr (), s @ [v]))"

definition stack_push_u64 :: "u64 \<Rightarrow> (stack, instr_stop, unit) sres" where
  "stack_push_u64 v s =
    (if length s = STACK_LIMIT then (Inl StackOverflow, s) else (Inr (), s @ [ucast v]))"

definition popn :: "nat \<Rightarrow> (stack, instr_stop, evm_word list) sres" where
  "popn N s =
    (if length s < N then (Inl StackUnderflow, s)
     else (Inr (map (\<lambda>i. s ! (length s - 1 - i)) [0..<N]), take (length s - N) s))"

definition stack_pop :: "(stack, instr_stop, evm_word) sres" where
  "stack_pop = bindE (popn 1) (\<lambda>xs. returnE (xs ! 0))"

definition popn_top :: "nat \<Rightarrow> (stack, instr_stop, evm_word list \<times> evm_word) sres" where
  "popn_top N s =
    (if length s < N + 1 then (Inl StackUnderflow, s)
     else (Inr (map (\<lambda>i. s ! (length s - 1 - i)) [0..<N], s ! (length s - N - 1)),
           take (length s - N) s))"

definition stack_dup :: "nat \<Rightarrow> (stack, instr_stop fault, unit) sres" where
  "stack_dup n s =
    (if n = 0 then (Inl Panic, s)
     else if length s < n \<or> length s = STACK_LIMIT then
       (Inl (Err (if length s = STACK_LIMIT then StackOverflow else StackUnderflow)), s)
     else (Inr (), s @ [s ! (length s - n)]))"

definition stack_exchange :: "nat \<Rightarrow> nat \<Rightarrow> (stack, instr_stop fault, unit) sres" where
  "stack_exchange n m s =
    (if n = m then (Inl Panic, s)
     else if n \<ge> length s \<or> m \<ge> length s then (Inl (Err StackUnderflow), s)
     else let i = length s - 1 - n; j = length s - 1 - m
          in (Inr (), s[i := s ! j, j := s ! i]))"

definition stack_swap :: "nat \<Rightarrow> (stack, instr_stop fault, unit) sres" where
  "stack_swap n = stack_exchange 0 n"

definition from_limbs :: "u64 list \<Rightarrow> evm_word" where
  "from_limbs ls = word_of_nat (foldr (\<lambda>l a. unat l + 18446744073709551616 * a) ls 0)"

definition as_chunks :: "nat \<Rightarrow> bytes \<Rightarrow> bytes list \<times> bytes" where
  "as_chunks n xs =
    (let k = length xs div n in (map (\<lambda>i. take n (drop (n * i) xs)) [0..<k], drop (n * k) xs))"

definition as_rchunks :: "nat \<Rightarrow> bytes \<Rightarrow> bytes \<times> bytes list" where
  "as_rchunks n xs =
    (let r = length xs mod n in (take r xs, fst (as_chunks n (drop r xs))))"

definition partial_word :: "bytes \<Rightarrow> evm_word" where
  "partial_word bs =
    (let (partial_last_limb, full_limbs) = as_rchunks 8 bs;
         limbs = map (\<lambda>i. if i < length full_limbs then from_be_bytes (rev full_limbs ! i) else 0) [0..<4];
         limbs = (if partial_last_limb \<noteq> []
                  then limbs[length full_limbs :=
                    from_be_bytes (replicate (8 - length partial_last_limb) 0 @ partial_last_limb)]
                  else limbs)
     in from_limbs limbs)"

definition push_slice :: "bytes \<Rightarrow> (stack, instr_stop, unit) sres" where
  "push_slice data s =
    (if data = [] then (Inr (), s)
     else if length data \<le> 8 then
       stack_push_u64 (from_be_bytes (replicate (8 - length data) 0 @ data)) s
     else
       let n_words = (length data + 31) div 32 in
       if length s + n_words > STACK_LIMIT then (Inl StackOverflow, s)
       else
         let (ws, partial_last_word) = as_chunks 32 data in
         (Inr (), s @ map from_be_bytes ws
            @ (if partial_last_word \<noteq> [] then [partial_word partial_last_word] else [])))"

section \<open>Immediates\<close>

definition decode_single :: "u8 \<Rightarrow> u8 option" where
  "decode_single x = (if x \<le> 90 \<or> x \<ge> 128 then Some (x + 145) else None)"

definition decode_pair :: "u8 \<Rightarrow> (u8 \<times> u8) option" where
  "decode_pair x =
    (if x > 81 \<and> x < 128 then None
     else
       let k = ucast (x XOR 143) :: u16;
           q = ucast (k div 16);
           r = ucast (k mod 16)
       in if q < r then Some (q + 1, r + 1) else Some (r + 1, 29 - q))"

definition encode_single :: "u8 \<Rightarrow> u8 option" where
  "encode_single n = (let x = n - 145 in if decode_single x = Some n then Some x else None)"

definition encode_try_k :: "u8 \<Rightarrow> u8 \<Rightarrow> u8 \<Rightarrow> u8 \<Rightarrow> u8 option" where
  "encode_try_k n m q r =
    (if q \<ge> 16 \<or> r \<ge> 16 then None
     else
       let k = (ucast q :: u16) * 16 + ucast r;
           x = ucast k XOR 143
       in if decode_pair x = Some (n, m) then Some x else None)"

definition encode_pair :: "u8 \<Rightarrow> u8 \<Rightarrow> u8 option" where
  "encode_pair n m =
    (if n = 0 \<or> m = 0 then None
     else if n < m then encode_try_k n m (n - 1) (m - 1)
     else Option.bind (checked_sub 29 m) (\<lambda>q. encode_try_k n m q (n - 1)))"

section \<open>The abstract stack\<close>

definition top_first :: "stack \<Rightarrow> evm_word list" where
  "top_first s = rev s"

definition stack_ok :: "stack \<Rightarrow> bool" where
  "stack_ok s = (length s \<le> STACK_LIMIT)"

definition limbs_val :: "u64 list \<Rightarrow> nat" where
  "limbs_val ls = foldr (\<lambda>l a. unat l + 18446744073709551616 * a) ls 0"

definition encode_pair_total :: "u8 \<Rightarrow> u8 \<Rightarrow> u8" where
  "encode_pair_total n m =
    (if m \<le> 16 then ((n - 1) * 16 + (m - 1)) XOR 143 else ((29 - m) * 16 + (n - 1)) XOR 143)"

section \<open>The stack interface\<close>

locale bounded_lifo =
  fixes push :: "'v \<Rightarrow> ('s, instr_stop, unit) sres"
    and pop :: "('s, instr_stop, 'v) sres"
    and view :: "'s \<Rightarrow> 'v list"
    and cap :: nat
  assumes push_ok: "length (view s) < cap \<Longrightarrow> \<exists>s'. push v s = (Inr (), s') \<and> view s' = v # view s"
    and push_full: "length (view s) = cap \<Longrightarrow> push v s = (Inl StackOverflow, s)"
    and pop_ok: "view s = v # vs \<Longrightarrow> \<exists>s'. pop s = (Inr v, s') \<and> view s' = vs"
    and pop_empty: "view s = [] \<Longrightarrow> pop s = (Inl StackUnderflow, s)"
begin

lemma push_pop:
  assumes "length (view s) < cap"
  shows "\<exists>s'. bindE (push v) (\<lambda>_. pop) s = (Inr v, s') \<and> view s' = view s"
proof -
  obtain s1 where s1: "push v s = (Inr (), s1)" "view s1 = v # view s"
    using push_ok [OF assms] by blast
  then obtain s2 where "pop s1 = (Inr v, s2)" "view s2 = view s"
    using pop_ok by blast
  with s1 show ?thesis
    by (simp add: bindE_def)
qed

lemma push_result:
  assumes "length (view s) \<le> cap"
  shows "fst (push v s) = (if length (view s) = cap then Inl StackOverflow else Inr ())"
proof (cases "length (view s) = cap")
  case True
  then show ?thesis
    by (simp add: push_full)
next
  case False
  then obtain s' where "push v s = (Inr (), s')"
    using push_ok [of s v] assms by auto
  then show ?thesis
    using False by simp
qed

lemma push_keeps_bound:
  assumes "length (view s) \<le> cap"
  shows "length (view (snd (push v s))) \<le> cap"
proof (cases "length (view s) = cap")
  case True
  then show ?thesis
    by (simp add: push_full)
next
  case False
  then obtain s' where "push v s = (Inr (), s')" "view s' = v # view s"
    using push_ok [of s v] assms by auto
  then show ?thesis
    using assms False by simp
qed

end

section \<open>The slice is a bounded stack\<close>

lemma top_first_nth: "n < length s \<Longrightarrow> top_first s ! n = s ! (length s - 1 - n)"
  by (simp add: top_first_def rev_nth)

lemma length_top_first [simp]: "length (top_first s) = length s"
  by (simp add: top_first_def)

lemma map_from_top: "N \<le> length s \<Longrightarrow> map (\<lambda>i. s ! (length s - 1 - i)) [0..<N] = take N (top_first s)"
  by (rule nth_equalityI) (auto simp: top_first_nth)

lemma take_from_bottom: "top_first (take (length s - N) s) = drop N (top_first s)"
  by (cases "N \<le> length s") (auto simp: top_first_def rev_take)

lemma popn_top_first:
  "popn N s = (if length s < N then (Inl StackUnderflow, s)
     else (Inr (take N (top_first s)), take (length s - N) s))"
  unfolding popn_def by (simp add: map_from_top [simplified])

interpretation stack: bounded_lifo stack_push stack_pop top_first STACK_LIMIT
proof
  fix s v vs
  show "length (top_first s) < STACK_LIMIT \<Longrightarrow>
      \<exists>s'. stack_push v s = (Inr (), s') \<and> top_first s' = v # top_first s"
    by (simp add: stack_push_def top_first_def)
  show "length (top_first s) = STACK_LIMIT \<Longrightarrow> stack_push v s = (Inl StackOverflow, s)"
    by (simp add: stack_push_def)
  show "top_first s = v # vs \<Longrightarrow> \<exists>s'. stack_pop s = (Inr v, s') \<and> top_first s' = vs"
    using take_from_bottom [of s 1]
    by (cases s) (auto simp: stack_pop_def bindE_def returnE_def popn_top_first)
  show "top_first s = [] \<Longrightarrow> stack_pop s = (Inl StackUnderflow, s)"
    by (simp add: stack_pop_def bindE_def popn_def top_first_def)
qed

section \<open>Big-endian pushes\<close>

lemma concat_chunks:
  "n * k \<le> length xs \<Longrightarrow> concat (map (\<lambda>i. take n (drop (n * i) xs)) [0..<k]) = take (n * k) xs"
proof (induction k)
  case (Suc k)
  have "take (n * Suc k) xs = take (n * k) xs @ take n (drop (n * k) xs)"
    using take_add [of "n * k" n xs] by (simp add: add.commute)
  then show ?case
    using Suc by simp
qed simp

lemma as_chunks_split:
  assumes "as_chunks n xs = (ws, r)" "0 < n"
  shows "concat ws @ r = xs" and "\<And>w. w \<in> set ws \<Longrightarrow> length w = n" and "length ws = length xs div n"
    and "length r = length xs mod n"
proof -
  let ?k = "length xs div n"
  have k: "n * ?k \<le> length xs"
    by simp
  show "concat ws @ r = xs"
    using assms concat_chunks [OF k] by (auto simp: as_chunks_def Let_def)
  show "length ws = ?k"
    using assms by (auto simp: as_chunks_def Let_def)
  show "length r = length xs mod n"
    using assms by (auto simp: as_chunks_def Let_def minus_mult_div_eq_mod)
  show "length w = n" if w: "w \<in> set ws" for w
  proof -
    obtain i where i: "i < ?k" "w = take n (drop (n * i) xs)"
      using w assms(1) by (auto simp: as_chunks_def Let_def)
    have "n * Suc i \<le> n * ?k"
      using i(1) by (intro mult_le_mono2) simp
    then have "n * Suc i \<le> length xs"
      using k by (rule order_trans)
    then show ?thesis
      using i(2) by simp
  qed
qed

lemma limbs_val_simps [simp]:
  "limbs_val [] = 0"
  "limbs_val (l # ls) = unat l + 18446744073709551616 * limbs_val ls"
  by (simp_all add: limbs_val_def)

lemma limbs_val_append:
  "limbs_val (xs @ ys) = limbs_val xs + 18446744073709551616 ^ length xs * limbs_val ys"
  by (induction xs) (simp_all add: algebra_simps)

lemma limbs_val_zeros [simp]: "limbs_val (replicate n 0) = 0"
  by (induction n) simp_all

lemma unat_limb: "length bs = 8 \<Longrightarrow> unat (from_be_bytes bs :: u64) = be_nat bs"
  using be_nat_lt [of bs] by (simp add: from_be_bytes_def unat_of_nat)

lemma limbs_val_full:
  "(\<And>w. w \<in> set ws \<Longrightarrow> length w = 8) \<Longrightarrow>
    limbs_val (map from_be_bytes (rev ws)) = be_nat (concat ws) \<and> length (concat ws) = 8 * length ws"
proof (induction ws)
  case (Cons w ws)
  have "(256::nat) ^ (8 * length ws) = 18446744073709551616 ^ length ws"
    by (simp add: power_mult)
  then show ?case
    using Cons by (simp add: limbs_val_append unat_limb)
qed simp

lemma limbs_padded:
  assumes "length ws \<le> 4"
  shows "map (\<lambda>i. if i < length ws then f (ws ! i) else 0) [0..<4]
    = map f ws @ replicate (4 - length ws) 0"
  using assms by (intro nth_equalityI) (auto simp: nth_append)

lemma partial_word_be:
  assumes "length bs < 32"
  shows "partial_word bs = from_be_bytes bs"
proof -
  obtain p ws where pw: "as_rchunks 8 bs = (p, ws)"
    by fastforce
  let ?r = "length bs mod 8"
  obtain tl where ch: "as_chunks 8 (drop ?r bs) = (ws, tl)" and p: "p = take ?r bs"
    using pw by (cases "as_chunks 8 (drop ?r bs)") (auto simp: as_rchunks_def Let_def)
  have "(length bs - ?r) mod 8 = 0"
    by (simp add: minus_mod_eq_mult_div)
  then have tl: "tl = []" and cc: "concat ws = drop ?r bs" and w8: "\<And>w. w \<in> set ws \<Longrightarrow> length w = 8"
    using as_chunks_split [OF ch] by auto
  have lw: "length ws = length bs div 8"
    using as_chunks_split(3) [OF ch] by (simp add: minus_mod_eq_mult_div)
  have k: "length ws \<le> 3"
    using assms lw by simp
  have bs: "bs = p @ concat ws"
    using p cc by simp
  have val: "limbs_val (map from_be_bytes (rev ws)) = be_nat (concat ws)"
    and len: "length (concat ws) = 8 * length ws"
    using limbs_val_full [OF w8] by blast+
  let ?last = "from_be_bytes (replicate (8 - length p) 0 @ p) :: u64"
  have last: "unat ?last = be_nat p"
    using p by (subst unat_limb) auto
  have pow: "(256::nat) ^ (8 * length ws) = 18446744073709551616 ^ length ws"
    by (simp add: power_mult)
  let ?limbs = "map from_be_bytes (rev ws) @ replicate (4 - length ws) (0 :: u64)"
  have "limbs_val (if p \<noteq> [] then ?limbs[length ws := ?last] else ?limbs) = be_nat bs"
  proof (cases "p = []")
    case True
    then show ?thesis
      using bs val by (simp add: limbs_val_append)
  next
    case False
    have "4 - length ws = Suc (3 - length ws)"
      using k by simp
    then have "?limbs[length ws := ?last] = map from_be_bytes (rev ws) @ ?last # replicate (3 - length ws) 0"
      by (simp add: list_update_append)
    then show ?thesis
      using False val last pow len by (simp add: limbs_val_append bs)
  qed
  then show ?thesis
    using pw k limbs_padded [of "rev ws" "from_be_bytes :: bytes \<Rightarrow> u64"]
    by (cases "p = []")
      (simp_all add: partial_word_def from_limbs_def limbs_val_def [symmetric] from_be_bytes_def [of bs] Let_def)
qed

lemma push_slice_be:
  assumes "data \<noteq> []" "length data \<le> 32" "stack_ok s"
  shows "push_slice data s = stack_push (from_be_bytes data) s"
proof (cases "length data \<le> 8")
  case True
  let ?w = "from_be_bytes (replicate (8 - length data) 0 @ data) :: u64"
  have "unat ?w = be_nat data"
    using True by (subst unat_limb) auto
  then have "word_of_nat (unat ?w) = (from_be_bytes data :: evm_word)"
    by (simp only: from_be_bytes_def)
  then have "ucast ?w = (from_be_bytes data :: evm_word)"
    by (simp only: of_nat_unat)
  then show ?thesis
    using True assms by (simp add: push_slice_def stack_push_u64_def stack_push_def)
next
  case False
  have n: "(length data + 31) div 32 = 1"
    using False assms by simp
  show ?thesis
  proof (cases "length data = 32")
    case True
    then have "as_chunks 32 data = ([data], [])"
      by (simp add: as_chunks_def)
    then show ?thesis
      using False assms n by (auto simp: push_slice_def stack_push_def stack_ok_def)
  next
    case False
    with assms have "length data < 32"
      by simp
    then have "as_chunks 32 data = ([], data)"
      by (simp add: as_chunks_def)
    then show ?thesis
      using \<open>\<not> length data \<le> 8\<close> assms n partial_word_be [OF \<open>length data < 32\<close>]
      by (auto simp: push_slice_def stack_push_def stack_ok_def)
  qed
qed

section \<open>Immediates and word exchange\<close>

lemma all_u8: "(\<And>n. n < 256 \<Longrightarrow> P (word_of_nat n :: u8)) \<Longrightarrow> P x"
proof -
  assume "\<And>n. n < 256 \<Longrightarrow> P (word_of_nat n :: u8)"
  moreover have "unat x < 256"
    using unat_lt_word [of x] by simp
  moreover have "word_of_nat (unat x) = x"
    by simp
  ultimately show ?thesis
    by metis
qed

lemma encode_single_iff: "encode_single n = Some x \<longleftrightarrow> decode_single x = Some n"
  by (auto simp: encode_single_def decode_single_def Let_def split: if_splits)

lemma decode_pair_table:
  "list_all (\<lambda>k. case decode_pair (word_of_nat k) of None \<Rightarrow> 82 \<le> k \<and> k \<le> 127
     | Some (n, m) \<Rightarrow> 1 \<le> n \<and> n < m \<and> m \<le> 29 \<and> n + m \<le> 30
         \<and> encode_pair_total n m = word_of_nat k) [0..<256]"
  by code_simp

lemma decode_pair_bounds:
  assumes "decode_pair x = Some (n, m)"
  shows "1 \<le> n \<and> n < m \<and> m \<le> 29 \<and> n + m \<le> 30 \<and> encode_pair_total n m = x"
  using assms
proof (induction x rule: all_u8)
  case (1 k)
  then show ?case
    using decode_pair_table by (auto simp: list_all_iff dest!: bspec [of _ _ k])
qed

lemma stack_exchange_top_first:
  assumes "n < length s" "m < length s" "n \<noteq> m"
  shows "\<exists>s'. stack_exchange n m s = (Inr (), s') \<and> length s' = length s
    \<and> top_first s' = (top_first s)[n := top_first s ! m, m := top_first s ! n]"
proof -
  let ?i = "length s - 1 - n" and ?j = "length s - 1 - m"
  let ?s = "s[?i := s ! ?j, ?j := s ! ?i]"
  have ij: "?i < length s" "?j < length s" "?i \<noteq> ?j"
    using assms by auto
  have "top_first ?s = (top_first s)[n := top_first s ! m, m := top_first s ! n]"
  proof (rule nth_equalityI)
    fix k
    assume k: "k < length (top_first ?s)"
    then have kl: "k < length s"
      by simp
    have "length s - 1 - k = ?i \<longleftrightarrow> k = n" "length s - 1 - k = ?j \<longleftrightarrow> k = m"
      using assms kl by auto
    then show "top_first ?s ! k = (top_first s)[n := top_first s ! m, m := top_first s ! n] ! k"
      using kl assms ij by (simp add: top_first_nth nth_list_update)
  qed simp
  then show ?thesis
    using assms by (simp add: stack_exchange_def Let_def)
qed

lemma stack_dup_top_first:
  assumes "0 < n" "n \<le> length s" "length s < STACK_LIMIT"
  shows "stack_dup n s = (Inr (), s @ [top_first s ! (n - 1)])"
  using assms by (simp add: stack_dup_def top_first_nth)

section \<open>Properties\<close>

text \<open>
  C28: A push immediate of one to thirty-two bytes pushes its big-endian value,
  through the 64-bit path, the whole-word path and the limb-wise path alike, or
  stops with an overflow on a full stack.
\<close>

theorem push_slice_big_endian:
  assumes "data \<noteq> []" "length data \<le> 32" "stack_ok s"
  shows "push_slice data s =
    (if length s = STACK_LIMIT then (Inl StackOverflow, s)
     else (Inr (), s @ [word_of_nat (be_nat data)]))"
  using push_slice_be [OF assms] by (simp add: stack_push_def from_be_bytes_def)

theorem push_slice_big_endian_witness:
  "push_slice [1, 2, 3, 4, 5, 6, 7, 8, 9] [42] = (Inr (), [42, 0x010203040506070809])"
proof -
  have "stack_ok [42]"
    by (simp add: stack_ok_def STACK_LIMIT_def)
  then show ?thesis
    using push_slice_big_endian [of "[1, 2, 3, 4, 5, 6, 7, 8, 9]" "[42]"] by (simp add: STACK_LIMIT_def)
qed

text \<open>
  C29: Popping after a push gives the pushed word back and leaves the stack as it was.
\<close>

theorem stack_push_then_pop:
  assumes "length s < STACK_LIMIT"
  shows "bindE (stack_push v) (\<lambda>_. stack_pop) s = (Inr v, s)"
proof -
  obtain s' where "bindE (stack_push v) (\<lambda>_. stack_pop) s = (Inr v, s')" "top_first s' = top_first s"
    using stack.push_pop [of s v] assms by auto
  then show ?thesis
    by (simp add: top_first_def)
qed

theorem stack_push_then_pop_witness:
  "bindE (stack_push 7) (\<lambda>_. stack_pop) [1, 2] = (Inr 7, [1, 2])"
  using stack_push_then_pop [of "[1, 2]" 7] by (simp add: STACK_LIMIT_def)

text \<open>
  C30: Exchanging two different depths swaps exactly the words at those depths
  below the top, and stops with an underflow, changing nothing, when the stack does
  not reach both.
\<close>

theorem stack_exchange_swaps:
  assumes "n \<noteq> m"
  shows "if n < length s \<and> m < length s
    then \<exists>s'. stack_exchange n m s = (Inr (), s')
      \<and> top_first s' = (top_first s)[n := top_first s ! m, m := top_first s ! n]
    else stack_exchange n m s = (Inl (Err StackUnderflow), s)"
  using stack_exchange_top_first [of n s m] assms by (auto simp: stack_exchange_def)

theorem stack_exchange_swaps_witness:
  "\<exists>s'. stack_exchange 0 2 [10, 20, 30] = (Inr (), s') \<and> top_first s' = [10, 20, 30]"
  using stack_exchange_swaps [of 0 2 "[10, 20, 30]"] by (simp add: top_first_def numeral_eq_Suc)

text \<open>
  C31: The single-index immediate of \<open>DUPN\<close> and \<open>SWAPN\<close> is decoded and
  encoded by mutually inverse partial functions.
\<close>

theorem single_immediate_roundtrip:
  "encode_single n = Some x \<longleftrightarrow> decode_single x = Some n"
  by (rule encode_single_iff)

text \<open>
  C32: A decodable \<open>EXCHANGE\<close> immediate names two different depths, the first
  at least one and smaller than the second, with sum at most thirty, so the exchange
  it starts never panics; and no two immediates name the same pair.
\<close>

theorem pair_immediate_valid:
  assumes "decode_pair x = Some (n, m)"
  shows "1 \<le> n \<and> n < m \<and> n + m \<le> 30
    \<and> fst (stack_exchange (unat n) (unat m) s) \<noteq> Inl Panic
    \<and> (decode_pair y = Some (n, m) \<longrightarrow> y = x)"
proof -
  have b: "1 \<le> n" "n < m" "n + m \<le> 30" "encode_pair_total n m = x"
    using decode_pair_bounds [OF assms] by auto
  have "unat n \<noteq> unat m"
    using b(2) by (auto simp: word_less_nat_alt)
  then show ?thesis
    using b decode_pair_bounds [of y n m] by (auto simp: stack_exchange_def Let_def)
qed

theorem pair_immediate_valid_witness:
  "1 \<le> (1 :: u8) \<and> (1 :: u8) < 21 \<and> fst (stack_exchange (unat (1 :: u8)) (unat (21 :: u8)) []) \<noteq> Inl Panic"
proof -
  have "decode_pair 15 = Some (1, 21)"
    by code_simp
  from pair_immediate_valid [OF this, of "[]"] show ?thesis
    by simp
qed

lemma encode_pair_table:
  "list_all (\<lambda>k. case decode_pair (word_of_nat k) of
       Some (n, m) \<Rightarrow> encode_pair n m =
         (if unat (xor (word_of_nat k) (143 :: u8)) div 16 < unat (xor (word_of_nat k) (143 :: u8)) mod 16
          then Some (word_of_nat k) else None)
     | None \<Rightarrow> True) [0..<256]"
  by code_simp

lemma encode_pair_of_decoded:
  "decode_pair x = Some (n, m) \<Longrightarrow>
     encode_pair n m = (if unat (xor x 143) div 16 < unat (xor x 143) mod 16 then Some x else None)"
proof (induction x rule: all_u8)
  case (1 k)
  then show ?case
    using encode_pair_table by (auto simp: list_all_iff dest!: bspec [of _ _ k])
qed

lemma encode_pair_sound: "encode_pair n m = Some x \<Longrightarrow> decode_pair x = Some (n, m)"
  by (auto simp: encode_pair_def encode_try_k_def Let_def bind_eq_Some_conv split: if_splits)

text \<open>
  C33: The encoder of pairs only returns encodings, but it misses pairs: of the pair decoded
  from a byte it finds the byte exactly when the byte uses the first of the two forms
  (\<open>q < r\<close>).  Every pair of the second form has an encoding and the encoder
  returns none for it, since it tries only the first form whenever the first index is smaller.
\<close>

theorem encode_pair_misses_second_form:
  "(encode_pair n m = Some x \<longrightarrow> decode_pair x = Some (n, m)) \<and>
   (decode_pair x = Some (n, m) \<longrightarrow>
      encode_pair n m = (if unat (xor x 143) div 16 < unat (xor x 143) mod 16 then Some x else None))"
  using encode_pair_sound encode_pair_of_decoded by blast

theorem encode_pair_misses_second_form_witness:
  "decode_pair 15 = Some (1, 21) \<and> encode_pair 1 21 = None"
proof -
  have "decode_pair 15 = Some (1, 21)"
    by code_simp
  then show ?thesis
    using encode_pair_misses_second_form [of 1 21 15] by simp
qed

end
