(* ===== verification/Evm_Memory.thy ===== *)
theory Evm_Memory
  imports Gas_Params Gas_Tracker
begin

text \<open>
  Linear memory and its expansion gas (\<open>interpreter/memory.rs\<close>).  An
  access outside the initialised bytes, which is undefined behaviour or a panic in the
  source, is \<^const>\<open>None\<close> or a \<^const>\<open>Panic\<close>; the lemmas show that a successful
  resize makes the access it was made for valid.
\<close>

section \<open>Bytes\<close>

record memory =
  mem_data :: bytes
  mem_limit :: u64

definition memory_new :: memory where
  "memory_new = \<lparr>mem_data = [], mem_limit = - 1\<rparr>"

definition write_at :: "bytes \<Rightarrow> nat \<Rightarrow> bytes \<Rightarrow> bytes" where
  "write_at data off v = take off data @ v @ drop (off + length v) data"

definition resize_to :: "nat \<Rightarrow> memory \<Rightarrow> memory" where
  "resize_to new_size m =
    m\<lparr>mem_data := take new_size (mem_data m) @ replicate (new_size - length (mem_data m)) 0\<rparr>"

definition mem_resize :: "usize \<Rightarrow> usize \<Rightarrow> (memory, instr_stop, unit) sres" where
  "mem_resize offset len m =
    (case checked_add offset len of
       None \<Rightarrow> (Inl MemoryOOG, m)
     | Some end' \<Rightarrow>
         (Inr (), if unat end' > length (mem_data m) then resize_to (unat end') m else m))"

definition limit_reached :: "usize \<Rightarrow> memory \<Rightarrow> bool" where
  "limit_reached new_words m = (saturating_mul new_words 32 > mem_limit m)"

definition mem_get_word :: "memory \<Rightarrow> usize \<Rightarrow> evm_word option" where
  "mem_get_word m offset =
    (if unat offset + 32 \<le> length (mem_data m)
     then Some (from_be_bytes (take 32 (drop (unat offset) (mem_data m)))) else None)"

definition mem_set :: "usize \<Rightarrow> bytes \<Rightarrow> memory \<Rightarrow> memory option" where
  "mem_set offset v m =
    (if v = [] then Some m
     else if unat offset + length v \<le> length (mem_data m)
     then Some (m\<lparr>mem_data := write_at (mem_data m) (unat offset) v\<rparr>) else None)"

definition mem_set_data :: "usize \<Rightarrow> usize \<Rightarrow> usize \<Rightarrow> bytes \<Rightarrow> memory \<Rightarrow> memory option" where
  "mem_set_data dst_offset src_offset len src m =
    (if len = 0 then Some m
     else if unat dst_offset + unat len > length (mem_data m) then None
     else if unat src_offset \<ge> length src then
       Some (m\<lparr>mem_data := write_at (mem_data m) (unat dst_offset) (replicate (unat len) 0)\<rparr>)
     else
       let src_end = min (unat (src_offset + len)) (length src);
           data = take (src_end - unat src_offset) (drop (unat src_offset) src)
       in Some (m\<lparr>mem_data := write_at (mem_data m) (unat dst_offset)
                  (data @ replicate (unat len - length data) 0)\<rparr>))"

definition mem_copy :: "usize \<Rightarrow> usize \<Rightarrow> usize \<Rightarrow> memory \<Rightarrow> memory option" where
  "mem_copy dst src len m =
    (if unat src + unat len \<le> length (mem_data m) \<and> unat dst + unat len \<le> length (mem_data m)
     then Some (m\<lparr>mem_data := write_at (mem_data m) (unat dst)
                   (take (unat len) (drop (unat src) (mem_data m)))\<rparr>)
     else None)"

definition mem_slice :: "memory \<Rightarrow> usize \<Rightarrow> usize \<Rightarrow> bytes option" where
  "mem_slice m offset len =
    (if len = 0 then Some []
     else if unat offset + unat len \<le> length (mem_data m)
     then Some (take (unat len) (drop (unat offset) (mem_data m))) else None)"

section \<open>Expansion with gas\<close>

definition resize_evm_cold ::
    "gas_params \<Rightarrow> usize \<Rightarrow> (memory \<times> gas, instr_stop fault, unit) sres" where
  "resize_evm_cold gp new_num_words s =
    (case s of (m, g) \<Rightarrow>
      case checked_mul new_num_words 32 of
        None \<Rightarrow> (Inl (Err MemoryOOG), (m, g))
      | Some new_size \<Rightarrow>
          if limit_reached new_num_words m then (Inl (Err MemoryLimitOOG), (m, g))
          else if gp_get gp MemoryQuadraticReduction = 0 then (Inl Panic, (m, g))
          else
            case set_words_num new_num_words (memory_cost gp new_num_words) (memory_gas_of g) of
              (None, mg) \<Rightarrow> (Inl Panic, (m, g\<lparr>memory_gas_of := mg\<rparr>))
            | (Some cost, mg) \<Rightarrow>
                case gas_spend cost (g\<lparr>memory_gas_of := mg\<rparr>) of
                  (Inl _, g') \<Rightarrow> (Inl (Err MemoryOOG), (m, g'))
                | (Inr _, g') \<Rightarrow> (Inr (), (resize_to (unat new_size) m, g')))"

definition resize_evm ::
    "gas_params \<Rightarrow> usize \<Rightarrow> usize \<Rightarrow> (memory \<times> gas, instr_stop fault, unit) sres" where
  "resize_evm gp offset len s =
    (let new_num_words = num_words (saturating_add offset len) in
     if new_num_words > words_num (memory_gas_of (snd s)) then resize_evm_cold gp new_num_words s
     else (Inr (), s))"

section \<open>Invariant\<close>

text \<open>
  The bytes are whole words, as many as the gas counter says, and the counter's cost is
  the cost of that many words.
\<close>

definition mem_ok :: "gas_params \<Rightarrow> memory \<Rightarrow> gas \<Rightarrow> bool" where
  "mem_ok gp m g \<longleftrightarrow>
     length (mem_data m) = 32 * unat (words_num (memory_gas_of g)) \<and>
     expansion_cost (memory_gas_of g) = memory_cost gp (words_num (memory_gas_of g)) \<and>
     unat (words_num (memory_gas_of g)) < 576460752303423488"

section \<open>Bytes read back what was written\<close>

locale byte_store =
  fixes read :: "'m \<Rightarrow> usize \<Rightarrow> usize \<Rightarrow> bytes option"
    and store :: "usize \<Rightarrow> bytes \<Rightarrow> 'm \<Rightarrow> 'm option"
    and size :: "'m \<Rightarrow> nat"
  assumes store_defined: "unat off + length v \<le> size m \<Longrightarrow> \<exists>m'. store off v m = Some m' \<and> size m' = size m"
    and read_stored: "store off v m = Some m' \<Longrightarrow> length v = unat n \<Longrightarrow> read m' off n = Some v"
    and read_other: "store off v m = Some m' \<Longrightarrow>
      unat off' + unat n \<le> unat off \<or> unat off + length v \<le> unat off' \<Longrightarrow> read m' off' n = read m off' n"
begin

lemma store_read_word:
  assumes "unat off + 32 \<le> size m"
  shows "\<exists>m'. store off (to_be_bytes 32 (w :: evm_word)) m = Some m'
    \<and> map_option from_be_bytes (read m' off 32) = Some w"
proof -
  obtain m' where "store off (to_be_bytes 32 w) m = Some m'"
    using store_defined [of off "to_be_bytes 32 w" m] assms by auto
  then show ?thesis
    using read_stored [of off "to_be_bytes 32 w" m m' 32] by (simp add: from_to_be_bytes)
qed

lemma stores_commute_read:
  assumes "store off v m = Some m1" "store off' v' m1 = Some m2"
    and "unat off + length v \<le> unat off'" "length v = unat n"
  shows "read m2 off n = Some v"
  using read_other [OF assms(2), of off n] read_stored [OF assms(1,4)] assms(3,4) by simp

end

lemma length_write_at [simp]:
  "off + length v \<le> length data \<Longrightarrow> length (write_at data off v) = length data"
  by (simp add: write_at_def)

lemma read_write_same:
  "off + length v \<le> length data \<Longrightarrow> take (length v) (drop off (write_at data off v)) = v"
  by (simp add: write_at_def)

lemma nth_write_at:
  assumes "off + length v \<le> length data" "i < length data"
  shows "write_at data off v ! i = (if off \<le> i \<and> i < off + length v then v ! (i - off) else data ! i)"
  using assms by (auto simp: write_at_def nth_append min_def)

lemma read_write_other:
  assumes "off + length v \<le> length data" "off' + n \<le> off \<or> off + length v \<le> off'"
  shows "take n (drop off' (write_at data off v)) = take n (drop off' data)"
proof (rule nth_equalityI)
  show "length (take n (drop off' (write_at data off v))) = length (take n (drop off' data))"
    using assms by simp
  fix i
  assume "i < length (take n (drop off' (write_at data off v)))"
  then show "take n (drop off' (write_at data off v)) ! i = take n (drop off' data) ! i"
    using assms by (auto simp: nth_write_at)
qed

interpretation mem_bytes: byte_store mem_slice mem_set "\<lambda>m. length (mem_data m)"
proof (unfold_locales, goal_cases)
  case (1 off v m)
  then show ?case
    by (simp add: mem_set_def)
next
  case (2 off v m m' n)
  have "n = 0 \<longleftrightarrow> v = []"
    using 2(2) by (metis length_0_conv unat_0_iff)
  then show ?case
    using 2 read_write_same [of "unat off" v "mem_data m"]
    by (auto simp: mem_set_def mem_slice_def split: if_splits)
next
  case (3 off v m m' off' n)
  then show ?case
    by (auto simp: mem_set_def mem_slice_def read_write_other split: if_splits)
qed

section \<open>Expansion keeps the invariant\<close>

lemma length_resize_to [simp]: "length (mem_data (resize_to n m)) = n"
  by (simp add: resize_to_def)

lemma resize_to_grow:
  "length (mem_data m) \<le> n \<Longrightarrow>
    mem_data (resize_to n m) = mem_data m @ replicate (n - length (mem_data m)) 0"
  by (simp add: resize_to_def)

lemma memory_cost_zero [simp]: "memory_cost gp 0 = 0"
  by (simp add: memory_cost_def saturating_mul_def saturating_add_def)

lemma mem_ok_new [simp]: "mem_ok gp memory_new (new_gas lim res)"
  by (simp add: mem_ok_def memory_new_def new_gas_def new_memory_gas_def)

lemma mem_ok_data: "mem_ok gp m g \<Longrightarrow> length (mem_data m') = length (mem_data m) \<Longrightarrow> mem_ok gp m' g"
  by (simp add: mem_ok_def)

lemma resize_cold_no_panic:
  assumes "mem_ok gp m g" "gp_get gp MemoryQuadraticReduction \<noteq> 0"
    and "words_num (memory_gas_of g) \<le> n"
  shows "fst (resize_evm_cold gp n (m, g)) \<noteq> Inl Panic"
proof -
  have "expansion_cost (memory_gas_of g) \<le> memory_cost gp n"
    using assms memory_cost_mono by (simp add: mem_ok_def)
  then show ?thesis
    using assms(2)
    by (auto simp: resize_evm_cold_def set_words_num_def checked_sub_def not_less
        split: option.splits prod.splits sum.splits)
qed

lemma resize_cold_success:
  assumes ok: "mem_ok gp m g" and grow: "words_num (memory_gas_of g) < n"
    and res: "resize_evm_cold gp n (m, g) = (Inr (), (m', g'))"
  shows "mem_ok gp m' g'"
    and "mem_data m' = mem_data m @ replicate (32 * unat n - length (mem_data m)) 0"
    and "length (mem_data m') = 32 * unat n"
    and "unat (remaining (tracker g')) + (unat (memory_cost gp n) - unat (expansion_cost (memory_gas_of g)))
      = unat (remaining (tracker g))"
    and "mem_limit m' = mem_limit m" and "32 * unat n \<le> unat (mem_limit m)"
proof -
  let ?mg = "\<lparr>words_num = n, expansion_cost = memory_cost gp n\<rparr>"
  obtain sz cost where sz: "checked_mul n 32 = Some sz" and lim: "\<not> limit_reached n m"
    and cost: "checked_sub (memory_cost gp n) (expansion_cost (memory_gas_of g)) = Some cost"
    and spend: "spend cost (tracker g) = (Inr (), tracker g')"
    and g': "memory_gas_of g' = memory_gas_of g\<lparr>words_num := n, expansion_cost := memory_cost gp n\<rparr>"
    and m': "m' = resize_to (unat sz) m"
    using res
    by (auto simp: resize_evm_cold_def set_words_num_def gas_spend_def on_tracker_def
        split: option.splits if_splits prod.splits sum.splits)
  have szn: "unat sz = 32 * unat n"
    using sz by (simp add: checked_mul_Some_iff)
  have n: "unat n < 576460752303423488"
    using szn unat_u64_lt [of sz] by simp
  have len: "length (mem_data m) \<le> 32 * unat n"
    using ok grow by (simp add: mem_ok_def word_less_nat_alt)
  show "mem_data m' = mem_data m @ replicate (32 * unat n - length (mem_data m)) 0"
    using resize_to_grow [of m "unat sz"] len by (simp add: m' szn)
  show "length (mem_data m') = 32 * unat n"
    by (simp add: m' szn)
  then show "mem_ok gp m' g'"
    using n by (simp add: mem_ok_def g')
  show "unat (remaining (tracker g')) + (unat (memory_cost gp n) - unat (expansion_cost (memory_gas_of g)))
      = unat (remaining (tracker g))"
    using cost spend by (simp add: checked_sub_Some_iff spend_Inr_iff word_le_nat_alt unat_diff_exact)
  show "mem_limit m' = mem_limit m"
    by (simp add: m' resize_to_def)
  show "32 * unat n \<le> unat (mem_limit m)"
    using lim n by (simp add: limit_reached_def u_arith not_less)
qed

lemma words_cover:
  assumes "unat w < 576460752303423488" "num_words (saturating_add offset len) \<le> w"
  shows "unat offset + unat len \<le> 32 * unat w"
proof -
  have w: "unat (num_words (saturating_add offset len)) \<le> unat w"
    using assms(2) by (simp add: word_le_nat_alt)
  have "32 * unat (num_words (saturating_add offset len)) \<le> 32 * unat w"
    using w by simp
  then have le: "unat (saturating_add offset len) \<le> 32 * unat w"
    using num_words_covers [of "saturating_add offset len"] by linarith
  have "unat (num_words (saturating_add offset len)) < 576460752303423488"
    using assms(1) w by linarith
  then have "unat (saturating_add offset len) \<le> 18446744073709551584"
    using num_words_covers [of "saturating_add offset len"] by linarith
  then have "unat (saturating_add offset len) = unat offset + unat len"
    by (auto simp: unat_saturating_add min_def split: if_splits)
  then show ?thesis
    using le by simp
qed

lemma resize_evm_no_panic:
  assumes "mem_ok gp m g" "gp_get gp MemoryQuadraticReduction \<noteq> 0"
  shows "fst (resize_evm gp offset len (m, g)) \<noteq> Inl Panic"
  using resize_cold_no_panic [OF assms] by (auto simp: resize_evm_def Let_def)

lemma resize_evm_success:
  assumes ok: "mem_ok gp m g" and res: "resize_evm gp offset len (m, g) = (Inr (), (m', g'))"
  shows "mem_ok gp m' g'" and "unat offset + unat len \<le> length (mem_data m')"
    and "\<exists>k. mem_data m' = mem_data m @ replicate k 0"
    and "unat (remaining (tracker g'))
      + (unat (expansion_cost (memory_gas_of g')) - unat (expansion_cost (memory_gas_of g)))
      = unat (remaining (tracker g))"
proof -
  let ?n = "num_words (saturating_add offset len)"
  have "mem_ok gp m' g' \<and> ?n \<le> words_num (memory_gas_of g') \<and> (\<exists>k. mem_data m' = mem_data m @ replicate k 0)
    \<and> unat (remaining (tracker g'))
      + (unat (expansion_cost (memory_gas_of g')) - unat (expansion_cost (memory_gas_of g)))
      = unat (remaining (tracker g))"
  proof (cases "words_num (memory_gas_of g) < ?n")
    case True
    then have cold: "resize_evm_cold gp ?n (m, g) = (Inr (), (m', g'))"
      using res by (simp add: resize_evm_def)
    note s = resize_cold_success [OF ok True cold]
    have "32 * unat (words_num (memory_gas_of g')) = 32 * unat ?n"
      using s(1,3) by (simp add: mem_ok_def)
    then have w: "words_num (memory_gas_of g') = ?n"
      by (simp add: word_unat_eq_iff)
    then have "expansion_cost (memory_gas_of g') = memory_cost gp ?n"
      using s(1) by (simp add: mem_ok_def)
    then show ?thesis
      using s w by auto
  next
    case False
    then have "m' = m" "g' = g"
      using res by (auto simp: resize_evm_def)
    then show ?thesis
      using ok False by (auto intro: exI [of _ 0])
  qed
  then show "mem_ok gp m' g'" and "\<exists>k. mem_data m' = mem_data m @ replicate k 0"
    and "unat (remaining (tracker g'))
      + (unat (expansion_cost (memory_gas_of g')) - unat (expansion_cost (memory_gas_of g)))
      = unat (remaining (tracker g))"
    and "unat offset + unat len \<le> length (mem_data m')"
    using words_cover [of "words_num (memory_gas_of g')" offset len] by (auto simp: mem_ok_def)
qed

lemma resize_evm_errors:
  "resize_evm gp offset len s = (Inl e, s') \<Longrightarrow> e \<in> {Panic, Err MemoryOOG, Err MemoryLimitOOG}"
  by (auto simp: resize_evm_def resize_evm_cold_def Let_def split: if_splits option.splits prod.splits sum.splits)

lemma resize_evm_error_keeps:
  assumes "resize_evm gp offset len (m, g) = (Inl e, (m', g'))"
  shows "m' = m" and "e = Err MemoryLimitOOG \<Longrightarrow> g' = g"
  using assms
  by (auto simp: resize_evm_def resize_evm_cold_def Let_def split: if_splits option.splits prod.splits sum.splits)

text \<open>The one test of an expansion: within the limit and paid for.\<close>

lemma resize_evm_succeeds_iff:
  fixes offset len :: usize
  defines "n \<equiv> num_words (saturating_add offset len)"
  assumes ok: "mem_ok gp m g" and q: "gp_get gp MemoryQuadraticReduction \<noteq> 0"
  shows "fst (resize_evm gp offset len (m, g)) = Inr () \<longleftrightarrow>
    n \<le> words_num (memory_gas_of g) \<or>
    32 * unat n \<le> unat (mem_limit m) \<and> memory_cost gp n - expansion_cost (memory_gas_of g) \<le> remaining (tracker g)"
proof (cases "words_num (memory_gas_of g) < n")
  case False
  then show ?thesis by (auto simp: resize_evm_def n_def Let_def)
next
  case True
  have no_panic: "fst (resize_evm_cold gp n (m, g)) \<noteq> Inl Panic"
    by (rule resize_cold_no_panic [OF ok q]) (use True in simp)
  have lim: "checked_mul n 32 = Some (n * 32) \<and> \<not> limit_reached n m \<longleftrightarrow> 32 * unat n \<le> unat (mem_limit m)"
  proof -
    have "int (unat n) = uint n"
      by simp
    then have "uint n < 576460752303423488 \<longleftrightarrow> unat n < 576460752303423488"
      by linarith
    then have "checked_mul n 32 = Some (n * 32) \<longleftrightarrow> unat n < 576460752303423488"
      by (auto simp: checked_mul_def)
    then show ?thesis
      using unat_u64_lt [of "mem_limit m"]
      by (auto simp: limit_reached_def u_arith not_less min_def split: if_splits)
  qed
  have "checked_mul n 32 = Some x \<Longrightarrow> x = n * 32" for x
    by (simp add: checked_mul_def split: if_splits)
  then show ?thesis
    using True no_panic q lim
    by (auto simp: n_def [symmetric] resize_evm_def resize_evm_cold_def set_words_num_def gas_spend_def on_tracker_def
        spend_def Let_def checked_sub_def not_less not_le split: option.splits if_splits prod.splits sum.splits)
qed

section \<open>Properties\<close>

text \<open>
  C21: Expanding memory never reaches undefined behaviour, the unchecked
  unwrap of the cost increase included.  It succeeds exactly when the range is already in
  memory or the new size is within the limit and its cost increase is covered.  A successful expansion keeps
  the invariant, leaves the requested range inside memory, keeps every byte, fills the new ones with
  zeros, and charges exactly the increase of the expansion cost.  A failing one is one of
  the two memory errors and does not touch the memory; the gas counters are as before when the limit
  was the reason, and not otherwise, so that after \<open>MemoryOOG\<close> the word count may be ahead of the memory.
\<close>

theorem resize_evm_safe:
  assumes "mem_ok gp m g" "gp_get gp MemoryQuadraticReduction \<noteq> 0"
    and "resize_evm gp offset len (m, g) = (r, (m', g'))"
  shows "r \<noteq> Inl Panic \<and>
    (r = Inr () \<longrightarrow> mem_ok gp m' g' \<and> unat offset + unat len \<le> length (mem_data m')
      \<and> (\<exists>k. mem_data m' = mem_data m @ replicate k 0)
      \<and> unat (remaining (tracker g'))
          + (unat (expansion_cost (memory_gas_of g')) - unat (expansion_cost (memory_gas_of g)))
        = unat (remaining (tracker g))) \<and>
    (r = Inr () \<longleftrightarrow>
      num_words (saturating_add offset len) \<le> words_num (memory_gas_of g) \<or>
      32 * unat (num_words (saturating_add offset len)) \<le> unat (mem_limit m) \<and>
      memory_cost gp (num_words (saturating_add offset len)) - expansion_cost (memory_gas_of g)
        \<le> remaining (tracker g)) \<and>
    (r \<noteq> Inr () \<longrightarrow> m' = m \<and> (r = Inl (Err MemoryOOG) \<or> r = Inl (Err MemoryLimitOOG) \<and> g' = g))"
proof -
  have "r \<noteq> Inr () \<longrightarrow> m' = m \<and> (r = Inl (Err MemoryOOG) \<or> r = Inl (Err MemoryLimitOOG) \<and> g' = g)"
    using resize_evm_no_panic [OF assms(1,2), of offset len] resize_evm_errors [of gp offset len "(m, g)"]
      resize_evm_error_keeps [of gp offset len m g] assms(3) by (cases r) auto
  then show ?thesis
    using resize_evm_no_panic [OF assms(1,2), of offset len] resize_evm_success [OF assms(1), of offset len m' g']
      resize_evm_succeeds_iff [OF assms(1,2), of offset len] assms(3) by auto
qed

theorem resize_evm_safe_witness:
  "\<exists>m' g'. resize_evm (\<lambda>_. 3) 40 32 (memory_new, new_gas 1000 0) = (Inr (), (m', g'))
    \<and> mem_ok (\<lambda>_. 3) m' g' \<and> 72 \<le> length (mem_data m')"
proof -
  let ?r = "resize_evm (\<lambda>_. 3) 40 32 (memory_new, new_gas 1000 0)"
  have "fst ?r = Inr ()"
    by code_simp
  then obtain m' g' where r: "?r = (Inr (), (m', g'))"
    by (metis prod.collapse)
  have "gp_get (\<lambda>_. 3) MemoryQuadraticReduction \<noteq> 0"
    by (simp add: gp_get_def)
  from resize_evm_safe [OF mem_ok_new this r] have "mem_ok (\<lambda>_. 3) m' g'" "72 \<le> length (mem_data m')"
    by simp_all
  with r show ?thesis
    by blast
qed

text \<open>
  C34: A word written to memory is the word read back at the same offset.
\<close>

theorem mem_word_roundtrip:
  assumes "unat offset + 32 \<le> length (mem_data m)"
  shows "\<exists>m'. mem_set offset (to_be_bytes 32 w) m = Some m' \<and> mem_get_word m' offset = Some w"
proof -
  obtain m' where m': "mem_set offset (to_be_bytes 32 w) m = Some m'"
    and rd: "map_option from_be_bytes (mem_slice m' offset 32) = Some w"
    using mem_bytes.store_read_word [OF assms, of w] by blast
  have "length (mem_data m') = length (mem_data m)"
    using m' assms by (auto simp: mem_set_def split: if_splits)
  then have "mem_get_word m' offset = Some w"
    using rd assms by (simp add: mem_get_word_def mem_slice_def)
  with m' show ?thesis
    by blast
qed

theorem mem_word_roundtrip_witness:
  "\<exists>m'. mem_set 5 (to_be_bytes 32 (77 :: evm_word)) (resize_to 64 memory_new) = Some m'
    \<and> mem_get_word m' 5 = Some 77"
  using mem_word_roundtrip [of 5 "resize_to 64 memory_new" 77] by simp

end
