(* ===== verification/Word_Arith.thy ===== *)
theory Word_Arith
  imports Gas_Params Opcodes "HOL-Library.Signed_Division"
begin

unbundle bit_operations_syntax

text \<open>
  The pure part of the arithmetic and bitwise instructions
  (\<open>interpreter/instructions/arithmetic.rs\<close>, \<open>bitwise.rs\<close>, \<open>i256.rs\<close>) on 256-bit
  words.  A word's limbs are its four 64-bit digits, least significant first.  Operand lists
  have the top of the stack first, as in the slice patterns of the source.  The lemmas
  relate the branch-free signed operations to truncated division and order of the
  two's complement readings, and the shifts and extensions to integer division and
  truncation.
\<close>

section \<open>Signed helpers\<close>

definition limb :: "nat \<Rightarrow> evm_word \<Rightarrow> u64" where
  "limb i w = ucast (drop_bit (64 * i) w)"

definition word_of_limbs :: "u64 \<Rightarrow> u64 \<Rightarrow> u64 \<Rightarrow> u64 \<Rightarrow> evm_word" where
  "word_of_limbs l0 l1 l2 l3 =
     ucast l0 OR push_bit 64 (ucast l1) OR push_bit 128 (ucast l2) OR push_bit 192 (ucast l3)"

definition flip_sign :: "evm_word \<Rightarrow> evm_word" where
  "flip_sign v = word_of_limbs (limb 0 v) (limb 1 v) (limb 2 v) (limb 3 v XOR push_bit 63 1)"

definition i256_lt :: "evm_word \<Rightarrow> evm_word \<Rightarrow> bool" where
  "i256_lt first second = (flip_sign first < flip_sign second)"

datatype ordering = Less | Equal | Greater

definition i256_cmp :: "evm_word \<Rightarrow> evm_word \<Rightarrow> ordering" where
  "i256_cmp first second =
     (if flip_sign first < flip_sign second then Less
      else if flip_sign first = flip_sign second then Equal else Greater)"

definition sign_mask :: "evm_word \<Rightarrow> u64" where
  "sign_mask v = signed_drop_bit 63 (limb 3 v)"

definition negate_if :: "evm_word \<Rightarrow> u64 \<Rightarrow> evm_word" where
  "negate_if v m =
     word_of_limbs (limb 0 v XOR m) (limb 1 v XOR m) (limb 2 v XOR m) (limb 3 v XOR m)
       - word_of_limbs m m m m"

definition i256_div :: "evm_word \<Rightarrow> evm_word \<Rightarrow> evm_word" where
  "i256_div first second =
     (if second = 0 then 0
      else
        let first_sign = sign_mask first;
            second_sign = sign_mask second;
            quotient = negate_if first first_sign div negate_if second second_sign
        in negate_if quotient (first_sign XOR second_sign))"

definition i256_mod :: "evm_word \<Rightarrow> evm_word \<Rightarrow> evm_word" where
  "i256_mod first second =
     (if second = 0 then 0
      else
        let first_sign = sign_mask first;
            second_sign = sign_mask second;
            remainder = negate_if first first_sign mod negate_if second second_sign
        in negate_if remainder first_sign)"

section \<open>Instructions\<close>

text \<open>
  \<open>add_mod\<close>, \<open>mul_mod\<close> and \<open>wrapping_pow\<close> of the big integer library: the modular
  operations are exact before reduction and 0 for modulus 0.
\<close>

definition add_mod :: "evm_word \<Rightarrow> evm_word \<Rightarrow> evm_word \<Rightarrow> evm_word" where
  "add_mod a b n = (if n = 0 then 0 else word_of_int ((uint a + uint b) mod uint n))"

definition mul_mod :: "evm_word \<Rightarrow> evm_word \<Rightarrow> evm_word \<Rightarrow> evm_word" where
  "mul_mod a b n = (if n = 0 then 0 else word_of_int ((uint a * uint b) mod uint n))"

definition signextend :: "evm_word \<Rightarrow> evm_word \<Rightarrow> evm_word" where
  "signextend ext v =
     (if ext < 31 then
        let bit_index = unat (8 * (ucast ext :: u64) + 7);
            m = push_bit bit_index 1 - 1
        in if bit v bit_index then v OR NOT m else v AND m
      else v)"

definition arithmetic_word :: "arithmetic_instr \<Rightarrow> evm_word list \<Rightarrow> evm_word" where
  "arithmetic_word i xs =
     (let a = xs ! 0; b = xs ! 1 in
      case i of
        I_add \<Rightarrow> a + b
      | I_mul \<Rightarrow> a * b
      | I_sub \<Rightarrow> a - b
      | I_div \<Rightarrow> if b = 0 then 0 else a div b
      | I_sdiv \<Rightarrow> i256_div a b
      | I_rem \<Rightarrow> if b = 0 then 0 else a mod b
      | I_smod \<Rightarrow> i256_mod a b
      | I_addmod \<Rightarrow> add_mod a b (xs ! 2)
      | I_mulmod \<Rightarrow> mul_mod a b (xs ! 2)
      | I_exp \<Rightarrow> a ^ unat b
      | I_signextend \<Rightarrow> signextend a b)"

definition arithmetic_inputs :: "arithmetic_instr \<Rightarrow> nat" where
  "arithmetic_inputs i = (case i of I_addmod \<Rightarrow> 3 | I_mulmod \<Rightarrow> 3 | _ \<Rightarrow> 2)"

definition word_byte :: "evm_word \<Rightarrow> nat \<Rightarrow> u8" where
  "word_byte v i = ucast (drop_bit (8 * i) v)"

definition byte_of :: "evm_word \<Rightarrow> evm_word \<Rightarrow> evm_word" where
  "byte_of index v =
     (let i = to_usize_saturated index in
      if i < 32 then ucast (word_byte v (31 - unat i)) else 0)"

definition shl :: "evm_word \<Rightarrow> evm_word \<Rightarrow> evm_word" where
  "shl sh v = (let n = to_usize_saturated sh in if n < 256 then push_bit (unat n) v else 0)"

definition shr :: "evm_word \<Rightarrow> evm_word \<Rightarrow> evm_word" where
  "shr sh v = (let n = to_usize_saturated sh in if n < 256 then drop_bit (unat n) v else 0)"

definition sar :: "evm_word \<Rightarrow> evm_word \<Rightarrow> evm_word" where
  "sar sh v =
     (let n = to_usize_saturated sh in
      if n < 256 then signed_drop_bit (unat n) v
      else if bit v 255 then - 1 else 0)"

definition clz :: "evm_word \<Rightarrow> evm_word" where
  "clz v = ucast (256 - bit_len v)"

definition bitwise_word :: "bitwise_instr \<Rightarrow> evm_word list \<Rightarrow> evm_word" where
  "bitwise_word i xs =
     (let a = xs ! 0; b = xs ! 1 in
      case i of
        I_lt \<Rightarrow> of_bool (a < b)
      | I_gt \<Rightarrow> of_bool (b < a)
      | I_slt \<Rightarrow> of_bool (i256_lt a b)
      | I_sgt \<Rightarrow> of_bool (i256_lt b a)
      | I_eq \<Rightarrow> of_bool (a = b)
      | I_iszero \<Rightarrow> of_bool (a = 0)
      | I_bitand \<Rightarrow> a AND b
      | I_bitor \<Rightarrow> a OR b
      | I_bitxor \<Rightarrow> a XOR b
      | I_not \<Rightarrow> NOT a
      | I_byte \<Rightarrow> byte_of a b
      | I_shl \<Rightarrow> shl a b
      | I_shr \<Rightarrow> shr a b
      | I_sar \<Rightarrow> sar a b
      | I_clz \<Rightarrow> clz a)"

definition bitwise_inputs :: "bitwise_instr \<Rightarrow> nat" where
  "bitwise_inputs i = (case i of I_iszero \<Rightarrow> 1 | I_not \<Rightarrow> 1 | I_clz \<Rightarrow> 1 | _ \<Rightarrow> 2)"

section \<open>Limbs\<close>

lemma bit_limb: "bit (limb i v) n \<longleftrightarrow> n < 64 \<and> bit v (64 * i + n)"
  by (auto simp: limb_def bit_ucast_iff bit_drop_bit_eq)

lemma bit_word_of_limbs:
  "bit (word_of_limbs l0 l1 l2 l3) n \<longleftrightarrow>
     n < 256 \<and> (if n < 64 then bit l0 n else if n < 128 then bit l1 (n - 64)
                else if n < 192 then bit l2 (n - 128) else bit l3 (n - 192))"
  by (auto simp: word_of_limbs_def bit_or_iff bit_push_bit_iff bit_ucast_iff
      dest: bit_imp_le_length)

lemma bit_push_one: "bit (push_bit k 1 :: 'a::len word) n \<longleftrightarrow> n = k \<and> k < LENGTH('a)"
  unfolding push_bit_of_1 bit_exp_iff possible_bit_def by auto

lemma flip_sign_xor: "flip_sign v = v XOR push_bit 255 1"
proof (rule bit_eqI)
  fix n
  assume "possible_bit TYPE(256 word) n"
  then have "n < 256" by (simp add: possible_bit_def)
  then show "bit (flip_sign v) n \<longleftrightarrow> bit (v XOR push_bit 255 1) n"
    unfolding flip_sign_def bit_word_of_limbs bit_xor_iff bit_limb bit_push_one by auto
qed

lemma sign_mask_eq: "sign_mask v = (if bit v 255 then - 1 else 0)"
  by (rule bit_eqI)
     (auto simp: sign_mask_def bit_signed_drop_bit_iff bit_limb possible_bit_def not_le)

lemma word_of_limbs_ones: "word_of_limbs (- 1) (- 1) (- 1) (- 1) = - 1"
  by (rule bit_eqI) (auto simp: bit_word_of_limbs possible_bit_def)

lemma word_of_limbs_zeros: "word_of_limbs 0 0 0 0 = 0"
  by (simp add: word_of_limbs_def)

lemma limbs_xor_ones:
  "word_of_limbs (limb 0 v XOR - 1) (limb 1 v XOR - 1) (limb 2 v XOR - 1) (limb 3 v XOR - 1) = NOT v"
  by (rule bit_eqI)
     (auto simp: bit_word_of_limbs bit_xor_iff bit_limb bit_not_iff possible_bit_def)

lemma limbs_id: "word_of_limbs (limb 0 v) (limb 1 v) (limb 2 v) (limb 3 v) = v"
  by (rule bit_eqI) (auto simp: bit_word_of_limbs bit_limb possible_bit_def)

lemma negate_if_zero [simp]: "negate_if v 0 = v"
  unfolding negate_if_def xor.right_neutral limbs_id word_of_limbs_zeros by simp

lemma negate_if_ones [simp]: "negate_if v (- 1) = - v"
  unfolding negate_if_def limbs_xor_ones word_of_limbs_ones by (simp add: not_eq_complement)

section \<open>Signed readings\<close>

abbreviation two_256 :: int where
  "two_256 \<equiv> 115792089237316195423570985008687907853269984665640564039457584007913129639936"

abbreviation two_255 :: int where
  "two_255 \<equiv> 57896044618658097711785492504343953926634992332820282019728792003956564819968"

lemma sint_word: "sint (v :: evm_word) = uint v - (if bit v 255 then two_256 else 0)"
proof -
  have "sint v = take_bit (Suc 255) (uint v) - 2 ^ Suc 255 * of_bool (bit (uint v) 255)"
    by (simp only: sint_uint signed_take_bit_eq_take_bit_minus) simp
  moreover have "take_bit (Suc 255) (uint v) = uint v"
    using uint_lt2p [of v] by (simp add: take_bit_int_eq_self_iff)
  ultimately show ?thesis
    by (simp add: bit_uint_iff)
qed

lemma bit_255_iff: "bit (v :: evm_word) 255 \<longleftrightarrow> two_255 \<le> uint v"
  using sint_ge [of v] sint_lt [of v] by (auto simp: sint_word split: if_splits)

lemma bit_255_neg: "bit (v :: evm_word) 255 \<longleftrightarrow> sint v < 0"
  using bit_last_iff [of v] by simp

lemma add_sign_bit:
  assumes "\<not> bit (v :: evm_word) 255"
  shows "v XOR push_bit 255 1 = v + push_bit 255 1"
proof -
  have "v + push_bit 255 1 = v OR push_bit 255 1"
    using assms by (intro disjunctive_add) (auto simp only: bit_push_one)
  also have "\<dots> = v XOR push_bit 255 1"
    by (rule bit_eqI) (use assms in \<open>auto simp only: bit_or_iff bit_xor_iff bit_push_one\<close>)
  finally show ?thesis ..
qed

lemma uint_add_sign_bit:
  assumes "\<not> bit (v :: evm_word) 255"
  shows "uint (v + push_bit 255 1) = uint v + two_255"
  using assms by (subst uint_add_exact) (auto simp: bit_255_iff)

lemma uint_flip_sign: "uint (flip_sign v) = sint v + two_255"
proof (cases "bit v 255")
  case False
  then show ?thesis
    unfolding flip_sign_xor add_sign_bit [OF False] uint_add_sign_bit [OF False] sint_word by simp
next
  case True
  let ?w = "v XOR push_bit 255 1"
  have w: "\<not> bit ?w 255"
    using True by (simp only: bit_xor_iff bit_push_one) simp
  have "?w XOR push_bit 255 1 = v"
    by (simp only: xor.assoc xor_self_eq xor.right_neutral)
  then have "uint v = uint ?w + two_255"
    using add_sign_bit [OF w] uint_add_sign_bit [OF w] by (simp only:)
  then show ?thesis
    using True by (simp only: flip_sign_xor sint_word) simp
qed

lemma i256_lt_iff: "i256_lt a b \<longleftrightarrow> sint a < sint b"
  by (simp add: i256_lt_def word_less_def uint_flip_sign)

lemma uint_minus_word: "v \<noteq> 0 \<Longrightarrow> uint (- v :: evm_word) = two_256 - uint v"
  using uint_lt2p [of v] by (simp add: uint_word_ariths zmod_zminus1_eq_if unsigned_eq_0_iff)

lemma uint_negate_sign: "uint (negate_if v (sign_mask v)) = \<bar>sint v\<bar>"
proof (cases "bit v 255")
  case True
  then have "v \<noteq> 0" "two_255 \<le> uint v"
    by (auto simp: bit_255_iff)
  then show ?thesis
    using True uint_lt2p [of v] by (simp add: sign_mask_eq sint_word uint_minus_word)
next
  case False
  then show ?thesis
    by (simp add: sign_mask_eq sint_word)
qed

lemma i256_div_spec: "i256_div a b = word_of_int (sint a sdiv sint b)"
proof (cases "b = 0")
  case False
  have q: "negate_if a (sign_mask a) div negate_if b (sign_mask b) = word_of_int (\<bar>sint a\<bar> div \<bar>sint b\<bar>)"
    by (simp add: word_div_def uint_negate_sign)
  show ?thesis
    using False
    unfolding i256_div_def Let_def q
    by (cases "bit a 255"; cases "bit b 255")
       (simp_all add: sign_mask_eq bit_255_neg signed_divide_int_def sgn_if)
qed (simp add: i256_div_def)

lemma i256_mod_spec: "b \<noteq> 0 \<Longrightarrow> i256_mod a b = word_of_int (sint a smod sint b)"
proof -
  assume "b \<noteq> 0"
  have q: "negate_if a (sign_mask a) mod negate_if b (sign_mask b) = word_of_int (\<bar>sint a\<bar> mod \<bar>sint b\<bar>)"
    by (simp add: word_mod_def uint_negate_sign)
  show ?thesis
    using \<open>b \<noteq> 0\<close>
    unfolding i256_mod_def Let_def q
    by (cases "bit a 255"; cases "bit b 255")
       (simp_all add: sign_mask_eq bit_255_neg signed_modulo_int_def sgn_if)
qed

section \<open>Shifts, bytes and extension\<close>

lemma saturated_lt_iff: "unat k \<le> 256 \<Longrightarrow> to_usize_saturated w < k \<longleftrightarrow> unat w < unat k"
  by (auto simp: word_less_nat_alt unat_to_usize_saturated min_def)

lemma saturated_small: "unat w < 256 \<Longrightarrow> unat (to_usize_saturated w) = unat w"
  by (simp add: unat_to_usize_saturated)

lemma sint_of_signed_drop: "word_of_int (sint v div 2 ^ n) = signed_drop_bit n v"
proof -
  have "sint v div 2 ^ n = sint (signed_drop_bit n v)"
    by (simp only: sint_signed_drop_bit_eq drop_bit_eq_div)
  then show ?thesis
    by simp
qed

lemma sar_spec: "sar sh v = word_of_int (sint v div 2 ^ unat sh)"
  unfolding sint_of_signed_drop
  using signed_drop_bit_beyond [of "unat sh" v]
  by (simp add: sar_def saturated_lt_iff saturated_small Let_def)

lemma push_bit_beyond: "256 \<le> n \<Longrightarrow> push_bit n (v :: evm_word) = 0"
  by (rule bit_eqI) (auto simp: bit_push_bit_iff possible_bit_def)

lemma shl_spec: "shl sh v = v * 2 ^ unat sh"
  unfolding push_bit_eq_mult [symmetric]
  by (simp add: shl_def saturated_lt_iff saturated_small push_bit_beyond Let_def)

lemma shr_spec: "unat (shr sh v) = unat v div 2 ^ unat sh"
proof (cases "unat sh < 256")
  case True
  then show ?thesis
    by (simp add: shr_def saturated_lt_iff saturated_small Let_def)
       (metis drop_bit_eq_div unat_drop_bit_eq)
next
  case False
  then have "(2 :: nat) ^ 256 \<le> 2 ^ unat sh"
    by (intro power_increasing) simp_all
  moreover have "unat v < 2 ^ 256"
    using unat_lt_word [of v] by simp
  ultimately have "unat v < 2 ^ unat sh"
    by (rule less_le_trans [rotated])
  then show ?thesis
    using False by (simp add: shr_def saturated_lt_iff)
qed

lemma signextend_spec: "signextend ext v = signed_take_bit (8 * unat ext + 7) v"
proof (cases "unat ext < 31")
  case True
  have k: "unat (8 * (ucast ext :: u64) + 7) = 8 * unat ext + 7"
    using True by (subst unat_add_exact; (subst unat_mult_exact)?) (simp_all add: unsigned_ucast_eq take_bit_eq_mod)
  have m: "push_bit n 1 - 1 = (mask n :: evm_word)" for n
    by (simp only: push_bit_of_1 mask_eq_exp_minus_1)
  have "ext < 31"
    using True by (simp add: word_less_nat_alt)
  then show ?thesis
    using True unfolding signextend_def Let_def k m
    by (intro bit_eqI)
       (auto simp: bit_signed_take_bit_iff bit_or_iff bit_and_iff bit_not_iff bit_mask_iff
          possible_bit_def min_def not_le not_less)
next
  case False
  then have "\<not> ext < 31"
    by (simp add: word_less_nat_alt)
  moreover have "min (8 * unat ext + 7) n = n" if "n < 256" for n
    using False that by simp
  ultimately show ?thesis
    by (intro bit_eqI)
       (auto simp: signextend_def bit_signed_take_bit_iff possible_bit_def min.commute)
qed

lemma byte_of_spec:
  "byte_of index v = (if unat index < 32 then ucast (to_be_bytes 32 v ! unat index) else 0)"
  by (simp add: byte_of_def saturated_lt_iff saturated_small Let_def word_byte_def to_be_bytes_def)

text \<open>
  C38: The signed instructions compute on two's complement readings: SLT is their order, SDIV and
  SMOD are division truncated towards zero and its remainder, with 0 for divisor 0 and with the
  quotient of the least word and minus one wrapping to the least word.
\<close>

theorem signed_arithmetic_spec:
  "bitwise_word I_slt [a, b] = of_bool (sint a < sint b) \<and>
   bitwise_word I_sgt [a, b] = of_bool (sint b < sint a) \<and>
   arithmetic_word I_sdiv [a, b] = (if b = 0 then 0 else word_of_int (sint a sdiv sint b)) \<and>
   arithmetic_word I_smod [a, b] = (if b = 0 then 0 else word_of_int (sint a smod sint b))"
  by (simp add: bitwise_word_def arithmetic_word_def i256_lt_iff i256_div_spec i256_mod_spec
      i256_mod_def [of a 0])

text \<open>
  C39: For every shift amount, the oversized ones included, SHL multiplies and SHR and SAR divide
  by a power of two, rounding towards minus infinity; SIGNEXTEND reads the low bytes as
  a two's complement number; BYTE indexes the big-endian bytes.
\<close>

theorem shift_and_extend_spec:
  "bitwise_word I_shl [a, b] = b * 2 ^ unat a \<and>
   unat (bitwise_word I_shr [a, b]) = unat b div 2 ^ unat a \<and>
   bitwise_word I_sar [a, b] = word_of_int (sint b div 2 ^ unat a) \<and>
   arithmetic_word I_signextend [a, b] = signed_take_bit (8 * unat a + 7) b \<and>
   bitwise_word I_byte [a, b] = (if unat a < 32 then ucast (to_be_bytes 32 b ! unat a) else 0)"
  by (simp add: bitwise_word_def arithmetic_word_def shl_spec shr_spec sar_spec signextend_spec
      byte_of_spec)

end
