(* ===== verification/Interp_State.thy ===== *)
theory Interp_State
  imports Evm_Message Evm_Stack Evm_Memory Word_Arith
begin

text \<open>
  The state of a frame (\<open>interpreter/runtime.rs\<close>), the host interface it calls
  (\<open>interpreter/host.rs\<close>) and the access functions instructions are written with.
  The host is a record of operations on an abstract host state, so that every theorem holds
  for every host that meets its stated contract.  Inspectors, the compiled-code entry
  points and the pooling of frames are left out: this is the run without an
  inspector.  The program counter is the offset into the padded bytecode.
\<close>

section \<open>Host and execution environment\<close>

record 'h host =
  h_block_env :: "'h \<Rightarrow> block_env"
  h_tx_env :: "'h \<Rightarrow> tx_env"
  h_load_account :: "address \<Rightarrow> bool \<Rightarrow> bool \<Rightarrow> ('h, host_error, account_load) sres"
  h_block_hash :: "evm_word \<Rightarrow> ('h, database_error, b256) sres"
  h_sload :: "address \<Rightarrow> evm_word \<Rightarrow> bool \<Rightarrow> ('h, host_error, sload) sres"
  h_sstore :: "address \<Rightarrow> evm_word \<Rightarrow> evm_word \<Rightarrow> bool \<Rightarrow> ('h, host_error, sstore) sres"
  h_tload :: "address \<Rightarrow> evm_word \<Rightarrow> 'h \<Rightarrow> evm_word \<times> 'h"
  h_tstore :: "address \<Rightarrow> evm_word \<Rightarrow> evm_word \<Rightarrow> 'h \<Rightarrow> 'h"
  h_log :: "address \<Rightarrow> b256 list \<Rightarrow> bytes \<Rightarrow> 'h \<Rightarrow> 'h"
  h_execute_message :: "message \<Rightarrow> ('h, execution_error, message_result) sres"
  h_selfdestruct :: "address \<Rightarrow> address \<Rightarrow> bool \<Rightarrow> ('h, host_error, selfdestruct_result) sres"

record 'h exec_env =
  e_host :: "'h host"
  e_version :: version
  e_opcodes :: opcode_config
  e_crypto :: crypto
  e_kernels :: "kernel list"

abbreviation e_gas_params :: "'h exec_env \<Rightarrow> gas_params" where
  "e_gas_params E \<equiv> gas_params (e_version E)"

section \<open>Frames\<close>

record 'h frame =
  fr_bytecode :: bytecode
  fr_memory :: memory
  fr_return_data :: bytes
  fr_pc :: nat
  fr_output :: "u32 \<times> u32"
  fr_message :: message
  fr_stack :: stack
  fr_gas :: gas
  fr_error :: "execution_error option"
  fr_features :: evm_features
  fr_is_static :: bool
  fr_host :: 'h

definition frame_init :: "message \<Rightarrow> 'h \<Rightarrow> 'h frame" where
  "frame_init msg h =
     \<lparr>fr_bytecode = msg_code msg, fr_memory = memory_new, fr_return_data = [], fr_pc = 0,
      fr_output = (0, 0), fr_message = msg, fr_stack = [],
      fr_gas = new_gas (msg_gas_limit msg) (msg_reservoir msg), fr_error = None,
      fr_features = 0, fr_is_static = msg_is_static msg, fr_host = h\<rparr>"

definition prepare_run :: "'h exec_env \<Rightarrow> 'h frame \<Rightarrow> 'h frame" where
  "prepare_run E s =
     s\<lparr>fr_memory := (fr_memory s)\<lparr>mem_limit := memory_limit (e_version E)\<rparr>,
       fr_features := features (e_version E)\<rparr>"

definition finish_run :: "'h frame \<Rightarrow> instr_stop \<Rightarrow> execution_error + instr_stop" where
  "finish_run s stop =
     (case fr_error s of
        Some e \<Rightarrow> Inl e
      | None \<Rightarrow>
          if is_fatal stop then Inl (ExecFatal ''interpreter returned a fatal stop without an error'')
          else Inr stop)"

definition frame_output :: "'h frame \<Rightarrow> bytes option" where
  "frame_output s =
     (let start = fst (fr_output s); end' = snd (fr_output s) in
      mem_slice (fr_memory s) (ucast start) (if start < end' then ucast (end' - start) else 0))"

section \<open>Access from instructions\<close>

type_synonym ('h, 'a) instr_m = "('h frame, instr_stop fault, 'a) sres"

definition readE :: "('s \<Rightarrow> 'a) \<Rightarrow> ('s, 'e, 'a) sres" where
  "readE f s = (Inr (f s), s)"

definition on_gas :: "(gas, instr_stop, 'a) sres \<Rightarrow> ('h, 'a) instr_m" where
  "on_gas m s = (case liftE m (fr_gas s) of (r, g) \<Rightarrow> (r, s\<lparr>fr_gas := g\<rparr>))"

definition on_stack :: "(stack, instr_stop fault, 'a) sres \<Rightarrow> ('h, 'a) instr_m" where
  "on_stack m s = (case m (fr_stack s) of (r, st) \<Rightarrow> (r, s\<lparr>fr_stack := st\<rparr>))"

definition on_memory :: "(memory \<Rightarrow> memory option) \<Rightarrow> ('h, unit) instr_m" where
  "on_memory f s =
     (case f (fr_memory s) of None \<Rightarrow> (Inl Panic, s) | Some m \<Rightarrow> (Inr (), s\<lparr>fr_memory := m\<rparr>))"

definition read_memory :: "(memory \<Rightarrow> 'a option) \<Rightarrow> ('h, 'a) instr_m" where
  "read_memory f s =
     (case f (fr_memory s) of None \<Rightarrow> (Inl Panic, s) | Some x \<Rightarrow> (Inr x, s))"

definition spendM :: "u64 \<Rightarrow> ('h, unit) instr_m" where
  "spendM c = on_gas (gas_spend c)"

definition spend_stateM :: "u64 \<Rightarrow> ('h, unit) instr_m" where
  "spend_stateM c = on_gas (gas_spend_state c)"

definition modify_tracker :: "(gas_tracker \<Rightarrow> gas_tracker) \<Rightarrow> ('h, unit) instr_m" where
  "modify_tracker f = modifyE (\<lambda>s. s\<lparr>fr_gas := (fr_gas s)\<lparr>tracker := f (tracker (fr_gas s))\<rparr>\<rparr>)"

definition remaining_of :: "'h frame \<Rightarrow> u64" where
  "remaining_of s = remaining (tracker (fr_gas s))"

definition resize_memory :: "'h exec_env \<Rightarrow> usize \<Rightarrow> usize \<Rightarrow> ('h, unit) instr_m" where
  "resize_memory E offset len s =
     (case resize_evm (e_gas_params E) offset len (fr_memory s, fr_gas s) of
        (r, (m, g)) \<Rightarrow> (r, s\<lparr>fr_memory := m, fr_gas := g\<rparr>))"

definition to_usizeM :: "evm_word \<Rightarrow> ('h, usize) instr_m" where
  "to_usizeM w = (case to_usize w of Inl e \<Rightarrow> failE (Err e) | Inr n \<Rightarrow> returnE n)"

definition fail :: "host_error \<Rightarrow> 'h frame \<Rightarrow> instr_stop \<times> 'h frame" where
  "fail e s =
     (case e of
        Halt stop \<Rightarrow> (stop, s)
      | Execution err \<Rightarrow> (FatalExternalError, s\<lparr>fr_error := Some err\<rparr>))"

definition hostM :: "('e \<Rightarrow> host_error) \<Rightarrow> ('h, 'e, 'a) sres \<Rightarrow> ('h, 'a) instr_m" where
  "hostM conv m s =
     (case m (fr_host s) of
        (Inr x, h) \<Rightarrow> (Inr x, s\<lparr>fr_host := h\<rparr>)
      | (Inl e, h) \<Rightarrow>
          case fail (conv e) (s\<lparr>fr_host := h\<rparr>) of (stop, s') \<Rightarrow> (Inl (Err stop), s'))"

definition has_feature :: "evm_features \<Rightarrow> 'h frame \<Rightarrow> bool" where
  "has_feature f s = features_contains (fr_features s) f"

definition require_non_staticcall :: "('h, unit) instr_m" where
  "require_non_staticcall s =
     (if fr_is_static s then (Inl (Err StateChangeDuringStaticCall), s) else (Inr (), s))"

text \<open>
  The preamble of an instruction with stack operands, as the \<open>instruction\<close> macro
  expands it (\<open>crates/macros\<close>): operands are taken first, and the output slot is
  the deepest operand's.
\<close>

definition op_out :: "nat \<Rightarrow> (evm_word list \<Rightarrow> ('h, evm_word) instr_m) \<Rightarrow> ('h, unit) instr_m" where
  "op_out n body =
     bindE (on_stack (liftE (instr_stack_setup n 1))) (\<lambda>xs.
     bindE (body xs) (\<lambda>v. modifyE (\<lambda>s. s\<lparr>fr_stack := butlast (fr_stack s) @ [v]\<rparr>)))"

definition op_unit :: "nat \<Rightarrow> (evm_word list \<Rightarrow> ('h, unit) instr_m) \<Rightarrow> ('h, unit) instr_m" where
  "op_unit n body = bindE (on_stack (liftE (instr_stack_setup n 0))) body"

end
