(* ===== verification/Instructions.thy ===== *)
theory Instructions
  imports Interp_State
begin

text \<open>
  The instruction implementations (\<open>interpreter/instructions\<close>), one definition per
  source module and one branch per instruction, in the order the source has them.  Every
  instruction is a function of the frame that returns the stop reason or continues, with
  the frame as it is left on either path.  Unsafe reads and writes outside an allocation,
  assertions and divisions by zero are \<open>Panic\<close>.
\<close>

text \<open>\<open>write_u64\<close> of a machine integer.\<close>

definition u64_word :: "nat \<Rightarrow> evm_word" where
  "u64_word n = ucast (word_of_nat n :: u64)"

section \<open>Arithmetic, bitwise, hashing\<close>

definition exec_arithmetic :: "'h exec_env \<Rightarrow> arithmetic_instr \<Rightarrow> ('h, unit) instr_m" where
  "exec_arithmetic E i =
     op_out (arithmetic_inputs i) (\<lambda>xs.
       bindE (if i = I_exp then spendM (exp_cost (e_gas_params E) (xs ! 1)) else returnE ())
         (\<lambda>_. returnE (arithmetic_word i xs)))"

definition exec_bitwise :: "bitwise_instr \<Rightarrow> ('h, unit) instr_m" where
  "exec_bitwise i = op_out (bitwise_inputs i) (\<lambda>xs. returnE (bitwise_word i xs))"

definition exec_crypto :: "'h exec_env \<Rightarrow> crypto_instr \<Rightarrow> ('h, unit) instr_m" where
  "exec_crypto E i =
     op_out 2 (\<lambda>xs.
       bindE (to_usizeM (xs ! 1)) (\<lambda>len.
       bindE (spendM (keccak256_word_cost (e_gas_params E) len)) (\<lambda>_.
       if len = 0 then returnE (keccak256 (e_crypto E) [])
       else
         bindE (to_usizeM (xs ! 0)) (\<lambda>offset.
         bindE (resize_memory E offset len) (\<lambda>_.
         bindE (read_memory (\<lambda>m. mem_slice m offset len)) (\<lambda>data.
         returnE (keccak256 (e_crypto E) data)))))))"

section \<open>Control flow\<close>

definition is_valid_jumpdest :: "'h exec_env \<Rightarrow> 'h frame \<Rightarrow> usize \<Rightarrow> bool" where
  "is_valid_jumpdest E s target = is_valid (get_jump_table (e_kernels E) (fr_bytecode s)) (unat target)"

definition jump_inner :: "'h exec_env \<Rightarrow> evm_word \<Rightarrow> ('h, unit) instr_m" where
  "jump_inner E target s =
     (let target = to_usize_saturated target in
      if \<not> is_valid_jumpdest E s target then (Inl (Err InvalidJump), s)
      else (Inr (), s\<lparr>fr_pc := unat target\<rparr>))"

definition return_inner :: "'h exec_env \<Rightarrow> evm_word \<Rightarrow> evm_word \<Rightarrow> instr_stop \<Rightarrow> ('h, unit) instr_m" where
  "return_inner E offset len result =
     bindE (to_usizeM len) (\<lambda>len.
     bindE (if len \<noteq> 0 then
              bindE (to_usizeM offset) (\<lambda>offset.
              case checked_add offset len of
                None \<Rightarrow> failE (Err MemoryOOG)
              | Some end' \<Rightarrow>
                  bindE (resize_memory E offset len) (\<lambda>_. returnE (ucast offset, ucast end')))
            else returnE (0, 0)) (\<lambda>output.
     bindE (modifyE (\<lambda>s. s\<lparr>fr_output := output\<rparr>)) (\<lambda>_.
     failE (Err result))))"

definition opcode_at :: "'h frame \<Rightarrow> nat \<Rightarrow> u8 option" where
  "opcode_at s pc =
     (let code = bytes_slice (fr_bytecode s) in if pc < length code then Some (code ! pc) else None)"

definition exec_control :: "'h exec_env \<Rightarrow> control_instr \<Rightarrow> ('h, unit) instr_m" where
  "exec_control E i =
     (case i of
        I_stop \<Rightarrow> op_unit 0 (\<lambda>_. failE (Err Stop))
      | I_jump \<Rightarrow> op_unit 1 (\<lambda>xs. jump_inner E (xs ! 0))
      | I_jumpi \<Rightarrow> op_unit 2 (\<lambda>xs.
          if xs ! 1 \<noteq> 0 then jump_inner E (xs ! 0)
          else modifyE (\<lambda>s. s\<lparr>fr_pc := fr_pc s + 1\<rparr>))
      | I_pc \<Rightarrow> op_out 0 (\<lambda>_. readE (\<lambda>s. u64_word (fr_pc s)))
      | I_gas \<Rightarrow> op_out 0 (\<lambda>_. readE (\<lambda>s. ucast (remaining_of s)))
      | I_jumpdest \<Rightarrow> op_unit 0 (\<lambda>_. returnE ())
      | I_return \<Rightarrow> op_unit 2 (\<lambda>xs. return_inner E (xs ! 0) (xs ! 1) Return)
      | I_revert \<Rightarrow> op_unit 2 (\<lambda>xs. return_inner E (xs ! 0) (xs ! 1) Revert)
      | I_invalid \<Rightarrow> op_unit 0 (\<lambda>_ s.
          case opcode_at s (fr_pc s) of
            None \<Rightarrow> (Inl Panic, s)
          | Some opcode \<Rightarrow>
              (Inl (Err (if opcode = op_INVALID then InvalidFEOpcode
                         else if map_of OPCODES opcode \<noteq> None then NotActivated
                         else OpcodeNotFound)), s)))"

section \<open>Stack and memory\<close>

text \<open>\<open>read_bytes_offset_unchecked\<close>: bytes after the program counter, undefined outside the code.\<close>

definition read_immediate :: "nat \<Rightarrow> ('h, bytes) instr_m" where
  "read_immediate n s =
     (let code = bytes_slice (fr_bytecode s) in
      if fr_pc s + 1 + n \<le> length code then (Inr (take n (drop (fr_pc s + 1) code)), s)
      else (Inl Panic, s))"

definition decode_immediate :: "(u8 \<Rightarrow> 'a option) \<Rightarrow> ('h, 'a) instr_m" where
  "decode_immediate dec =
     bindE (read_immediate 1) (\<lambda>bs.
       case dec (bs ! 0) of None \<Rightarrow> failE (Err InvalidImmediateEncoding) | Some x \<Rightarrow> returnE x)"

definition exec_stack :: "stack_instr \<Rightarrow> ('h, unit) instr_m" where
  "exec_stack i =
     (case i of
        I_pop \<Rightarrow> op_unit 1 (\<lambda>_. returnE ())
      | I_push n \<Rightarrow>
          if n = 0 then on_stack (liftE (stack_push_u64 0))
          else bindE (read_immediate n) (\<lambda>bs. on_stack (liftE (push_slice bs)))
      | I_dup n \<Rightarrow> on_stack (stack_dup n)
      | I_swap n \<Rightarrow> on_stack (stack_swap n)
      | I_dupn \<Rightarrow> bindE (decode_immediate decode_single) (\<lambda>n. on_stack (stack_dup (unat n)))
      | I_swapn \<Rightarrow> bindE (decode_immediate decode_single) (\<lambda>n. on_stack (stack_swap (unat n)))
      | I_exchange \<Rightarrow> bindE (decode_immediate decode_pair) (\<lambda>(n, m).
          on_stack (stack_exchange (unat n) (unat m))))"

definition exec_memory :: "'h exec_env \<Rightarrow> memory_instr \<Rightarrow> ('h, unit) instr_m" where
  "exec_memory E i =
     (case i of
        I_mload \<Rightarrow> op_out 1 (\<lambda>xs.
          bindE (to_usizeM (xs ! 0)) (\<lambda>offset.
          bindE (resize_memory E offset 32) (\<lambda>_.
          read_memory (\<lambda>m. mem_get_word m offset))))
      | I_mstore \<Rightarrow> op_unit 2 (\<lambda>xs.
          bindE (to_usizeM (xs ! 0)) (\<lambda>offset.
          bindE (resize_memory E offset 32) (\<lambda>_.
          on_memory (mem_set offset (to_be_bytes 32 (xs ! 1))))))
      | I_mstore8 \<Rightarrow> op_unit 2 (\<lambda>xs.
          bindE (to_usizeM (xs ! 0)) (\<lambda>offset.
          bindE (resize_memory E offset 1) (\<lambda>_.
          on_memory (mem_set offset [word_byte (xs ! 1) 0]))))
      | I_msize \<Rightarrow> op_out 0 (\<lambda>_. readE (\<lambda>s. u64_word (length (mem_data (fr_memory s)))))
      | I_mcopy \<Rightarrow> op_unit 3 (\<lambda>xs.
          bindE (to_usizeM (xs ! 2)) (\<lambda>len.
          bindE (spendM (mcopy_cost (e_gas_params E) len)) (\<lambda>_.
          if len \<noteq> 0 then
            bindE (to_usizeM (xs ! 0)) (\<lambda>dst.
            bindE (to_usizeM (xs ! 1)) (\<lambda>src.
            bindE (resize_memory E (max dst src) len) (\<lambda>_.
            on_memory (mem_copy dst src len))))
          else returnE ()))))"

section \<open>Environment and block\<close>

definition load_account :: "'h exec_env \<Rightarrow> evm_word \<Rightarrow> bool \<Rightarrow> ('h, account_load) instr_m" where
  "load_account E addr load_code =
     (let cold_load_gas = cold_account_additional_cost (e_gas_params E) in
      bindE (readE remaining_of) (\<lambda>rem.
      bindE (hostM id (h_load_account (e_host E) (to_address addr) load_code (rem < cold_load_gas)))
        (\<lambda>account.
      bindE (if al_is_cold account then spendM cold_load_gas else returnE ()) (\<lambda>_.
      returnE account))))"

definition copy_data :: "'h exec_env \<Rightarrow> evm_word \<Rightarrow> evm_word \<Rightarrow> usize \<Rightarrow> bytes \<Rightarrow> ('h, unit) instr_m" where
  "copy_data E memory_offset data_offset len data =
     (if len \<noteq> 0 then
        bindE (to_usizeM memory_offset) (\<lambda>memory_offset.
        bindE (resize_memory E memory_offset len) (\<lambda>_.
        on_memory (mem_set_data memory_offset (to_usize_saturated data_offset) len data)))
      else returnE ())"

definition exec_env_instr :: "'h exec_env \<Rightarrow> env_instr \<Rightarrow> ('h, unit) instr_m" where
  "exec_env_instr E i =
     (case i of
        I_address \<Rightarrow> op_out 0 (\<lambda>_. readE (\<lambda>s. address_to_word (msg_destination (fr_message s))))
      | I_balance \<Rightarrow> op_out 1 (\<lambda>xs.
          bindE (load_account E (xs ! 0) False) (\<lambda>a. returnE (al_balance a)))
      | I_origin \<Rightarrow> op_out 0 (\<lambda>_. readE (\<lambda>s. address_to_word (tx_origin (h_tx_env (e_host E) (fr_host s)))))
      | I_caller \<Rightarrow> op_out 0 (\<lambda>_. readE (\<lambda>s. address_to_word (msg_caller (fr_message s))))
      | I_callvalue \<Rightarrow> op_out 0 (\<lambda>_. readE (\<lambda>s. msg_value (fr_message s)))
      | I_calldataload \<Rightarrow> op_out 1 (\<lambda>xs. readE (\<lambda>s.
          from_be_bytes (read_word_padded (msg_input (fr_message s)) (to_usize_saturated (xs ! 0)))))
      | I_calldatasize \<Rightarrow> op_out 0 (\<lambda>_. readE (\<lambda>s. u64_word (length (msg_input (fr_message s)))))
      | I_calldatacopy \<Rightarrow> op_unit 3 (\<lambda>xs.
          bindE (to_usizeM (xs ! 2)) (\<lambda>len.
          bindE (spendM (copy_cost (e_gas_params E) len)) (\<lambda>_.
          bindE (readE (\<lambda>s. msg_input (fr_message s))) (\<lambda>input.
          copy_data E (xs ! 0) (xs ! 1) len input))))
      | I_codesize \<Rightarrow> op_out 0 (\<lambda>_. readE (\<lambda>s. u64_word (bytecode_len (fr_bytecode s))))
      | I_codecopy \<Rightarrow> op_unit 3 (\<lambda>xs.
          bindE (to_usizeM (xs ! 2)) (\<lambda>len.
          bindE (spendM (copy_cost (e_gas_params E) len)) (\<lambda>_.
          bindE (readE (\<lambda>s. original_byte_slice (fr_bytecode s))) (\<lambda>data.
          copy_data E (xs ! 0) (xs ! 1) len data))))
      | I_gasprice \<Rightarrow> op_out 0 (\<lambda>_. readE (\<lambda>s. tx_gas_price (h_tx_env (e_host E) (fr_host s))))
      | I_extcodesize \<Rightarrow> op_out 1 (\<lambda>xs.
          bindE (load_account E (xs ! 0) True) (\<lambda>a. returnE (u64_word (bytecode_len (al_code a)))))
      | I_extcodecopy \<Rightarrow> op_unit 4 (\<lambda>xs.
          bindE (to_usizeM (xs ! 3)) (\<lambda>len.
          bindE (spendM (extcodecopy_cost (e_gas_params E) len)) (\<lambda>_.
          bindE (if len \<noteq> 0 then
                   bindE (to_usizeM (xs ! 1)) (\<lambda>memory_offset.
                   bindE (resize_memory E memory_offset len) (\<lambda>_. returnE memory_offset))
                 else returnE 0) (\<lambda>memory_offset.
          bindE (load_account E (xs ! 0) True) (\<lambda>a.
          on_memory (mem_set_data memory_offset (to_usize_saturated (xs ! 2)) len
            (original_byte_slice (al_code a))))))))
      | I_returndatasize \<Rightarrow> op_out 0 (\<lambda>_. readE (\<lambda>s. u64_word (length (fr_return_data s))))
      | I_returndatacopy \<Rightarrow> op_unit 3 (\<lambda>xs.
          bindE (to_usizeM (xs ! 2)) (\<lambda>len.
          bindE (readE fr_return_data) (\<lambda>data.
          let data_offset = to_usize_saturated (xs ! 1) in
          if length data < unat (saturating_add data_offset len) then failE (Err OutOfOffset)
          else
            bindE (spendM (copy_cost (e_gas_params E) len)) (\<lambda>_.
            copy_data E (xs ! 0) (ucast data_offset) len data))))
      | I_extcodehash \<Rightarrow> op_out 1 (\<lambda>xs.
          bindE (load_account E (xs ! 0) False) (\<lambda>a.
          returnE (if al_is_empty a then 0 else al_code_hash a))))"

abbreviation BLOCK_HASH_HISTORY :: evm_word where
  "BLOCK_HASH_HISTORY \<equiv> 256"

definition exec_block :: "'h exec_env \<Rightarrow> block_instr \<Rightarrow> ('h, unit) instr_m" where
  "exec_block E i =
     (let block = (\<lambda>f. op_out 0 (\<lambda>_. readE (\<lambda>s. f (h_block_env (e_host E) (fr_host s))))) in
      case i of
        I_blockhash \<Rightarrow> op_out 1 (\<lambda>xs.
          bindE (readE (\<lambda>s. be_number (h_block_env (e_host E) (fr_host s)))) (\<lambda>number.
          case checked_sub number (xs ! 0) of
            Some diff \<Rightarrow>
              if diff = 0 \<or> diff > BLOCK_HASH_HISTORY then returnE 0
              else hostM (\<lambda>e. Execution (ExecDatabase e)) (h_block_hash (e_host E) (xs ! 0))
          | None \<Rightarrow> returnE 0))
      | I_coinbase \<Rightarrow> block (\<lambda>b. address_to_word (be_beneficiary b))
      | I_timestamp \<Rightarrow> block be_timestamp
      | I_block_number \<Rightarrow> block be_number
      | I_difficulty \<Rightarrow> op_out 0 (\<lambda>_. readE (\<lambda>s.
          if has_feature EIP4399 s then be_prevrandao (h_block_env (e_host E) (fr_host s))
          else be_difficulty (h_block_env (e_host E) (fr_host s))))
      | I_gaslimit \<Rightarrow> block be_gas_limit
      | I_chainid \<Rightarrow> op_out 0 (\<lambda>_. readE (\<lambda>s. tx_chain_id (h_tx_env (e_host E) (fr_host s))))
      | I_selfbalance \<Rightarrow> op_out 0 (\<lambda>_.
          bindE (readE (\<lambda>s. msg_destination (fr_message s))) (\<lambda>destination.
          bindE (hostM id (h_load_account (e_host E) destination False False)) (\<lambda>a.
          returnE (al_balance a))))
      | I_basefee \<Rightarrow> block be_basefee
      | I_blobhash \<Rightarrow> op_out 1 (\<lambda>xs. readE (\<lambda>s.
          let hashes = tx_blob_hashes (h_tx_env (e_host E) (fr_host s));
              index = unat (to_usize_saturated (xs ! 0))
          in if index < length hashes then hashes ! index else 0))
      | I_blobbasefee \<Rightarrow> block be_blob_basefee
      | I_slotnum \<Rightarrow> block be_slot_num)"

section \<open>Storage and logs\<close>

definition sstore_with :: "'h exec_env \<Rightarrow> evm_word \<Rightarrow> evm_word \<Rightarrow> ('h, unit) instr_m" where
  "sstore_with E key v =
     (let gp = e_gas_params E in
      bindE require_non_staticcall (\<lambda>_.
      bindE (readE (has_feature EIP2200)) (\<lambda>is_eip2200.
      bindE (readE remaining_of) (\<lambda>rem.
      if is_eip2200 \<and> rem \<le> gp_get gp CallStipend then failE (Err ReentrancySentryOOG)
      else
        bindE (spendM (gp_get gp SstoreStatic)) (\<lambda>_.
        bindE (readE (\<lambda>s. has_feature EIP2929 s \<and> remaining_of s < gp_get gp ColdStorageAdditionalCost))
          (\<lambda>skip_cold_load.
        bindE (readE (\<lambda>s. msg_destination (fr_message s))) (\<lambda>destination.
        bindE (hostM id (h_sstore (e_host E) destination key v skip_cold_load)) (\<lambda>state_load.
        bindE (spendM (sstore_dynamic_gas gp is_eip2200 state_load)) (\<lambda>_.
        bindE (readE (has_feature EIP8037)) (\<lambda>is_eip8037.
        bindE (if is_eip8037 then
                 bindE (spend_stateM (sstore_state_gas gp state_load)) (\<lambda>_.
                 modify_tracker (refill_reservoir (sstore_state_gas_refill gp state_load)))
               else returnE ()) (\<lambda>_.
        modify_tracker (record_refund (sstore_refund gp is_eip2200 state_load)))))))))))))"

definition log_common :: "'h exec_env \<Rightarrow> nat \<Rightarrow> ('h, unit) instr_m" where
  "log_common E n =
     bindE require_non_staticcall (\<lambda>_.
     bindE (on_stack (liftE (popn 2))) (\<lambda>xs.
     bindE (to_usizeM (xs ! 1)) (\<lambda>len.
     bindE (spendM (log_cost (e_gas_params E) (word_of_nat n) len)) (\<lambda>_.
     bindE (if len = 0 then returnE 0
            else
              bindE (to_usizeM (xs ! 0)) (\<lambda>offset.
              bindE (resize_memory E offset len) (\<lambda>_. returnE offset))) (\<lambda>offset.
     bindE (on_stack (liftE (popn n))) (\<lambda>topics.
     bindE (readE (\<lambda>s. msg_destination (fr_message s))) (\<lambda>destination.
     bindE (read_memory (\<lambda>m. mem_slice m offset len)) (\<lambda>data.
     modifyE (\<lambda>s. s\<lparr>fr_host := h_log (e_host E) destination topics data (fr_host s)\<rparr>)))))))))"

definition exec_host :: "'h exec_env \<Rightarrow> host_instr \<Rightarrow> ('h, unit) instr_m" where
  "exec_host E i =
     (case i of
        I_sload \<Rightarrow> op_out 1 (\<lambda>xs.
          let additional_cold_cost = gp_get (e_gas_params E) ColdStorageAdditionalCost in
          bindE (readE (\<lambda>s. has_feature EIP2929 s \<and> remaining_of s < additional_cold_cost))
            (\<lambda>skip_cold_load.
          bindE (readE (\<lambda>s. msg_destination (fr_message s))) (\<lambda>destination.
          bindE (hostM id (h_sload (e_host E) destination (xs ! 0) skip_cold_load)) (\<lambda>load.
          bindE (if sl_is_cold load then spendM additional_cold_cost else returnE ()) (\<lambda>_.
          returnE (sl_value load))))))
      | I_sstore \<Rightarrow> op_unit 2 (\<lambda>xs. sstore_with E (xs ! 0) (xs ! 1))
      | I_tload \<Rightarrow> op_out 1 (\<lambda>xs s.
          case h_tload (e_host E) (msg_destination (fr_message s)) (xs ! 0) (fr_host s) of
            (v, h) \<Rightarrow> (Inr v, s\<lparr>fr_host := h\<rparr>))
      | I_tstore \<Rightarrow> op_unit 2 (\<lambda>xs.
          bindE require_non_staticcall (\<lambda>_.
          modifyE (\<lambda>s. s\<lparr>fr_host :=
            h_tstore (e_host E) (msg_destination (fr_message s)) (xs ! 0) (xs ! 1) (fr_host s)\<rparr>)))
      | I_log n \<Rightarrow> log_common E n)"

section \<open>Calls and creations\<close>

definition should_charge_new_account_gas :: "bool \<Rightarrow> bool \<Rightarrow> bool \<Rightarrow> bool" where
  "should_charge_new_account_gas eip161 transfers_value target_is_empty =
     (target_is_empty \<and> (\<not> eip161 \<or> transfers_value))"

text \<open>A range is its start and its length.\<close>

definition resize_memory_range ::
    "'h exec_env \<Rightarrow> evm_word \<Rightarrow> evm_word \<Rightarrow> ('h, usize \<times> usize) instr_m" where
  "resize_memory_range E offset len =
     bindE (to_usizeM len) (\<lambda>len.
     if len \<noteq> 0 then
       bindE (to_usizeM offset) (\<lambda>offset.
       bindE (resize_memory E offset len) (\<lambda>_. returnE (offset, len)))
     else returnE (- 1, len))"

definition memory_range_bytes :: "usize \<times> usize \<Rightarrow> ('h, bytes) instr_m" where
  "memory_range_bytes r =
     (if snd r = 0 then returnE [] else read_memory (\<lambda>m. mem_slice m (fst r) (snd r)))"

definition stipend_reduction :: "'h exec_env \<Rightarrow> ('h, u64) instr_m" where
  "stipend_reduction E s =
     (if gp_get (e_gas_params E) CallStipendReduction = 0 then (Inl Panic, s)
      else (Inr (call_stipend_reduction (e_gas_params E) (remaining_of s)), s))"

definition load_acc_and_calc_gas ::
    "'h exec_env \<Rightarrow> address \<Rightarrow> bool \<Rightarrow> bool \<Rightarrow> u64
      \<Rightarrow> ('h, u64 \<times> u64 \<times> bytecode \<times> address) instr_m" where
  "load_acc_and_calc_gas E to transfers_value create_empty_account stack_gas_limit =
     (let gp = e_gas_params E;
          additional_cold_cost = cold_account_additional_cost gp
      in
      bindE (if transfers_value then spendM (gp_get gp TransferValueCost) else returnE ()) (\<lambda>_.
      bindE (readE remaining_of) (\<lambda>remaining_gas.
      bindE (hostM id (h_load_account (e_host E) to True (remaining_gas < additional_cold_cost)))
        (\<lambda>account.
      let cost = (if al_is_cold account then additional_cold_cost else 0) in
      bindE (readE (has_feature EIP7702)) (\<lambda>eip7702.
      bindE (case (if eip7702 then eip7702_address (al_code account) else None) of
               None \<Rightarrow> returnE (cost, al_code account, to)
             | Some delegated_address \<Rightarrow>
                 let cost = cost + gp_get gp WarmStorageReadCost in
                 if cost > remaining_gas then failE (Err OutOfGas)
                 else
                   bindE (hostM id (h_load_account (e_host E) delegated_address True
                            (remaining_gas < saturating_add cost additional_cold_cost)))
                     (\<lambda>delegated_account.
                   returnE (if al_is_cold delegated_account then cost + additional_cold_cost else cost,
                            al_code delegated_account, delegated_address)))
        (\<lambda>(cost, code, code_address).
      bindE (readE (has_feature EIP161)) (\<lambda>eip161.
      bindE (readE (has_feature EIP8037)) (\<lambda>eip8037.
      let charge = create_empty_account
                     \<and> should_charge_new_account_gas eip161 transfers_value
                         (al_is_empty_for_new_account_gas account);
          cost = (if charge then cost + gp_get gp NewAccountCost else cost);
          new_account = (if charge \<and> eip8037 \<and> transfers_value then new_account_state_gas gp else 0)
      in
      bindE (spendM cost) (\<lambda>_.
      bindE (spend_stateM new_account) (\<lambda>_.
      bindE (readE (has_feature EIP150)) (\<lambda>eip150.
      bindE (if eip150 then bindE (stipend_reduction E) (\<lambda>g. returnE (min g stack_gas_limit))
             else returnE stack_gas_limit) (\<lambda>gas_limit.
      bindE (spendM gas_limit) (\<lambda>_.
      returnE (if transfers_value then saturating_add gas_limit (gp_get gp CallStipend) else gas_limit,
               new_account, code, code_address))))))))))))))"

definition prepare_call ::
    "'h exec_env \<Rightarrow> message_kind \<Rightarrow> ('h, message \<times> (usize \<times> usize) \<times> u64) instr_m" where
  "prepare_call E k =
     (if is_create k then failE Panic
      else
        bindE (on_stack (liftE (popn 2))) (\<lambda>gas_to.
        bindE (if k = Kind_Call \<or> k = Kind_CallCode then on_stack (liftE stack_pop) else returnE 0) (\<lambda>v.
        bindE (on_stack (liftE (popn 4))) (\<lambda>ranges.
        let to = to_address (gas_to ! 1); has_transfer = (v \<noteq> 0) in
        bindE (readE fr_is_static) (\<lambda>static.
        if static \<and> k = Kind_Call \<and> has_transfer then failE (Err CallNotAllowedInsideStatic)
        else
          bindE (resize_memory_range E (ranges ! 0) (ranges ! 1)) (\<lambda>input_range.
          bindE (resize_memory_range E (ranges ! 2) (ranges ! 3)) (\<lambda>return_range.
          bindE (load_acc_and_calc_gas E to has_transfer (k = Kind_Call)
                   (to_usize_saturated (gas_to ! 0))) (\<lambda>(gas_limit, new_account, code, code_address).
          bindE (read_memory (\<lambda>m. mem_slice m (fst input_range) (snd input_range))) (\<lambda>input.
          bindE (readE fr_message) (\<lambda>current.
          bindE (readE (\<lambda>s. reservoir (tracker (fr_gas s)))) (\<lambda>res.
          let (destination, caller, call_value) =
                (case k of
                   Kind_Call \<Rightarrow> (to, msg_destination current, v)
                 | Kind_CallCode \<Rightarrow> (msg_destination current, msg_destination current, v)
                 | Kind_DelegateCall \<Rightarrow> (msg_destination current, msg_caller current, msg_value current)
                 | _ \<Rightarrow> (to, msg_destination current, 0))
          in returnE
               (\<lparr>msg_kind = k, msg_depth = saturating_add (msg_depth current) 1,
                 msg_gas_limit = gas_limit, msg_reservoir = res, msg_destination = destination,
                 msg_call_target = to, msg_caller = caller, msg_input = input,
                 msg_value = call_value, msg_code = code, msg_code_address = code_address,
                 msg_caller_is_static = static, msg_salt = 0\<rparr>,
                return_range, new_account))))))))))))"

definition call_inner :: "'h exec_env \<Rightarrow> message_kind \<Rightarrow> ('h, unit) instr_m" where
  "call_inner E k =
     bindE (prepare_call E k) (\<lambda>(message, return_range, new_account).
     bindE (hostM Execution (h_execute_message (e_host E) message)) (\<lambda>result.
     if is_fatal (mr_stop result) then failE (Err (mr_stop result))
     else
       bindE (modify_tracker (merge_child_gas (mr_gas result) (mr_stop result))) (\<lambda>_.
       bindE (if new_account \<noteq> 0 \<and> \<not> mr_is_success result
              then modify_tracker (refill_reservoir new_account) else returnE ()) (\<lambda>_.
       bindE (on_memory (mem_set (fst return_range)
                (take (min (unat (snd return_range)) (length (mr_output result))) (mr_output result)))) (\<lambda>_.
       bindE (modifyE (\<lambda>s. s\<lparr>fr_return_data := mr_output result\<rparr>)) (\<lambda>_.
       on_stack (liftE (stack_push_u64 (of_bool (mr_is_success result))))))))))"

text \<open>
  Creation in three parts, split where the source's early return is: the charges and the creator's
  account up to the derived address; the EIP-8037 checks and charge, which may end the
  instruction with a zero (\<open>None\<close>); the child message.
\<close>

definition create_prepare ::
    "'h exec_env \<Rightarrow> bool \<Rightarrow> ('h, evm_word \<times> b256 \<times> bytes \<times> account_load option \<times> address) instr_m" where
  "create_prepare E is_create2 =
     (let gp = e_gas_params E; k = (if is_create2 then Kind_Create2 else Kind_Create) in
      bindE require_non_staticcall (\<lambda>_.
      bindE (on_stack (liftE (popn 3))) (\<lambda>xs.
      bindE (if is_create2 then on_stack (liftE stack_pop) else returnE 0) (\<lambda>salt.
      bindE (to_usizeM (xs ! 2)) (\<lambda>len.
      bindE (readE (has_feature EIP3860)) (\<lambda>eip3860.
      bindE (if eip3860 then
               if len > max_initcode_size (e_version E) then failE (Err CreateInitCodeSizeLimit)
               else spendM (initcode_cost gp len)
             else returnE ()) (\<lambda>_.
      bindE (resize_memory_range E (xs ! 1) (ucast len)) (\<lambda>code_range.
      bindE (memory_range_bytes code_range) (\<lambda>input.
      bindE (spendM (if is_create2 then create2_cost gp len else gp_get gp Create)) (\<lambda>_.
      bindE (readE (\<lambda>s. msg_destination (fr_message s))) (\<lambda>caller.
      bindE (readE (has_feature EIP8037)) (\<lambda>eip8037.
      bindE (if is_create2 \<and> \<not> eip8037 then returnE None
             else bindE (hostM id (h_load_account (e_host E) caller False False)) (\<lambda>a. returnE (Some a)))
        (\<lambda>caller_info.
      returnE (xs ! 0, salt, input, caller_info,
               derive_create_destination (e_crypto E) k caller salt input
                 (case caller_info of Some info \<Rightarrow> al_nonce info | None \<Rightarrow> 0)))))))))))))))"

definition create_charge ::
    "'h exec_env \<Rightarrow> evm_word \<Rightarrow> u16 \<Rightarrow> account_load option \<Rightarrow> address \<Rightarrow> ('h, bool option) instr_m" where
  "create_charge E v depth caller_info destination =
     bindE (readE (has_feature EIP8037)) (\<lambda>eip8037.
     if \<not> eip8037 then returnE (Some False)
     else if (case caller_info of
                Some info \<Rightarrow>
                  create_preaccess_failure (al_balance info) (al_nonce info) v depth (e_version E) \<noteq> None
              | None \<Rightarrow> False)
     then
       bindE (modifyE (\<lambda>s. s\<lparr>fr_return_data := []\<rparr>)) (\<lambda>_.
       bindE (on_stack (liftE (stack_push_u64 0))) (\<lambda>_. returnE None))
     else
       bindE (hostM id (h_load_account (e_host E) destination False False)) (\<lambda>a.
       if al_is_empty_for_new_account_gas a then
         bindE (spend_stateM (create_state_gas (e_gas_params E))) (\<lambda>_. returnE (Some True))
       else returnE (Some False)))"

definition create_with :: "'h exec_env \<Rightarrow> bool \<Rightarrow> ('h, unit) instr_m" where
  "create_with E is_create2 =
     bindE (create_prepare E is_create2) (\<lambda>(v, salt, input, caller_info, destination).
     bindE (readE fr_message) (\<lambda>current.
     let depth = saturating_add (msg_depth current) 1 in
     bindE (create_charge E v depth caller_info destination) (\<lambda>charged.
     case charged of
       None \<Rightarrow> returnE ()
     | Some charged_create_state_gas \<Rightarrow>
         bindE (readE (has_feature EIP150)) (\<lambda>eip150.
         bindE (if eip150 then stipend_reduction E else readE remaining_of) (\<lambda>gas_limit.
         bindE (spendM gas_limit) (\<lambda>_.
         bindE (readE (\<lambda>s. reservoir (tracker (fr_gas s)))) (\<lambda>res.
         bindE (hostM Execution (h_execute_message (e_host E)
                  \<lparr>msg_kind = (if is_create2 then Kind_Create2 else Kind_Create), msg_depth = depth,
                   msg_gas_limit = gas_limit, msg_reservoir = res, msg_destination = destination,
                   msg_call_target = destination, msg_caller = msg_destination current,
                   msg_input = input, msg_value = v, msg_code = new_legacy input,
                   msg_code_address = destination, msg_caller_is_static = False,
                   msg_salt = salt\<rparr>)) (\<lambda>result.
         if is_fatal (mr_stop result) then failE (Err (mr_stop result))
         else
           bindE (modify_tracker (merge_child_gas (mr_gas result) (mr_stop result))) (\<lambda>_.
           bindE (if charged_create_state_gas
                     \<and> (mr_created_address result = None \<or> \<not> mr_is_success result)
                  then modify_tracker (refill_reservoir (create_state_gas (e_gas_params E)))
                  else returnE ()) (\<lambda>_.
           bindE (modifyE (\<lambda>s. s\<lparr>fr_return_data :=
                    if is_revert (mr_stop result) then mr_output result else []\<rparr>)) (\<lambda>_.
           on_stack (liftE (stack_push (created_address_for_parent result))))))))))))))"

definition selfdestruct :: "'h exec_env \<Rightarrow> evm_word \<Rightarrow> ('h, unit) instr_m" where
  "selfdestruct E target =
     (let gp = e_gas_params E; cold_load_gas = selfdestruct_cold_cost gp in
      bindE require_non_staticcall (\<lambda>_.
      bindE (readE (\<lambda>s. remaining_of s < cold_load_gas)) (\<lambda>skip_cold_load.
      bindE (readE (\<lambda>s. msg_destination (fr_message s))) (\<lambda>destination.
      bindE (hostM id (h_selfdestruct (e_host E) destination (to_address target) skip_cold_load)) (\<lambda>res.
      bindE (readE (has_feature EIP161)) (\<lambda>eip161.
      bindE (readE (has_feature EIP8037)) (\<lambda>eip8037.
      let should_charge_topup =
            should_charge_new_account_gas eip161 (sd_had_value res) (sd_target_is_empty res)
      in
      bindE (spendM (selfdestruct_cost gp should_charge_topup (sd_is_cold res))) (\<lambda>_.
      bindE (if should_charge_topup \<and> eip8037 then spend_stateM (new_account_state_gas gp)
             else returnE ()) (\<lambda>_.
      bindE (if \<not> sd_previously_destroyed res
             then modify_tracker (record_refund (gp_get gp SelfdestructRefund)) else returnE ()) (\<lambda>_.
      failE (Err SelfDestruct)))))))))))"

definition exec_system :: "'h exec_env \<Rightarrow> system_instr \<Rightarrow> ('h, unit) instr_m" where
  "exec_system E i =
     (case i of
        I_create is_create2 \<Rightarrow> create_with E is_create2
      | I_call \<Rightarrow> call_inner E Kind_Call
      | I_callcode \<Rightarrow> call_inner E Kind_CallCode
      | I_delegatecall \<Rightarrow> call_inner E Kind_DelegateCall
      | I_staticcall \<Rightarrow> call_inner E Kind_StaticCall
      | I_selfdestruct \<Rightarrow> op_unit 1 (\<lambda>xs. selfdestruct E (xs ! 0)))"

definition exec_instr :: "'h exec_env \<Rightarrow> instr \<Rightarrow> ('h, unit) instr_m" where
  "exec_instr E i =
     (case i of
        Control i \<Rightarrow> exec_control E i
      | Arithmetic i \<Rightarrow> exec_arithmetic E i
      | Bitwise i \<Rightarrow> exec_bitwise i
      | Crypto i \<Rightarrow> exec_crypto E i
      | Env i \<Rightarrow> exec_env_instr E i
      | Block i \<Rightarrow> exec_block E i
      | Stack i \<Rightarrow> exec_stack i
      | Memory i \<Rightarrow> exec_memory E i
      | Host i \<Rightarrow> exec_host E i
      | System i \<Rightarrow> exec_system E i)"

end
