(* ===== verification/Interpreter.thy ===== *)
theory Interpreter
  imports Instructions
begin

text \<open>
  The dispatch loop (\<open>interpreter/dispatch\<close>, \<open>interpreter/runtime.rs\<close>): fetch, static
  gas, instruction, program counter; the run of a frame; and the well-formedness of
  frames and environments.  The loop is a partial function whose undefined value is not
  returning.
\<close>

section \<open>Dispatch\<close>

definition instruction_len :: "u8 \<Rightarrow> nat" where
  "instruction_len op =
     (if op = op_JUMP \<or> op = op_JUMPI then 0
      else if op_PUSH1 \<le> op \<and> op \<le> op_PUSH32 then unat (op - op_PUSH1 + 2)
      else if op = op_DUPN \<or> op = op_SWAPN \<or> op = op_EXCHANGE then 2
      else 1)"

text \<open>The table entry of an opcode: opcodes without an implementation share the one of INVALID.\<close>

definition table_entry :: "opcode_config \<Rightarrow> u8 \<Rightarrow> u8" where
  "table_entry v op = (if is_defined v op then op else op_INVALID)"

definition dispatch :: "'h exec_env \<Rightarrow> u8 \<Rightarrow> ('h, unit) instr_m" where
  "dispatch E op =
     bindE (spendM (ucast (static_gas_table (e_opcodes E) op))) (\<lambda>_.
     bindE (exec_instr E (config_instruction (e_opcodes E) op)) (\<lambda>_.
     modifyE (\<lambda>s. s\<lparr>fr_pc := fr_pc s + instruction_len op\<rparr>)))"

definition step :: "'h exec_env \<Rightarrow> ('h, unit) instr_m" where
  "step E s =
     (case opcode_at s (fr_pc s) of
        None \<Rightarrow> (Inl Panic, s)
      | Some op \<Rightarrow> dispatch E (table_entry (e_opcodes E) op) s)"

partial_function (option) run ::
    "'h exec_env \<Rightarrow> 'h frame \<Rightarrow> (instr_stop fault \<times> 'h frame) option" where
  [code]: "run E s =
     (case step E s of
        (Inl e, s') \<Rightarrow> Some (e, s')
      | (Inr _, s') \<Rightarrow> run E s')"

text \<open>
  The run of a fresh frame: \<open>prepare_run\<close>, the loop and \<open>finish_run\<close>.  \<open>None\<close> is not returning.
\<close>

definition run_frame ::
    "'h exec_env \<Rightarrow> message \<Rightarrow> 'h
      \<Rightarrow> ((execution_error fault + instr_stop) \<times> 'h frame) option" where
  "run_frame E msg h =
     (case run E (prepare_run E (frame_init msg h)) of
        None \<Rightarrow> None
      | Some (Panic, s) \<Rightarrow> Some (Inl Panic, s)
      | Some (Err stop, s) \<Rightarrow>
          (case finish_run s stop of Inl e \<Rightarrow> Some (Inl (Err e), s) | Inr stop \<Rightarrow> Some (Inr stop, s)))"

section \<open>Well-formed frames\<close>

definition funds :: "'h frame \<Rightarrow> nat" where
  "funds s = unat (remaining (tracker (fr_gas s))) + unat (state_gas_spilled (tracker (fr_gas s)))"

definition mem_len :: "'h frame \<Rightarrow> nat" where
  "mem_len s = length (mem_data (fr_memory s))"

text \<open>Code as the constructors build it: padded legacy code, or a delegation designator.\<close>

definition code_ok :: "bytecode \<Rightarrow> bool" where
  "code_ok bc \<longleftrightarrow>
     bc_jump_table (inner bc) = None \<and>
     (kind bc = Legacy \<and> bytes_slice bc = pad_legacy (original_byte_slice bc) \<or>
      kind bc = Eip7702 \<and> check_eip7702 (bytes_slice bc) = Inr ())"

text \<open>Within the code, and at its start for a designator, which has no jump destinations.\<close>

definition pc_ok :: "'h frame \<Rightarrow> bool" where
  "pc_ok s \<longleftrightarrow>
     fr_pc s < length (bytes_slice (fr_bytecode s)) \<and> (kind (fr_bytecode s) = Eip7702 \<longrightarrow> fr_pc s = 0)"

definition output_ok :: "'h frame \<Rightarrow> bool" where
  "output_ok s \<longleftrightarrow> unat (fst (fr_output s)) \<le> mem_len s \<and> unat (snd (fr_output s)) \<le> mem_len s"

section \<open>Environments\<close>

text \<open>Instructions that stop, or whose own code charges gas before they continue.\<close>

definition self_charging :: "instr \<Rightarrow> bool" where
  "self_charging i =
     (i \<in> set [Control I_stop, Control I_return, Control I_revert, Control I_invalid, Host I_sstore,
        System (I_create False), System (I_create True), System I_selfdestruct])"

text \<open>Every other implementation has static gas.\<close>

definition charged :: "opcode_config \<Rightarrow> bool" where
  "charged v \<longleftrightarrow>
     (\<forall>opcode i. instruction_impls v opcode = Some i \<longrightarrow> self_charging i \<or> static_gas_table v opcode \<noteq> 0)"

text \<open>
  What the configuration must provide: non-zero divisors, implementations that belong to their
  opcodes, no implementation for the first byte of a designator, a stipend covered by the
  cost of a value transfer, and a positive charge for every instruction that continues.
\<close>

definition params_ok :: "gas_params \<Rightarrow> bool" where
  "params_ok gp \<longleftrightarrow>
     gp_get gp MemoryQuadraticReduction \<noteq> 0 \<and> gp_get gp CallStipendReduction \<noteq> 0 \<and>
     gp_get gp CallStipend \<le> gp_get gp TransferValueCost \<and>
     gp_get gp SstoreStatic \<noteq> 0 \<and> gp_get gp Create \<noteq> 0"

definition config_ok :: "'h exec_env \<Rightarrow> bool" where
  "config_ok E \<longleftrightarrow>
     params_ok (e_gas_params E) \<and> impls_known (e_opcodes E) \<and> charged (e_opcodes E) \<and>
     \<not> is_defined (e_opcodes E) 0xEF \<and> (\<forall>k \<in> set (e_kernels E). kernel_ok k)"

text \<open>
  The contract of the host: it keeps an invariant of its state and loads well-formed code.
  The gas of a message's result is settled for its stop reason, so after a revert the spilled
  state gas is back in the remaining gas.
\<close>

definition child_gas_ok :: "message \<Rightarrow> message_result \<Rightarrow> bool" where
  "child_gas_ok msg r \<longleftrightarrow>
     (is_success (mr_stop r) \<longrightarrow>
        unat (remaining (mr_gas r)) + unat (state_gas_spilled (mr_gas r)) \<le> unat (msg_gas_limit msg)) \<and>
     (is_frame_revert (mr_stop r) \<longrightarrow> unat (remaining (mr_gas r)) \<le> unat (msg_gas_limit msg))"

definition keeps :: "('h \<Rightarrow> bool) \<Rightarrow> ('h, 'e, 'a) sres \<Rightarrow> ('a \<Rightarrow> bool) \<Rightarrow> bool" where
  "keeps I m P \<longleftrightarrow> (\<forall>h. I h \<longrightarrow> I (snd (m h)) \<and> (\<forall>x. fst (m h) = Inr x \<longrightarrow> P x))"

definition host_ok :: "('h \<Rightarrow> bool) \<Rightarrow> 'h host \<Rightarrow> bool" where
  "host_ok I H \<longleftrightarrow>
     (\<forall>a c k. keeps I (h_load_account H a c k) (\<lambda>x. code_ok (al_code x))) \<and>
     (\<forall>n. keeps I (h_block_hash H n) (\<lambda>_. True)) \<and>
     (\<forall>a k c. keeps I (h_sload H a k c) (\<lambda>_. True)) \<and>
     (\<forall>a k v c. keeps I (h_sstore H a k v c) (\<lambda>_. True)) \<and>
     (\<forall>a k h. I h \<longrightarrow> I (snd (h_tload H a k h))) \<and>
     (\<forall>a k v h. I h \<longrightarrow> I (h_tstore H a k v h)) \<and>
     (\<forall>a ts d h. I h \<longrightarrow> I (h_log H a ts d h)) \<and>
     (\<forall>a b c. keeps I (h_selfdestruct H a b c) (\<lambda>_. True))"

text \<open>
  What a frame at depth \<open>d\<close> relies on when it executes a message: the host keeps its invariant
  and the child returns at most the gas it was given.
\<close>

definition calls_ok :: "('h \<Rightarrow> bool) \<Rightarrow> 'h host \<Rightarrow> u16 \<Rightarrow> bool" where
  "calls_ok I H d \<longleftrightarrow>
     (\<forall>msg. code_ok (msg_code msg) \<and> msg_depth msg = saturating_add d 1 \<longrightarrow>
        keeps I (h_execute_message H msg) (child_gas_ok msg))"

text \<open>The host state satisfies the invariant \<open>I\<close> of its host.\<close>

definition frame_ok :: "('h \<Rightarrow> bool) \<Rightarrow> 'h exec_env \<Rightarrow> 'h frame \<Rightarrow> bool" where
  "frame_ok I E s \<longleftrightarrow>
     stack_ok (fr_stack s) \<and> mem_ok (e_gas_params E) (fr_memory s) (fr_gas s) \<and>
     code_ok (fr_bytecode s) \<and> pc_ok s \<and> output_ok s \<and> I (fr_host s) \<and>
     calls_ok I (e_host E) (msg_depth (fr_message s))"

definition env_ok :: "('h \<Rightarrow> bool) \<Rightarrow> 'h exec_env \<Rightarrow> bool" where
  "env_ok I E \<longleftrightarrow> config_ok E \<and> host_ok I (e_host E)"

lemma env_ok_params:
  assumes "env_ok I E"
  shows "gp_get (e_gas_params E) MemoryQuadraticReduction \<noteq> 0"
    and "gp_get (e_gas_params E) CallStipendReduction \<noteq> 0"
    and "gp_get (e_gas_params E) CallStipend \<le> gp_get (e_gas_params E) TransferValueCost"
    and "0 < unat (gp_get (e_gas_params E) SstoreStatic)"
    and "0 < unat (gp_get (e_gas_params E) Create)"
  using assms by (simp_all add: env_ok_def config_ok_def params_ok_def unat_gt_0)

end
