(* ===== verification/Interp_Logic.thy ===== *)
theory Interp_Logic
  imports Interpreter
begin

text \<open>
  A calculus for instructions.  \<open>fine I E s0 m s Q\<close> says of the computation \<open>m\<close> in the
  frame \<open>s\<close>, in the course of an instruction that began in \<open>s0\<close>: it does not panic; if it
  stops, the host keeps its invariant and the output range lies in memory, and unless it
  was an exceptional halt, the frame is still well-formed and has not gained funds; if it
  continues, \<open>Q\<close> holds of its value and frame.  There is one
  rule per access function, collected in \<open>fine_rules\<close>; an instruction is verified by
  applying them along its code.
\<close>

section \<open>Frames in the course of an instruction\<close>

definition during :: "('h \<Rightarrow> bool) \<Rightarrow> 'h exec_env \<Rightarrow> 'h frame \<Rightarrow> 'h frame \<Rightarrow> bool" where
  "during I E s0 s \<longleftrightarrow>
     frame_ok I E s \<and> funds s \<le> funds s0 \<and> fr_bytecode s = fr_bytecode s0 \<and> fr_pc s = fr_pc s0 \<and>
     fr_message s = fr_message s0"

text \<open>What a stop leaves in any case: the host's invariant and an output range in memory.\<close>

definition safe_stop :: "('h \<Rightarrow> bool) \<Rightarrow> 'h frame \<Rightarrow> bool" where
  "safe_stop I s \<longleftrightarrow> I (fr_host s) \<and> output_ok s"

definition fine ::
    "('h \<Rightarrow> bool) \<Rightarrow> 'h exec_env \<Rightarrow> 'h frame \<Rightarrow> ('h, 'a) instr_m \<Rightarrow> 'h frame \<Rightarrow> ('a \<Rightarrow> 'h frame \<Rightarrow> bool) \<Rightarrow> bool" where
  "fine I E s0 m s Q \<longleftrightarrow>
     (case m s of
        (Inr a, s') \<Rightarrow> Q a s'
      | (Inl (Err e), s') \<Rightarrow> safe_stop I s' \<and> (is_halt e \<or> during I E s0 s')
      | (Inl Panic, _) \<Rightarrow> False)"

named_theorems fine_rules "rules of the instruction calculus"

lemma during_safe: "during I E s0 s \<Longrightarrow> safe_stop I s"
  by (simp add: during_def frame_ok_def safe_stop_def)

lemma during_message: "during I E s0 s \<Longrightarrow> fr_message s = fr_message s0"
  by (simp add: during_def)

lemma fine_bind [fine_rules]:
  "fine I E s0 m s (\<lambda>a s'. fine I E s0 (k a) s' Q) \<Longrightarrow> fine I E s0 (bindE m k) s Q"
  by (auto simp: fine_def bindE_def split: prod.splits sum.splits fault.splits)

lemma fine_return [fine_rules]: "Q a s \<Longrightarrow> fine I E s0 (returnE a) s Q"
  by (simp add: fine_def returnE_def)

lemma fine_read [fine_rules]: "Q (f s) s \<Longrightarrow> fine I E s0 (readE f) s Q"
  by (simp add: fine_def readE_def)

lemma fine_fail [fine_rules]: "during I E s0 s \<Longrightarrow> fine I E s0 (failE (Err e)) s Q"
  by (simp add: fine_def failE_def during_safe)

lemma fine_modify: "Q () (f s) \<Longrightarrow> fine I E s0 (modifyE f) s Q"
  by (simp add: fine_def modifyE_def)

lemma fine_if [fine_rules]:
  "(b \<Longrightarrow> fine I E s0 m s Q) \<Longrightarrow> (\<not> b \<Longrightarrow> fine I E s0 m' s Q) \<Longrightarrow> fine I E s0 (if b then m else m') s Q"
  by simp

lemma fine_case_option [fine_rules]:
  "(x = None \<Longrightarrow> fine I E s0 m s Q) \<Longrightarrow> (\<And>y. x = Some y \<Longrightarrow> fine I E s0 (f y) s Q) \<Longrightarrow>
     fine I E s0 (case x of None \<Rightarrow> m | Some y \<Rightarrow> f y) s Q"
  by (cases x) simp_all

lemma fine_case_prod [fine_rules]:
  "(\<And>a b. x = (a, b) \<Longrightarrow> fine I E s0 (f a b) s Q) \<Longrightarrow> fine I E s0 (case x of (a, b) \<Rightarrow> f a b) s Q"
  by (cases x) simp

lemma fine_weaken: "fine I E s0 m s Q \<Longrightarrow> (\<And>a s'. Q a s' \<Longrightarrow> Q' a s') \<Longrightarrow> fine I E s0 m s Q'"
  by (auto simp: fine_def split: prod.splits sum.splits fault.splits)

lemma fine_mono:
  "fine I E s1 m s Q \<Longrightarrow> during I E s0 s1 \<Longrightarrow> fine I E s0 m s Q"
  by (auto simp: fine_def during_def split: prod.splits sum.splits fault.splits)

section \<open>Gas\<close>

lemma during_gas:
  assumes "during I E s0 s" and "memory_gas_of g = memory_gas_of (fr_gas s)"
    and "funds (s\<lparr>fr_gas := g\<rparr>) \<le> funds s"
  shows "during I E s0 (s\<lparr>fr_gas := g\<rparr>)"
  using assms
  by (auto simp: during_def frame_ok_def mem_ok_def pc_ok_def output_ok_def mem_len_def)

lemma fine_spend [fine_rules]:
  assumes "during I E s0 s"
    and "\<And>s'. during I E s0 s' \<Longrightarrow> funds s' + unat c = funds s \<Longrightarrow> mem_len s' = mem_len s \<Longrightarrow> Q () s'"
  shows "fine I E s0 (spendM c) s Q"
proof (cases "remaining (tracker (fr_gas s)) < c")
  case True
  then show ?thesis
    using during_safe [OF assms(1)]
    by (simp add: fine_def spendM_def on_gas_def liftE_def gas_spend_def on_tracker_def spend_def
        is_halt_def is_success_def is_frame_revert_def safe_stop_def output_ok_def mem_len_def)
next
  case False
  let ?g = "(fr_gas s)\<lparr>tracker := (tracker (fr_gas s))\<lparr>remaining := remaining (tracker (fr_gas s)) - c\<rparr>\<rparr>"
  have f: "funds (s\<lparr>fr_gas := ?g\<rparr>) + unat c = funds s"
    using False by (simp add: funds_def u_arith not_less)
  then have "Q () (s\<lparr>fr_gas := ?g\<rparr>)"
    by (intro assms(2) during_gas assms(1)) (simp_all add: mem_len_def)
  then show ?thesis
    using False
    by (simp add: fine_def spendM_def on_gas_def liftE_def gas_spend_def on_tracker_def spend_def)
qed

lemma fine_modify_tracker:
  assumes "during I E s0 s"
    and "unat (remaining (f (tracker (fr_gas s)))) + unat (state_gas_spilled (f (tracker (fr_gas s))))
           \<le> funds s + n" and "funds s + n \<le> funds s0"
    and "\<And>s'. during I E s0 s' \<Longrightarrow> funds s' \<le> funds s + n \<Longrightarrow> mem_len s' = mem_len s \<Longrightarrow> Q () s'"
  shows "fine I E s0 (modify_tracker f) s Q"
  unfolding modify_tracker_def
proof (rule fine_modify, rule assms(4))
  let ?s = "s\<lparr>fr_gas := (fr_gas s)\<lparr>tracker := f (tracker (fr_gas s))\<rparr>\<rparr>"
  show le: "funds ?s \<le> funds s + n"
    using assms(2) by (simp add: funds_def)
  show "during I E s0 ?s"
    using assms(1,3) le
    by (auto simp: during_def frame_ok_def mem_ok_def pc_ok_def output_ok_def mem_len_def)
  show "mem_len ?s = mem_len s"
    by (simp add: mem_len_def)
qed

lemma refill_funds:
  "unat (remaining (refill_reservoir a g)) + unat (state_gas_spilled (refill_reservoir a g))
     \<le> unat (remaining g) + unat (state_gas_spilled g)"
  by (auto simp: refill_reservoir_def Let_def u_arith unat_saturating_add)

lemma fine_refill [fine_rules]:
  assumes "during I E s0 s"
    and "\<And>s'. during I E s0 s' \<Longrightarrow> funds s' \<le> funds s \<Longrightarrow> mem_len s' = mem_len s \<Longrightarrow> Q () s'"
  shows "fine I E s0 (modify_tracker (refill_reservoir a)) s Q"
  using assms refill_funds [of a "tracker (fr_gas s)"]
  by (intro fine_modify_tracker [where n = 0]) (auto simp: funds_def during_def)

lemma fine_refund [fine_rules]:
  assumes "during I E s0 s"
    and "\<And>s'. during I E s0 s' \<Longrightarrow> funds s' \<le> funds s \<Longrightarrow> mem_len s' = mem_len s \<Longrightarrow> Q () s'"
  shows "fine I E s0 (modify_tracker (record_refund a)) s Q"
  using assms
  by (intro fine_modify_tracker [where n = 0]) (auto simp: funds_def during_def record_refund_def)

lemma fine_on_gas:
  assumes "during I E s0 s"
    and "\<And>e g. m (fr_gas s) = (Inl e, g) \<Longrightarrow> is_halt e"
    and "\<And>x g. m (fr_gas s) = (Inr x, g) \<Longrightarrow>
           memory_gas_of g = memory_gas_of (fr_gas s) \<and> funds (s\<lparr>fr_gas := g\<rparr>) \<le> funds s"
    and "\<And>x s'. during I E s0 s' \<Longrightarrow> funds s' \<le> funds s \<Longrightarrow> mem_len s' = mem_len s \<Longrightarrow> Q x s'"
  shows "fine I E s0 (on_gas m) s Q"
proof (cases "m (fr_gas s)")
  case (Pair r g)
  show ?thesis
  proof (cases r)
    case (Inl e)
    then show ?thesis
      using assms(2) Pair during_safe [OF assms(1)]
      by (simp add: fine_def on_gas_def liftE_def safe_stop_def output_ok_def mem_len_def)
  next
    case (Inr x)
    then have "Q x (s\<lparr>fr_gas := g\<rparr>)"
      using assms(3) Pair by (intro assms(4) during_gas assms(1)) (auto simp: mem_len_def)
    then show ?thesis
      using Inr Pair by (simp add: fine_def on_gas_def liftE_def)
  qed
qed

lemma spend_state_Inl: "spend_state c g = (Inl e, g') \<Longrightarrow> is_halt e"
  by (auto simp: spend_state_def bindE_def spend_def modifyE_def Let_def is_halt_def is_success_def
      is_frame_revert_def split: if_splits)

lemma spend_state_funds:
  "spend_state c g = (Inr x, g') \<Longrightarrow>
     unat (remaining g') + unat (state_gas_spilled g') \<le> unat (remaining g) + unat (state_gas_spilled g)"
  by (auto simp: spend_state_def bindE_def spend_def modifyE_def Let_def add_state_gas_spent_def
      add_state_gas_spilled_def u_arith unat_saturating_add not_less split: if_splits)

lemma fine_spend_state [fine_rules]:
  assumes "during I E s0 s"
    and "\<And>s'. during I E s0 s' \<Longrightarrow> funds s' \<le> funds s \<Longrightarrow> mem_len s' = mem_len s \<Longrightarrow> Q () s'"
  shows "fine I E s0 (spend_stateM c) s Q"
  unfolding spend_stateM_def
  by (rule fine_on_gas [OF assms(1)])
     (auto simp: gas_spend_state_def on_tracker_def funds_def split: prod.splits
        dest: spend_state_Inl spend_state_funds intro: assms(2) [unfolded funds_def])

lemma fine_stipend_reduction [fine_rules]:
  assumes "env_ok I E" "Q (call_stipend_reduction (e_gas_params E) (remaining_of s)) s"
  shows "fine I E s0 (stipend_reduction E) s Q"
  using assms env_ok_params(2) [OF assms(1)] by (simp add: fine_def stipend_reduction_def)

section \<open>Stack\<close>

lemma during_stack:
  "during I E s0 s \<Longrightarrow> stack_ok st \<Longrightarrow> during I E s0 (s\<lparr>fr_stack := st\<rparr>)"
  by (auto simp: during_def frame_ok_def pc_ok_def output_ok_def mem_len_def funds_def)

lemma fine_on_stack:
  assumes "during I E s0 s"
    and "fst (m (fr_stack s)) \<noteq> Inl Panic"
    and "stack_ok (fr_stack s) \<Longrightarrow> stack_ok (snd (m (fr_stack s)))"
    and "\<And>x s'. fst (m (fr_stack s)) = Inr x \<Longrightarrow> during I E s0 s' \<Longrightarrow> funds s' = funds s \<Longrightarrow>
           mem_len s' = mem_len s \<Longrightarrow> Q x s'"
  shows "fine I E s0 (on_stack m) s Q"
proof -
  obtain r st where m: "m (fr_stack s) = (r, st)"
    by fastforce
  have d: "during I E s0 (s\<lparr>fr_stack := st\<rparr>)"
    using assms(1,3) m by (intro during_stack) (auto simp: during_def frame_ok_def)
  show ?thesis
  proof (cases r)
    case (Inr x)
    then show ?thesis
      using assms(4) [of x] d m by (simp add: fine_def on_stack_def funds_def mem_len_def)
  next
    case (Inl f)
    then show ?thesis
      using assms(2) d m by (cases f) (simp_all add: fine_def on_stack_def during_safe)
  qed
qed

lemma fst_liftE_Panic [simp]: "fst (liftE m s) \<noteq> Inl Panic"
  by (auto simp: liftE_def split: prod.splits sum.splits)

lemma snd_liftE [simp]: "snd (liftE m s) = snd (m s)"
  by (auto simp: liftE_def split: prod.splits sum.splits)

lemma fst_liftE_Inr [simp]: "fst (liftE m s) = Inr x \<longleftrightarrow> fst (m s) = Inr x"
  by (auto simp: liftE_def split: prod.splits sum.splits)

lemma setup_ok:
  "out \<le> 1 \<Longrightarrow> stack_ok st \<Longrightarrow> stack_ok (snd (instr_stack_setup n out st))"
  by (auto simp: instr_stack_setup_def check_bounds_def stack_ok_def STACK_LIMIT_def)

lemma setup_length: "fst (instr_stack_setup n out st) = Inr xs \<Longrightarrow> length xs = n"
  by (auto simp: instr_stack_setup_def check_bounds_def split: if_splits)

lemma popn_ok: "stack_ok st \<Longrightarrow> stack_ok (snd (popn n st))"
  by (auto simp: popn_def stack_ok_def)

lemma popn_length: "fst (popn n st) = Inr xs \<Longrightarrow> length xs = n"
  by (auto simp: popn_def split: if_splits)

lemma stack_pop_ok: "stack_ok st \<Longrightarrow> stack_ok (snd (stack_pop st))"
  by (auto simp: stack_pop_def bindE_def popn_def returnE_def stack_ok_def)

lemma push_u64_ok: "stack_ok st \<Longrightarrow> stack_ok (snd (stack_push_u64 v st))"
  by (auto simp: stack_push_u64_def stack_ok_def)

lemma push_ok: "stack_ok st \<Longrightarrow> stack_ok (snd (stack_push v st))"
  by (auto simp: stack_push_def stack_ok_def)

lemma fine_popn [fine_rules]:
  assumes "during I E s0 s"
    and "\<And>xs s'. length xs = n \<Longrightarrow> during I E s0 s' \<Longrightarrow> funds s' = funds s \<Longrightarrow> mem_len s' = mem_len s \<Longrightarrow> Q xs s'"
  shows "fine I E s0 (on_stack (liftE (popn n))) s Q"
  by (rule fine_on_stack [OF assms(1)]) (auto simp: popn_ok dest: popn_length intro: assms(2))

lemma fine_pop [fine_rules]:
  assumes "during I E s0 s"
    and "\<And>x s'. during I E s0 s' \<Longrightarrow> funds s' = funds s \<Longrightarrow> mem_len s' = mem_len s \<Longrightarrow> Q x s'"
  shows "fine I E s0 (on_stack (liftE stack_pop)) s Q"
  by (rule fine_on_stack [OF assms(1)]) (auto simp: stack_pop_ok intro: assms(2))

lemma fine_push_u64 [fine_rules]:
  assumes "during I E s0 s"
    and "\<And>s'. during I E s0 s' \<Longrightarrow> funds s' = funds s \<Longrightarrow> mem_len s' = mem_len s \<Longrightarrow> Q () s'"
  shows "fine I E s0 (on_stack (liftE (stack_push_u64 v))) s Q"
  by (rule fine_on_stack [OF assms(1)]) (auto simp: push_u64_ok intro: assms(2))

lemma fine_push [fine_rules]:
  assumes "during I E s0 s"
    and "\<And>s'. during I E s0 s' \<Longrightarrow> funds s' = funds s \<Longrightarrow> mem_len s' = mem_len s \<Longrightarrow> Q () s'"
  shows "fine I E s0 (on_stack (liftE (stack_push v))) s Q"
  by (rule fine_on_stack [OF assms(1)]) (auto simp: push_ok intro: assms(2))

lemma fine_op_unit [fine_rules]:
  assumes "during I E s0 s"
    and "\<And>xs s'. length xs = n \<Longrightarrow> during I E s0 s' \<Longrightarrow> funds s' = funds s \<Longrightarrow> mem_len s' = mem_len s \<Longrightarrow>
           fine I E s0 (body xs) s' Q"
  shows "fine I E s0 (op_unit n body) s Q"
  unfolding op_unit_def
  by (intro fine_bind fine_on_stack [OF assms(1)])
     (auto simp: setup_ok dest: setup_length intro: assms(2))

text \<open>The end of an instruction that stays at its program counter, having used at least \<open>k\<close> gas.\<close>

definition ended :: "('h \<Rightarrow> bool) \<Rightarrow> 'h exec_env \<Rightarrow> 'h frame \<Rightarrow> nat \<Rightarrow> nat \<Rightarrow> 'a \<Rightarrow> 'h frame \<Rightarrow> bool" where
  "ended I E s0 f k = (\<lambda>_ s'. during I E s0 s' \<and> funds s' + k \<le> f)"

lemma endedI [fine_rules]: "during I E s0 s' \<Longrightarrow> funds s' + k \<le> f \<Longrightarrow> ended I E s0 f k x s'"
  by (simp add: ended_def)

lemma butlast_ok: "stack_ok st \<Longrightarrow> stack_ok (butlast st @ [v])"
  by (cases st rule: rev_cases) (auto simp: stack_ok_def STACK_LIMIT_def)

lemma fine_op_out [fine_rules]:
  assumes "during I E s0 s"
    and "\<And>xs s'. length xs = n \<Longrightarrow> during I E s0 s' \<Longrightarrow> funds s' = funds s \<Longrightarrow> mem_len s' = mem_len s \<Longrightarrow>
           fine I E s0 (body xs) s' (ended I E s0 f k)"
  shows "fine I E s0 (op_out n body) s (ended I E s0 f k)"
proof -
  have w: "ended I E s0 f k () (s'\<lparr>fr_stack := butlast (fr_stack s') @ [v]\<rparr>)" if "ended I E s0 f k v s'" for v s'
    using that butlast_ok
    by (auto simp: ended_def funds_def intro!: during_stack) (auto simp: during_def frame_ok_def)
  show ?thesis
    unfolding op_out_def
    by (intro fine_bind fine_on_stack [OF assms(1)])
       (auto simp: setup_ok dest!: setup_length intro!: fine_modify fine_weaken [OF assms(2)] intro: w)
qed

section \<open>Memory\<close>

lemma resize_spilled:
  "resize_evm gp offset len (m, g) = (Inr (), (m', g')) \<Longrightarrow>
     state_gas_spilled (tracker g') = state_gas_spilled (tracker g)"
  by (auto simp: resize_evm_def resize_evm_cold_def Let_def gas_spend_def on_tracker_def spend_def
      set_words_num_def split: if_splits option.splits prod.splits sum.splits)

lemma resize_keeps_data:
  "resize_evm gp offset len (m, g) = (Inl e, (m', g')) \<Longrightarrow> mem_data m' = mem_data m"
  by (auto simp: resize_evm_def resize_evm_cold_def Let_def split: if_splits option.splits prod.splits sum.splits)

lemma fine_resize_memory [fine_rules]:
  assumes "during I E s0 s" "env_ok I E"
    and "\<And>s'. during I E s0 s' \<Longrightarrow> funds s' \<le> funds s \<Longrightarrow> mem_len s \<le> mem_len s' \<Longrightarrow>
           unat offset + unat len \<le> mem_len s' \<Longrightarrow> Q () s'"
  shows "fine I E s0 (resize_memory E offset len) s Q"
proof -
  obtain r m g where res: "resize_evm (e_gas_params E) offset len (fr_memory s, fr_gas s) = (r, (m, g))"
    by (metis prod_cases3)
  have ok: "mem_ok (e_gas_params E) (fr_memory s) (fr_gas s)"
    using assms(1) by (simp add: during_def frame_ok_def)
  have np: "r \<noteq> Inl Panic"
    using resize_evm_no_panic [OF ok, of offset len] env_ok_params(1) [OF assms(2)] res by simp
  show ?thesis
  proof (cases r)
    case (Inl e)
    then have "\<exists>stop. e = Err stop \<and> is_halt stop"
      using np resize_evm_errors [of "e_gas_params E" offset len] res
      by (fastforce simp: is_halt_def is_success_def is_frame_revert_def)
    then show ?thesis
      using Inl res during_safe [OF assms(1)] resize_keeps_data [of "e_gas_params E" offset len]
      by (auto simp: fine_def resize_memory_def safe_stop_def output_ok_def mem_len_def)
  next
    case (Inr u)
    let ?s = "s\<lparr>fr_memory := m, fr_gas := g\<rparr>"
    have res': "resize_evm (e_gas_params E) offset len (fr_memory s, fr_gas s) = (Inr (), (m, g))"
      using res Inr by simp
    note succ = resize_evm_success [OF ok res']
    obtain k where "mem_data m = mem_data (fr_memory s) @ replicate k 0"
      using succ(3) by blast
    then have le: "mem_len s \<le> mem_len ?s"
      by (simp add: mem_len_def)
    have f: "funds ?s \<le> funds s"
      using succ(4) resize_spilled [OF res'] by (simp add: funds_def)
    have "Q () ?s"
      using assms(1) succ(1,2) le f
      by (intro assms(3)) (auto simp: during_def frame_ok_def pc_ok_def output_ok_def mem_len_def)
    then show ?thesis
      using Inr res by (simp add: fine_def resize_memory_def)
  qed
qed

lemma during_memory:
  "during I E s0 s \<Longrightarrow> length (mem_data m) = mem_len s \<Longrightarrow> during I E s0 (s\<lparr>fr_memory := m\<rparr>)"
  by (auto simp: during_def frame_ok_def mem_ok_def pc_ok_def output_ok_def mem_len_def funds_def)

lemma fine_on_memory:
  assumes "during I E s0 s"
    and "\<exists>m'. f (fr_memory s) = Some m' \<and> length (mem_data m') = mem_len s"
    and "\<And>s'. during I E s0 s' \<Longrightarrow> funds s' = funds s \<Longrightarrow> mem_len s' = mem_len s \<Longrightarrow> Q () s'"
  shows "fine I E s0 (on_memory f) s Q"
proof -
  obtain m' where m: "f (fr_memory s) = Some m'" "length (mem_data m') = mem_len s"
    using assms(2) by blast
  then have "Q () (s\<lparr>fr_memory := m'\<rparr>)"
    by (intro assms(3) during_memory assms(1)) (simp_all add: mem_len_def funds_def)
  then show ?thesis
    using m by (simp add: fine_def on_memory_def)
qed

lemma fine_mem_set [fine_rules]:
  assumes "during I E s0 s" and "v \<noteq> [] \<Longrightarrow> unat offset + length v \<le> mem_len s"
    and "\<And>s'. during I E s0 s' \<Longrightarrow> funds s' = funds s \<Longrightarrow> mem_len s' = mem_len s \<Longrightarrow> Q () s'"
  shows "fine I E s0 (on_memory (mem_set offset v)) s Q"
  using assms(2)
  by (intro fine_on_memory [OF assms(1)] assms(3))
     (auto simp: mem_set_def mem_len_def length_write_at)

lemma unat_add_le: "unat (a + b) \<le> unat a + unat b" for a :: "'a::len word"
  by (simp add: unat_word_ariths)

lemma fine_mem_set_data [fine_rules]:
  assumes "during I E s0 s" and "len \<noteq> 0 \<Longrightarrow> unat offset + unat len \<le> mem_len s"
    and "\<And>s'. during I E s0 s' \<Longrightarrow> funds s' = funds s \<Longrightarrow> mem_len s' = mem_len s \<Longrightarrow> Q () s'"
  shows "fine I E s0 (on_memory (mem_set_data offset src_offset len src)) s Q"
proof (rule fine_on_memory [OF assms(1)])
  show "Q () s'" if "during I E s0 s'" "funds s' = funds s" "mem_len s' = mem_len s" for s'
    using that by (rule assms(3))
  have "unat (src_offset + len) - unat src_offset \<le> unat len"
    using unat_add_le by (metis le_diff_conv add.commute)
  then show "\<exists>m'. mem_set_data offset src_offset len src (fr_memory s) = Some m' \<and>
      length (mem_data m') = mem_len s"
    using assms(2) by (cases "len = 0") (auto simp: mem_set_data_def mem_len_def length_write_at Let_def)
qed

lemma fine_mem_copy [fine_rules]:
  assumes "during I E s0 s" and "unat src + unat len \<le> mem_len s" "unat dst + unat len \<le> mem_len s"
    and "\<And>s'. during I E s0 s' \<Longrightarrow> funds s' = funds s \<Longrightarrow> mem_len s' = mem_len s \<Longrightarrow> Q () s'"
  shows "fine I E s0 (on_memory (mem_copy dst src len)) s Q"
  using assms(2,3)
  by (intro fine_on_memory [OF assms(1)] assms(4))
     (auto simp: mem_copy_def mem_len_def length_write_at)

lemma fine_mem_slice [fine_rules]:
  assumes "len \<noteq> 0 \<Longrightarrow> unat offset + unat len \<le> mem_len s"
    and "\<And>bs. length bs = unat len \<Longrightarrow> Q bs s"
  shows "fine I E s0 (read_memory (\<lambda>m. mem_slice m offset len)) s Q"
  using assms by (auto simp: fine_def read_memory_def mem_slice_def mem_len_def)

lemma fine_mem_get_word [fine_rules]:
  assumes "unat offset + 32 \<le> mem_len s" and "\<And>w. Q w s"
  shows "fine I E s0 (read_memory (\<lambda>m. mem_get_word m offset)) s Q"
  using assms by (auto simp: fine_def read_memory_def mem_get_word_def mem_len_def)

lemma fine_to_usize [fine_rules]:
  assumes "during I E s0 s" and "\<And>n. unat w = unat n \<Longrightarrow> Q n s"
  shows "fine I E s0 (to_usizeM w) s Q"
proof (cases "to_usize_opt w")
  case None
  then show ?thesis
    using during_safe [OF assms(1)]
    by (simp add: fine_def to_usizeM_def to_usize_def failE_def is_halt_def is_success_def
        is_frame_revert_def)
next
  case (Some n)
  then show ?thesis
    using assms(2) [of n] to_usize_opt_Some_iff [of w n]
    by (simp add: fine_def to_usizeM_def to_usize_def returnE_def)
qed

section \<open>Host\<close>

lemma during_host:
  "during I E s0 s \<Longrightarrow> I h \<Longrightarrow> during I E s0 (s\<lparr>fr_host := h\<rparr>)"
  "during I E s0 s \<Longrightarrow> I h \<Longrightarrow> during I E s0 (s\<lparr>fr_host := h, fr_error := e\<rparr>)"
  "during I E s0 s \<Longrightarrow> during I E s0 (s\<lparr>fr_return_data := d\<rparr>)"
  by (auto simp: during_def frame_ok_def pc_ok_def output_ok_def mem_len_def funds_def)

lemma during_inv: "during I E s0 s \<Longrightarrow> I (fr_host s)"
  by (simp add: during_def frame_ok_def)

lemma fine_hostM:
  assumes "during I E s0 s" "keeps I m P"
    and "\<And>a s'. during I E s0 s' \<Longrightarrow> funds s' = funds s \<Longrightarrow> mem_len s' = mem_len s \<Longrightarrow> P a \<Longrightarrow> Q a s'"
  shows "fine I E s0 (hostM conv m) s Q"
proof -
  obtain r h where m: "m (fr_host s) = (r, h)"
    by fastforce
  have k: "I h" "\<And>x. r = Inr x \<Longrightarrow> P x"
    using assms(2) during_inv [OF assms(1)] m by (auto simp: keeps_def)
  show ?thesis
  proof (cases r)
    case (Inl e)
    then show ?thesis
      using m k during_host(1,2) [OF assms(1) k(1)]
      by (auto simp: fine_def hostM_def fail_def intro: during_safe split: host_error.splits)
  next
    case (Inr x)
    then have "Q x (s\<lparr>fr_host := h\<rparr>)"
      using k by (intro assms(3) during_host assms(1)) (auto simp: funds_def mem_len_def)
    then show ?thesis
      using m Inr by (simp add: fine_def hostM_def)
  qed
qed

text \<open>The contract, one rule per host operation.\<close>

lemma host_keeps:
  assumes "env_ok I E"
  shows "keeps I (h_load_account (e_host E) a c k) (\<lambda>x. code_ok (al_code x))"
    and "keeps I (h_block_hash (e_host E) n) (\<lambda>_. True)"
    and "keeps I (h_sload (e_host E) a w k) (\<lambda>_. True)"
    and "keeps I (h_sstore (e_host E) a w v k) (\<lambda>_. True)"
    and "I h \<Longrightarrow> I (snd (h_tload (e_host E) a w h))"
    and "I h \<Longrightarrow> I (h_tstore (e_host E) a w v h)"
    and "I h \<Longrightarrow> I (h_log (e_host E) a ts d h)"
    and "keeps I (h_selfdestruct (e_host E) a b k) (\<lambda>_. True)"
  using assms by (simp_all add: env_ok_def host_ok_def)

lemma fine_host_load_account [fine_rules]:
  assumes "during I E s0 s" "env_ok I E"
    and "\<And>a s'. during I E s0 s' \<Longrightarrow> funds s' = funds s \<Longrightarrow> mem_len s' = mem_len s \<Longrightarrow>
           code_ok (al_code a) \<Longrightarrow> Q a s'"
  shows "fine I E s0 (hostM conv (h_load_account (e_host E) x c k)) s Q"
  by (rule fine_hostM [OF assms(1) host_keeps(1) [OF assms(2)] assms(3)])

lemma fine_host_plain:
  assumes "during I E s0 s" "keeps I m (\<lambda>_. True)"
    and "\<And>a s'. during I E s0 s' \<Longrightarrow> funds s' = funds s \<Longrightarrow> mem_len s' = mem_len s \<Longrightarrow> Q a s'"
  shows "fine I E s0 (hostM conv m) s Q"
  using assms by (intro fine_hostM) blast+

lemma fine_host_block_hash [fine_rules]:
  assumes "during I E s0 s" "env_ok I E"
    and "\<And>a s'. during I E s0 s' \<Longrightarrow> funds s' = funds s \<Longrightarrow> mem_len s' = mem_len s \<Longrightarrow> Q a s'"
  shows "fine I E s0 (hostM conv (h_block_hash (e_host E) n)) s Q"
  by (rule fine_host_plain [OF assms(1) host_keeps(2) [OF assms(2)] assms(3)])

lemma fine_host_sload [fine_rules]:
  assumes "during I E s0 s" "env_ok I E"
    and "\<And>a s'. during I E s0 s' \<Longrightarrow> funds s' = funds s \<Longrightarrow> mem_len s' = mem_len s \<Longrightarrow> Q a s'"
  shows "fine I E s0 (hostM conv (h_sload (e_host E) x key k)) s Q"
  by (rule fine_host_plain [OF assms(1) host_keeps(3) [OF assms(2)] assms(3)])

lemma fine_host_sstore [fine_rules]:
  assumes "during I E s0 s" "env_ok I E"
    and "\<And>a s'. during I E s0 s' \<Longrightarrow> funds s' = funds s \<Longrightarrow> mem_len s' = mem_len s \<Longrightarrow> Q a s'"
  shows "fine I E s0 (hostM conv (h_sstore (e_host E) x key v k)) s Q"
  by (rule fine_host_plain [OF assms(1) host_keeps(4) [OF assms(2)] assms(3)])

lemma fine_host_selfdestruct [fine_rules]:
  assumes "during I E s0 s" "env_ok I E"
    and "\<And>a s'. during I E s0 s' \<Longrightarrow> funds s' = funds s \<Longrightarrow> mem_len s' = mem_len s \<Longrightarrow> Q a s'"
  shows "fine I E s0 (hostM conv (h_selfdestruct (e_host E) x y k)) s Q"
  by (rule fine_host_plain [OF assms(1) host_keeps(8) [OF assms(2)] assms(3)])

lemma fine_set_host:
  assumes "during I E s0 s" "I (f s)"
    and "\<And>s'. during I E s0 s' \<Longrightarrow> funds s' = funds s \<Longrightarrow> mem_len s' = mem_len s \<Longrightarrow> Q () s'"
  shows "fine I E s0 (modifyE (\<lambda>s. s\<lparr>fr_host := f s\<rparr>)) s Q"
  using assms by (intro fine_modify assms(3)) (auto simp: during_host funds_def mem_len_def)

lemma fine_host_tload [fine_rules]:
  assumes "during I E s0 s" "env_ok I E"
    and "\<And>v s'. during I E s0 s' \<Longrightarrow> funds s' = funds s \<Longrightarrow> mem_len s' = mem_len s \<Longrightarrow> Q v s'"
  shows "fine I E s0
    (\<lambda>s. case h_tload (e_host E) (a s) key (fr_host s) of (v, h) \<Rightarrow> (Inr v, s\<lparr>fr_host := h\<rparr>)) s Q"
proof -
  obtain v h where t: "h_tload (e_host E) (a s) key (fr_host s) = (v, h)"
    by fastforce
  then have "I h"
    using host_keeps(5) [OF assms(2) during_inv [OF assms(1)], of "a s" key] by simp
  then show ?thesis
    using t assms(1,3) by (simp add: fine_def during_host funds_def mem_len_def)
qed

lemma fine_host_tstore [fine_rules]:
  assumes "during I E s0 s" "env_ok I E"
    and "\<And>s'. during I E s0 s' \<Longrightarrow> funds s' = funds s \<Longrightarrow> mem_len s' = mem_len s \<Longrightarrow> Q () s'"
  shows "fine I E s0 (modifyE (\<lambda>s. s\<lparr>fr_host := h_tstore (e_host E) (a s) key v (fr_host s)\<rparr>)) s Q"
  by (intro fine_set_host assms(1,3) host_keeps(6) [OF assms(2)] during_inv [OF assms(1)])

lemma fine_host_log [fine_rules]:
  assumes "during I E s0 s" "env_ok I E"
    and "\<And>s'. during I E s0 s' \<Longrightarrow> funds s' = funds s \<Longrightarrow> mem_len s' = mem_len s \<Longrightarrow> Q () s'"
  shows "fine I E s0 (modifyE (\<lambda>s. s\<lparr>fr_host := h_log (e_host E) a ts d (fr_host s)\<rparr>)) s Q"
  by (intro fine_set_host assms(1,3) host_keeps(7) [OF assms(2)] during_inv [OF assms(1)])

text \<open>A child's gas comes back: no more than it was given, by the contract of the host.\<close>

lemma merge_child_funds:
  assumes "child_gas_ok msg r"
  shows "unat (remaining (merge_child_gas (mr_gas r) (mr_stop r) g))
           + unat (state_gas_spilled (merge_child_gas (mr_gas r) (mr_stop r) g))
         \<le> unat (remaining g) + unat (state_gas_spilled g) + unat (msg_gas_limit msg)"
proof -
  have absorb: "unat (remaining (absorb_returned_reservoir x c)) + unat (state_gas_spilled (absorb_returned_reservoir x c))
      \<le> unat (remaining c) + unat (state_gas_spilled c)" for x c
    by (auto simp: absorb_returned_reservoir_def Let_def u_arith unat_saturating_add)
  have sp: "unat (state_gas_spilled (add_state_gas_spilled x c)) \<le> unat (state_gas_spilled c) + unat x" for x c
    by (simp add: add_state_gas_spilled_def unat_saturating_add)
  have er: "unat (remaining (erase_cost x c)) \<le> unat (remaining c) + unat x" for x c
    by (simp add: erase_cost_def unat_add_le)
  let ?c = "mr_gas r"
  let ?g1 = "if is_success (mr_stop r) \<or> is_frame_revert (mr_stop r) then erase_cost (remaining ?c) g else g"
  let ?g2 = "if is_success (mr_stop r)
             then record_refund (refunded ?c)
                    (add_state_gas_spilled (state_gas_spilled ?c) (add_state_gas_spent (state_gas_spent ?c) ?g1))
             else ?g1"
  have "unat (remaining ?g2) + unat (state_gas_spilled ?g2) \<le>
      unat (remaining g) + unat (state_gas_spilled g) + unat (msg_gas_limit msg)"
    using assms er [of "remaining ?c" g] sp [of "state_gas_spilled ?c" "add_state_gas_spent (state_gas_spent ?c) ?g1"]
    by (auto simp: child_gas_ok_def record_refund_def add_state_gas_spent_def add_state_gas_spilled_def
        erase_cost_def)
  then show ?thesis
    using absorb [of "reservoir ?c" ?g2] unfolding merge_child_gas_def Let_def by linarith
qed

lemma fine_merge_child:
  assumes "during I E s0 s" "child_gas_ok msg r" "funds s + unat (msg_gas_limit msg) \<le> funds s0"
    and "\<And>s'. during I E s0 s' \<Longrightarrow> funds s' \<le> funds s + unat (msg_gas_limit msg) \<Longrightarrow> mem_len s' = mem_len s \<Longrightarrow> Q () s'"
  shows "fine I E s0 (modify_tracker (merge_child_gas (mr_gas r) (mr_stop r))) s Q"
  using assms merge_child_funds [OF assms(2), of "tracker (fr_gas s)"]
  by (intro fine_modify_tracker [where n = "unat (msg_gas_limit msg)"]) (auto simp: funds_def)

lemma fine_execute_message:
  assumes "during I E s0 s" "code_ok (msg_code msg)"
    and "msg_depth msg = saturating_add (msg_depth (fr_message s0)) 1"
    and "\<And>r s'. during I E s0 s' \<Longrightarrow> funds s' = funds s \<Longrightarrow> mem_len s' = mem_len s \<Longrightarrow>
           child_gas_ok msg r \<Longrightarrow> Q r s'"
  shows "fine I E s0 (hostM conv (h_execute_message (e_host E) msg)) s Q"
proof (rule fine_hostM [OF assms(1) _ assms(4)])
  show "keeps I (h_execute_message (e_host E) msg) (child_gas_ok msg)"
    using assms(1-3) by (simp add: during_def frame_ok_def calls_ok_def)
qed

section \<open>The remaining primitive steps\<close>

lemma fine_require_non_static [fine_rules]:
  assumes "during I E s0 s" "Q () s"
  shows "fine I E s0 require_non_staticcall s Q"
  using assms by (simp add: fine_def require_non_staticcall_def during_safe)

lemma fine_set_return_data [fine_rules]:
  assumes "during I E s0 s"
    and "\<And>s'. during I E s0 s' \<Longrightarrow> funds s' = funds s \<Longrightarrow> mem_len s' = mem_len s \<Longrightarrow> Q () s'"
  shows "fine I E s0 (modifyE (\<lambda>s. s\<lparr>fr_return_data := d\<rparr>)) s Q"
  using assms by (intro fine_modify assms(2)) (auto simp: during_host funds_def mem_len_def)

end
