(* ===== verification/Interp_Safety.thy ===== *)
theory Interp_Safety
  imports Interp_Logic
begin

text \<open>
  Every instruction is fine, hence every step and every run: no undefined behaviour or panic,
  well-formed frames, gas that only decreases, and termination.
\<close>

section \<open>Instructions\<close>

lemma fine_arithmetic:
  "during I E s0 s \<Longrightarrow> fine I E s0 (exec_arithmetic E i) s (ended I E s0 (funds s) 0)"
  unfolding exec_arithmetic_def by (intro fine_rules) simp_all

lemma fine_bitwise: "during I E s0 s \<Longrightarrow> fine I E s0 (exec_bitwise i) s (ended I E s0 (funds s) 0)"
  unfolding exec_bitwise_def by (intro fine_rules) simp_all

lemma fine_crypto:
  "during I E s0 s \<Longrightarrow> env_ok I E \<Longrightarrow> fine I E s0 (exec_crypto E i) s (ended I E s0 (funds s) 0)"
  unfolding exec_crypto_def by (intro fine_rules) simp_all

lemma unat_max [simp]: "unat (max a b) = max (unat a) (unat b)" for a :: "'a::len word"
  by (simp add: max_def word_le_nat_alt)

lemma fine_memory:
  "during I E s0 s \<Longrightarrow> env_ok I E \<Longrightarrow> fine I E s0 (exec_memory E i) s (ended I E s0 (funds s) 0)"
  unfolding exec_memory_def
  by (cases i; simp only: memory_instr.case; intro fine_rules) simp_all

lemma fine_load_account [fine_rules]:
  assumes "during I E s0 s" "env_ok I E"
    and "\<And>a s'. during I E s0 s' \<Longrightarrow> funds s' \<le> funds s \<Longrightarrow> mem_len s' = mem_len s \<Longrightarrow> Q a s'"
  shows "fine I E s0 (load_account E addr load_code) s Q"
  unfolding load_account_def Let_def
  by (intro fine_rules assms) simp_all

lemma fine_copy_data [fine_rules]:
  assumes "during I E s0 s" "env_ok I E"
    and "\<And>s'. during I E s0 s' \<Longrightarrow> funds s' \<le> funds s \<Longrightarrow> Q () s'"
  shows "fine I E s0 (copy_data E mo dof len data) s Q"
  unfolding copy_data_def
  by (intro fine_rules assms) simp_all

lemma fine_env_instr:
  "during I E s0 s \<Longrightarrow> env_ok I E \<Longrightarrow> fine I E s0 (exec_env_instr E i) s (ended I E s0 (funds s) 0)"
  unfolding exec_env_instr_def Let_def
  by (cases i; simp only: env_instr.case; intro fine_rules) simp_all

lemma fine_block:
  "during I E s0 s \<Longrightarrow> env_ok I E \<Longrightarrow> fine I E s0 (exec_block E i) s (ended I E s0 (funds s) 0)"
  unfolding exec_block_def Let_def
  by (cases i; simp only: block_instr.case; intro fine_rules) simp_all

text \<open>The operands compiled into an implementation, as the opcode table has them.\<close>

definition instr_ok :: "instr \<Rightarrow> bool" where
  "instr_ok i = (case i of
     Stack (I_push n) \<Rightarrow> n \<le> 32 | Stack (I_dup n) \<Rightarrow> n \<noteq> 0 | Stack (I_swap n) \<Rightarrow> n \<noteq> 0 | _ \<Rightarrow> True)"

text \<open>Room for the longest immediate and the next opcode.\<close>

definition room :: "'h frame \<Rightarrow> bool" where
  "room s \<longleftrightarrow> fr_pc s + 33 < length (bytes_slice (fr_bytecode s))"

lemma fine_read_immediate:
  assumes "during I E s0 s" "room s0" "n \<le> 32" and "\<And>bs. length bs = n \<Longrightarrow> Q bs s"
  shows "fine I E s0 (read_immediate n) s Q"
  using assms by (auto simp: fine_def read_immediate_def during_def room_def Let_def)

lemma fine_decode_immediate:
  assumes "during I E s0 s" "room s0" and "\<And>b x. dec b = Some x \<Longrightarrow> Q x s"
  shows "fine I E s0 (decode_immediate dec) s Q"
  unfolding decode_immediate_def
  using assms by (intro fine_rules fine_read_immediate) auto

lemma decode_single_nz:
  assumes "decode_single b = Some n"
  shows "0 < unat n"
proof (rule ccontr)
  assume "\<not> 0 < unat n"
  then have "n = 0"
    by (simp add: unat_eq_0)
  then have "b = - 145"
    using assms by (auto simp: decode_single_def eq_neg_iff_add_eq_0 split: if_splits)
  then show False
    using assms by (simp add: decode_single_def)
qed

lemma decode_pair_neq: "decode_pair b = Some (n, m) \<Longrightarrow> unat n \<noteq> unat m"
  using decode_pair_bounds [of b n m] by (auto simp: word_less_nat_alt)

lemma dup_ok: "stack_ok st \<Longrightarrow> stack_ok (snd (stack_dup n st))"
  by (auto simp: stack_dup_def stack_ok_def)

lemma dup_no_panic: "n \<noteq> 0 \<Longrightarrow> fst (stack_dup n st) \<noteq> Inl Panic"
  by (simp add: stack_dup_def)

lemma exchange_ok: "stack_ok st \<Longrightarrow> stack_ok (snd (stack_exchange n m st))"
  by (auto simp: stack_exchange_def stack_ok_def Let_def)

lemma exchange_no_panic: "n \<noteq> m \<Longrightarrow> fst (stack_exchange n m st) \<noteq> Inl Panic"
  by (simp add: stack_exchange_def Let_def)

lemma push_slice_ok:
  "bs \<noteq> [] \<Longrightarrow> length bs \<le> 32 \<Longrightarrow> stack_ok st \<Longrightarrow> stack_ok (snd (push_slice bs st))"
  by (simp add: push_slice_be push_ok)

lemma fine_stack_dup:
  assumes "during I E s0 s" "n \<noteq> 0"
  shows "fine I E s0 (on_stack (stack_dup n)) s (ended I E s0 (funds s) 0)"
  using assms(2)
  by (intro fine_on_stack [OF assms(1)]) (simp_all add: dup_ok dup_no_panic ended_def)

lemma fine_stack_exchange:
  assumes "during I E s0 s" "n \<noteq> m"
  shows "fine I E s0 (on_stack (stack_exchange n m)) s (ended I E s0 (funds s) 0)"
  using assms(2)
  by (intro fine_on_stack [OF assms(1)]) (simp_all add: exchange_ok exchange_no_panic ended_def)

lemma fine_push_slice:
  assumes "during I E s0 s" "bs \<noteq> []" "length bs \<le> 32"
  shows "fine I E s0 (on_stack (liftE (push_slice bs))) s (ended I E s0 (funds s) 0)"
  using assms(2,3)
  by (intro fine_on_stack [OF assms(1)]) (auto simp: push_slice_ok ended_def)

lemma fine_stack:
  assumes "during I E s0 s" "room s0" "instr_ok (Stack i)"
  shows "fine I E s0 (exec_stack i) s (ended I E s0 (funds s) 0)"
  using assms
  unfolding exec_stack_def
  by (cases i; simp only: stack_instr.case stack_swap_def;
      intro fine_rules fine_read_immediate fine_decode_immediate fine_push_slice fine_stack_dup
        fine_stack_exchange)
     (auto simp: instr_ok_def dest: decode_single_nz decode_pair_neq)

lemma fine_sstore:
  assumes "during I E s0 s" "env_ok I E"
  shows "fine I E s0 (sstore_with E key v) s (ended I E s0 (funds s) 1)"
  using assms env_ok_params(4) [OF assms(2)] unfolding sstore_with_def Let_def
  by (intro fine_rules) simp_all

lemma fine_log:
  assumes "during I E s0 s" "env_ok I E"
  shows "fine I E s0 (log_common E n) s (ended I E s0 (funds s) 0)"
  using assms unfolding log_common_def
  by (intro fine_rules) simp_all

lemma fine_host_instr:
  assumes "during I E s0 s" "env_ok I E"
  shows "fine I E s0 (exec_host E i) s (ended I E s0 (funds s) (of_bool (i = I_sstore)))"
proof (cases i)
  case I_sstore
  show ?thesis
    using assms unfolding exec_host_def I_sstore
    by (simp only: host_instr.case; intro fine_op_unit)
       (auto intro!: fine_weaken [OF fine_sstore] simp: ended_def)
qed (use assms in \<open>simp only: exec_host_def host_instr.case Let_def;
       (intro fine_rules fine_log)?; simp add: fine_log\<close>)+

section \<open>Calls and creations\<close>

lemma fine_resize_memory_range [fine_rules]:
  assumes "during I E s0 s" "env_ok I E"
    and "\<And>r s'. during I E s0 s' \<Longrightarrow> funds s' \<le> funds s \<Longrightarrow> mem_len s \<le> mem_len s' \<Longrightarrow>
           (snd r \<noteq> 0 \<longrightarrow> unat (fst r) + unat (snd r) \<le> mem_len s') \<Longrightarrow> Q r s'"
  shows "fine I E s0 (resize_memory_range E offset len) s Q"
  unfolding resize_memory_range_def
  by (intro fine_rules assms) simp_all

lemma fine_memory_range_bytes [fine_rules]:
  assumes "snd r \<noteq> 0 \<longrightarrow> unat (fst r) + unat (snd r) \<le> mem_len s" and "\<And>bs. Q bs s"
  shows "fine I E s0 (memory_range_bytes r) s Q"
  unfolding memory_range_bytes_def
  using assms by (intro fine_rules) simp_all

text \<open>The gas of the child is paid for; its stipend is covered by the cost of the value transfer.\<close>

lemma stipend_covered:
  assumes "env_ok I E" "funds s1 + unat (if t then gp_get (e_gas_params E) TransferValueCost else 0) \<le> f"
    and "funds s2 + unat g \<le> funds s1"
  shows "funds s2 + unat (if t then saturating_add g (gp_get (e_gas_params E) CallStipend) else g) \<le> f"
  using assms(2,3) env_ok_params(3) [OF assms(1)]
  by (auto simp: unat_saturating_add word_le_nat_alt)

lemma fine_load_acc_and_calc_gas [fine_rules]:
  assumes "during I E s0 s" "env_ok I E"
    and "\<And>g n c a s'. during I E s0 s' \<Longrightarrow> funds s' + unat g \<le> funds s \<Longrightarrow> mem_len s' = mem_len s \<Longrightarrow>
           code_ok c \<Longrightarrow> Q (g, n, c, a) s'"
  shows "fine I E s0 (load_acc_and_calc_gas E to t ce lim) s Q"
proof -
  let ?gp = "e_gas_params E"
  have pay: "fine I E s0 (if t then spendM (gp_get ?gp TransferValueCost) else returnE ()) s
      (\<lambda>_ s1. during I E s0 s1 \<and> funds s1 + unat (if t then gp_get ?gp TransferValueCost else 0) \<le> funds s \<and>
        mem_len s1 = mem_len s)"
    using assms(1) by (intro fine_rules) auto
  show ?thesis
    unfolding load_acc_and_calc_gas_def Let_def
    using assms(1,2)
    by (intro fine_rules fine_weaken [OF pay] assms(3) stipend_covered [OF assms(2)]) auto
qed

lemma fine_prepare_call [fine_rules]:
  assumes "during I E s0 s" "env_ok I E" "\<not> is_create k"
    and "\<And>msg r n s'. during I E s0 s' \<Longrightarrow> funds s' + unat (msg_gas_limit msg) \<le> funds s \<Longrightarrow>
           (snd r \<noteq> 0 \<longrightarrow> unat (fst r) + unat (snd r) \<le> mem_len s') \<Longrightarrow> code_ok (msg_code msg) \<Longrightarrow>
           msg_depth msg = saturating_add (msg_depth (fr_message s0)) 1 \<Longrightarrow> Q (msg, r, n) s'"
  shows "fine I E s0 (prepare_call E k) s Q"
  unfolding prepare_call_def Let_def if_not_P [OF assms(3)]
  using assms(1,2)
  by (intro fine_rules assms(4)) (auto dest: during_message)

text \<open>The part of a call after the child has run.\<close>

lemma fine_call_return:
  assumes "during I E s0 s" "child_gas_ok msg r" "funds s + unat (msg_gas_limit msg) \<le> f" "f \<le> funds s0"
    and "snd rr \<noteq> 0 \<longrightarrow> unat (fst rr) + unat (snd rr) \<le> mem_len s"
  shows "fine I E s0
    (bindE (modify_tracker (merge_child_gas (mr_gas r) (mr_stop r))) (\<lambda>_.
     bindE (if b then modify_tracker (refill_reservoir n) else returnE ()) (\<lambda>_.
     bindE (on_memory (mem_set (fst rr) (take (min (unat (snd rr)) (length d)) d))) (\<lambda>_.
     bindE (modifyE (\<lambda>s. s\<lparr>fr_return_data := d\<rparr>)) (\<lambda>_.
     on_stack (liftE (stack_push_u64 v))))))) s (ended I E s0 f 0)"
  using assms
  by (intro fine_rules fine_merge_child [of I E s0 s msg r]) (auto simp: unat_eq_0)

lemma fine_call:
  assumes "during I E s0 s" "env_ok I E" "\<not> is_create k"
  shows "fine I E s0 (call_inner E k) s (ended I E s0 (funds s) 0)"
proof -
  have "funds s \<le> funds s0"
    using assms(1) by (simp add: during_def)
  then show ?thesis
    unfolding call_inner_def
    by (intro fine_bind fine_case_prod fine_prepare_call [OF assms]
          fine_execute_message fine_if fine_fail fine_call_return)
       auto
qed

lemma fine_spend_create:
  assumes "during I E s0 s" "env_ok I E"
    and "\<And>s'. during I E s0 s' \<Longrightarrow> funds s' + 1 \<le> funds s \<Longrightarrow> mem_len s' = mem_len s \<Longrightarrow> Q () s'"
  shows "fine I E s0 (spendM (if c2 then create2_cost (e_gas_params E) len else gp_get (e_gas_params E) Create)) s Q"
proof -
  have "0 < unat (if c2 then create2_cost (e_gas_params E) len else gp_get (e_gas_params E) Create)"
    using env_ok_params(5) [OF assms(2)] by (simp add: create2_cost_def unat_saturating_add)
  then show ?thesis
    by (intro fine_spend assms(1,3); linarith)
qed

lemma fine_create_prepare:
  assumes "during I E s0 s" "env_ok I E"
    and "\<And>x s'. during I E s0 s' \<Longrightarrow> funds s' + 1 \<le> funds s \<Longrightarrow> Q x s'"
  shows "fine I E s0 (create_prepare E c2) s Q"
  unfolding create_prepare_def Let_def
  using assms(1,2)
  by (intro fine_spend_create fine_rules assms(3)) auto

lemma fine_create_charge [fine_rules]:
  assumes "during I E s0 s" "env_ok I E"
    and "\<And>x s'. during I E s0 s' \<Longrightarrow> funds s' \<le> funds s \<Longrightarrow> Q x s'"
  shows "fine I E s0 (create_charge E v d ci dst) s Q"
  unfolding create_charge_def
  by (intro fine_rules assms) auto

lemma fine_selfdestruct:
  assumes "during I E s0 s" "env_ok I E"
  shows "fine I E s0 (selfdestruct E t) s Q"
  unfolding selfdestruct_def Let_def
  using assms
  by (intro fine_rules) auto

lemma stipend_reduction_le: "call_stipend_reduction gp x \<le> x"
  by (simp add: call_stipend_reduction_def word_le_nat_alt unat_sub unat_div)

lemma code_ok_new_legacy [simp]: "code_ok (new_legacy bs)"
  by (cases "bs = []")
     (simp_all add: code_ok_def kind_def bytes_slice_def original_byte_slice_def new_legacy_def inner_def
       bytecode_new_def empty_inner_def pad_legacy_original, simp add: pad_legacy_def)

lemma fine_create_return:
  assumes "during I E s0 s" "child_gas_ok msg r" "funds s + unat (msg_gas_limit msg) \<le> f" "f \<le> funds s0"
    and "f + 1 \<le> f'"
  shows "fine I E s0
    (bindE (modify_tracker (merge_child_gas (mr_gas r) (mr_stop r))) (\<lambda>_.
     bindE (if b then modify_tracker (refill_reservoir n) else returnE ()) (\<lambda>_.
     bindE (modifyE (\<lambda>s. s\<lparr>fr_return_data := d\<rparr>)) (\<lambda>_.
     on_stack (liftE (stack_push v)))))) s (ended I E s0 f' 1)"
  using assms
  by (intro fine_rules fine_merge_child [of I E s0 s msg r]) auto

lemma fine_create_gas:
  assumes "env_ok I E" and "\<And>g. Q g s"
  shows "fine I E s0 (if e then stipend_reduction E else readE remaining_of) s Q"
  using assms by (intro fine_rules) auto

lemma fine_create:
  assumes "during I E s0 s" "env_ok I E"
  shows "fine I E s0 (create_with E c2) s (ended I E s0 (funds s) 1)"
proof -
  have "funds s \<le> funds s0"
    using assms(1) by (simp add: during_def)
  then show ?thesis
    unfolding create_with_def Let_def
    by (intro fine_bind fine_case_prod fine_create_prepare [OF assms(1,2)]
          fine_create_charge [OF _ assms(2)] fine_execute_message fine_create_return
          fine_create_gas [OF assms(2)] fine_if fine_fail fine_read fine_case_option fine_return
          fine_spend endedI)
       (auto dest: during_message)
qed

lemma fine_system:
  assumes "during I E s0 s" "env_ok I E"
  shows "fine I E s0 (exec_system E i) s
           (ended I E s0 (funds s) (of_bool (self_charging (System i))))"
proof (cases i)
  case (I_create c2)
  then show ?thesis
    using fine_create [OF assms, of c2] by (cases c2) (simp_all add: exec_system_def self_charging_def)
next
  case I_selfdestruct
  then show ?thesis
    using assms
    by (simp only: exec_system_def system_instr.case; intro fine_op_unit fine_selfdestruct) simp_all
qed (simp_all add: exec_system_def self_charging_def fine_call [OF assms] is_create_def)

section \<open>Control flow\<close>

text \<open>The end of an instruction that may have moved the program counter.\<close>

definition landed :: "('h \<Rightarrow> bool) \<Rightarrow> 'h exec_env \<Rightarrow> 'h frame \<Rightarrow> nat \<Rightarrow> 'a \<Rightarrow> 'h frame \<Rightarrow> bool" where
  "landed I E s0 f = (\<lambda>_ s'. frame_ok I E s' \<and> funds s' \<le> f)"

lemma fine_return_inner:
  assumes "during I E s0 s" "env_ok I E"
  shows "fine I E s0 (return_inner E off len r) s Q"
proof -
  have out: "fine I E s0 (modifyE (\<lambda>s. s\<lparr>fr_output := out\<rparr>)) s' Q'"
    if "during I E s0 s'" "unat (fst out) \<le> mem_len s'" "unat (snd out) \<le> mem_len s'"
      and "\<And>s'. during I E s0 s' \<Longrightarrow> Q' () s'" for s' Q' and out :: "u32 \<times> u32"
    using that by (intro fine_modify that(4)) (auto simp: during_def frame_ok_def pc_ok_def output_ok_def
        mem_len_def funds_def)
  have trunc: "unat (ucast w :: u32) \<le> unat w" for w :: usize
    by (simp add: unsigned_ucast_eq take_bit_nat_less_eq_self)
  show ?thesis
    unfolding return_inner_def
    using assms
    by (intro fine_rules out)
       (auto simp: checked_add_def intro!: order_trans [OF trunc] order_trans [OF unat_add_le] split: if_splits)
qed

lemma fine_invalid:
  assumes "during I E s0 s"
  shows "fine I E s0 (exec_control E I_invalid) s Q"
  unfolding exec_control_def control_instr.case
  by (intro fine_op_unit assms)
     (auto simp: fine_def opcode_at_def during_def frame_ok_def pc_ok_def safe_stop_def is_halt_def is_success_def
       is_frame_revert_def)

lemma frame_ok_at:
  assumes "frame_ok I E s" "kind (fr_bytecode s) = Legacy" "p < length (bytes_slice (fr_bytecode s))"
  shows "frame_ok I E (s\<lparr>fr_pc := p\<rparr>)"
  using assms by (simp add: frame_ok_def pc_ok_def output_ok_def mem_len_def)

lemma jumpdest_in_code:
  assumes "code_ok bc" "\<forall>k \<in> set kernels. kernel_ok k" "is_valid (get_jump_table kernels bc) p"
  shows "kind bc = Legacy \<and> p < length (bytes_slice bc)"
proof -
  have nt: "bc_jump_table (inner bc) = None"
    using assms(1) by (simp add: code_ok_def)
  have leg: "is_legacy bc"
    using assms(3) by (auto simp: get_jump_table_def nt is_valid_def jump_table_default_def split: if_splits)
  then have "p \<in> set (instr_starts (original_byte_slice bc) 0)"
    using assms(3) analyze_legacy_starts [OF assms(2)] by (simp add: get_jump_table_def nt)
  then have "p < length (original_byte_slice bc)"
    using instr_starts_iff by blast
  then show ?thesis
    using leg by (simp add: is_legacy_def original_byte_slice_def bytes_slice_def)
qed

lemma fine_jump:
  assumes "during I E s0 s" "env_ok I E"
  shows "fine I E s0 (jump_inner E t) s (landed I E s0 (funds s))"
  using assms jumpdest_in_code [of "fr_bytecode s" "e_kernels E" "unat (to_usize_saturated t)"]
  by (auto simp: fine_def jump_inner_def Let_def is_valid_jumpdest_def landed_def env_ok_def config_ok_def during_def
      funds_def safe_stop_def intro!: frame_ok_at) (simp_all add: frame_ok_def)

lemma fine_control_jump:
  assumes "during I E s0 s" "env_ok I E" "room s0" "kind (fr_bytecode s0) = Legacy" "i = I_jump \<or> i = I_jumpi"
  shows "fine I E s0 (exec_control E i) s (landed I E s0 (funds s))"
proof -
  have after: "fine I E s0 (modifyE (\<lambda>s. s\<lparr>fr_pc := fr_pc s + 1\<rparr>)) s' (landed I E s0 (funds s'))"
    if "during I E s0 s'" for s'
    using that assms(3,4)
    by (intro fine_modify) (auto simp: landed_def during_def room_def funds_def intro: frame_ok_at)
  show ?thesis
    using assms(5) fine_jump [OF _ assms(2)] after
    by (auto simp: exec_control_def intro!: fine_op_unit assms(1) fine_if)
       (metis (no_types, lifting))+
qed

lemma fine_control_stay:
  assumes "during I E s0 s" "env_ok I E" "i \<noteq> I_jump" "i \<noteq> I_jumpi"
  shows "fine I E s0 (exec_control E i) s (ended I E s0 (funds s) (of_bool (self_charging (Control i))))"
proof (cases "i = I_invalid")
  case False
  then show ?thesis
    using assms unfolding exec_control_def
    by (cases i; simp only: control_instr.case; intro fine_rules fine_return_inner)
       (simp_all add: self_charging_def)
qed (simp add: fine_invalid assms(1))

section \<open>Steps\<close>

text \<open>The length of an instruction, by its implementation.\<close>

definition instr_len :: "instr \<Rightarrow> nat" where
  "instr_len i = (case i of
     Control I_jump \<Rightarrow> 0 | Control I_jumpi \<Rightarrow> 0 | Stack (I_push n) \<Rightarrow> n + 1
   | Stack I_dupn \<Rightarrow> 2 | Stack I_swapn \<Rightarrow> 2 | Stack I_exchange \<Rightarrow> 2 | _ \<Rightarrow> 1)"

lemma opcodes_table_ok:
  "list_all (\<lambda>(opcode, i, _). instr_ok i \<and> instruction_len opcode = instr_len i \<and>
     (i = Control I_stop \<longleftrightarrow> opcode = op_STOP) \<and>
     (opcode = op_INVALID \<longrightarrow> i = Control I_invalid)) OPCODES"
  by code_simp

lemma known_opcode_ok:
  assumes "known_opcode opcode i"
  shows "instr_ok i \<and> instruction_len opcode = instr_len i \<and> (i = Control I_stop \<longleftrightarrow> opcode = op_STOP) \<and>
    (opcode = op_INVALID \<longrightarrow> i = Control I_invalid)"
  using assms opcodes_table_ok
  by (auto simp: known_opcode_def list_all_iff dest!: map_of_SomeD)

lemma instr_len_le: "instr_ok i \<Longrightarrow> instr_len i \<le> 33"
  by (auto simp: instr_ok_def instr_len_def split: instr.splits stack_instr.splits control_instr.splits)

lemma fine_instr_stay:
  assumes "during I E s0 s" "env_ok I E" "instr_ok i" "instr_len i \<noteq> 0"
    and "room s0 \<or> i = Control I_stop"
  shows "fine I E s0 (exec_instr E i) s (ended I E s0 (funds s) (of_bool (self_charging i)))"
proof (cases i)
  case (Control c)
  then have "c \<noteq> I_jump" "c \<noteq> I_jumpi"
    using assms(4) by (auto simp: instr_len_def)
  then show ?thesis
    using Control fine_control_stay [OF assms(1,2), of c] by (simp add: exec_instr_def)
next
  case (Host h)
  then show ?thesis
    using fine_host_instr [OF assms(1,2), of h] by (simp add: exec_instr_def self_charging_def)
next
  case (System x)
  then show ?thesis
    using fine_system [OF assms(1,2), of x] by (simp add: exec_instr_def)
qed (use assms in \<open>simp_all add: exec_instr_def self_charging_def fine_arithmetic fine_bitwise
      fine_crypto fine_env_instr fine_block fine_stack fine_memory\<close>)

lemma pad_legacy_room:
  assumes "pc < length (pad_legacy code)" "pad_legacy code ! pc \<noteq> op_STOP"
  shows "pc + 33 < length (pad_legacy code)"
proof (cases "code = []")
  case False
  then obtain pre where "pad_legacy code = pre @ replicate PADDING 0"
    using pad_legacy_tail by auto
  then show ?thesis
    using assms by (auto simp: nth_append split: if_splits)
qed (use assms in \<open>simp add: pad_legacy_def\<close>)

text \<open>Where an opcode is defined, the code is legacy code, with room for the instruction unless it is STOP.\<close>

lemma defined_room:
  assumes "frame_ok I E s" "env_ok I E" "is_defined (e_opcodes E) op" "opcode_at s (fr_pc s) = Some op"
  shows "kind (fr_bytecode s) = Legacy" and "op \<noteq> op_STOP \<Longrightarrow> room s"
proof -
  have code: "code_ok (fr_bytecode s)" and pc: "pc_ok s"
    using assms(1) by (simp_all add: frame_ok_def)
  have op: "bytes_slice (fr_bytecode s) ! fr_pc s = op"
    using assms(4) by (auto simp: opcode_at_def Let_def split: if_splits)
  show legacy: "kind (fr_bytecode s) = Legacy"
  proof (rule ccontr)
    assume "kind (fr_bytecode s) \<noteq> Legacy"
    then have "op = 0xEF"
      using code pc op by (auto simp: code_ok_def pc_ok_def check_eip7702_iff)
    then show False
      using assms(2,3) by (simp add: env_ok_def config_ok_def)
  qed
  show "room s" if "op \<noteq> op_STOP"
    using that code pc op legacy pad_legacy_room [of "fr_pc s" "original_byte_slice (fr_bytecode s)"]
    by (auto simp: code_ok_def pc_ok_def room_def)
qed

lemma fine_dispatch:
  assumes "frame_ok I E s" "env_ok I E" "is_defined (e_opcodes E) op"
    and "opcode_at s (fr_pc s) = Some op"
  shows "fine I E s (dispatch E op) s (\<lambda>_ s'. frame_ok I E s' \<and> funds s' < funds s)"
proof -
  obtain i where i: "instruction_impls (e_opcodes E) op = Some i"
    using assms(3) by (auto simp: is_defined_def)
  then have known: "known_opcode op i" and chg: "self_charging i \<or> static_gas_table (e_opcodes E) op \<noteq> 0"
    using assms(2) by (auto simp: env_ok_def config_ok_def impls_known_def charged_def)
  note ok = known_opcode_ok [OF known]
  note legacy = defined_room(1) [OF assms]
  have room: "room s \<or> i = Control I_stop"
    using ok defined_room(2) [OF assms] by blast
  have pos: "self_charging i \<or> 0 < unat (ucast (static_gas_table (e_opcodes E) op) :: u64)"
    using chg unat_lt_word [of "static_gas_table (e_opcodes E) op"]
    by (auto simp: unsigned_ucast_eq take_bit_eq_mod unat_gt_0)
  have d: "during I E s s"
    using assms(1) by (simp add: during_def)
  have move: "frame_ok I E (s'\<lparr>fr_pc := fr_pc s' + instruction_len op\<rparr>)"
    if "during I E s s'" "room s" for s'
    using that legacy ok instr_len_le [of i] by (intro frame_ok_at) (auto simp: during_def room_def)
  have exec: "fine I E s (exec_instr E i) s1
      (\<lambda>_ s'. frame_ok I E (s'\<lparr>fr_pc := fr_pc s' + instruction_len op\<rparr>) \<and> funds s' < funds s)"
    if s1: "during I E s s1" "funds s1 + unat (ucast (static_gas_table (e_opcodes E) op) :: u64) = funds s" for s1
  proof -
    consider "i = Control I_stop" | "room s" "instr_len i \<noteq> 0" | "room s" "instr_len i = 0"
      using room by blast
    then show ?thesis
    proof cases
      case 1
      then show ?thesis
        using s1(1) unfolding exec_instr_def exec_control_def
        by (simp only: instr.case control_instr.case; intro fine_rules) simp_all
    next
      case 2
      then show ?thesis
        using ok pos s1(2) move
        by (intro fine_weaken [OF fine_instr_stay [OF s1(1) assms(2) _ 2(2)]])
           (auto simp: ended_def split: if_splits)
    next
      case 3
      then obtain c where c: "i = Control c" "c = I_jump \<or> c = I_jumpi"
        by (auto simp: instr_len_def split: instr.splits stack_instr.splits control_instr.splits)
      then show ?thesis
        using ok 3 pos s1(2) fine_control_jump [OF s1(1) assms(2) 3(1) legacy c(2)]
        by (auto simp: exec_instr_def landed_def self_charging_def elim: fine_weaken)
    qed
  qed
  show ?thesis
    unfolding dispatch_def config_instruction_def i option.case
    by (intro fine_rules fine_modify d fine_weaken [OF exec]) (auto simp: funds_def)
qed

lemma step_fine:
  assumes "frame_ok I E s" "env_ok I E"
  shows "fine I E s (step E) s (\<lambda>_ s'. frame_ok I E s' \<and> funds s' < funds s)"
proof -
  have "fr_pc s < length (bytes_slice (fr_bytecode s))"
    using assms(1) by (simp add: frame_ok_def pc_ok_def)
  then obtain op where op: "opcode_at s (fr_pc s) = Some op"
    by (simp add: opcode_at_def)
  have step: "fine I E s (step E) s Q \<longleftrightarrow> fine I E s (dispatch E (table_entry (e_opcodes E) op)) s Q" for Q
    by (simp add: fine_def step_def op)
  show ?thesis
  proof (cases "is_defined (e_opcodes E) op")
    case True
    then show ?thesis
      using fine_dispatch [OF assms True op] by (simp add: step table_entry_def)
  next
    case False
    have "config_instruction (e_opcodes E) op_INVALID = Control I_invalid"
      using assms(2) known_opcode_ok [of op_INVALID] by (auto simp: config_instruction_def env_ok_def config_ok_def impls_known_def split: option.splits)
    then show ?thesis
      using False assms(1) unfolding step
      by (simp add: table_entry_def dispatch_def exec_instr_def)
         (intro fine_rules fine_invalid; simp add: during_def)
  qed
qed

section \<open>Runs\<close>

definition run_fine :: "('h \<Rightarrow> bool) \<Rightarrow> 'h exec_env \<Rightarrow> 'h frame \<Rightarrow> (instr_stop fault \<times> 'h frame) option \<Rightarrow> bool" where
  "run_fine I E s r \<longleftrightarrow>
     (\<exists>stop s'. r = Some (Err stop, s') \<and> safe_stop I s' \<and>
        (is_halt stop \<or> frame_ok I E s' \<and> funds s' \<le> funds s))"

lemma run_fine:
  assumes "env_ok I E" "frame_ok I E s"
  shows "run_fine I E s (run E s)"
  using assms(2)
proof (induction "funds s" arbitrary: s rule: less_induct)
  case less
  note fine = step_fine [OF less.prems assms(1)]
  show ?case
  proof (cases "step E s")
    case (Pair r s')
    show ?thesis
    proof (cases r)
      case (Inl e)
      then show ?thesis
        using fine Pair
        by (cases e) (auto simp: fine_def run_fine_def during_def run.simps [of E s])
    next
      case (Inr u)
      then have "run_fine I E s' (run E s')" "funds s' < funds s"
        using fine Pair less.hyps [of s'] by (auto simp: fine_def)
      then show ?thesis
        using Inr Pair by (auto simp: run_fine_def run.simps [of E s])
    qed
  qed
qed

section \<open>What \<open>SSTORE\<close> charges\<close>

text \<open>
  Without state gas, a write that succeeds pays the static charge and the dynamic gas of the slot's values,
  and records their refund: the summands of \<open>sstore_net_gas\<close>.
\<close>

lemma spendM_Inr:
  "spendM c s = (Inr u, s') \<longleftrightarrow> c \<le> remaining_of s \<and>
     s' = s\<lparr>fr_gas := (fr_gas s)\<lparr>tracker := (tracker (fr_gas s))\<lparr>remaining := remaining_of s - c\<rparr>\<rparr>\<rparr>"
  by (auto simp: spendM_def on_gas_def liftE_def gas_spend_def on_tracker_def spend_def remaining_of_def Let_def)

lemma hostM_Inr:
  "hostM conv m s = (Inr x, s') \<longleftrightarrow> (\<exists>h. m (fr_host s) = (Inr x, h) \<and> s' = s\<lparr>fr_host := h\<rparr>)"
  by (auto simp: hostM_def split: sum.splits prod.splits)

lemma sstore_with_gas:
  assumes "sstore_with E key v s = (Inr (), s')" "has_feature EIP2200 s" "\<not> has_feature EIP8037 s"
  shows "\<exists>skip w h'. h_sstore (e_host E) (msg_destination (fr_message s)) key v skip (fr_host s) = (Inr w, h') \<and>
    unat (remaining_of s) = unat (remaining_of s') + unat (gp_get (e_gas_params E) SstoreStatic)
      + unat (sstore_dynamic_gas (e_gas_params E) True w) \<and>
    refunded (tracker (fr_gas s')) = refunded (tracker (fr_gas s)) + sstore_refund (e_gas_params E) True w"
proof -
  have "\<exists>skip w h'. h_sstore (e_host E) (msg_destination (fr_message s)) key v skip (fr_host s) = (Inr w, h') \<and>
    gp_get (e_gas_params E) SstoreStatic \<le> remaining_of s \<and>
    sstore_dynamic_gas (e_gas_params E) True w \<le> remaining_of s - gp_get (e_gas_params E) SstoreStatic \<and>
    remaining_of s' = remaining_of s - gp_get (e_gas_params E) SstoreStatic - sstore_dynamic_gas (e_gas_params E) True w \<and>
    refunded (tracker (fr_gas s')) = refunded (tracker (fr_gas s)) + sstore_refund (e_gas_params E) True w"
    using assms unfolding sstore_with_def Let_def
    apply (simp only: bindE_Inr_iff readE_def prod.inject sum.inject)
    apply (elim exE conjE)
    apply (simp only: split: if_split_asm)
    apply (simp_all only: failE_def bindE_Inr_iff readE_def prod.inject sum.inject sum.distinct HOL.simp_thms)
    apply (elim exE conjE)
    apply (simp only: spendM_Inr hostM_Inr)
    apply (elim exE conjE)
    apply hypsubst
    apply (simp add: modify_tracker_def modifyE_def returnE_def remaining_of_def record_refund_def
        require_non_staticcall_def has_feature_def split: if_splits)
    apply hypsubst
    apply (intro exI conjI, assumption)
    apply simp_all
    done
  moreover have "c \<le> a \<Longrightarrow> d \<le> a - c \<Longrightarrow> x = a - c - d \<Longrightarrow> unat a = unat x + unat c + unat d" for a c d x :: u64
    by (simp add: word_le_nat_alt unat_diff_exact)
  ultimately show ?thesis by blast
qed

end
