(* ===== verification/Interp_Base.thy ===== *)
theory Interp_Base
  imports Interp_Safety
begin

text \<open>
  Execution configurations (\<open>evm/config.rs\<close>) and the runs of fresh frames.  Every base
  specification meets the requirements of the interpreter, so its frames return without
  undefined behaviour, whatever the code.
\<close>

section \<open>Configurations\<close>

definition for_base_spec ::
    "u64 \<Rightarrow> usize \<Rightarrow> spec_id \<Rightarrow> 'h host \<Rightarrow> crypto \<Rightarrow> kernel list \<Rightarrow> 'h exec_env" where
  "for_base_spec osaka_cap dencun_blobs s H C ks =
     \<lparr>e_host = H, e_version = base_version osaka_cap dencun_blobs s, e_opcodes = base_opcode_config s,
      e_crypto = C, e_kernels = ks\<rparr>"

definition with_version :: "'h exec_env \<Rightarrow> version \<Rightarrow> unit fault + 'h exec_env" where
  "with_version E v =
     (if \<not> assert_valid v then Inl Panic
      else Inr (E\<lparr>e_version :=
             if memory_limit v > 0xFFFFFFFF then v\<lparr>memory_limit := 0xFFFFFFFF\<rparr> else v\<rparr>))"

section \<open>Base configurations charge for every instruction\<close>

lemma static_gas_set_instruction [simp]:
  "static_gas_table (set_instruction op i c v) = (static_gas_table v)(op := c)"
  by (auto simp: set_instruction_def set_static_gas_def bump_revision_def Let_def)

lemma static_gas_set_static_gas [simp]:
  "static_gas_table (set_static_gas op c v) = (static_gas_table v)(op := c)"
  by (auto simp: set_static_gas_def bump_revision_def)

lemma charged_set_instruction:
  "charged v \<Longrightarrow> self_charging i \<or> c \<noteq> 0 \<Longrightarrow> charged (set_instruction op i c v)"
  by (auto simp: charged_def)

lemma charged_fold_set:
  assumes "list_all (\<lambda>(op, i, c). self_charging i \<or> (ucast c :: u16) \<noteq> 0) ops" "charged v"
  shows "charged (fold (\<lambda>(op, i, c). set_instruction op i (ucast c)) ops v)"
  using assms by (induction ops arbitrary: v) (auto simp: charged_set_instruction)

definition gas_change_ok :: "u8 \<times> u32 \<Rightarrow> bool" where
  "gas_change_ok x = (case x of (op, c) \<Rightarrow>
     (ucast c :: u16) \<noteq> 0 \<or> (case map_of OPCODES op of Some (i, _) \<Rightarrow> self_charging i | None \<Rightarrow> False))"

lemma charged_fold_gas:
  assumes "list_all gas_change_ok costs" "charged v" "impls_known v"
  shows "charged (fold (\<lambda>(op, c). set_static_gas op (ucast c)) costs v)"
  using assms
proof (induction costs arbitrary: v)
  case (Cons x costs)
  obtain op c where x: "x = (op, c)"
    by (cases x)
  have "charged (set_static_gas op (ucast c) v)"
    using Cons.prems
    by (fastforce simp: x gas_change_ok_def charged_def impls_known_def known_opcode_def split: option.splits)
  moreover have "impls_known (set_static_gas op (ucast c) v)"
    using Cons.prems(3) by (simp add: impls_known_def)
  ultimately show ?case
    using Cons.IH Cons.prems(1) x by simp
qed simp

lemma fork_ops_charged:
  "list_all (\<lambda>(_, ops, costs).
     list_all (\<lambda>(op, i, c). self_charging i \<or> (ucast c :: u16) \<noteq> 0) ops \<and>
     list_all gas_change_ok costs) FORK_OPS"
  by code_simp

lemma charged_apply:
  assumes "list_all (\<lambda>(op, i, c). self_charging i \<or> (ucast c :: u16) \<noteq> 0) ops"
    and "list_all gas_change_ok costs" "list_all (\<lambda>(op, i, c). known_opcode op i) ops"
    and "charged v" "impls_known v"
  shows "charged (apply_opcode_config ops costs v)"
  unfolding apply_opcode_config_def
  using apply_known [OF assms(3,5), of "[]"]
  by (intro charged_fold_gas charged_fold_set assms) (simp add: apply_opcode_config_def)

lemma charged_fold_forks:
  assumes "list_all (\<lambda>(_, ops, costs).
      list_all (\<lambda>(op, i, c). self_charging i \<or> (ucast c :: u16) \<noteq> 0) ops \<and> list_all gas_change_ok costs \<and>
      list_all (\<lambda>(op, i, c). known_opcode op i) ops) forks"
    and "charged v" "impls_known v"
  shows "charged (fold (\<lambda>(fork, ops, costs) v.
      if enables s fork then apply_opcode_config ops costs v else v) forks v)"
  using assms by (induction forks arbitrary: v) (auto simp: charged_apply apply_known)

lemma base_charged: "charged (base_opcode_config s)"
  unfolding base_opcode_config_def
proof (rule charged_fold_forks)
  show "list_all (\<lambda>(_, ops, costs).
      list_all (\<lambda>(op, i, c). self_charging i \<or> (ucast c :: u16) \<noteq> 0) ops \<and> list_all gas_change_ok costs \<and>
      list_all (\<lambda>(op, i, c). known_opcode op i) ops) FORK_OPS"
    using fork_ops_charged fork_ops_known by (fastforce simp: list_all_iff)
qed (simp_all add: charged_def impls_known_def opcode_config_empty_def)

lemma base_params_all: "list_all (\<lambda>s. params_ok (base_gas_params s)) SPEC_IDS"
  by code_simp

lemma no_designator_opcode: "map_of OPCODES 0xEF = None"
  by code_simp

lemma base_config_ok:
  assumes "\<forall>k \<in> set ks. kernel_ok k"
  shows "config_ok (for_base_spec osaka_cap dencun_blobs s H C ks)"
proof -
  have "params_ok (base_gas_params s)"
    using base_params_all spec_in_SPEC_IDS [of s] by (simp add: list_all_iff)
  moreover have "\<not> is_defined (base_opcode_config s) 0xEF"
    using base_impls_known [of s] no_designator_opcode
    by (fastforce simp: is_defined_def impls_known_def known_opcode_def)
  ultimately show ?thesis
    using assms base_charged base_impls_known
    by (simp add: config_ok_def for_base_spec_def base_version_def)
qed

section \<open>Fresh frames\<close>

lemma code_ok_nonempty: "code_ok bc \<Longrightarrow> bytes_slice bc \<noteq> []"
  by (auto simp: code_ok_def pad_legacy_def check_eip7702_iff split: if_splits)

lemma fresh_frame_ok:
  assumes "code_ok (msg_code msg)" "I h" "calls_ok I (e_host E) (msg_depth msg)"
  shows "frame_ok I E (prepare_run E (frame_init msg h))"
  using assms code_ok_nonempty [OF assms(1)]
  by (simp add: frame_ok_def prepare_run_def frame_init_def stack_ok_def mem_ok_def memory_new_def
      pc_ok_def output_ok_def mem_len_def new_gas_def new_memory_gas_def memory_cost_zero)

lemma fresh_funds: "funds (prepare_run E (frame_init msg h)) = unat (msg_gas_limit msg)"
  by (simp add: funds_def prepare_run_def frame_init_def new_gas_def
      new_with_execution_gas_and_reservoir_def from_parts_def)

lemma output_ok_slice: "output_ok s \<Longrightarrow> \<exists>out. frame_output s = Some out"
proof -
  assume "output_ok s"
  moreover have "unat (ucast (w :: u32) :: usize) = unat w" for w
    using unat_lt_word [of w] by (simp add: unsigned_ucast_eq take_bit_eq_mod)
  ultimately show ?thesis
    by (auto simp: frame_output_def output_ok_def mem_slice_def Let_def mem_len_def unat_sub
        word_less_nat_alt word_le_nat_alt)
qed

text \<open>The gas of a stopped frame, settled, is within what the message gave it.\<close>

lemma settled_child_gas:
  assumes "is_halt stop \<or> unat (remaining g) + unat (state_gas_spilled g) \<le> unat (msg_gas_limit msg)"
    and "mr_stop r = stop" "mr_gas r = settle_gas stop g"
  shows "child_gas_ok msg r"
  using assms
  by (auto simp: child_gas_ok_def settle_gas_def Let_def rollback_state_gas_def unat_saturating_add
      remaining_excluding_state_spill_def is_halt_def dest: success_not_frame_revert)

lemma run_frame_fine:
  assumes "env_ok I E" "code_ok (msg_code msg)" "I h" "calls_ok I (e_host E) (msg_depth msg)"
  shows "\<exists>r s'. run_frame E msg h = Some (r, s') \<and> r \<noteq> Inl Panic \<and> safe_stop I s' \<and>
    (\<forall>stop. r = Inr stop \<longrightarrow>
       is_halt stop \<or>
       unat (remaining (tracker (fr_gas s'))) + unat (state_gas_spilled (tracker (fr_gas s')))
         \<le> unat (msg_gas_limit msg))"
proof -
  let ?s = "prepare_run E (frame_init msg h)"
  obtain stop s' where run: "run E ?s = Some (Err stop, s')"
    and safe: "safe_stop I s'" and gas: "is_halt stop \<or> funds s' \<le> unat (msg_gas_limit msg)"
    using run_fine [OF assms(1) fresh_frame_ok [of msg I h E, OF assms(2,3,4)]] by (auto simp: run_fine_def fresh_funds)
  show ?thesis
    using safe gas
    by (auto simp: run_frame_def run finish_run_def funds_def split: option.splits)
qed

section \<open>Properties\<close>

text \<open>A host without state, whose accounts are all absent and whose messages fail.\<close>

definition bare_host :: "unit host" where
  "bare_host =
     \<lparr>h_block_env = (\<lambda>_. \<lparr>be_number = 0, be_beneficiary = 0, be_timestamp = 0, be_gas_limit = 0,
        be_basefee = 0, be_difficulty = 0, be_prevrandao = 0, be_blob_basefee = 0, be_slot_num = 0\<rparr>),
      h_tx_env = (\<lambda>_. \<lparr>tx_origin = 0, tx_gas_price = 0, tx_chain_id = 1, tx_blob_hashes = []\<rparr>),
      h_load_account = (\<lambda>_ _ _ h. (Inr \<lparr>al_balance = 0, al_nonce = 0, al_code_hash = 0,
        al_code = new_legacy [], al_is_empty = True, al_is_empty_for_new_account_gas = True,
        al_is_cold = False\<rparr>, h)),
      h_block_hash = (\<lambda>_ h. (Inr 0, h)),
      h_sload = (\<lambda>_ _ _ h. (Inr \<lparr>sl_value = 0, sl_is_cold = False\<rparr>, h)),
      h_sstore = (\<lambda>_ _ v _ h. (Inr \<lparr>original_value = 0, present_value = 0, new_value = v, is_cold = False\<rparr>, h)),
      h_tload = (\<lambda>_ _ h. (0, h)), h_tstore = (\<lambda>_ _ _ h. h), h_log = (\<lambda>_ _ _ h. h),
      h_execute_message = (\<lambda>_ h. (Inl (ExecFatal ''no messages''), h)),
      h_selfdestruct = (\<lambda>_ _ _ h. (Inl (Halt OutOfGas), h))\<rparr>"

lemma bare_host_ok: "host_ok (\<lambda>_. True) bare_host"
  by (simp add: host_ok_def bare_host_def keeps_def)

lemma bare_calls_ok: "calls_ok (\<lambda>_. True) bare_host d"
  by (simp add: calls_ok_def bare_host_def keeps_def)

definition call_of :: "bytes \<Rightarrow> u64 \<Rightarrow> message" where
  "call_of code gas =
     \<lparr>msg_kind = Kind_Call, msg_depth = 0, msg_gas_limit = gas, msg_reservoir = 0, msg_destination = 1,
      msg_call_target = 1, msg_caller = 2, msg_input = [], msg_value = 0, msg_code = new_legacy code,
      msg_code_address = 1, msg_caller_is_static = False, msg_salt = 0\<rparr>"

text \<open>
  C6:  One step of the interpreter, in every base specification and on every host that meets its
  contract, from a well-formed frame: it never panics or reads outside an allocation; if it
  continues, the frame is well-formed again and has strictly less gas; if it stops, the host's
  invariant holds and the output lies in memory, and unless the stop is an exceptional
  halt, the frame is well-formed and has gained no gas.
\<close>

theorem base_step_safe:
  assumes "host_ok I H" "\<forall>k \<in> set ks. kernel_ok k"
    and "frame_ok I (for_base_spec osaka_cap dencun_blobs spec H C ks) s"
  shows "case step (for_base_spec osaka_cap dencun_blobs spec H C ks) s of
      (Inr _, s') \<Rightarrow>
        frame_ok I (for_base_spec osaka_cap dencun_blobs spec H C ks) s' \<and> funds s' < funds s
    | (Inl (Err stop), s') \<Rightarrow>
        I (fr_host s') \<and> frame_output s' \<noteq> None \<and>
        (is_halt stop \<or>
         frame_ok I (for_base_spec osaka_cap dencun_blobs spec H C ks) s' \<and> funds s' \<le> funds s)
    | (Inl Panic, _) \<Rightarrow> False"
proof -
  have "env_ok I (for_base_spec osaka_cap dencun_blobs spec H C ks)"
    using base_config_ok [OF assms(2)] assms(1) by (simp add: env_ok_def for_base_spec_def)
  from step_fine [OF assms(3) this] show ?thesis
    by (auto simp: fine_def safe_stop_def during_def output_ok_slice split: prod.splits sum.splits fault.splits)
qed

theorem base_step_safe_witness:
  "case step (for_base_spec 0 6 PRAGUE bare_host bare_crypto [])
      (prepare_run (for_base_spec 0 6 PRAGUE bare_host bare_crypto []) (frame_init (call_of [0x60, 1] 100) ())) of
      (Inr _, s') \<Rightarrow> funds s' < 100 | (Inl (Err stop), s') \<Rightarrow> True | (Inl Panic, _) \<Rightarrow> False"
proof -
  let ?E = "for_base_spec 0 6 PRAGUE bare_host bare_crypto []"
  have "frame_ok (\<lambda>_. True) ?E (prepare_run ?E (frame_init (call_of [0x60, 1] 100) ()))"
    by (rule fresh_frame_ok) (simp_all add: call_of_def for_base_spec_def bare_calls_ok)
  from base_step_safe [OF bare_host_ok _ this] show ?thesis
    by (simp add: fresh_funds call_of_def [of _ 100] split: prod.splits sum.splits fault.splits)
qed



end
