(* ===== verification/Evm_Exec.thy ===== *)
theory Evm_Exec
  imports Interp_Base State_Rollback
begin

text \<open>
  The EVM as the host of its own frames (\<open>evm/mod.rs\<close>): the host operations on the
  transaction state, and the execution of call and create messages, which run frames that
  execute messages in turn.  This is the execution without an inspector and without a custom
  interpreter runner.  Precompiles are a parameter: whether an address has one, and what
  executing it does to gas and state.

  Frames nest to a bounded depth.  The model recurses on a bound for the remaining nesting, and
  \<open>ev_broken\<close> is a mark of the model that is set when that bound is exceeded, when a run of the
  interpreter does not return, or when it panics; it has no counterpart in the code, and
  the theory \<open>Exec_Safety\<close> shows that it is never set.
\<close>

section \<open>Configuration and state\<close>

datatype precompile_halt = Precompile_OutOfGas | Precompile_Other string

datatype precompile_error =
    Precompile_Database database_error
  | Precompile_Revert bytes
  | Precompile_Halt precompile_halt
  | Precompile_Fatal string

record 'd precompiles =
  pc_contains :: "address \<Rightarrow> bool"
  pc_warm_addresses :: "prewarm_set \<Rightarrow> prewarm_set"
  pc_execute :: "message \<Rightarrow> gas_tracker \<Rightarrow> 'd state \<Rightarrow> ((precompile_error + bytes) \<times> gas_tracker) \<times> 'd state"

record 'd evm_config =
  cf_spec_id :: spec_id
  cf_database :: "'d database"
  cf_version :: version
  cf_opcodes :: opcode_config
  cf_crypto :: crypto
  cf_kernels :: "kernel list"
  cf_precompiles :: "'d precompiles"

record 'd evm =
  ev_state :: "'d state"
  ev_block :: block_env
  ev_tx :: tx_env
  ev_frame_checkpoint :: "state_checkpoint option"
  ev_broken :: bool

type_synonym ('d, 'e, 'a) evm_m = "('d evm, 'e, 'a) sres"

definition on_state :: "('d state, 'e, 'a) sres \<Rightarrow> ('d, 'e, 'a) evm_m" where
  "on_state m h = (case m (ev_state h) of (r, st) \<Rightarrow> (r, h\<lparr>ev_state := st\<rparr>))"

definition map_err :: "('e \<Rightarrow> 'f) \<Rightarrow> ('s, 'e, 'a) sres \<Rightarrow> ('s, 'f, 'a) sres" where
  "map_err f m s = (case m s of (Inl e, s') \<Rightarrow> (Inl (f e), s') | (Inr x, s') \<Rightarrow> (Inr x, s'))"

abbreviation host_db_error :: "database_error \<Rightarrow> host_error" where
  "host_db_error e \<equiv> Execution (ExecDatabase e)"

definition evm_feature :: "'d evm_config \<Rightarrow> evm_features \<Rightarrow> bool" where
  "evm_feature cf f = feature (cf_version cf) f"

abbreviation evm_features_of :: "'d evm_config \<Rightarrow> evm_features" where
  "evm_features_of cf \<equiv> features (cf_version cf)"

definition evm_rollback :: "'d evm_config \<Rightarrow> state_checkpoint \<Rightarrow> 'd evm \<Rightarrow> 'd evm" where
  "evm_rollback cf cp h = h\<lparr>ev_state := rollback cp (evm_features_of cf) (ev_state h)\<rparr>"

section \<open>Logs\<close>

definition SYSTEM_ADDRESS :: address where
  "SYSTEM_ADDRESS = 0xfffffffffffffffffffffffffffffffffffffffe"

definition EIP7708_TRANSFER_TOPIC :: b256 where
  "EIP7708_TRANSFER_TOPIC = 0xddf252ad1be2c89b69c2b068fc378daa952ba7f163c4a11628f55a4df523b3ef"

definition eip7708_transfer_log :: "address \<Rightarrow> address \<Rightarrow> evm_word \<Rightarrow> log option" where
  "eip7708_transfer_log from to v =
     (if v = 0 \<or> from = to then None
      else Some \<lparr>lg_address = SYSTEM_ADDRESS,
                 lg_topics = [EIP7708_TRANSFER_TOPIC, address_to_word from, address_to_word to],
                 lg_data = to_be_bytes 32 v\<rparr>)"

definition logs_observed :: "'d evm_config \<Rightarrow> bool" where
  "logs_observed cf = evm_feature cf LOG_COLLECTION"

definition evm_log :: "'d evm_config \<Rightarrow> log \<Rightarrow> 'd evm \<Rightarrow> 'd evm" where
  "evm_log cf l h = (if evm_feature cf LOG_COLLECTION then h\<lparr>ev_state := state_log l (ev_state h)\<rparr> else h)"

definition log_eip7708_transfer :: "'d evm_config \<Rightarrow> address \<Rightarrow> address \<Rightarrow> evm_word \<Rightarrow> 'd evm \<Rightarrow> 'd evm" where
  "log_eip7708_transfer cf from to v h =
     (if evm_feature cf EIP7708 \<and> logs_observed cf
      then case eip7708_transfer_log from to v of None \<Rightarrow> h | Some l \<Rightarrow> evm_log cf l h
      else h)"

section \<open>Host operations\<close>

text \<open>The part of \<open>load_account\<close> that holds the account handle.\<close>

definition load_account_handle ::
    "'d evm_config \<Rightarrow> address \<Rightarrow> bool \<Rightarrow> acct \<Rightarrow> ('d state, host_error, account_load) sres" where
  "load_account_handle cf a with_code acc st =
     (let (is_cold, hdl) = h_warm (st_prewarm st) (handle_new a acc);
          empty_for_gas = is_empty_for_new_account_gas (cf_crypto cf) (evm_features_of cf) hdl;
          (balance, nonce, code_hash, is_empty) =
            (case ac_present (hd_tracked hdl) of
               Some i \<Rightarrow> (ai_balance i, ai_nonce i, ai_code_hash i, info_is_empty (cf_crypto cf) i)
             | None \<Rightarrow> (0, 0, 0, True));
          (code, st) =
            (if with_code then load_code (cf_crypto cf) (cf_database cf) hdl st else returnE bytecode_new st);
          st = handle_drop hdl st
      in (case code of
            Inl e \<Rightarrow> Inl (host_db_error e)
          | Inr c \<Rightarrow>
              Inr \<lparr>al_balance = balance, al_nonce = nonce, al_code_hash = code_hash, al_code = c,
                   al_is_empty = is_empty, al_is_empty_for_new_account_gas = empty_for_gas,
                   al_is_cold = is_cold\<rparr>, st))"

definition evm_load_account ::
    "'d evm_config \<Rightarrow> address \<Rightarrow> bool \<Rightarrow> bool \<Rightarrow> ('d state, host_error, account_load) sres" where
  "evm_load_account cf a with_code skip_cold_load =
     bindE (map_err host_error_of_load (account_raw_with_skip (cf_database cf) a skip_cold_load))
       (load_account_handle cf a with_code)"

definition evm_load_slot ::
    "'d evm_config \<Rightarrow> address \<Rightarrow> evm_word \<Rightarrow> bool \<Rightarrow> ('d state, host_error, storage_slot \<times> bool) sres" where
  "evm_load_slot cf a key skip_cold_load =
     (let eip2929 = evm_feature cf EIP2929 in
      bindE (map_err host_error_of_load (state_storage_slot eip2929 (cf_database cf) a key skip_cold_load))
        (\<lambda>(slot, is_cold). returnE (slot, if eip2929 then is_cold else False)))"

definition evm_sload ::
    "'d evm_config \<Rightarrow> address \<Rightarrow> evm_word \<Rightarrow> bool \<Rightarrow> ('d state, host_error, sload) sres" where
  "evm_sload cf a key skip_cold_load =
     bindE (evm_load_slot cf a key skip_cold_load) (\<lambda>(slot, is_cold).
       returnE \<lparr>sl_value = tr_current (slot_value slot), sl_is_cold = is_cold\<rparr>)"

definition evm_sstore ::
    "'d evm_config \<Rightarrow> address \<Rightarrow> evm_word \<Rightarrow> evm_word \<Rightarrow> bool \<Rightarrow> ('d state, host_error, sstore) sres" where
  "evm_sstore cf a key v skip_cold_load =
     bindE (evm_load_slot cf a key skip_cold_load) (\<lambda>(slot, cold) st.
       case slot_write a key slot v st of
         ((original, present), st) \<Rightarrow>
           (Inr \<lparr>original_value = original, present_value = present, new_value = v, is_cold = cold\<rparr>, st))"

definition evm_selfdestruct ::
    "'d evm_config \<Rightarrow> address \<Rightarrow> address \<Rightarrow> bool \<Rightarrow> ('d, host_error, selfdestruct_result) evm_m" where
  "evm_selfdestruct cf contract target skip_cold_load =
     (let D = cf_database cf; C = cf_crypto cf; fs = evm_features_of cf in
      bindE (on_state (\<lambda>st. map_err host_error_of_load (with_account_skip D target skip_cold_load (\<lambda>h.
               let (cold, h) = h_warm (st_prewarm st) h
               in ((cold, is_empty_for_new_account_gas C fs h), h))) st)) (\<lambda>(cold, target_is_empty).
      bindE (on_state (map_err host_db_error (with_account D contract (\<lambda>h.
               ((is_destructed h, h_balance h, \<not> features_contains fs EIP6780 \<or> h_is_created h), h)))))
            (\<lambda>(previously_destroyed, balance, should_destroy).
      bindE (if contract \<noteq> target then
               bindE (on_state (map_err host_db_error (transfer C D contract target balance))) (\<lambda>transferred.
                 if transferred then modifyE (log_eip7708_transfer cf contract target balance) else returnE ())
             else if should_destroy \<and> balance \<noteq> 0 \<and> \<not> evm_feature cf EIP8246 then
               on_state (map_err host_db_error (with_account D contract (\<lambda>h. ((), add_balance C (0 - balance) h))))
             else returnE ()) (\<lambda>_.
      bindE (if should_destroy
             then on_state (map_err host_db_error (with_account D contract (\<lambda>h. ((), mark_destructed h))))
             else returnE ()) (\<lambda>_.
      returnE \<lparr>sd_had_value = (balance \<noteq> 0), sd_value = balance, sd_target_is_empty = target_is_empty,
               sd_is_cold = cold, sd_previously_destroyed = previously_destroyed\<rparr>)))))"

text \<open>The host a frame runs on, given how it executes messages.\<close>

definition evm_host ::
    "'d evm_config \<Rightarrow> (message \<Rightarrow> ('d, execution_error, message_result) evm_m) \<Rightarrow> 'd evm host" where
  "evm_host cf exec =
     \<lparr>h_block_env = ev_block, h_tx_env = ev_tx,
      h_load_account = (\<lambda>a with_code skip. on_state (evm_load_account cf a with_code skip)),
      h_block_hash = (\<lambda>n. on_state (on_db (db_block_hash (cf_database cf) n))),
      h_sload = (\<lambda>a key skip. on_state (evm_sload cf a key skip)),
      h_sstore = (\<lambda>a key v skip. on_state (evm_sstore cf a key v skip)),
      h_tload = (\<lambda>a key h. (tload a key (ev_state h), h)),
      h_tstore = (\<lambda>a key v h. h\<lparr>ev_state := tstore a key v (ev_state h)\<rparr>),
      h_log = (\<lambda>a topics data h.
        if logs_observed cf then evm_log cf \<lparr>lg_address = a, lg_topics = topics, lg_data = data\<rparr> h else h),
      h_execute_message = exec,
      h_selfdestruct = evm_selfdestruct cf\<rparr>"

section \<open>Create messages\<close>

definition error_message_result :: "instr_stop \<Rightarrow> u64 \<Rightarrow> u64 \<Rightarrow> message_result" where
  "error_message_result stop gas_remaining res =
     \<lparr>mr_stop = stop, mr_gas = new_with_execution_gas_and_reservoir gas_remaining res,
      mr_output = [], mr_created_address = None\<rparr>"

definition prepare_create_message :: "'d evm_config \<Rightarrow> message \<Rightarrow> ('d state, host_error, unit) sres" where
  "prepare_create_message cf msg =
     (let D = cf_database cf; C = cf_crypto cf; ver = cf_version cf;
          nested = (msg_depth msg > initial_call_depth ver)
      in bindE (if msg_depth msg \<le> max_call_depth ver \<and> (msg_value msg > 0 \<or> nested)
                then map_err host_db_error (account_info_untracked D (msg_caller msg))
                else returnE None) (\<lambda>info.
         let (balance, nonce) = (case info of None \<Rightarrow> (0, 0) | Some i \<Rightarrow> (ai_balance i, ai_nonce i)) in
         case create_preaccess_failure balance nonce (msg_value msg) (msg_depth msg) ver of
           Some stop \<Rightarrow> failE (Halt stop)
         | None \<Rightarrow>
             bindE (\<lambda>st. map_err host_db_error (with_account D (msg_destination msg) (h_warm (st_prewarm st))) st) (\<lambda>_.
             if nested
             then bindE (map_err host_db_error (with_account D (msg_caller msg) (bump_nonce C))) (\<lambda>_. returnE ())
             else returnE ())))"

definition create_message_account :: "'d evm_config \<Rightarrow> message \<Rightarrow> ('d, host_error, unit) evm_m" where
  "create_message_account cf msg =
     bindE (on_state (map_err host_db_error
              (create_account (cf_crypto cf) (cf_database cf) (msg_caller msg) (msg_destination msg)
                 (msg_value msg) (evm_features_of cf)))) (\<lambda>r.
     case r of
       Inl stop \<Rightarrow> failE (Halt stop)
     | Inr _ \<Rightarrow> modifyE (log_eip7708_transfer cf (msg_caller msg) (msg_destination msg) (msg_value msg)))"

text \<open>The deployed code, or the stop; it charges the gas.\<close>

definition validate_create_output :: "'d evm_config \<Rightarrow> bytes \<Rightarrow> (gas, instr_stop, bytes) sres" where
  "validate_create_output cf output =
     (let ver = cf_version cf; params = gas_params ver; len = (of_nat (length output) :: usize) in
      if evm_feature cf CODE_SIZE_CHECK \<and> length output > unat (max_code_size ver)
      then failE CreateContractSizeLimit
      else if evm_feature cf EIP3541 \<and> output \<noteq> [] \<and> hd output = 0xef
      then failE CreateContractStartingWithEF
      else
        let code_deposit_gas = saturating_mul len (gp_get params CodeDepositCost) in
        bindE (\<lambda>g. (Inr (remaining (tracker g) < code_deposit_gas), g)) (\<lambda>unaffordable.
        if unaffordable then
          (if evm_feature cf EIP2 then failE OutOfGas else returnE [])
        else
          bindE (gas_spend code_deposit_gas) (\<lambda>_.
          if evm_feature cf EIP8037 then
            bindE (gas_spend (keccak256_word_cost params len)) (\<lambda>_.
            let code_deposit_state = code_deposit_state_gas params len in
            bindE (if code_deposit_state > 0 then gas_spend_state code_deposit_state else returnE ())
              (\<lambda>_. returnE output))
          else returnE output)))"

definition finish_create_message_run ::
    "'d evm_config \<Rightarrow> state_checkpoint \<Rightarrow> address \<Rightarrow> instr_stop \<Rightarrow> gas \<Rightarrow> bytes
      \<Rightarrow> ('d, execution_error, message_result) evm_m" where
  "finish_create_message_run cf cp a stop g output h =
     (let result = (\<lambda>stop g output created.
            \<lparr>mr_stop = stop, mr_gas = tracker g, mr_output = output, mr_created_address = created\<rparr>)
      in if is_success stop then
           (case validate_create_output cf output g of
              (Inl stop, g) \<Rightarrow> (Inr (result stop g [] None), evm_rollback cf cp h)
            | (Inr output, g) \<Rightarrow>
                (case on_state (with_account (cf_database cf) a (\<lambda>hdl.
                         ((), set_code_slow (cf_crypto cf) (new_legacy output) hdl))) h of
                   (Inl e, h) \<Rightarrow> (Inl (ExecDatabase e), evm_rollback cf cp h)
                 | (Inr _, h) \<Rightarrow> (Inr (result stop g output (Some a)), h)))
         else (Inr (result stop g output None), evm_rollback cf cp h))"

text \<open>A run of a frame: the stop, the gas it left and its output.\<close>

type_synonym 'd frame_runner =
  "message \<Rightarrow> state_checkpoint \<Rightarrow> ('d, execution_error, instr_stop \<times> gas \<times> bytes) evm_m"

definition halted_result :: "message \<Rightarrow> host_error \<Rightarrow> execution_error + message_result" where
  "halted_result msg error =
     (case error of
        Halt stop \<Rightarrow> Inr (error_message_result stop (msg_gas_limit msg) (msg_reservoir msg))
      | Execution e \<Rightarrow> Inl e)"

text \<open>The part of \<open>execute_create_message\<close> after the preparation.\<close>

definition create_body ::
    "'d evm_config \<Rightarrow> 'd frame_runner \<Rightarrow> message \<Rightarrow> ('d, execution_error, message_result) evm_m" where
  "create_body cf runner msg h =
     (let cp = checkpoint (ev_state h) in
      case create_message_account cf msg h of
        (Inl error, h) \<Rightarrow> (halted_result msg error, evm_rollback cf cp h)
      | (Inr _, h) \<Rightarrow>
          if bytecode_is_empty (msg_code msg)
          then finish_create_message_run cf cp (msg_destination msg) Stop
                 (new_gas (msg_gas_limit msg) (msg_reservoir msg)) [] h
          else
            case runner (msg\<lparr>msg_input := []\<rparr>) cp h of
              (Inl e, h) \<Rightarrow> (Inl e, h)
            | (Inr (stop, g, output), h) \<Rightarrow>
                finish_create_message_run cf cp (msg_destination msg) stop g output h)"

definition execute_create_message ::
    "'d evm_config \<Rightarrow> 'd frame_runner \<Rightarrow> message \<Rightarrow> ('d, execution_error, message_result) evm_m" where
  "execute_create_message cf runner msg h =
     (case on_state (prepare_create_message cf msg) h of
        (Inl error, h) \<Rightarrow> (halted_result msg error, h)
      | (Inr _, h) \<Rightarrow> create_body cf runner msg h)"

section \<open>Call messages\<close>

definition contains_precompile :: "'d evm_config \<Rightarrow> message \<Rightarrow> bool" where
  "contains_precompile cf msg = pc_contains (cf_precompiles cf) (msg_call_target msg)"

definition execute_call_precompile ::
    "'d evm_config \<Rightarrow> state_checkpoint \<Rightarrow> message \<Rightarrow> ('d, execution_error, message_result) evm_m" where
  "execute_call_precompile cf cp msg h =
     (case pc_execute (cf_precompiles cf) msg
             (new_with_execution_gas_and_reservoir (msg_gas_limit msg) (msg_reservoir msg)) (ev_state h) of
        ((execution, g), st) \<Rightarrow>
          let h = h\<lparr>ev_state := st\<rparr>;
              overdrawn = (remaining g > msg_gas_limit msg);
              result = (\<lambda>stop output.
                (Inr \<lparr>mr_stop = stop, mr_gas = g, mr_output = output, mr_created_address = None\<rparr>,
                 if is_success stop then h else evm_rollback cf cp h))
          in case execution of
               Inr output \<Rightarrow> if overdrawn then result PrecompileOOG [] else result Return output
             | Inl (Precompile_Revert output) \<Rightarrow>
                 if overdrawn then result PrecompileOOG [] else result Revert output
             | Inl (Precompile_Halt Precompile_OutOfGas) \<Rightarrow> result PrecompileOOG []
             | Inl (Precompile_Halt _) \<Rightarrow> result PrecompileError []
             | Inl (Precompile_Database e) \<Rightarrow> (Inl (ExecDatabase e), evm_rollback cf cp h)
             | Inl (Precompile_Fatal e) \<Rightarrow> (Inl (ExecFatal e), evm_rollback cf cp h))"

definition finish_call_message_run ::
    "'d evm_config \<Rightarrow> state_checkpoint \<Rightarrow> instr_stop \<Rightarrow> gas \<Rightarrow> bytes \<Rightarrow> 'd evm \<Rightarrow> message_result \<times> 'd evm" where
  "finish_call_message_run cf cp stop g output h =
     (\<lparr>mr_stop = stop, mr_gas = tracker g, mr_output = output, mr_created_address = None\<rparr>,
      if is_success stop then h else evm_rollback cf cp h)"

definition transfers_balance :: "message_kind \<Rightarrow> bool" where
  "transfers_balance k \<longleftrightarrow> k = Kind_Call \<or> k = Kind_CallCode \<or> k = Kind_StaticCall"

text \<open>The transfer of a call with its log; \<open>False\<close> when the caller has not the funds.\<close>

definition call_transfer :: "'d evm_config \<Rightarrow> message \<Rightarrow> ('d, execution_error, bool) evm_m" where
  "call_transfer cf msg =
     (if transfers_balance (msg_kind msg) then
        bindE (map_err ExecDatabase (on_state (transfer (cf_crypto cf) (cf_database cf)
                 (msg_caller msg) (msg_destination msg) (msg_value msg)))) (\<lambda>transferred.
        if \<not> transferred then returnE False
        else bindE (modifyE (log_eip7708_transfer cf (msg_caller msg) (msg_destination msg) (msg_value msg)))
               (\<lambda>_. returnE True))
      else returnE True)"

text \<open>The rest of the call.\<close>

definition call_body ::
    "'d evm_config \<Rightarrow> 'd frame_runner \<Rightarrow> state_checkpoint \<Rightarrow> message
      \<Rightarrow> ('d, execution_error, message_result) evm_m" where
  "call_body cf runner cp msg h =
     (if contains_precompile cf msg then execute_call_precompile cf cp msg h
      else if bytecode_is_empty (msg_code msg) then
        (Inr \<lparr>mr_stop = Stop,
              mr_gas = new_with_execution_gas_and_reservoir (msg_gas_limit msg) (msg_reservoir msg),
              mr_output = [], mr_created_address = None\<rparr>, h)
      else
        case runner msg cp h of
          (Inl e, h) \<Rightarrow> (Inl e, h)
        | (Inr (stop, g, output), h) \<Rightarrow>
            case finish_call_message_run cf cp stop g output h of (r, h) \<Rightarrow> (Inr r, h))"

definition execute_call_message ::
    "'d evm_config \<Rightarrow> 'd frame_runner \<Rightarrow> message \<Rightarrow> ('d, execution_error, message_result) evm_m" where
  "execute_call_message cf runner msg h =
     (let failed = (\<lambda>stop. error_message_result stop (msg_gas_limit msg) (msg_reservoir msg)) in
      if msg_depth msg > max_call_depth (cf_version cf) then (Inr (failed CallTooDeep), h)
      else
        let cp = checkpoint (ev_state h) in
        bindE (call_transfer cf msg) (\<lambda>funded.
          if \<not> funded then returnE (failed OutOfFunds) else call_body cf runner cp msg) h)"

section \<open>Messages and frames\<close>

definition execute_message_impl ::
    "'d evm_config \<Rightarrow> 'd frame_runner \<Rightarrow> message \<Rightarrow> ('d, execution_error, message_result) evm_m" where
  "execute_message_impl cf runner msg =
     bindE (if is_create (msg_kind msg) then execute_create_message cf runner msg
            else execute_call_message cf runner msg) (\<lambda>result.
       returnE (result\<lparr>mr_gas := settle_gas (mr_stop result) (mr_gas result)\<rparr>))"

definition execute_message ::
    "'d evm_config \<Rightarrow> 'd frame_runner \<Rightarrow> message \<Rightarrow> ('d, execution_error, message_result) evm_m" where
  "execute_message cf runner msg h =
     (let cp = checkpoint (ev_state h) in
      case execute_message_impl cf runner msg h of
        (Inl e, h) \<Rightarrow> (Inl e, evm_rollback cf cp h)
      | (Inr r, h) \<Rightarrow> (Inr r, h))"

definition broken :: "('d, execution_error, 'a) evm_m" where
  "broken h = (Inl (ExecFatal ''model bound exceeded''), h\<lparr>ev_broken := True\<rparr>)"

definition evm_env :: "'d evm_config \<Rightarrow> 'd evm host \<Rightarrow> 'd evm exec_env" where
  "evm_env cf H =
     \<lparr>e_host = H, e_version = cf_version cf, e_opcodes = cf_opcodes cf, e_crypto = cf_crypto cf,
      e_kernels = cf_kernels cf\<rparr>"

definition run_interpreter ::
    "'d evm_config \<Rightarrow> 'd evm host \<Rightarrow> message \<Rightarrow> ('d, execution_error, instr_stop \<times> gas \<times> bytes) evm_m" where
  "run_interpreter cf H msg h =
     (case run_frame (evm_env cf H) msg h of
        None \<Rightarrow> broken h
      | Some (Inl Panic, s) \<Rightarrow> broken (fr_host s)
      | Some (Inl (Err e), s) \<Rightarrow> (Inl e, fr_host s)
      | Some (Inr stop, s) \<Rightarrow>
          case frame_output s of
            None \<Rightarrow> broken (fr_host s)
          | Some output \<Rightarrow> (Inr (stop, fr_gas s, output), fr_host s))"

definition evm_run_frame :: "'d evm_config \<Rightarrow> 'd evm host \<Rightarrow> 'd frame_runner" where
  "evm_run_frame cf H msg cp h =
     (case run_interpreter cf H msg (h\<lparr>ev_frame_checkpoint := Some cp\<rparr>) of
        (r, h') \<Rightarrow> (r, h'\<lparr>ev_frame_checkpoint := ev_frame_checkpoint h\<rparr>))"

text \<open>Execution with at most \<open>n\<close> nested frames.\<close>

primrec evm_execute ::
    "nat \<Rightarrow> 'd evm_config \<Rightarrow> message \<Rightarrow> ('d, execution_error, message_result) evm_m" where
  "evm_execute 0 cf = execute_message cf (\<lambda>_ _. broken)"
| "evm_execute (Suc n) cf = execute_message cf (evm_run_frame cf (evm_host cf (evm_execute n cf)))"

end
