(* ===== verification/Exec_Rules.thy ===== *)
theory Exec_Rules
  imports Evm_Exec
begin

text \<open>
  Rules for computations on the state and on the host: they take only journaled
  steps (\<open>sound\<close>) and keep the code in the state well-formed (\<open>keeps\<close>).
\<close>

section \<open>Well-formed code in the state\<close>

definition info_ok :: "account_info option \<Rightarrow> bool" where
  "info_ok i \<longleftrightarrow> (\<forall>x c. i = Some x \<longrightarrow> ai_code x = Some c \<longrightarrow> code_ok c)"

definition codes_ok :: "('d \<Rightarrow> bool) \<Rightarrow> 'd state \<Rightarrow> bool" where
  "codes_ok DI st \<longleftrightarrow>
     (\<forall>a acc. st_accounts st a = Some acc \<longrightarrow> info_ok (ac_present acc)) \<and>
     (\<forall>a p f. AccountChange a p f \<in> set (st_journal st) \<longrightarrow> info_ok p) \<and> DI (st_database st)"

text \<open>The contract of the database: it keeps its own invariant and returns well-formed code.\<close>

definition db_ok :: "('d \<Rightarrow> bool) \<Rightarrow> 'd database \<Rightarrow> bool" where
  "db_ok DI D \<longleftrightarrow>
     (\<forall>a. keeps DI (db_account D a) info_ok) \<and>
     (\<forall>h. keeps DI (db_code_by_hash D h) code_ok) \<and>
     (\<forall>a k. keeps DI (db_storage D a k) (\<lambda>_. True)) \<and>
     (\<forall>n. keeps DI (db_block_hash D n) (\<lambda>_. True)) \<and>
     (\<forall>a k. keeps DI (db_check_slot D a k) (\<lambda>_. True))"

lemma code_ok_bytecode_new [simp]: "code_ok bytecode_new"
  using code_ok_new_legacy [of "[]"] by (simp add: new_legacy_def)

lemma info_ok_default [simp]: "info_ok (Some (account_info_default C))"
  by (simp add: info_ok_def account_info_default_def)

section \<open>Rules for keeping an invariant\<close>

named_theorems keep_rules "operations that keep an invariant of their state"

lemma keepsD: "keeps I m P \<Longrightarrow> I s \<Longrightarrow> m s = (r, s') \<Longrightarrow> I s' \<and> (\<forall>x. r = Inr x \<longrightarrow> P x)"
  by (metis fst_conv keeps_def snd_conv)

lemma keepsI: "(\<And>s r s'. I s \<Longrightarrow> m s = (r, s') \<Longrightarrow> I s' \<and> (\<forall>x. r = Inr x \<longrightarrow> P x)) \<Longrightarrow> keeps I m P"
  unfolding keeps_def by (metis surj_pair fst_conv snd_conv)

lemma keeps_bind:
  assumes "keeps I m P" "\<And>x. P x \<Longrightarrow> keeps I (k x) Q"
  shows "keeps I (bindE m k) Q"
proof (rule keepsI)
  fix s r s' assume *: "I s" "bindE m k s = (r, s')"
  obtain r1 s1 where m: "m s = (r1, s1)" by fastforce
  note 1 = keepsD [OF assms(1) *(1) m]
  show "I s' \<and> (\<forall>x. r = Inr x \<longrightarrow> Q x)"
  proof (cases r1)
    case (Inl e)
    then show ?thesis using 1 * m by (auto simp: bindE_def)
  next
    case (Inr x)
    then have "k x s1 = (r, s')" using * m by (simp add: bindE_def)
    then show ?thesis using 1 Inr keepsD [OF assms(2)] by blast
  qed
qed

lemma keeps_then [keep_rules]:
  "keeps I m (\<lambda>_. True) \<Longrightarrow> (\<And>x. keeps I (k x) Q) \<Longrightarrow> keeps I (bindE m k) Q"
  by (rule keeps_bind)

lemma keeps_return [keep_rules]: "P x \<Longrightarrow> keeps I (returnE x) P"
  by (simp add: keeps_def returnE_def)

lemma keeps_fail [keep_rules]: "keeps I (failE e) P"
  by (simp add: keeps_def failE_def)

lemma keeps_modify [keep_rules]: "(\<And>s. I s \<Longrightarrow> I (f s)) \<Longrightarrow> P () \<Longrightarrow> keeps I (modifyE f) P"
  by (simp add: keeps_def modifyE_def)

lemma keeps_if [keep_rules]:
  "(b \<Longrightarrow> keeps I m P) \<Longrightarrow> (\<not> b \<Longrightarrow> keeps I m' P) \<Longrightarrow> keeps I (if b then m else m') P"
  by simp

lemma keeps_map_err [keep_rules]: "keeps I m P \<Longrightarrow> keeps I (map_err f m) P"
  by (rule keepsI) (auto simp: map_err_def split: prod.splits sum.splits dest: keepsD)

lemma keeps_case_prod [keep_rules]:
  "(\<And>a b. x = (a, b) \<Longrightarrow> keeps I (f a b) P) \<Longrightarrow> keeps I (case x of (a, b) \<Rightarrow> f a b) P"
  by (cases x) simp

lemma keeps_case_option [keep_rules]:
  "(x = None \<Longrightarrow> keeps I m P) \<Longrightarrow> (\<And>y. x = Some y \<Longrightarrow> keeps I (f y) P) \<Longrightarrow>
     keeps I (case x of None \<Rightarrow> m | Some y \<Rightarrow> f y) P"
  by (cases x) simp_all

lemma keeps_weaken: "keeps I m P \<Longrightarrow> (\<And>x. P x \<Longrightarrow> Q x) \<Longrightarrow> keeps I m Q"
  by (auto simp: keeps_def)

lemma keeps_trivial: "keeps I m P \<Longrightarrow> keeps I m (\<lambda>_. True)"
  by (auto simp: keeps_def)

lemma keeps_read: "(\<And>x. keeps I (m x) P) \<Longrightarrow> keeps I (\<lambda>s. m (g s) s) P"
  by (simp add: keeps_def)

section \<open>The operations of the state keep code well-formed\<close>

lemma codes_ok_db: "codes_ok DI st \<Longrightarrow> DI d \<Longrightarrow> codes_ok DI (st\<lparr>st_database := d\<rparr>)"
  by (simp add: codes_ok_def)

lemma keeps_on_db:
  assumes "keeps DI m P"
  shows "keeps (codes_ok DI) (on_db m) P"
proof (rule keepsI)
  fix st r st' assume st: "codes_ok DI st" and on: "on_db m st = (r, st')"
  obtain d where m: "m (st_database st) = (r, d)" and st': "st' = st\<lparr>st_database := d\<rparr>"
    using on by (auto simp: on_db_def split: prod.splits)
  have "DI (st_database st)"
    using st by (simp add: codes_ok_def)
  from keepsD [OF assms this m] show "codes_ok DI st' \<and> (\<forall>x. r = Inr x \<longrightarrow> P x)"
    using st by (simp add: st' codes_ok_db)
qed

lemma db_keeps:
  assumes "db_ok DI D"
  shows "keeps (codes_ok DI) (on_db (db_account D a)) info_ok"
    and "keeps (codes_ok DI) (on_db (db_code_by_hash D h)) code_ok"
    and "keeps (codes_ok DI) (on_db (db_storage D a k)) (\<lambda>_. True)"
    and "keeps (codes_ok DI) (on_db (db_block_hash D n)) (\<lambda>_. True)"
    and "keeps (codes_ok DI) (on_db (db_check_slot D a k)) (\<lambda>_. True)"
  using assms by (auto simp: db_ok_def intro: keeps_on_db)

lemma codes_ok_put: "codes_ok DI st \<Longrightarrow> info_ok (ac_present acc) \<Longrightarrow> codes_ok DI (put_account a acc st)"
  by (simp add: codes_ok_def put_account_def)

lemma codes_ok_push:
  "codes_ok DI st \<Longrightarrow> (\<And>a p f. e = AccountChange a p f \<Longrightarrow> info_ok p) \<Longrightarrow> codes_ok DI (push_journal e st)"
  unfolding codes_ok_def push_journal_def by simp metis

lemma codes_ok_account: "codes_ok DI st \<Longrightarrow> st_accounts st a = Some acc \<Longrightarrow> info_ok (ac_present acc)"
  by (simp add: codes_ok_def)

lemma keeps_account_raw:
  assumes "db_ok DI D"
  shows "keeps (codes_ok DI) (account_raw D a) (\<lambda>acc. info_ok (ac_present acc))"
proof (rule keepsI)
  fix st r st' assume *: "codes_ok DI st" "account_raw D a st = (r, st')"
  show "codes_ok DI st' \<and> (\<forall>acc. r = Inr acc \<longrightarrow> info_ok (ac_present acc))"
  proof (cases "st_accounts st a")
    case None
    obtain r1 st1 where on: "on_db (db_account D a) st = (r1, st1)" by fastforce
    from keepsD [OF db_keeps(1) [OF assms] *(1) this] show ?thesis
      using * None on by (cases r1) (auto simp: account_raw_def Let_def loaded_account_def intro!: codes_ok_put)
  next
    case (Some acc)
    then show ?thesis using * by (auto simp: account_raw_def intro: codes_ok_account)
  qed
qed

lemma account_raw_with_skip_False:
  "account_raw_with_skip D a False = map_err LoadDatabase (account_raw D a)"
  by (rule ext) (simp add: account_raw_no_skip map_err_def)

lemma account_raw_with_skip_cases:
  "account_raw_with_skip D a k st = (Inl ColdLoadSkipped, st) \<or>
   account_raw_with_skip D a k st = account_raw_with_skip D a False st"
  by (cases "st_accounts st a") (simp_all add: account_raw_with_skip_def Let_def)

lemma keeps_account_raw_with_skip:
  assumes "db_ok DI D"
  shows "keeps (codes_ok DI) (account_raw_with_skip D a k) (\<lambda>acc. info_ok (ac_present acc))"
proof (rule keepsI)
  fix st r st' assume *: "codes_ok DI st" "account_raw_with_skip D a k st = (r, st')"
  have keeps: "keeps (codes_ok DI) (account_raw_with_skip D a False) (\<lambda>acc. info_ok (ac_present acc))"
    unfolding account_raw_with_skip_False by (rule keeps_map_err [OF keeps_account_raw [OF assms]])
  show "codes_ok DI st' \<and> (\<forall>acc. r = Inr acc \<longrightarrow> info_ok (ac_present acc))"
    using account_raw_with_skip_cases [of D a k st]
  proof
    assume "account_raw_with_skip D a k st = (Inl ColdLoadSkipped, st)"
    then show ?thesis using * by simp
  next
    assume "account_raw_with_skip D a k st = account_raw_with_skip D a False st"
    then show ?thesis using keepsD [OF keeps *(1)] *(2) by metis
  qed
qed

text \<open>Handles.\<close>

definition handle_ok :: "handle \<Rightarrow> bool" where
  "handle_ok h \<longleftrightarrow> info_ok (ac_present (hd_tracked h)) \<and>
     (\<forall>a p f. hd_snapshot h = Some (AccountChange a p f) \<longrightarrow> info_ok p)"

lemma handle_ok_new: "info_ok (ac_present acc) \<Longrightarrow> handle_ok (handle_new a acc)"
  by (simp add: handle_ok_def handle_new_def)

lemma handle_ok_record [simp]: "handle_ok h \<Longrightarrow> handle_ok (record_change h)"
  by (auto simp: handle_ok_def record_change_def)

lemma handle_ok_flag [simp]: "handle_ok (insert_flag f h) = handle_ok h"
  by (simp add: handle_ok_def insert_flag_def)

lemma handle_ok_touch [simp]: "handle_ok h \<Longrightarrow> handle_ok (touch h)"
  by (simp add: touch_def)

lemma handle_ok_warm [simp]: "handle_ok h \<Longrightarrow> handle_ok (snd (h_warm p h))"
  by (simp add: h_warm_def)

lemma handle_ok_destructed [simp]: "handle_ok h \<Longrightarrow> handle_ok (mark_destructed h)"
  by (simp add: mark_destructed_def)

lemma handle_ok_present:
  assumes "handle_ok h" "\<And>i. info_ok (Some i) \<Longrightarrow> info_ok (Some (f i))"
  shows "handle_ok (update_present C f h)"
  using handle_ok_record [OF assms(1)] assms(2)
  by (auto simp: handle_ok_def update_present_def Let_def record_change_def split: option.splits)

lemma handle_ok_setters [simp]:
  assumes "handle_ok h"
  shows "handle_ok (set_balance C b h)" "handle_ok (set_nonce C n h)" "handle_ok (add_balance C b h)"
    "handle_ok (snd (bump_nonce C h))"
  using assms
  by (auto simp: set_balance_def set_nonce_def add_balance_def bump_nonce_def Let_def info_ok_def
      split: option.splits intro!: handle_ok_present)

lemma handle_ok_set_code [simp]: "handle_ok h \<Longrightarrow> code_ok code \<Longrightarrow> handle_ok (set_code_slow C code h)"
  by (auto simp: set_code_slow_def set_code_def info_ok_def intro!: handle_ok_present)

lemma handle_ok_created [simp]: "handle_ok h \<Longrightarrow> handle_ok (h_mark_created_discarding_storage h)"
  using handle_ok_record [of h]
  by (simp add: h_mark_created_discarding_storage_def Let_def handle_ok_def acct_mark_created_def
      acct_mark_created_discarding_storage_def)

lemma codes_ok_drop:
  assumes "codes_ok DI st" "handle_ok h"
  shows "codes_ok DI (handle_drop h st)"
  using assms
  by (auto simp: handle_drop_def handle_ok_def Let_def split: option.splits intro!: codes_ok_push codes_ok_put)

lemma keeps_session:
  assumes "keeps (codes_ok DI) m (\<lambda>acc :: acct. info_ok (ac_present acc))"
    and "\<And>h. handle_ok h \<Longrightarrow> handle_ok (snd (f h))"
  shows "keeps (codes_ok DI) (bindE m (\<lambda>acc st. case f (handle_new a acc) of (x, h) \<Rightarrow> (Inr x, handle_drop h st)))
    (\<lambda>_. True)"
proof (rule keeps_bind [OF assms(1)])
  fix acc :: acct assume "info_ok (ac_present acc)"
  then have "handle_ok (snd (f (handle_new a acc)))"
    by (intro assms(2) handle_ok_new)
  then show "keeps (codes_ok DI) (\<lambda>st. case f (handle_new a acc) of (x, h) \<Rightarrow> (Inr x, handle_drop h st)) (\<lambda>_. True)"
    by (auto simp: keeps_def codes_ok_drop split: prod.splits)
qed

lemma keeps_with_account:
  assumes "db_ok DI D" "\<And>h. handle_ok h \<Longrightarrow> handle_ok (snd (f h))"
  shows "keeps (codes_ok DI) (with_account D a f) (\<lambda>_. True)"
  unfolding with_account_def by (rule keeps_session [OF keeps_account_raw [OF assms(1)] assms(2)])

lemma keeps_with_account_skip:
  assumes "db_ok DI D" "\<And>h. handle_ok h \<Longrightarrow> handle_ok (snd (f h))"
  shows "keeps (codes_ok DI) (with_account_skip D a k f) (\<lambda>_. True)"
  unfolding with_account_skip_def by (rule keeps_session [OF keeps_account_raw_with_skip [OF assms(1)] assms(2)])


lemma keeps_transfer:
  assumes "db_ok DI D"
  shows "keeps (codes_ok DI) (transfer C D x y v) (\<lambda>_. True)"
  unfolding transfer_def
  by (intro keep_rules keeps_with_account [OF assms]) (auto split: option.splits)

lemma keeps_create_account:
  assumes "db_ok DI D"
  shows "keeps (codes_ok DI) (create_account C D caller a v fs) (\<lambda>_. True)"
  unfolding create_account_def
  by (intro keep_rules keeps_with_account [OF assms])
    (auto simp: Let_def info_ok_def split: option.splits
      intro!: handle_ok_touch handle_ok_created handle_ok_present)

lemma keeps_account_info_untracked:
  assumes "db_ok DI D"
  shows "keeps (codes_ok DI) (account_info_untracked D a) (\<lambda>_. True)"
proof (rule keepsI)
  fix st r st' assume *: "codes_ok DI st" "account_info_untracked D a st = (r, st')"
  show "codes_ok DI st' \<and> (\<forall>x. r = Inr x \<longrightarrow> True)"
    using * keepsD [OF db_keeps(1) [OF assms] *(1)]
    by (auto simp: account_info_untracked_def split: option.splits)
qed

lemma keeps_read_unloaded_slot:
  assumes "db_ok DI D"
  shows "keeps (codes_ok DI) (read_unloaded_slot D a key z) (\<lambda>_. True)"
proof (cases z)
  case True
  then show ?thesis
    unfolding read_unloaded_slot_def by (auto intro!: keep_rules db_keeps [OF assms])
next
  case False
  then show ?thesis
    unfolding read_unloaded_slot_def by (auto intro!: db_keeps [OF assms])
qed

lemma put_slot_present [simp]: "ac_present (put_slot key slot acc) = ac_present acc"
  by (simp add: put_slot_def)

lemma keeps_into_slot:
  assumes "db_ok DI D" "info_ok (ac_present acc)"
  shows "keeps (codes_ok DI) (into_slot_inner W D a acc key skip) (\<lambda>_. True)"
proof (rule keepsI)
  fix st r st' assume *: "codes_ok DI st" "into_slot_inner W D a acc key skip st = (r, st')"
  obtain r1 st1 where rd: "read_unloaded_slot D a key (so_wiped (ac_storage acc) \<or> discards_storage acc) st = (r1, st1)"
    by fastforce
  have "codes_ok DI st1"
    using keepsD [OF keeps_read_unloaded_slot [OF assms(1)] *(1) rd] by blast
  then have "codes_ok DI st'"
    using * rd assms(2)
    by (auto simp: into_slot_inner_def Let_def split: option.splits if_splits sum.splits
        intro!: codes_ok_push codes_ok_put)
  then show "codes_ok DI st' \<and> (\<forall>x. r = Inr x \<longrightarrow> True)" by simp
qed

lemma storage_slot_eq:
  "state_storage_slot W D a key skip =
     bindE (map_err LoadDatabase (account_raw D a)) (\<lambda>acc. into_slot_inner W D a acc key skip)"
  by (rule ext) (auto simp: state_storage_slot_def bindE_def map_err_def split: prod.splits sum.splits)

lemma keeps_storage_slot:
  assumes "db_ok DI D"
  shows "keeps (codes_ok DI) (state_storage_slot W D a key skip) (\<lambda>_. True)"
  unfolding storage_slot_eq
  by (rule keeps_bind [OF keeps_map_err [OF keeps_account_raw [OF assms]] keeps_into_slot [OF assms]])

lemma codes_ok_update_slot: "codes_ok DI st \<Longrightarrow> codes_ok DI (update_slot a key f st)"
  by (auto simp: update_slot_def split: option.splits intro!: codes_ok_put dest: codes_ok_account)

lemma codes_ok_slot_set: "codes_ok DI st \<Longrightarrow> codes_ok DI (slot_set a key slot v st)"
  by (auto simp: slot_set_def Let_def intro!: codes_ok_push codes_ok_update_slot)

lemma codes_ok_transient: "codes_ok DI (st\<lparr>st_transient := t\<rparr>) = codes_ok DI st"
  by (simp add: codes_ok_def)

lemma codes_ok_tstore: "codes_ok DI st \<Longrightarrow> codes_ok DI (tstore a key v st)"
  by (auto simp: tstore_def Let_def codes_ok_transient split: option.splits intro!: codes_ok_push)

lemma codes_ok_log: "codes_ok DI st \<Longrightarrow> codes_ok DI (state_log l st)"
  by (simp add: codes_ok_def state_log_def)

lemma codes_ok_undo:
  assumes "codes_ok DI st" "\<And>a p f. e = AccountChange a p f \<Longrightarrow> info_ok p"
  shows "codes_ok DI (undo_entry fs e st)"
  using assms
  by (cases e) (auto simp: set_storage_warm_def codes_ok_transient split: option.splits
      intro!: codes_ok_update_slot codes_ok_put)

lemma codes_ok_rollback_journal: "codes_ok DI st \<Longrightarrow> codes_ok DI (rollback_journal fs n st)"
proof (induction fs n st rule: rollback_journal.induct)
  case (1 fs n st)
  show ?case
  proof (cases "length (st_journal st) > n")
    case True
    then have "st_journal st \<noteq> []" by auto
    then have "codes_ok DI (st\<lparr>st_journal := butlast (st_journal st)\<rparr>)"
        "\<And>a p f. last (st_journal st) = AccountChange a p f \<Longrightarrow> info_ok p"
      using 1(2) unfolding codes_ok_def by (auto dest!: in_set_butlastD) (metis last_in_set)+
    then show ?thesis
      using True 1 by (simp add: rollback_journal.simps [of fs n st] codes_ok_undo)
  next
    case False
    then show ?thesis using 1 by (simp add: rollback_journal.simps [of fs n st])
  qed
qed

lemma codes_ok_rollback: "codes_ok DI st \<Longrightarrow> codes_ok DI (rollback cp fs st)"
  unfolding rollback_def by (rule codes_ok_rollback_journal) (simp add: codes_ok_def)

lemma code_ok_seed_hash [simp]: "code_ok (seed_hash c h) = code_ok c"
  by (cases c) (auto simp: seed_hash_def code_ok_def kind_def bytes_slice_def original_byte_slice_def inner_def)

lemma keeps_load_code:
  assumes "db_ok DI D" "handle_ok h"
  shows "keeps (codes_ok DI) (load_code C D h) code_ok"
  using assms(2) unfolding load_code_def code_of_info_def handle_ok_def
  by (intro keeps_bind [where P = code_ok] keeps_return keeps_case_option keeps_if)
     (auto simp: info_ok_def intro!: db_keeps [OF assms(1)])


section \<open>Host states\<close>

text \<open>A host state that the model has not given up on, with well-formed code and transient storage.\<close>

definition good :: "('d \<Rightarrow> bool) \<Rightarrow> 'd evm \<Rightarrow> bool" where
  "good DI h \<longleftrightarrow> codes_ok DI (ev_state h) \<and> transient_ok (ev_state h) \<and> \<not> ev_broken h"

text \<open>
  A sound computation leads from a good host state to a good one by journaled steps of its
  state; \<open>Q\<close> relates the host before, the result and the host after.
\<close>

definition sound ::
    "'d evm_config \<Rightarrow> ('d \<Rightarrow> bool) \<Rightarrow> ('d, 'e, 'a) evm_m \<Rightarrow> ('d evm \<Rightarrow> 'e + 'a \<Rightarrow> 'd evm \<Rightarrow> bool) \<Rightarrow> bool" where
  "sound cf DI m Q \<longleftrightarrow>
     (\<forall>h r h'. good DI h \<longrightarrow> m h = (r, h') \<longrightarrow>
        good DI h' \<and> reaches (evm_features_of cf) (ev_state h) (ev_state h') \<and> Q h r h')"

lemma soundI:
  "(\<And>h r h'. good DI h \<Longrightarrow> m h = (r, h') \<Longrightarrow>
      good DI h' \<and> reaches (evm_features_of cf) (ev_state h) (ev_state h') \<and> Q h r h') \<Longrightarrow> sound cf DI m Q"
  by (simp add: sound_def)

lemma soundD:
  "sound cf DI m Q \<Longrightarrow> good DI h \<Longrightarrow> m h = (r, h') \<Longrightarrow>
     good DI h' \<and> reaches (evm_features_of cf) (ev_state h) (ev_state h') \<and> Q h r h'"
  by (simp add: sound_def)

lemma reaches_good:
  assumes "good DI h" "reaches fs (ev_state h) st" "codes_ok DI st"
  shows "good DI (h\<lparr>ev_state := st\<rparr>)"
  using assms reaches_undoable [of fs "ev_state h" st] by (simp add: good_def)

lemma sound_on_state:
  assumes "journaled (evm_features_of cf) m" "keeps (codes_ok DI) m P"
  shows "sound cf DI (on_state m) (\<lambda>h r h'. (\<forall>x. r = Inr x \<longrightarrow> P x) \<and> (r, ev_state h') = m (ev_state h))"
proof (rule soundI)
  fix h r h' assume h: "good DI h" and m: "on_state m h = (r, h')"
  obtain st where st: "m (ev_state h) = (r, st)" "h' = h\<lparr>ev_state := st\<rparr>"
    using m by (auto simp: on_state_def split: prod.splits)
  have r: "reaches (evm_features_of cf) (ev_state h) st"
    using assms(1) st(1) by (metis journaledD snd_conv)
  have "codes_ok DI (ev_state h)" using h by (simp add: good_def)
  from keepsD [OF assms(2) this st(1)] show
    "good DI h' \<and> reaches (evm_features_of cf) (ev_state h) (ev_state h') \<and>
     (\<forall>x. r = Inr x \<longrightarrow> P x) \<and> (r, ev_state h') = m (ev_state h)"
    using r reaches_good [OF h r] st by simp
qed

lemma sound_bind:
  assumes "sound cf DI m (\<lambda>_ r _. \<forall>x. r = Inr x \<longrightarrow> P x)"
    and "\<And>x. P x \<Longrightarrow> sound cf DI (k x) (\<lambda>_ r _. \<forall>y. r = Inr y \<longrightarrow> Q y)"
  shows "sound cf DI (bindE m k) (\<lambda>_ r _. \<forall>y. r = Inr y \<longrightarrow> Q y)"
proof (rule soundI)
  fix h r h' assume h: "good DI h" and b: "bindE m k h = (r, h')"
  obtain r1 h1 where m: "m h = (r1, h1)" by fastforce
  note 1 = soundD [OF assms(1) h m]
  show "good DI h' \<and> reaches (evm_features_of cf) (ev_state h) (ev_state h') \<and> (\<forall>y. r = Inr y \<longrightarrow> Q y)"
  proof (cases r1)
    case (Inl e)
    then show ?thesis using 1 b m by (auto simp: bindE_def)
  next
    case (Inr x)
    then have "k x h1 = (r, h')" "P x" using b m 1 by (simp_all add: bindE_def)
    then show ?thesis using 1 soundD [OF assms(2)] by (blast intro: rtranclp_trans)
  qed
qed

lemma sound_return: "Q x \<Longrightarrow> sound cf DI (returnE x) (\<lambda>_ r _. \<forall>y. r = Inr y \<longrightarrow> Q y)"
  by (simp add: sound_def returnE_def)

lemma sound_if: "(b \<Longrightarrow> sound cf DI m Q) \<Longrightarrow> (\<not> b \<Longrightarrow> sound cf DI m' Q) \<Longrightarrow> sound cf DI (if b then m else m') Q"
  by simp

text \<open>The invariant a frame keeps that began in the state \<open>st0\<close>.\<close>

definition evm_inv :: "'d evm_config \<Rightarrow> ('d \<Rightarrow> bool) \<Rightarrow> 'd state \<Rightarrow> 'd evm \<Rightarrow> bool" where
  "evm_inv cf DI st0 h \<longleftrightarrow> good DI h \<and> reaches (evm_features_of cf) st0 (ev_state h)"

lemma sound_keeps:
  assumes "sound cf DI m Q" "\<And>h r h' x. Q h r h' \<Longrightarrow> r = Inr x \<Longrightarrow> P x"
  shows "keeps (evm_inv cf DI st0) m P"
proof (rule keepsI)
  fix h r h' assume h: "evm_inv cf DI st0 h" and m: "m h = (r, h')"
  then have "good DI h" by (simp add: evm_inv_def)
  from soundD [OF assms(1) this m] show "evm_inv cf DI st0 h' \<and> (\<forall>x. r = Inr x \<longrightarrow> P x)"
    using h assms(2) by (auto simp: evm_inv_def intro: rtranclp_trans)
qed

lemma evm_log_sound: "good DI h \<Longrightarrow>
    good DI (evm_log cf l h) \<and> reaches (evm_features_of cf) (ev_state h) (ev_state (evm_log cf l h))"
  using log_reaches [of "evm_features_of cf" "ev_state h" l]
  by (auto simp: evm_log_def intro!: reaches_good codes_ok_log) (simp add: good_def)

lemma log_eip7708_sound: "good DI h \<Longrightarrow>
    good DI (log_eip7708_transfer cf x y v h) \<and>
    reaches (evm_features_of cf) (ev_state h) (ev_state (log_eip7708_transfer cf x y v h))"
  by (simp add: log_eip7708_transfer_def evm_log_sound split: option.splits)

lemma sound_modify:
  "(\<And>h. good DI h \<Longrightarrow> good DI (f h) \<and> reaches (evm_features_of cf) (ev_state h) (ev_state (f h))) \<Longrightarrow> Q () \<Longrightarrow>
     sound cf DI (modifyE f) (\<lambda>_ r _. \<forall>y. r = Inr y \<longrightarrow> Q y)"
  by (simp add: sound_def modifyE_def)

end
