(* ===== verification/Exec_Safety.thy ===== *)
theory Exec_Safety
  imports Exec_Rules
begin

text \<open>
  Message execution terminates, keeps its gas contract and undoes what fails.  The host
  operations of the EVM meet the contract the interpreter asks of its host, at
  every nesting depth, so a message executes without a panic and without exceeding
  the bound on nested frames.
\<close>

section \<open>Host operations\<close>

lemma sound_state:
  assumes "journaled (evm_features_of cf) m" "keeps (codes_ok DI) m P"
  shows "sound cf DI (on_state m) (\<lambda>_ r _. \<forall>x. r = Inr x \<longrightarrow> P x)"
  using sound_on_state [OF assms] by (simp add: sound_def)

lemma journaled_map_err [journal_rules]: "journaled fs m \<Longrightarrow> journaled fs (map_err f m)"
  by (auto simp: journaled_def map_err_def split: prod.splits sum.splits) (metis snd_conv)+

lemma journaled_read: "(\<And>x. journaled fs (m x)) \<Longrightarrow> journaled fs (\<lambda>st. m (g st) st)"
  by (simp add: journaled_def)

lemma journaled_case_prod [journal_rules]:
  "(\<And>a b. x = (a, b) \<Longrightarrow> journaled fs (f a b)) \<Longrightarrow> journaled fs (case x of (a, b) \<Rightarrow> f a b)"
  by (cases x) simp

lemma journaled_case_option [journal_rules]:
  "(x = None \<Longrightarrow> journaled fs m) \<Longrightarrow> (\<And>y. x = Some y \<Longrightarrow> journaled fs (f y)) \<Longrightarrow>
     journaled fs (case x of None \<Rightarrow> m | Some y \<Rightarrow> f y)"
  by (cases x) simp_all

lemma journaled_fail [journal_rules]: "journaled fs (failE e)"
  by (simp add: journaled_def failE_def)

lemma load_code_restored:
  assumes "load_code C D h st = (r, st')"
  shows "restored fs st st'" "st_accounts st' = st_accounts st" "st_prewarm st' = st_prewarm st"
  using assms on_db_restored [of fs st] on_db_accounts [of _ st]
  by (fastforce simp: load_code_def code_of_info_def bindE_def returnE_def on_db_def restored_def
      split: option.splits if_splits prod.splits sum.splits)+

lemma load_account_handle_cases:
  obtains code st1 where
    "(if wc then load_code (cf_crypto cf) (cf_database cf) (snd (h_warm (st_prewarm st) (handle_new a acc))) st
      else (Inr bytecode_new, st)) = (code, st1)"
    and "snd (load_account_handle cf a wc acc st) = handle_drop (snd (h_warm (st_prewarm st) (handle_new a acc))) st1"
    and "\<And>x. fst (load_account_handle cf a wc acc st) = Inr x \<Longrightarrow> code = Inr (al_code x)"
proof -
  let ?m = "if wc then load_code (cf_crypto cf) (cf_database cf) (snd (h_warm (st_prewarm st) (handle_new a acc))) st
      else (Inr bytecode_new, st)"
  show ?thesis
    by (rule that [of "fst ?m" "snd ?m"])
      (auto simp: load_account_handle_def Let_def returnE_def split: prod.splits sum.splits option.splits if_splits)
qed

lemma load_account_handle_reaches:
  assumes "st_accounts st a = Some acc"
  shows "reaches fs st (snd (load_account_handle cf a wc acc st))"
proof -
  let ?h = "snd (h_warm (st_prewarm st) (handle_new a acc))"
  obtain code st1 where l: "(if wc then load_code (cf_crypto cf) (cf_database cf) ?h st else (Inr bytecode_new, st)) = (code, st1)"
    and s: "snd (load_account_handle cf a wc acc st) = handle_drop ?h st1"
    using load_account_handle_cases [where wc = wc and cf = cf and st = st and a = a and acc = acc] by metis
  have "restored fs st st1" "st_accounts st1 = st_accounts st"
    using l by (auto split: if_splits intro: load_code_restored)
  then have "reaches fs st st1" "reaches fs st1 (handle_drop ?h st1)"
    using assms by (auto intro: reaches_cache handle_drop_reaches)
  then show ?thesis by (simp add: s)
qed

lemma journaled_load_account: "journaled fs (evm_load_account cf a wc skip)"
  unfolding journaled_def
proof
  fix st
  obtain r st' where r: "account_raw_with_skip (cf_database cf) a skip st = (r, st')" by fastforce
  then have "reaches fs st st'"
    using account_raw_with_skip_restored [of fs st "cf_database cf" a skip] by (simp add: reaches_cache)
  then show "reaches fs st (snd (evm_load_account cf a wc skip st))"
    using r account_raw_with_skip_loaded [of "cf_database cf" a skip st]
    by (cases r) (auto simp: evm_load_account_def bindE_def map_err_def
        intro: rtranclp_trans load_account_handle_reaches)
qed

lemma keeps_load_account:
  assumes "db_ok DI (cf_database cf)"
  shows "keeps (codes_ok DI) (evm_load_account cf a wc skip) (\<lambda>x. code_ok (al_code x))"
  unfolding evm_load_account_def
proof (rule keeps_bind [OF keeps_map_err [OF keeps_account_raw_with_skip [OF assms]]], rule keepsI)
  fix acc :: acct and st r st'
  assume acc: "info_ok (ac_present acc)" and st: "codes_ok DI st" and eq: "load_account_handle cf a wc acc st = (r, st')"
  let ?h = "snd (h_warm (st_prewarm st) (handle_new a acc))"
  have h: "handle_ok ?h" using acc by (intro handle_ok_warm handle_ok_new)
  obtain code st1 where l: "(if wc then load_code (cf_crypto cf) (cf_database cf) ?h st else (Inr bytecode_new, st)) = (code, st1)"
    and s: "st' = handle_drop ?h st1" and c: "\<And>x. r = Inr x \<Longrightarrow> code = Inr (al_code x)"
    using load_account_handle_cases [where wc = wc and cf = cf and st = st and a = a and acc = acc] eq by (metis fst_conv snd_conv)
  have "codes_ok DI st1 \<and> (\<forall>x. code = Inr x \<longrightarrow> code_ok x)"
  proof (cases wc)
    case True
    then show ?thesis using l keepsD [OF keeps_load_code [OF assms h] st] by simp
  next
    case False
    then show ?thesis using l st by auto
  qed
  then show "codes_ok DI st' \<and> (\<forall>x. r = Inr x \<longrightarrow> code_ok (al_code x))"
    using c by (auto simp: s intro: codes_ok_drop h)
qed

lemma journaled_load_slot [journal_rules]: "journaled fs (evm_load_slot cf a key skip)"
  unfolding evm_load_slot_def Let_def by (intro journal_rules)

lemma keeps_load_slot:
  assumes "db_ok DI (cf_database cf)"
  shows "keeps (codes_ok DI) (evm_load_slot cf a key skip) (\<lambda>_. True)"
  unfolding evm_load_slot_def Let_def by (intro keep_rules keeps_storage_slot [OF assms]) simp

lemma evm_load_slot_slot:
  "evm_load_slot cf a key skip st = (Inr (slot, cold), st') \<Longrightarrow> slot_of st' a key = Some slot"
  by (auto simp: evm_load_slot_def Let_def bindE_def map_err_def returnE_def split: prod.splits sum.splits
      intro: storage_slot_slot)

lemma journaled_sstore: "journaled fs (evm_sstore cf a key v skip)"
  unfolding journaled_def
proof
  fix st
  obtain r st' where r: "evm_load_slot cf a key skip st = (r, st')" by fastforce
  then have "reaches fs st st'"
    using journaledD [OF journaled_load_slot, of fs st cf a key skip] by simp
  then show "reaches fs st (snd (evm_sstore cf a key v skip st))"
    using r by (auto simp: evm_sstore_def bindE_def slot_write_def split: sum.splits
        intro: rtranclp_trans slot_set_reaches evm_load_slot_slot)
qed

lemma keeps_sstore:
  assumes "db_ok DI (cf_database cf)"
  shows "keeps (codes_ok DI) (evm_sstore cf a key v skip) (\<lambda>_. True)"
  unfolding evm_sstore_def
  by (intro keep_rules keeps_load_slot [OF assms])
     (auto simp: keeps_def slot_write_def codes_ok_slot_set)

lemma journaled_sload: "journaled fs (evm_sload cf a key skip)"
  unfolding evm_sload_def by (intro journal_rules)

lemma keeps_sload:
  assumes "db_ok DI (cf_database cf)"
  shows "keeps (codes_ok DI) (evm_sload cf a key skip) (\<lambda>_. True)"
  unfolding evm_sload_def by (intro keep_rules keeps_load_slot [OF assms]) simp


abbreviation plain :: "'h \<Rightarrow> 'e + 'a \<Rightarrow> 'h \<Rightarrow> bool" where
  "plain \<equiv> \<lambda>_ r _. \<forall>x. r = Inr x \<longrightarrow> True"

lemma sound_then:
  "sound cf DI m plain \<Longrightarrow> (\<And>x. sound cf DI (k x) plain) \<Longrightarrow> sound cf DI (bindE m k) plain"
  by (rule sound_bind)

lemma sound_plain_return: "sound cf DI (returnE x) plain"
  by (rule sound_return) simp

lemma sound_case_prod: "(\<And>a b. sound cf DI (f a b) Q) \<Longrightarrow> sound cf DI (case x of (a, b) \<Rightarrow> f a b) Q"
  by (cases x) simp

lemma handle_step_warm_pair: "handle_step h (snd (let (cold, h') = h_warm p h in (f cold h', h')))"
  using handle_step_warm [of h p] by (simp add: case_prod_beta)

lemma handle_ok_warm_pair: "handle_ok h \<Longrightarrow> handle_ok (snd (let (cold, h') = h_warm p h in (f cold h', h')))"
  using handle_ok_warm [of h p] by (simp add: case_prod_beta)

lemma sound_warm_target:
  assumes "db_ok DI D"
  shows "sound cf DI (on_state (\<lambda>st. map_err e (with_account_skip D t skip (\<lambda>h.
      let (cold, h) = h_warm (st_prewarm st) h in (f cold h, h))) st)) plain"
proof (rule sound_state)
  show "journaled (evm_features_of cf) (\<lambda>st. map_err e (with_account_skip D t skip (\<lambda>h.
      let (cold, h) = h_warm (st_prewarm st) h in (f cold h, h))) st)"
    by (rule journaled_read [where g = st_prewarm]) (intro journal_rules handle_step_warm_pair)
  show "keeps (codes_ok DI) (\<lambda>st. map_err e (with_account_skip D t skip (\<lambda>h.
      let (cold, h) = h_warm (st_prewarm st) h in (f cold h, h))) st) (\<lambda>_. True)"
    by (rule keeps_read [where g = st_prewarm])
      (intro keep_rules keeps_with_account_skip [OF assms] handle_ok_warm_pair)
qed

lemma selfdestruct_sound:
  assumes "db_ok DI (cf_database cf)"
  shows "sound cf DI (evm_selfdestruct cf c t skip) plain"
  unfolding evm_selfdestruct_def Let_def [of "cf_database cf"] Let_def [of "cf_crypto cf"] Let_def [of "evm_features_of cf"]
  by (intro sound_then sound_case_prod sound_if sound_plain_return sound_warm_target [OF assms] sound_state sound_modify
        journal_rules keep_rules keeps_transfer [OF assms] keeps_with_account [OF assms])
     (auto simp: log_eip7708_sound)

lemma tstore_good: "good DI h \<Longrightarrow> good DI (h\<lparr>ev_state := tstore a k v (ev_state h)\<rparr>)"
  by (rule reaches_good [OF _ tstore_reaches codes_ok_tstore]) (simp_all add: good_def)

lemma evm_host_ok:
  assumes "db_ok DI (cf_database cf)"
  shows "host_ok (evm_inv cf DI st0) (evm_host cf exec)"
proof -
  have log: "evm_inv cf DI st0 (evm_log cf l h)" if "evm_inv cf DI st0 h" for l h
    using that evm_log_sound [of DI h cf l] by (auto simp: evm_inv_def intro: rtranclp_trans)
  have tstore: "evm_inv cf DI st0 (h\<lparr>ev_state := tstore a k v (ev_state h)\<rparr>)" if "evm_inv cf DI st0 h" for a k v h
    using that tstore_good [of DI h a k v] tstore_reaches [of "evm_features_of cf" "ev_state h" a k v]
    by (auto simp: evm_inv_def intro: rtranclp_trans)
  have state: "keeps (evm_inv cf DI st0) (on_state m) P"
    if "journaled (evm_features_of cf) m" "keeps (codes_ok DI) m P" for m :: "('a state, 'e, 'b) sres" and P
    using that by (auto intro: sound_keeps [OF sound_state])
  show ?thesis
    unfolding host_ok_def
    by (simp add: evm_host_def log tstore state journaled_load_account keeps_load_account [OF assms]
        journaled_on_db db_keeps [OF assms] journaled_sload keeps_sload [OF assms] journaled_sstore
        keeps_sstore [OF assms] sound_keeps [OF selfdestruct_sound [OF assms]])
qed


section \<open>Undoing a failed message\<close>

lemma rollback_good:
  assumes "good DI h" "good DI h'" "reaches (evm_features_of cf) (ev_state h) (ev_state h')"
  shows "good DI (evm_rollback cf (checkpoint (ev_state h)) h')"
    and "restored (evm_features_of cf) (ev_state h) (ev_state (evm_rollback cf (checkpoint (ev_state h)) h'))"
    and "reaches (evm_features_of cf) (ev_state h) (ev_state (evm_rollback cf (checkpoint (ev_state h)) h'))"
proof -
  have "transient_ok (ev_state h)" using assms(1) by (simp add: good_def)
  with assms(3) have r: "restored (evm_features_of cf) (ev_state h)
      (rollback (checkpoint (ev_state h)) (evm_features_of cf) (ev_state h'))"
    by (rule reaches_rollback)
  then show "restored (evm_features_of cf) (ev_state h) (ev_state (evm_rollback cf (checkpoint (ev_state h)) h'))"
    and "reaches (evm_features_of cf) (ev_state h) (ev_state (evm_rollback cf (checkpoint (ev_state h)) h'))"
    by (simp_all add: evm_rollback_def reaches_cache)
  show "good DI (evm_rollback cf (checkpoint (ev_state h)) h')"
    using r assms(1,2) by (simp add: good_def evm_rollback_def codes_ok_rollback restored_def transient_ok_def)
qed

text \<open>The contract of precompiles: journaled steps only, well-formed code, and no gas made up by spilling.\<close>

definition precompiles_ok :: "'d evm_config \<Rightarrow> ('d \<Rightarrow> bool) \<Rightarrow> bool" where
  "precompiles_ok cf DI \<longleftrightarrow>
     (\<forall>msg g st r g' st'. codes_ok DI st \<longrightarrow> transient_ok st \<longrightarrow>
        pc_execute (cf_precompiles cf) msg g st = ((r, g'), st') \<longrightarrow>
        reaches (evm_features_of cf) st st' \<and> codes_ok DI st' \<and>
        (remaining g' \<le> remaining g \<longrightarrow>
           unat (remaining g') + unat (state_gas_spilled g') \<le> unat (remaining g) + unat (state_gas_spilled g)))"

definition gas_within :: "message \<Rightarrow> instr_stop \<Rightarrow> gas_tracker \<Rightarrow> bool" where
  "gas_within msg stop g \<longleftrightarrow>
     is_halt stop \<or> unat (remaining g) + unat (state_gas_spilled g) \<le> unat (msg_gas_limit msg)"

text \<open>What a message execution promises before its gas is settled.\<close>

definition outcome ::
    "'d evm_config \<Rightarrow> message \<Rightarrow> 'd evm \<Rightarrow> execution_error + message_result \<Rightarrow> 'd evm \<Rightarrow> bool" where
  "outcome cf msg h r h' \<longleftrightarrow>
     (\<forall>x. r = Inr x \<longrightarrow> gas_within msg (mr_stop x) (mr_gas x) \<and>
        (\<not> is_success (mr_stop x) \<longrightarrow> restored (evm_features_of cf) (ev_state h) (ev_state h')))"

definition runner_ok :: "'d evm_config \<Rightarrow> ('d \<Rightarrow> bool) \<Rightarrow> 'd frame_runner \<Rightarrow> message \<Rightarrow> bool" where
  "runner_ok cf DI runner msg \<longleftrightarrow>
     (\<forall>cp. sound cf DI (runner msg cp)
        (\<lambda>_ r _. \<forall>stop g out. r = Inr (stop, g, out) \<longrightarrow> gas_within msg stop (tracker g)))"

lemma gas_within_fresh [simp]:
  "gas_within msg stop (new_with_execution_gas_and_reservoir (msg_gas_limit msg) res)"
  by (simp add: gas_within_def new_with_execution_gas_and_reservoir_def from_parts_def)

lemma error_result_outcome [simp]:
  "restored (evm_features_of cf) (ev_state h) (ev_state h') \<Longrightarrow>
     outcome cf msg h (Inr (error_message_result stop (msg_gas_limit msg) res)) h'"
  by (simp add: outcome_def error_message_result_def)

lemma outcome_Inl [simp]: "outcome cf msg h (Inl e) h'"
  by (simp add: outcome_def)

text \<open>A transfer that is refused has only loaded the account.\<close>

lemma with_account_same:
  assumes "with_account D a f st = (Inr x, st')"
    and "\<And>acc. fst (f (handle_new a acc)) = x \<Longrightarrow> snd (f (handle_new a acc)) = handle_new a acc"
  shows "restored fs st st'"
proof -
  obtain r st1 where r: "account_raw D a st = (r, st1)" by fastforce
  then obtain acc where acc: "r = Inr acc" "fst (f (handle_new a acc)) = x" "st' = handle_drop (snd (f (handle_new a acc))) st1"
    using assms(1) by (cases r) (auto simp: with_account_def bindE_def split: prod.splits)
  have "st_accounts st1 a = Some acc"
    using account_raw_loaded r acc by blast
  then have "st' = st1"
    using assms(2) [OF acc(2)] acc(3) by (simp add: handle_drop_def handle_new_def put_account_def fun_upd_idem)
  then show ?thesis
    using account_raw_restored [of fs st D a] r by simp
qed

lemma transfer_refused:
  assumes "transfer C D x y v st = (Inr False, st')"
  shows "restored fs st st'"
proof (cases "v = 0 \<or> x = y")
  case True
  have "v \<noteq> 0"
    using assms by (auto simp: transfer_def with_account_def bindE_def split: prod.splits sum.splits)
  then have "with_account D x (\<lambda>h. if h_balance h < v then (False, h) else (True, touch h)) st = (Inr False, st')"
    using assms True by (simp add: transfer_def)
  then show ?thesis by (rule with_account_same) (auto split: if_splits)
next
  case False
  let ?f = "\<lambda>h. case checked_sub (h_balance h) v of None \<Rightarrow> (False, h)
      | Some b \<Rightarrow> (True, touch (set_balance C b h))"
  obtain r st1 where r: "with_account D x ?f st = (r, st1)" by fastforce
  have "r = Inr False" "st1 = st'"
    using assms False r
    by (auto simp: transfer_def bindE_def returnE_def with_account_def split: prod.splits sum.splits if_splits)
  with r have "with_account D x ?f st = (Inr False, st')" by simp
  then show ?thesis by (rule with_account_same) (auto split: option.splits)
qed


section \<open>Call messages\<close>

text \<open>
  The parts of a message execution that follow a checkpoint: from a state \<open>h1\<close> reached from the
  checkpoint's \<open>h\<close> they lead to a good state, and back to the checkpoint's if they fail.
\<close>

definition concludes ::
    "'d evm_config \<Rightarrow> ('d \<Rightarrow> bool) \<Rightarrow> message \<Rightarrow> 'd evm \<Rightarrow> (execution_error + message_result) \<times> 'd evm \<Rightarrow> bool" where
  "concludes cf DI msg h p \<longleftrightarrow>
     (case p of (r, h') \<Rightarrow>
        good DI h' \<and> reaches (evm_features_of cf) (ev_state h) (ev_state h') \<and> outcome cf msg h r h')"

lemma concludes_keep:
  assumes "good DI h'" "reaches (evm_features_of cf) (ev_state h) (ev_state h')"
    and "gas_within msg (mr_stop x) (mr_gas x)" "is_success (mr_stop x)"
  shows "concludes cf DI msg h (Inr x, h')"
  using assms by (simp add: concludes_def outcome_def)

lemma concludes_error:
  assumes "good DI h'" "reaches (evm_features_of cf) (ev_state h) (ev_state h')"
  shows "concludes cf DI msg h (Inl e, h')"
  using assms by (simp add: concludes_def)

lemma concludes_rollback:
  assumes "good DI h" "good DI h'" "reaches (evm_features_of cf) (ev_state h) (ev_state h')"
    and "\<And>x. r = Inr x \<Longrightarrow> gas_within msg (mr_stop x) (mr_gas x)"
  shows "concludes cf DI msg h (r, evm_rollback cf (checkpoint (ev_state h)) h')"
  using rollback_good [OF assms(1-3)] assms(4) by (simp add: concludes_def outcome_def)

lemma concludes_same:
  assumes "good DI h'" "restored (evm_features_of cf) (ev_state h) (ev_state h')"
    and "gas_within msg (mr_stop x) (mr_gas x)"
  shows "concludes cf DI msg h (Inr x, h')"
  using assms by (simp add: concludes_def outcome_def reaches_cache)

lemma gas_within_error [simp]:
  "gas_within msg (mr_stop (error_message_result stop (msg_gas_limit msg) res))
     (mr_gas (error_message_result stop (msg_gas_limit msg) res))"
  by (simp add: error_message_result_def)

lemma gas_within_halt [simp]: "is_halt stop \<Longrightarrow> gas_within msg stop g"
  by (simp add: gas_within_def)

lemma stop_kinds [simp]:
  "is_success Stop" "is_success Return" "\<not> is_success Revert" "is_halt PrecompileOOG" "is_halt PrecompileError"
  "is_halt OutOfGas" "is_halt CreateContractSizeLimit" "is_halt CreateContractStartingWithEF"
  by (simp_all add: is_success_def is_halt_def is_frame_revert_def)

lemma precompile_concludes:
  assumes "precompiles_ok cf DI" "good DI h" "good DI h1" "reaches (evm_features_of cf) (ev_state h) (ev_state h1)"
  shows "concludes cf DI msg h (execute_call_precompile cf (checkpoint (ev_state h)) msg h1)"
proof -
  let ?g = "new_with_execution_gas_and_reservoir (msg_gas_limit msg) (msg_reservoir msg)"
  obtain r g st where ex: "pc_execute (cf_precompiles cf) msg ?g (ev_state h1) = ((r, g), st)"
    by (metis surj_pair)
  have g: "unat (remaining ?g) = unat (msg_gas_limit msg)" "state_gas_spilled ?g = 0"
    by (simp_all add: new_with_execution_gas_and_reservoir_def from_parts_def)
  have all: "reaches (evm_features_of cf) (ev_state h1) st \<and> codes_ok DI st \<and>
      (remaining g \<le> remaining ?g \<longrightarrow>
         unat (remaining g) + unat (state_gas_spilled g) \<le> unat (remaining ?g) + unat (state_gas_spilled ?g))"
    using assms(1,3) ex unfolding precompiles_ok_def good_def by blast
  then have st: "reaches (evm_features_of cf) (ev_state h1) st" "codes_ok DI st"
    by blast+
  have gas: "remaining g \<le> msg_gas_limit msg \<Longrightarrow> gas_within msg stop g" for stop
    using all by (simp add: gas_within_def g word_le_nat_alt)
  let ?h = "h1\<lparr>ev_state := st\<rparr>"
  have good: "good DI ?h" using reaches_good [OF assms(3) st] .
  have reach: "reaches (evm_features_of cf) (ev_state h) (ev_state ?h)"
    using assms(4) st(1) by (simp add: rtranclp_trans)
  have succ: "concludes cf DI msg h (Inr x, ?h)" if "gas_within msg (mr_stop x) (mr_gas x)" "is_success (mr_stop x)" for x
    by (rule concludes_keep [OF good reach that])
  have undo: "concludes cf DI msg h (r, evm_rollback cf (checkpoint (ev_state h)) ?h)"
    if "\<And>x. r = Inr x \<Longrightarrow> gas_within msg (mr_stop x) (mr_gas x)" for r
    by (rule concludes_rollback [OF assms(2) good reach that])
  have halted: "\<not> is_success PrecompileOOG" "\<not> is_success PrecompileError"
    by (simp_all add: is_success_def)
  show ?thesis
    by (auto simp: execute_call_precompile_def ex Let_def not_less halted
        split: sum.splits precompile_error.splits precompile_halt.splits intro!: undo succ gas)
qed

lemma sound_map_err: "sound cf DI m plain \<Longrightarrow> sound cf DI (map_err f m) plain"
  by (auto simp: sound_def map_err_def split: prod.splits sum.splits)

lemma call_transfer_good:
  assumes "db_ok DI (cf_database cf)" "good DI h" "call_transfer cf msg h = (r, h')"
  shows "good DI h'" "reaches (evm_features_of cf) (ev_state h) (ev_state h')"
    and "r = Inr False \<Longrightarrow> restored (evm_features_of cf) (ev_state h) (ev_state h')"
proof -
  have "sound cf DI (call_transfer cf msg) plain"
    unfolding call_transfer_def
    by (intro sound_if sound_then sound_plain_return sound_map_err sound_state sound_modify journal_rules
        keeps_transfer [OF assms(1)]) (simp_all add: log_eip7708_sound)
  from soundD [OF this assms(2,3)] show "good DI h'" "reaches (evm_features_of cf) (ev_state h) (ev_state h')"
    by auto
  show "restored (evm_features_of cf) (ev_state h) (ev_state h')" if "r = Inr False"
    using assms(3) that
    by (auto simp: call_transfer_def bindE_def map_err_def on_state_def returnE_def modifyE_def
        split: if_splits prod.splits sum.splits intro: transfer_refused)
qed

lemma runner_concludes:
  assumes "runner_ok cf DI runner msg" "good DI h" "good DI h1"
    and "reaches (evm_features_of cf) (ev_state h) (ev_state h1)"
    and "runner msg cp h1 = (r, h2)"
  shows "good DI h2" "reaches (evm_features_of cf) (ev_state h) (ev_state h2)"
    and "\<And>stop g out. r = Inr (stop, g, out) \<Longrightarrow> gas_within msg stop (tracker g)"
proof -
  have "sound cf DI (runner msg cp)
      (\<lambda>_ r _. \<forall>stop g out. r = Inr (stop, g, out) \<longrightarrow> gas_within msg stop (tracker g))"
    using assms(1) by (simp add: runner_ok_def)
  from soundD [OF this assms(3,5)] show "good DI h2" "reaches (evm_features_of cf) (ev_state h) (ev_state h2)"
    "\<And>stop g out. r = Inr (stop, g, out) \<Longrightarrow> gas_within msg stop (tracker g)"
    using assms(4) by (auto intro: rtranclp_trans)
qed

lemma call_body_concludes:
  assumes "precompiles_ok cf DI" "runner_ok cf DI runner msg" "good DI h" "good DI h1"
    and "reaches (evm_features_of cf) (ev_state h) (ev_state h1)"
  shows "concludes cf DI msg h (call_body cf runner (checkpoint (ev_state h)) msg h1)"
proof (cases "contains_precompile cf msg \<or> bytecode_is_empty (msg_code msg)")
  case True
  then show ?thesis
    using precompile_concludes [OF assms(1,3-5)] by (auto simp: call_body_def intro!: concludes_keep assms)
next
  case False
  obtain r h2 where r: "runner msg (checkpoint (ev_state h)) h1 = (r, h2)" by fastforce
  note h2 = runner_concludes [OF assms(2-5) r]
  show ?thesis
  proof (cases r)
    case (Inl e)
    then show ?thesis using False r h2 by (simp add: call_body_def concludes_error)
  next
    case (Inr x)
    then obtain stop g out where x: "r = Inr (stop, g, out)" by (cases x) auto
    show ?thesis
      using False r x h2 assms(3)
      by (auto simp: call_body_def finish_call_message_run_def intro!: concludes_keep concludes_rollback)
  qed
qed

lemma call_concludes:
  assumes "db_ok DI (cf_database cf)" "precompiles_ok cf DI"
    and "msg_depth msg \<le> max_call_depth (cf_version cf) \<Longrightarrow> runner_ok cf DI runner msg"
    and "good DI h"
  shows "concludes cf DI msg h (execute_call_message cf runner msg h)"
proof (cases "msg_depth msg > max_call_depth (cf_version cf)")
  case True
  then show ?thesis
    by (simp add: execute_call_message_def concludes_same assms(4))
next
  case False
  then have run: "runner_ok cf DI runner msg" using assms(3) by (simp add: not_less)
  obtain r h1 where t: "call_transfer cf msg h = (r, h1)" by fastforce
  note h1 = call_transfer_good [OF assms(1,4) t]
  show ?thesis
  proof (cases r)
    case (Inl e)
    then show ?thesis
      using False t h1 by (simp add: execute_call_message_def Let_def bindE_def concludes_error)
  next
    case (Inr funded)
    then show ?thesis
      using False t h1 call_body_concludes [OF assms(2) run assms(4) h1(1,2)]
      by (simp add: execute_call_message_def Let_def bindE_def returnE_def concludes_same)
  qed
qed


section \<open>Create messages\<close>

lemma gas_within_input [simp]: "gas_within (msg\<lparr>msg_input := i\<rparr>) stop g = gas_within msg stop g"
  by (simp add: gas_within_def)

lemma gas_within_halted: "halted_result msg e = Inr x \<Longrightarrow> gas_within msg (mr_stop x) (mr_gas x)"
  by (auto simp: halted_result_def split: host_error.splits)

lemma create_account_sound:
  assumes "db_ok DI (cf_database cf)"
  shows "sound cf DI (create_message_account cf msg) plain"
proof -
  have "sound cf DI (case r of Inl stop \<Rightarrow> failE (Halt stop)
     | Inr _ \<Rightarrow> modifyE (log_eip7708_transfer cf (msg_caller msg) (msg_destination msg) (msg_value msg))) plain"
    for r :: "instr_stop + unit"
    by (cases r) (auto simp: failE_def sound_def modifyE_def log_eip7708_sound)
  then show ?thesis
    unfolding create_message_account_def
    by (intro sound_then sound_state journal_rules keep_rules keeps_create_account [OF assms])
qed

text \<open>Charges: they keep a bound on the gas, and fail with a halt.\<close>

definition charging :: "(gas \<Rightarrow> bool) \<Rightarrow> (gas, instr_stop, 'a) sres \<Rightarrow> bool" where
  "charging P m \<longleftrightarrow>
     (\<forall>g r g'. P g \<longrightarrow> m g = (r, g') \<longrightarrow> (\<forall>e. r = Inl e \<longrightarrow> is_halt e) \<and> (\<forall>x. r = Inr x \<longrightarrow> P g'))"

lemma chargingD:
  "charging P m \<Longrightarrow> P g \<Longrightarrow> m g = (r, g') \<Longrightarrow> (\<forall>e. r = Inl e \<longrightarrow> is_halt e) \<and> (\<forall>x. r = Inr x \<longrightarrow> P g')"
  by (simp add: charging_def)

lemma charging_bind:
  assumes "charging P m" "\<And>x. charging P (k x)"
  shows "charging P (bindE m k)"
  unfolding charging_def
proof (intro allI impI)
  fix g r g' assume g: "P g" "bindE m k g = (r, g')"
  obtain r1 g1 where m: "m g = (r1, g1)" by fastforce
  note 1 = chargingD [OF assms(1) g(1) m]
  show "(\<forall>e. r = Inl e \<longrightarrow> is_halt e) \<and> (\<forall>x. r = Inr x \<longrightarrow> P g')"
  proof (cases r1)
    case (Inl e)
    then show ?thesis using 1 g m by (auto simp: bindE_def)
  next
    case (Inr x)
    then have "k x g1 = (r, g')" "P g1" using 1 g m by (simp_all add: bindE_def)
    then show ?thesis using chargingD [OF assms(2)] by blast
  qed
qed

lemma charging_return: "charging P (returnE x)"
  by (simp add: charging_def returnE_def)

lemma charging_fail: "is_halt e \<Longrightarrow> charging P (failE e)"
  by (simp add: charging_def failE_def)

lemma charging_if: "(b \<Longrightarrow> charging P m) \<Longrightarrow> (\<not> b \<Longrightarrow> charging P m') \<Longrightarrow> charging P (if b then m else m')"
  by simp

lemma charging_read: "charging P (\<lambda>g. (Inr (f g), g))"
  by (simp add: charging_def)

lemma charging_spend: "charging (\<lambda>g. gas_within msg stop (tracker g)) (gas_spend c)"
  by (auto simp: charging_def gas_spend_def on_tracker_def spend_def gas_within_def u_arith not_less
      Let_def split: if_splits)

lemma charging_spend_state: "charging (\<lambda>g. gas_within msg stop (tracker g)) (gas_spend_state c)"
  by (auto simp: charging_def gas_spend_state_def on_tracker_def gas_within_def split: prod.splits
      dest: spend_state_Inl spend_state_funds)

lemma validate_charging: "charging (\<lambda>g. gas_within msg stop (tracker g)) (validate_create_output cf out)"
  unfolding validate_create_output_def Let_def
  by (intro charging_bind charging_if charging_fail charging_return charging_read charging_spend charging_spend_state) simp_all

lemma finish_create_concludes:
  assumes "db_ok DI (cf_database cf)" "good DI h" "good DI h1"
    and "reaches (evm_features_of cf) (ev_state h) (ev_state h1)" "gas_within msg stop (tracker g)"
  shows "concludes cf DI msg h (finish_create_message_run cf (checkpoint (ev_state h)) a stop g out h1)"
proof (cases "is_success stop")
  case False
  then show ?thesis
    using assms by (auto simp: finish_create_message_run_def Let_def intro!: concludes_rollback)
next
  case True
  obtain rv g' where v: "validate_create_output cf out g = (rv, g')" by fastforce
  have gas: "gas_within msg stop (tracker g')" if "rv = Inr out'" for out'
    using chargingD [OF validate_charging assms(5) v] that by blast
  have halt: "is_halt e" if "rv = Inl e" for e
    using chargingD [OF validate_charging assms(5) v] that by blast
  show ?thesis
  proof (cases rv)
    case (Inl e)
    then show ?thesis
      using True v halt assms by (auto simp: finish_create_message_run_def Let_def intro!: concludes_rollback)
  next
    case (Inr out')
    let ?m = "with_account (cf_database cf) a (\<lambda>hdl. ((), set_code_slow (cf_crypto cf) (new_legacy out') hdl))"
    obtain r h2 where r: "on_state ?m h1 = (r, h2)" by fastforce
    have "sound cf DI (on_state ?m) plain"
      by (intro sound_state journal_rules keeps_with_account [OF assms(1)]) simp_all
    from soundD [OF this assms(3) r] have h2: "good DI h2" "reaches (evm_features_of cf) (ev_state h) (ev_state h2)"
      using assms(4) by (auto intro: rtranclp_trans)
    show ?thesis
      using True v Inr r h2 gas assms(2)
      by (cases r) (auto simp: finish_create_message_run_def Let_def intro!: concludes_rollback concludes_keep)
  qed
qed

lemma create_body_concludes:
  assumes "db_ok DI (cf_database cf)" "runner_ok cf DI runner (msg\<lparr>msg_input := []\<rparr>)" "good DI h"
  shows "concludes cf DI msg h (create_body cf runner msg h)"
proof -
  obtain r h1 where c: "create_message_account cf msg h = (r, h1)" by fastforce
  from soundD [OF create_account_sound [OF assms(1)] assms(3) c]
  have h1: "good DI h1" "reaches (evm_features_of cf) (ev_state h) (ev_state h1)" by auto
  obtain r2 h2 where r: "runner (msg\<lparr>msg_input := []\<rparr>) (checkpoint (ev_state h)) h1 = (r2, h2)" by fastforce
  note h2 = runner_concludes [OF assms(2,3) h1 r, simplified]
  have fresh: "gas_within msg stop (tracker (new_gas (msg_gas_limit msg) res))" for stop res
    by (simp add: new_gas_def)
  show ?thesis
  proof (cases r)
    case (Inl e)
    then show ?thesis
      using c h1 assms(3) by (auto simp: create_body_def Let_def intro!: concludes_rollback dest: gas_within_halted)
  next
    case ok: (Inr u)
    show ?thesis
    proof (cases "bytecode_is_empty (msg_code msg)")
      case True
      then show ?thesis
        using c ok finish_create_concludes [OF assms(1,3) h1 fresh] by (simp add: create_body_def Let_def)
    next
      case False
      then show ?thesis
        using c ok r h2 finish_create_concludes [OF assms(1,3) h2(1,2)]
        by (cases r2) (auto simp: create_body_def Let_def intro!: concludes_error split: prod.splits)
    qed
  qed
qed


lemma prepare_create_sound:
  assumes "db_ok DI (cf_database cf)"
  shows "sound cf DI (on_state (prepare_create_message cf msg)) plain"
proof -
  have warm: "journaled fs (\<lambda>st. map_err e (with_account D a (h_warm (st_prewarm st))) st)"
    "keeps (codes_ok DI) (\<lambda>st. map_err e (with_account (cf_database cf) a (h_warm (st_prewarm st))) st) (\<lambda>_. True)"
    for e :: "database_error \<Rightarrow> host_error" and a fs and D :: "'a database"
    by (rule journaled_read [where g = st_prewarm], intro journal_rules handle_step_warm)
       (rule keeps_read [where g = st_prewarm], intro keep_rules keeps_with_account [OF assms] handle_ok_warm)
  have info: "journaled fs (account_info_untracked D a)" for fs and D :: "'a database" and a
    using on_db_restored by (auto simp: journaled_def account_info_untracked_def split: option.splits intro: reaches_cache)
  show ?thesis
    unfolding prepare_create_message_def Let_def
    by (intro sound_state journal_rules keep_rules warm info keeps_account_info_untracked [OF assms]
        keeps_with_account [OF assms]) auto
qed

text \<open>What a create message promises: a failure goes back to the prepared state.\<close>

definition create_outcome ::
    "'d evm_config \<Rightarrow> message \<Rightarrow> 'd evm \<Rightarrow> execution_error + message_result \<Rightarrow> 'd evm \<Rightarrow> bool" where
  "create_outcome cf msg h r h' \<longleftrightarrow>
     (\<forall>x. r = Inr x \<longrightarrow> gas_within msg (mr_stop x) (mr_gas x) \<and>
        (\<not> is_success (mr_stop x) \<longrightarrow>
           (case on_state (prepare_create_message cf msg) h of (_, h1) \<Rightarrow>
              restored (evm_features_of cf) (ev_state h1) (ev_state h'))))"

lemma create_concludes:
  assumes "db_ok DI (cf_database cf)"
    and "msg_depth msg \<le> max_call_depth (cf_version cf) \<Longrightarrow> runner_ok cf DI runner (msg\<lparr>msg_input := []\<rparr>)"
  shows "sound cf DI (execute_create_message cf runner msg) (create_outcome cf msg)"
proof (rule soundI)
  fix h r h' assume h: "good DI h" and ex: "execute_create_message cf runner msg h = (r, h')"
  obtain rp h1 where p: "on_state (prepare_create_message cf msg) h = (rp, h1)" by fastforce
  from soundD [OF prepare_create_sound [OF assms(1)] h p]
  have h1: "good DI h1" "reaches (evm_features_of cf) (ev_state h) (ev_state h1)" by auto
  show "good DI h' \<and> reaches (evm_features_of cf) (ev_state h) (ev_state h') \<and> create_outcome cf msg h r h'"
  proof (cases rp)
    case (Inl e)
    then have "h' = h1" "r = halted_result msg e"
      using ex p by (simp_all add: execute_create_message_def)
    then show ?thesis
      using h1 p gas_within_halted [of msg e] by (simp add: create_outcome_def)
  next
    case (Inr u)
    have "msg_depth msg \<le> max_call_depth (cf_version cf)"
      using p Inr by (auto simp: on_state_def prepare_create_message_def Let_def bindE_def failE_def
          create_preaccess_failure_def not_less split: prod.splits sum.splits if_splits)
    then have "concludes cf DI msg h1 (create_body cf runner msg h1)"
      using create_body_concludes [OF assms(1,2) h1(1)] by simp
    moreover have "create_body cf runner msg h1 = (r, h')"
      using ex p Inr by (simp add: execute_create_message_def)
    ultimately show ?thesis
      using h1 p by (auto simp: concludes_def outcome_def create_outcome_def intro: rtranclp_trans)
  qed
qed

section \<open>Every message\<close>

text \<open>
  The result of a message is within its gas; an error leaves the state as it was; so does a call
  that fails; and a create that fails leaves the prepared state.
\<close>

definition message_outcome ::
    "'d evm_config \<Rightarrow> message \<Rightarrow> 'd evm \<Rightarrow> execution_error + message_result \<Rightarrow> 'd evm \<Rightarrow> bool" where
  "message_outcome cf msg h r h' \<longleftrightarrow>
     (case r of
        Inl _ \<Rightarrow> restored (evm_features_of cf) (ev_state h) (ev_state h')
      | Inr x \<Rightarrow> child_gas_ok msg x \<and>
          (\<not> is_success (mr_stop x) \<longrightarrow>
             restored (evm_features_of cf)
               (ev_state (if is_create (msg_kind msg) then snd (on_state (prepare_create_message cf msg) h) else h))
               (ev_state h')))"

lemma execute_message_sound:
  assumes "db_ok DI (cf_database cf)" "precompiles_ok cf DI"
    and "msg_depth msg \<le> max_call_depth (cf_version cf) \<Longrightarrow>
           runner_ok cf DI runner msg \<and> runner_ok cf DI runner (msg\<lparr>msg_input := []\<rparr>)"
  shows "sound cf DI (execute_message cf runner msg) (message_outcome cf msg)"
proof (rule soundI)
  fix h r h' assume h: "good DI h" and ex: "execute_message cf runner msg h = (r, h')"
  let ?m = "if is_create (msg_kind msg) then execute_create_message cf runner msg else execute_call_message cf runner msg"
  obtain r1 h1 where m: "?m h = (r1, h1)" by fastforce
  let ?prep = "ev_state (if is_create (msg_kind msg) then snd (on_state (prepare_create_message cf msg) h) else h)"
  have h1: "good DI h1" "reaches (evm_features_of cf) (ev_state h) (ev_state h1)"
    and gas: "r1 = Inr x \<Longrightarrow> gas_within msg (mr_stop x) (mr_gas x)"
    and rest: "r1 = Inr x \<Longrightarrow> \<not> is_success (mr_stop x) \<Longrightarrow> restored (evm_features_of cf) ?prep (ev_state h1)" for x
    using m call_concludes [OF assms(1,2) _ h, of msg runner] assms(3)
      soundD [OF create_concludes [OF assms(1)] h, of msg runner r1 h1]
    by (auto simp: concludes_def outcome_def create_outcome_def split: if_splits prod.splits)
  show "good DI h' \<and> reaches (evm_features_of cf) (ev_state h) (ev_state h') \<and> message_outcome cf msg h r h'"
  proof (cases r1)
    case (Inl e)
    then have "r = Inl e" "h' = evm_rollback cf (checkpoint (ev_state h)) h1"
      using ex m by (auto simp: execute_message_def execute_message_impl_def bindE_def Let_def split: if_splits)
    then show ?thesis
      using rollback_good [OF h h1] by (simp add: message_outcome_def)
  next
    case (Inr x)
    then have r: "r = Inr (x\<lparr>mr_gas := settle_gas (mr_stop x) (mr_gas x)\<rparr>)" "h' = h1"
      using ex m by (auto simp: execute_message_def execute_message_impl_def bindE_def returnE_def Let_def split: if_splits)
    have "child_gas_ok msg (x\<lparr>mr_gas := settle_gas (mr_stop x) (mr_gas x)\<rparr>)"
      using gas [OF Inr] by (intro settled_child_gas [of "mr_stop x" "mr_gas x"]) (simp_all add: gas_within_def)
    then show ?thesis
      using h1 rest [OF Inr] by (simp add: message_outcome_def r)
  qed
qed


lemma good_checkpoint [simp]: "good DI (h\<lparr>ev_frame_checkpoint := cp\<rparr>) = good DI h"
  by (simp add: good_def)

lemma run_frame_runner_ok:
  assumes "config_ok (evm_env cf H)" "\<And>st0. host_ok (evm_inv cf DI st0) H"
    and "\<And>st0. calls_ok (evm_inv cf DI st0) H (msg_depth msg)" "code_ok (msg_code msg)"
  shows "runner_ok cf DI (evm_run_frame cf H) msg"
  unfolding runner_ok_def
proof (intro allI soundI)
  fix cp h r h' assume h: "good DI h" and ex: "evm_run_frame cf H msg cp h = (r, h')"
  let ?h = "h\<lparr>ev_frame_checkpoint := Some cp\<rparr>" and ?I = "evm_inv cf DI (ev_state h)"
  have "env_ok ?I (evm_env cf H)" "?I ?h" "calls_ok ?I (e_host (evm_env cf H)) (msg_depth msg)"
    using assms h by (simp_all add: env_ok_def evm_env_def evm_inv_def)
  from run_frame_fine [OF this(1) assms(4) this(2,3)] obtain rr s
    where run: "run_frame (evm_env cf H) msg ?h = Some (rr, s)" and rr: "rr \<noteq> Inl Panic" and safe: "safe_stop ?I s"
      and gas: "\<And>stop. rr = Inr stop \<Longrightarrow> gas_within msg stop (tracker (fr_gas s))"
    by (auto simp: gas_within_def)
  obtain out where out: "frame_output s = Some out"
    using safe output_ok_slice by (auto simp: safe_stop_def)
  have inv: "?I (fr_host s)" using safe by (simp add: safe_stop_def)
  show "good DI h' \<and> reaches (evm_features_of cf) (ev_state h) (ev_state h') \<and>
      (\<forall>stop g out. r = Inr (stop, g, out) \<longrightarrow> gas_within msg stop (tracker g))"
    using ex run rr out inv gas
    by (auto simp: evm_run_frame_def run_interpreter_def evm_inv_def split: sum.splits fault.splits)
qed

lemma evm_execute_sound:
  assumes "db_ok DI (cf_database cf)" "precompiles_ok cf DI" "\<And>H. config_ok (evm_env cf H)"
    and "max_call_depth (cf_version cf) < 0xFFFF"
  shows "code_ok (msg_code msg) \<Longrightarrow> unat (max_call_depth (cf_version cf)) < unat (msg_depth msg) + n \<Longrightarrow>
    sound cf DI (evm_execute n cf msg) (message_outcome cf msg)"
proof (induction n arbitrary: msg)
  case 0
  then have "\<not> msg_depth msg \<le> max_call_depth (cf_version cf)"
    by (simp add: word_le_nat_alt)
  then show ?case
    using execute_message_sound [OF assms(1,2)] by simp
next
  case (Suc n)
  let ?H = "evm_host cf (evm_execute n cf)"
  have run: "runner_ok cf DI (evm_run_frame cf ?H) m"
    if m: "msg_depth m \<le> max_call_depth (cf_version cf)" "msg_depth m = msg_depth msg" "code_ok (msg_code m)" for m :: message
  proof (rule run_frame_runner_ok [OF assms(3) evm_host_ok [OF assms(1)] _ m(3)])
    fix st0
    show "calls_ok (evm_inv cf DI st0) ?H (msg_depth m)"
      unfolding calls_ok_def
    proof (intro allI impI, elim conjE)
      fix m' :: message assume m': "code_ok (msg_code m')" "msg_depth m' = saturating_add (msg_depth m) 1"
      have "unat (msg_depth m) < 65535"
        using m(1) assms(4) by (simp add: word_le_nat_alt word_less_nat_alt)
      then have "unat (msg_depth m') = unat (msg_depth m) + 1"
        by (simp add: m'(2) unat_saturating_add)
      then have "sound cf DI (evm_execute n cf m') (message_outcome cf m')"
        using Suc.IH [OF m'(1)] Suc.prems(2) m(2) by simp
      then have "keeps (evm_inv cf DI st0) (evm_execute n cf m') (child_gas_ok m')"
        by (rule sound_keeps) (auto simp: message_outcome_def)
      then show "keeps (evm_inv cf DI st0) (h_execute_message ?H m') (child_gas_ok m')"
        by (simp add: evm_host_def)
    qed
  qed
  show ?case
    using execute_message_sound [OF assms(1,2), of msg "evm_run_frame cf ?H"] run [of msg] run [of "msg\<lparr>msg_input := []\<rparr>"]
      Suc.prems(1) by simp
qed

end
