(* ===== verification/Exec_Properties.thy ===== *)
theory Exec_Properties
  imports Exec_Safety
begin

text \<open>
  What the execution of a message promises in a base configuration: an \<open>Evm\<close> is set up as
  \<open>Evm::new\<close> sets it up (\<open>src/crates/evm2/src/evm/mod.rs\<close>), its execution returns, messages that
  fail leave no trace beyond what they are meant to leave, and a creation that succeeds deploys
  the code it returned.
\<close>

section \<open>The EVM of a base specification\<close>

definition base_config ::
    "u64 \<Rightarrow> usize \<Rightarrow> spec_id \<Rightarrow> crypto \<Rightarrow> kernel list \<Rightarrow> 'd database \<Rightarrow> 'd precompiles \<Rightarrow> 'd evm_config" where
  "base_config osaka_cap dencun_blobs s C ks D P =
     \<lparr>cf_spec_id = s, cf_database = D, cf_version = base_version osaka_cap dencun_blobs s,
      cf_opcodes = base_opcode_config s, cf_crypto = C, cf_kernels = ks, cf_precompiles = P\<rparr>"

definition tx_env_default :: tx_env where
  "tx_env_default = \<lparr>tx_origin = 0, tx_gas_price = 0, tx_chain_id = 1, tx_blob_hashes = []\<rparr>"

definition evm_new :: "block_env \<Rightarrow> 'd \<Rightarrow> 'd evm" where
  "evm_new block d =
     \<lparr>ev_state = state_new d, ev_block = block, ev_tx = tx_env_default, ev_frame_checkpoint = None, ev_broken = False\<rparr>"

lemma base_config_simps [simp]:
  "cf_database (base_config osaka_cap dencun_blobs s C ks D P) = D"
  "cf_precompiles (base_config osaka_cap dencun_blobs s C ks D P) = P"
  "cf_crypto (base_config osaka_cap dencun_blobs s C ks D P) = C"
  "max_call_depth (cf_version (base_config osaka_cap dencun_blobs s C ks D P)) = 1024"
  "evm_env (base_config osaka_cap dencun_blobs s C ks D P) H = for_base_spec osaka_cap dencun_blobs s H C ks"
  by (simp_all add: base_config_def max_call_depth_def base_version_def CALL_DEPTH_LIMIT_def evm_env_def for_base_spec_def)

lemma good_evm_new [simp]: "good DI (evm_new block d) \<longleftrightarrow> DI d"
  by (simp add: good_def evm_new_def state_new_def codes_ok_def transient_ok_def)

text \<open>Frames nest at most 1025 deep: a message at a depth above 1024 runs no frame.\<close>

lemma base_execute_sound:
  assumes "db_ok DI D" "precompiles_ok (base_config osaka_cap dencun_blobs s C ks D P) DI"
    and "\<forall>k \<in> set ks. kernel_ok k" "code_ok (msg_code msg)"
  shows "sound (base_config osaka_cap dencun_blobs s C ks D P) DI
    (evm_execute 1025 (base_config osaka_cap dencun_blobs s C ks D P) msg)
    (message_outcome (base_config osaka_cap dencun_blobs s C ks D P) msg)"
  by (rule evm_execute_sound) (use assms base_config_ok in simp_all)

section \<open>A set of precompiles and an EVM to evaluate with\<close>

definition bare_precompiles :: "unit precompiles" where
  "bare_precompiles = \<lparr>pc_contains = (\<lambda>a. a = 4), pc_warm_addresses = prewarm_warm 4,
     pc_execute = (\<lambda>msg g st. ((Inr (msg_input msg), g), st))\<rparr>"

definition bare_config :: "unit evm_config" where
  "bare_config = base_config 0 6 PRAGUE bare_crypto [] bare_db bare_precompiles"

definition bare_evm :: "unit evm" where
  "bare_evm = evm_new
     \<lparr>be_number = 0, be_beneficiary = 0, be_timestamp = 0, be_gas_limit = 0, be_basefee = 0, be_difficulty = 0,
      be_prevrandao = 0, be_blob_basefee = 0, be_slot_num = 0\<rparr> ()"

lemma bare_db_ok: "db_ok (\<lambda>_. True) bare_db"
  by (simp add: db_ok_def keeps_def bare_db_def info_ok_def)

lemma bare_precompiles_ok: "precompiles_ok (base_config osaka_cap dencun_blobs s C ks D bare_precompiles) DI"
  by (simp add: precompiles_ok_def bare_precompiles_def)

lemma bare_evm_good [simp]: "good (\<lambda>_. True) bare_evm"
  by (simp add: bare_evm_def)

lemma underfunded_call:
  "\<exists>x. fst (execute_message bare_config runner ((call_of [0x00] 1000)\<lparr>msg_value := 5\<rparr>) bare_evm) = Inr x \<and>
     mr_stop x = OutOfFunds"
  by (simp add: execute_message_def execute_message_impl_def call_of_def execute_call_message_def error_message_result_def
      bare_config_def Let_def bindE_def call_transfer_def transfers_balance_def on_state_def map_err_def transfer_def with_account_def
      account_raw_def account_raw_with_skip_def bare_evm_def evm_new_def state_new_def on_db_def bare_db_def
      loaded_account_def handle_new_def h_balance_def checked_sub_def handle_drop_def put_account_def returnE_def
      is_create_def)

definition create_of :: "bytes \<Rightarrow> u64 \<Rightarrow> message" where
  "create_of code gas = (call_of code gas)\<lparr>msg_kind := Kind_Create\<rparr>"

definition returning_runner :: "unit frame_runner" where
  "returning_runner msg cp h = (Inr (Return, new_gas (msg_gas_limit msg) 0, [0x60, 0x01]), h)"

lemma bare_account: "\<exists>acc st'. account_raw bare_db a st = (Inr acc, st')"
  by (simp add: account_raw_def Let_def on_db_def bare_db_def split: option.splits)

lemma bare_with_account: "\<exists>x st'. with_account bare_db a f st = (Inr x, st')"
  using bare_account [of a st] by (auto simp: with_account_def bindE_def split: prod.splits)

lemma prague_values:
  "gp_get (base_gas_params PRAGUE) CodeDepositCost = 200"
  "\<not> features_contains (base_features PRAGUE) EIP8037"
  "base_max_code_size PRAGUE = 0x6000"
  by code_simp+

lemma bare_config_values:
  "gp_get (gas_params (cf_version bare_config)) CodeDepositCost = 200" "\<not> evm_feature bare_config EIP8037"
  "max_code_size (cf_version bare_config) = 0x6000"
  by (simp_all add: bare_config_def base_config_def base_version_def evm_feature_def feature_def prague_values)

lemma sample_validate: "fst (validate_create_output bare_config [0x60, 0x01] (new_gas 1000 0)) = Inr [0x60, 0x01]"
  by (simp add: validate_create_output_def Let_def bindE_def bare_config_values new_gas_def gas_spend_def on_tracker_def spend_def
      new_with_execution_gas_and_reservoir_def from_parts_def saturating_mul_def returnE_def)

lemma bare_warm:
  assumes "st_accounts st a = None"
  shows "\<exists>x st' acc. with_account bare_db a (h_warm p) st = (Inr x, st') \<and> st_accounts st' a = Some acc \<and> ac_present acc = None"
  using assms
  by (auto simp: with_account_def bindE_def account_raw_def on_db_def bare_db_def loaded_account_def handle_new_def
      handle_drop_def put_account_def push_journal_def h_warm_def record_change_def insert_flag_def Let_def
      ex_bool_eq)

lemma bare_create_account:
  assumes "st_accounts st a = Some acc" "ac_present acc = None"
  shows "\<exists>st'. create_account C bare_db caller a 0 fs st = (Inr (Inr ()), st')"
  using assms
  by (simp add: create_account_def with_account_def bindE_def account_raw_def handle_new_def handle_drop_def put_account_def
      returnE_def Let_def)

lemma sample_create:
  "\<exists>r h'. execute_message bare_config returning_runner (create_of [0x00] 1000) bare_evm = (Inr r, h') \<and>
     mr_stop r = Return \<and> mr_output r = [0x60, 0x01]"
proof -
  let ?m = "create_of [0x00] 1000" and ?D = "cf_database bare_config"
  have m: "is_create (msg_kind ?m)" "msg_depth ?m = 0" "msg_value ?m = 0" "\<not> bytecode_is_empty (msg_code ?m)"
    "msg_gas_limit ?m = 1000"
    by (simp_all add: create_of_def call_of_def is_create_def bytecode_is_empty_def new_legacy_def bytecode_len_def)
  obtain h1 acc where h1: "on_state (prepare_create_message bare_config ?m) bare_evm = (Inr (), h1)"
    and acc: "st_accounts (ev_state h1) (msg_destination ?m) = Some acc" "ac_present acc = None"
    using bare_warm [of "ev_state bare_evm" "msg_destination ?m" "st_prewarm (ev_state bare_evm)"] m
    by (auto simp: on_state_def prepare_create_message_def create_preaccess_failure_def Let_def bindE_def returnE_def
        map_err_def bare_config_def max_call_depth_def bare_evm_def evm_new_def state_new_def)
  obtain h2 where h2: "create_message_account bare_config ?m h1 = (Inr (), h2)"
    using bare_create_account [OF acc, of bare_crypto "msg_caller ?m" "evm_features_of bare_config"] m
    by (auto simp: on_state_def create_message_account_def bindE_def map_err_def bare_config_def modifyE_def split: prod.splits)
  let ?f = "\<lambda>hdl. ((), set_code_slow (cf_crypto bare_config) (new_legacy [0x60, 0x01]) hdl)"
  obtain u st where st: "with_account ?D (msg_destination ?m) ?f (ev_state h2) = (Inr u, st)"
    using bare_with_account [of "msg_destination ?m" ?f "ev_state h2"] by (auto simp: bare_config_def)
  obtain g where "validate_create_output bare_config [0x60, 0x01] (new_gas 1000 0) = (Inr [0x60, 0x01], g)"
    using sample_validate by (metis prod.collapse)
  with h1 h2 st m show ?thesis
    by (simp add: execute_message_def execute_message_impl_def execute_create_message_def create_body_def Let_def bindE_def
        returning_runner_def finish_create_message_run_def on_state_def returnE_def is_success_def)
qed

section \<open>Properties\<close>

text \<open>
  C1:  Executing a message in a base configuration always concludes.  From an EVM whose state is
  well formed, with a database and precompiles that keep their contracts and with well-formed
  code, at whatever depth, no frame of the nested execution panics, loops or nests beyond the
  depth limit (the mark of the model's bound stays clear); the state is well formed again, and
  the gas the result holds is within the gas limit of the message.
\<close>

theorem message_execution_returns:
  assumes "db_ok DI D" "precompiles_ok (base_config osaka_cap dencun_blobs s C ks D P) DI"
    and "\<forall>k \<in> set ks. kernel_ok k" "code_ok (msg_code msg)" "good DI h"
  shows "\<exists>r h'. evm_execute 1025 (base_config osaka_cap dencun_blobs s C ks D P) msg h = (r, h') \<and>
    \<not> ev_broken h' \<and> good DI h' \<and> (\<forall>x. r = Inr x \<longrightarrow> child_gas_ok msg x)"
proof -
  let ?cf = "base_config osaka_cap dencun_blobs s C ks D P"
  obtain r h' where ex: "evm_execute 1025 ?cf msg h = (r, h')" by fastforce
  from soundD [OF base_execute_sound [OF assms(1-4)] assms(5) ex] show ?thesis
    using ex by (auto simp: message_outcome_def good_def)
qed

theorem message_execution_returns_witness:
  "\<exists>r h'. evm_execute 1025 (base_config 0 6 PRAGUE bare_crypto [] bare_db bare_precompiles)
      (call_of [0x30, 0x31, 0x5B, 0x60, 2, 0x56] 1000) bare_evm = (r, h') \<and> \<not> ev_broken h'"
proof -
  have "code_ok (msg_code (call_of [0x30, 0x31, 0x5B, 0x60, 2, 0x56] 1000))" by (simp add: call_of_def)
  from message_execution_returns [OF bare_db_ok bare_precompiles_ok _ this bare_evm_good,
      where ks = "[]" and osaka_cap = 0 and dencun_blobs = 6 and s = PRAGUE and C = bare_crypto]
  show ?thesis by (simp only: list.set ball_empty simp_thms) blast
qed

text \<open>
  C3:  A message that does not succeed leaves no trace.  When its execution in a base
  configuration ends with an error, or when a call halts or reverts, the state is the one before
  the message; when a creation fails, it is the one after the preparation of the creation, which
  warms the address and bumps the nonce of the creator.  Equality of states here is up to the
  read cache, and to the touched mark of address 3 that the code keeps on purpose.
\<close>

theorem failed_message_restores_state:
  assumes "db_ok DI D" "precompiles_ok cf DI" "cf = base_config osaka_cap dencun_blobs s C ks D P"
    and "\<forall>k \<in> set ks. kernel_ok k" "code_ok (msg_code msg)" "good DI h"
    and "evm_execute 1025 cf msg h = (r, h')"
    and "case r of Inl _ \<Rightarrow> True | Inr x \<Rightarrow> \<not> is_success (mr_stop x)"
  shows "restored (evm_features_of cf)
    (ev_state (if is_create (msg_kind msg) \<and> r \<in> range Inr then snd (on_state (prepare_create_message cf msg) h) else h))
    (ev_state h')"
  using soundD [OF base_execute_sound [OF assms(1) assms(2) [unfolded assms(3)] assms(4,5)] assms(6) assms(7) [unfolded assms(3)]] assms(8)
  unfolding assms(3) by (cases r) (auto simp: message_outcome_def)

theorem failed_message_restores_state_witness:
  "\<exists>x h'. evm_execute 1025 bare_config ((call_of [0x00] 1000)\<lparr>msg_value := 5\<rparr>) bare_evm = (Inr x, h') \<and>
     mr_stop x = OutOfFunds \<and> restored (evm_features_of bare_config) (ev_state bare_evm) (ev_state h')"
proof -
  let ?m = "(call_of [0x00] 1000)\<lparr>msg_value := 5\<rparr>"
  obtain r h' where ex: "evm_execute 1025 bare_config ?m bare_evm = (r, h')" by fastforce
  moreover have "(1025 :: nat) = Suc 1024" by simp
  ultimately obtain x where r: "r = Inr x" "mr_stop x = OutOfFunds"
    using underfunded_call [of "evm_run_frame bare_config (evm_host bare_config (evm_execute 1024 bare_config))"]
    by (auto simp only: evm_execute.simps fst_conv)
  have "code_ok (msg_code ?m)" "\<not> is_create (msg_kind ?m)"
    by (simp_all add: call_of_def is_create_def)
  with failed_message_restores_state [OF bare_db_ok bare_precompiles_ok refl _ this(1) bare_evm_good ex [unfolded bare_config_def]] r ex
  show ?thesis by (simp add: bare_config_def is_success_def)
qed

definition deployed :: "'d evm_config \<Rightarrow> bytes \<Rightarrow> address \<Rightarrow> 'd state \<Rightarrow> bool" where
  "deployed cf output a st \<longleftrightarrow>
     (case st_accounts st a of
        None \<Rightarrow> False
      | Some acc \<Rightarrow>
          (case ac_present acc of
             None \<Rightarrow> False
           | Some i \<Rightarrow> ai_code i = Some (new_legacy output) \<and>
               ai_code_hash i = hash_slow (keccak256 (cf_crypto cf)) (new_legacy output)))"

definition create_report :: "'d evm_config \<Rightarrow> address \<Rightarrow> message_result \<Rightarrow> 'd evm \<Rightarrow> bool" where
  "create_report cf a r h \<longleftrightarrow>
     (if is_success (mr_stop r)
      then mr_created_address r = Some a \<and> deployed cf (mr_output r) a (ev_state h) \<and>
        (evm_feature cf CODE_SIZE_CHECK \<longrightarrow> length (mr_output r) \<le> unat (max_code_size (cf_version cf))) \<and>
        (evm_feature cf EIP3541 \<longrightarrow> mr_output r \<noteq> [] \<longrightarrow> hd (mr_output r) \<noteq> 0xef)
      else mr_created_address r = None)"

lemma gas_spend_stop: "gas_spend c g = (Inl stop, g') \<Longrightarrow> stop = OutOfGas"
  by (auto simp: gas_spend_def on_tracker_def spend_def Let_def split: if_splits)

lemma gas_spend_state_stop: "gas_spend_state c g = (Inl stop, g') \<Longrightarrow> stop = OutOfGas"
  by (auto simp: gas_spend_state_def on_tracker_def spend_state_def spend_def Let_def bindE_def modifyE_def
      split: if_splits prod.splits)

lemma validate_create_output_stop:
  assumes "validate_create_output cf output g = (Inl stop, g')"
  shows "\<not> is_success stop"
  using assms
  by (auto simp: validate_create_output_def is_success_def Let_def bindE_def failE_def returnE_def
      dest!: gas_spend_stop gas_spend_state_stop split: if_splits prod.splits sum.splits)

lemma validate_create_output_ok:
  assumes "validate_create_output cf output g = (Inr code, g')"
  shows "evm_feature cf CODE_SIZE_CHECK \<Longrightarrow> length code \<le> unat (max_code_size (cf_version cf))"
    and "evm_feature cf EIP3541 \<Longrightarrow> code \<noteq> [] \<Longrightarrow> hd code \<noteq> 0xef"
  using assms
  by (auto simp: validate_create_output_def Let_def bindE_def failE_def returnE_def
      split: if_splits prod.splits sum.splits)

lemma deployed_set_code:
  assumes "with_account D a (\<lambda>hdl. ((), set_code_slow (cf_crypto cf) (new_legacy output) hdl)) st = (Inr u, st')"
  shows "deployed cf output a st'"
  using assms
  by (auto simp: with_account_def bindE_def deployed_def handle_drop_def handle_new_def put_account_def push_journal_def
      set_code_slow_def set_code_def update_present_def record_change_def touch_def insert_flag_def Let_def
      split: prod.splits sum.splits option.splits if_splits)

lemma finish_create_deploys:
  assumes "finish_create_message_run cf cp a stop g output h = (Inr r, h')"
  shows "create_report cf a r h'"
proof (cases "is_success stop")
  case True
  obtain v g' where v: "validate_create_output cf output g = (v, g')" by fastforce
  show ?thesis
  proof (cases v)
    case (Inl stop')
    then show ?thesis
      using assms True v validate_create_output_stop [of cf "output" g stop' g']
      by (auto simp: finish_create_message_run_def Let_def create_report_def)
  next
    case (Inr code)
    then show ?thesis
      using assms True v validate_create_output_ok [of cf "output" g code g']
      by (auto simp: finish_create_message_run_def Let_def create_report_def on_state_def
          dest!: deployed_set_code split: prod.splits sum.splits)
  qed
next
  case False
  then show ?thesis
    using assms by (auto simp: finish_create_message_run_def Let_def create_report_def)
qed

lemma halted_result_report:
  assumes "halted_result msg e = Inr r" "\<And>stop. e = Halt stop \<Longrightarrow> \<not> is_success stop"
  shows "create_report cf a r h"
  using assms by (cases e) (auto simp: halted_result_def error_message_result_def create_report_def)

lemma prepare_create_stop:
  assumes "prepare_create_message cf msg st = (Inl (Halt stop), st')"
  shows "\<not> is_success stop"
  using assms
  by (auto simp: prepare_create_message_def is_success_def create_preaccess_failure_def Let_def bindE_def failE_def returnE_def map_err_def
      split: if_splits prod.splits sum.splits option.splits)

lemma create_message_account_stop:
  assumes "create_message_account cf msg h = (Inl (Halt stop), h')"
  shows "\<not> is_success stop"
  using assms
  by (auto simp: create_message_account_def is_success_def create_account_def Let_def bindE_def failE_def returnE_def map_err_def modifyE_def
      on_state_def with_account_def split: if_splits prod.splits sum.splits option.splits)

lemma create_body_deploys:
  assumes "create_body cf runner msg h = (Inr r, h')"
  shows "create_report cf (msg_destination msg) r h'"
  using assms
  by (auto simp: create_body_def Let_def dest: finish_create_deploys halted_result_report create_message_account_stop
      split: if_splits prod.splits sum.splits)

lemma create_message_deploys:
  assumes "execute_create_message cf runner msg h = (Inr r, h')"
  shows "create_report cf (msg_destination msg) r h'"
  using assms prepare_create_stop [of cf msg "ev_state h"]
  by (auto simp: execute_create_message_def on_state_def dest: create_body_deploys halted_result_report
      split: prod.splits sum.splits)

text \<open>
  C9:  A creation deploys what it returned.  Whatever runs its frame, a create message that
  succeeds reports the address it was meant for, and the account there holds exactly the output,
  as legacy code with its hash; the output is within the code size limit and does not start with
  0xEF, where the fork says so.  A create message that fails reports no address.
\<close>

theorem create_deploys_output:
  assumes "is_create (msg_kind msg)" "execute_message cf runner msg h = (Inr r, h')"
  shows "if is_success (mr_stop r)
    then mr_created_address r = Some (msg_destination msg) \<and>
      deployed cf (mr_output r) (msg_destination msg) (ev_state h') \<and>
      (evm_feature cf CODE_SIZE_CHECK \<longrightarrow> length (mr_output r) \<le> unat (max_code_size (cf_version cf))) \<and>
      (evm_feature cf EIP3541 \<longrightarrow> mr_output r \<noteq> [] \<longrightarrow> hd (mr_output r) \<noteq> 0xef)
    else mr_created_address r = None"
proof -
  obtain r' where "execute_create_message cf runner msg h = (Inr r', h')"
    "r = r'\<lparr>mr_gas := settle_gas (mr_stop r') (mr_gas r')\<rparr>"
    using assms by (auto simp: execute_message_def execute_message_impl_def Let_def bindE_def returnE_def
        split: prod.splits sum.splits)
  then show ?thesis
    using create_message_deploys [of cf runner msg h r' h'] by (simp add: create_report_def)
qed

theorem create_deploys_output_witness:
  "\<exists>r h'. execute_message bare_config returning_runner (create_of [0x00] 1000) bare_evm = (Inr r, h') \<and>
     mr_created_address r = Some 1 \<and> mr_output r = [0x60, 0x01] \<and> deployed bare_config [0x60, 0x01] 1 (ev_state h')"
proof -
  obtain r h' where ex: "execute_message bare_config returning_runner (create_of [0x00] 1000) bare_evm = (Inr r, h')"
    and r: "mr_stop r = Return" "mr_output r = [0x60, 0x01]"
    using sample_create by auto
  from create_deploys_output [OF _ ex] show ?thesis
    using ex r by (simp add: create_of_def is_create_def call_of_def is_success_def)
qed

end
