(* ===== verification/Eth_Tx.thy ===== *)
theory Eth_Tx
  imports Evm_Exec
begin

text \<open>
  Ethereum transactions (\<open>src/crates/evm2/src/ethereum\<close>): validation, the preparation of the
  sender and the warm set, the first frame, and the settlement of gas, for the five transaction
  types, with the entry points of \<open>src/crates/evm2/src/evm/mod.rs\<close> that dispatch to them.

  The handler hooks are the default ones.  Signature recovery happens before: a transaction comes
  with its signer, an authorization with its authority.
\<close>

unbundle bit_operations_syntax

section \<open>Errors and results\<close>

datatype (plugins only: code) handler_error =
    HandlerDatabase database_error
  | HandlerFatal string
  | HandlerExternal string
  | UnsupportedTransactionType u8
  | WrongTransactionType u8
  | InvalidNonce u64 u64
  | InvalidChainId u64 u64
  | MissingChainId
  | IntrinsicGasTooLow u64 u64
  | GasLimitBelowFloor u64 u64
  | InsufficientFunds evm_word evm_word
  | RejectCallerWithCode
  | TxNonceOverflow
  | GasLimitMoreThanBlock u64 evm_word
  | TxGasLimitGreaterThanCap u64 u64
  | IntrinsicGasGreaterThanCap u64 u64
  | TxCreateInitCodeSizeLimit usize usize
  | FeeCapLessThanBaseFee evm_word evm_word
  | EmptyAuthorizationList
  | BlobFeeCapLessThanBlobBaseFee evm_word evm_word
  | EmptyBlobs
  | TooManyBlobs usize usize
  | BlobVersionNotSupported
  | PriorityFeeGreaterThanMaxFee

definition handler_error_of_execution :: "execution_error \<Rightarrow> handler_error" where
  "handler_error_of_execution e =
     (case e of ExecDatabase d \<Rightarrow> HandlerDatabase d | ExecFatal f \<Rightarrow> HandlerFatal f)"

record tx_result =
  txr_status :: bool
  txr_total_gas_spent :: u64
  txr_state_gas_spent :: u64
  txr_refunded :: u64
  txr_floor_gas :: u64
  txr_stop :: instr_stop
  txr_output :: bytes
  txr_created_address :: "address option"
  txr_logs :: "log list"

definition tx_gas_used :: "tx_result \<Rightarrow> u64" where
  "tx_gas_used r =
     (let spent_sub_refunded = saturating_sub (txr_total_gas_spent r) (txr_refunded r) in
      if spent_sub_refunded > txr_floor_gas r then spent_sub_refunded else txr_floor_gas r)"

definition execution_gas_spent :: "tx_result \<Rightarrow> u64" where
  "execution_gas_spent r =
     (let execution = saturating_sub (txr_total_gas_spent r) (txr_state_gas_spent r) in
      if execution > txr_floor_gas r then execution else txr_floor_gas r)"

definition final_refunded :: "tx_result \<Rightarrow> u64" where
  "final_refunded r =
     (if saturating_sub (txr_total_gas_spent r) (txr_refunded r) < txr_floor_gas r then 0 else txr_refunded r)"

section \<open>Transactions\<close>

datatype tx_kind = TxCall address | TxCreate

type_synonym u128 = "128 word"

type_synonym access_list = "(address \<times> bytes list) list"

text \<open>The fields every type has, then those of each type.\<close>

record tx_body =
  tb_nonce :: u64
  tb_gas_limit :: u64
  tb_value :: evm_word
  tb_input :: bytes

record tx_legacy = tx_body +
  lg_chain_id :: "u64 option"
  lg_gas_price :: u128
  lg_to :: tx_kind

record tx_eip2930 = tx_body +
  ax_chain_id :: u64
  ax_gas_price :: u128
  ax_to :: tx_kind
  ax_access_list :: access_list

record tx_eip1559 = tx_body +
  df_chain_id :: u64
  df_max_fee_per_gas :: u128
  df_max_priority_fee_per_gas :: u128
  df_to :: tx_kind
  df_access_list :: access_list

record tx_eip4844 = tx_body +
  bl_chain_id :: u64
  bl_max_fee_per_gas :: u128
  bl_max_priority_fee_per_gas :: u128
  bl_to :: address
  bl_access_list :: access_list
  bl_max_fee_per_blob_gas :: u128
  bl_blob_versioned_hashes :: "bytes list"

record authorization =
  au_chain_id :: evm_word
  au_nonce :: u64
  au_address :: address
  au_authority :: "address option"

record tx_eip7702 = tx_body +
  sc_chain_id :: u64
  sc_max_fee_per_gas :: u128
  sc_max_priority_fee_per_gas :: u128
  sc_to :: address
  sc_access_list :: access_list
  sc_authorizations :: "authorization list"

datatype tx_envelope =
    Legacy_Tx tx_legacy
  | Eip2930_Tx tx_eip2930
  | Eip1559_Tx tx_eip1559
  | Eip4844_Tx tx_eip4844
  | Eip7702_Tx tx_eip7702

text \<open>Two constants of the blob specification, defined outside the sources.\<close>

record blob_consts =
  DATA_GAS_PER_BLOB :: u64
  VERSIONED_HASH_VERSION_KZG :: u8

section \<open>Stateless validation\<close>

type_synonym 'a checked = "handler_error + 'a"

definition validate_gas_price :: "version \<Rightarrow> evm_word \<Rightarrow> evm_word \<Rightarrow> unit checked" where
  "validate_gas_price ver gas_price basefee =
     (if feature ver BASE_FEE_CHECK \<and> gas_price < basefee then Inl (FeeCapLessThanBaseFee gas_price basefee)
      else Inr ())"

definition validate_priority_fee :: "version \<Rightarrow> evm_word \<Rightarrow> evm_word \<Rightarrow> unit checked" where
  "validate_priority_fee ver max_fee_per_gas max_priority_fee_per_gas =
     (if feature ver PRIORITY_FEE_CHECK \<and> max_priority_fee_per_gas > max_fee_per_gas
      then Inl PriorityFeeGreaterThanMaxFee else Inr ())"

definition effective_gas_price :: "evm_word \<Rightarrow> evm_word \<Rightarrow> evm_word \<Rightarrow> evm_word" where
  "effective_gas_price max_fee_per_gas max_priority_fee_per_gas basefee =
     min max_fee_per_gas (saturating_add basefee max_priority_fee_per_gas)"

definition validate_block_gas_limit :: "version \<Rightarrow> u64 \<Rightarrow> evm_word \<Rightarrow> unit checked" where
  "validate_block_gas_limit ver tx_gas_limit block_gas_limit =
     (if feature ver BLOCK_GAS_LIMIT_CHECK \<and> (ucast tx_gas_limit :: evm_word) > block_gas_limit
      then Inl (GasLimitMoreThanBlock tx_gas_limit block_gas_limit) else Inr ())"

definition validate_tx_gas_limit_cap :: "version \<Rightarrow> u64 \<Rightarrow> unit checked" where
  "validate_tx_gas_limit_cap ver tx_gas_limit =
     (let (cap, _) = tx_gas_caps ver in
      if tx_gas_limit > cap then Inl (TxGasLimitGreaterThanCap tx_gas_limit cap) else Inr ())"

definition validate_execution_gas_limit_cap :: "version \<Rightarrow> u64 \<Rightarrow> u64 \<Rightarrow> u64 \<Rightarrow> unit checked" where
  "validate_execution_gas_limit_cap ver tx_gas_limit intrinsic floor_gas =
     (let (_, cap) = tx_gas_caps ver in
      if tx_gas_limit > cap then
        let required_execution_gas = (if intrinsic > floor_gas then intrinsic else floor_gas) in
        if required_execution_gas > cap then Inl (IntrinsicGasGreaterThanCap required_execution_gas cap)
        else Inr ()
      else Inr ())"

definition validate_chain_id :: "version \<Rightarrow> u64 option \<Rightarrow> bool \<Rightarrow> unit checked" where
  "validate_chain_id ver cid allow_missing =
     (if \<not> feature ver TX_CHAIN_ID_CHECK then Inr ()
      else
        case cid of
          None \<Rightarrow> if allow_missing then Inr () else Inl MissingChainId
        | Some c \<Rightarrow> if c \<noteq> chain_id ver then Inl (InvalidChainId (chain_id ver) c) else Inr ())"

definition validate_create_initcode :: "version \<Rightarrow> tx_kind \<Rightarrow> bytes \<Rightarrow> unit checked" where
  "validate_create_initcode ver to input =
     (if feature ver EIP3860 \<and> to = TxCreate \<and> length input > unat (max_initcode_size ver)
      then Inl (TxCreateInitCodeSizeLimit (max_initcode_size ver) (of_nat (length input)))
      else Inr ())"

definition validate_nonce_not_overflow :: "u64 \<Rightarrow> unit checked" where
  "validate_nonce_not_overflow nonce = (if nonce = - 1 then Inl TxNonceOverflow else Inr ())"

definition validate_intrinsic_gas :: "u64 \<Rightarrow> u64 \<Rightarrow> u64 \<Rightarrow> unit checked" where
  "validate_intrinsic_gas limit intrinsic initial_state_gas =
     (let required = saturating_add intrinsic initial_state_gas in
      if limit < required then Inl (IntrinsicGasTooLow required limit) else Inr ())"

definition validate_floor_gas :: "u64 \<Rightarrow> u64 \<Rightarrow> unit checked" where
  "validate_floor_gas limit floor_gas =
     (if limit < floor_gas then Inl (GasLimitBelowFloor floor_gas limit) else Inr ())"

definition validate_blob_fee :: "evm_word \<Rightarrow> evm_word \<Rightarrow> unit checked" where
  "validate_blob_fee max_fee_per_blob_gas blob_basefee =
     (if max_fee_per_blob_gas < blob_basefee
      then Inl (BlobFeeCapLessThanBlobBaseFee max_fee_per_blob_gas blob_basefee) else Inr ())"

definition validate_blobs :: "u8 \<Rightarrow> bytes list \<Rightarrow> usize \<Rightarrow> unit checked" where
  "validate_blobs kzg blobs max_blobs =
     (if blobs = [] then Inl EmptyBlobs
      else if length blobs > unat max_blobs then Inl (TooManyBlobs (of_nat (length blobs)) max_blobs)
      else if list_ex (\<lambda>blob. blob ! 0 \<noteq> kzg) blobs then Inl BlobVersionNotSupported
      else Inr ())"

section \<open>Intrinsic gas\<close>

definition access_list_counts :: "access_list \<Rightarrow> u64 \<times> u64" where
  "access_list_counts al =
     (of_nat (length al), of_nat (sum_list (map (\<lambda>(_, keys). length keys) al)))"

definition eip2780_base_to_value_gas :: "version \<Rightarrow> bool \<Rightarrow> bool \<Rightarrow> evm_word \<Rightarrow> u64" where
  "eip2780_base_to_value_gas ver create is_self_transfer v =
     (let params = gas_params ver; gas = gp_get params TxBaseStipend in
      if create then gas + gp_get params TxCreateAccessCost
      else if \<not> is_self_transfer then
        let gas = gas + (gp_get params WarmStorageReadCost + cold_account_additional_cost params) in
        if v \<noteq> 0 then gas + gp_get params TxValueCost else gas
      else gas)"

definition intrinsic_and_floor_gas ::
    "version \<Rightarrow> address \<Rightarrow> tx_kind \<Rightarrow> bytes \<Rightarrow> u64 \<Rightarrow> u64 \<Rightarrow> evm_word \<Rightarrow> u64 \<times> u64" where
  "intrinsic_and_floor_gas ver caller to input access_list_accounts access_list_storage_keys v =
     (let params = gas_params ver;
          (tokens, floor_tokens) = tx_calldata_tokens params input;
          gas = tokens * gp_get params TxTokenCost;
          gas = gas + access_list_accounts * gp_get params TxAccessListAddressCost;
          gas = gas + access_list_storage_keys * gp_get params TxAccessListStorageKeyCost;
          create = (to = TxCreate);
          eip2780_base =
            (if feature ver EIP2780
             then Some (eip2780_base_to_value_gas ver create (to = TxCall caller) v) else None);
          gas =
            (case eip2780_base of
               Some base \<Rightarrow> gas + base
             | None \<Rightarrow>
                 let gas = gas + gp_get params TxBaseStipend in
                 if create \<and> feature ver EIP2 then gas + gp_get params TxCreateCost else gas);
          gas =
            (if create \<and> feature ver EIP3860
             then gas + gp_get params TxInitcodeCost * num_words (of_nat (length input)) else gas)
      in if \<not> feature ver EIP7623 \<or> gp_get params TxFloorCostPerToken = 0 then (gas, 0)
         else
           (gas, tx_floor_cost_with_base params
              (case eip2780_base of Some base \<Rightarrow> base | None \<Rightarrow> gp_get params TxFloorCostBase)
              floor_tokens access_list_accounts access_list_storage_keys))"

definition eip7702_authorization_gas :: "version \<Rightarrow> usize \<Rightarrow> u64" where
  "eip7702_authorization_gas ver authorizations =
     saturating_mul authorizations (gp_get (gas_params ver) TxEip7702PerEmptyAccountCost)"

definition initial_gas_and_reservoir :: "version \<Rightarrow> u64 \<Rightarrow> u64 \<Rightarrow> u64 \<Rightarrow> u64 \<times> u64" where
  "initial_gas_and_reservoir ver tx_gas_limit intrinsic initial_state_gas =
     (if \<not> feature ver EIP8037 then (tx_gas_limit - intrinsic, 0)
      else
        let cap = tx_gas_limit_cap ver;
            execution_gas = tx_gas_limit - intrinsic;
            execution_gas_limit = saturating_sub (min tx_gas_limit cap) intrinsic;
            reservoir = execution_gas - execution_gas_limit
        in if reservoir \<ge> initial_state_gas then (execution_gas_limit, reservoir - initial_state_gas)
           else (execution_gas_limit - (initial_state_gas - reservoir), 0))"

section \<open>The sender and the warm set\<close>

definition checkE :: "'e + 'a \<Rightarrow> ('s, 'e, 'a) sres" where
  "checkE r s = (r, s)"

definition host_db :: "('d, 'a) dbres \<Rightarrow> ('d, handler_error, 'a) evm_m" where
  "host_db m = map_err HandlerDatabase (on_state m)"

definition h_is_empty_code_hash :: "crypto \<Rightarrow> handle \<Rightarrow> bool" where
  "h_is_empty_code_hash C h =
     (case ac_present (hd_tracked h) of None \<Rightarrow> True | Some i \<Rightarrow> is_empty_code_hash C i)"

text \<open>The code of the sender, which must not be a contract.\<close>

definition validate_sender_code :: "'d evm_config \<Rightarrow> handle \<Rightarrow> ('d, handler_error, unit) evm_m" where
  "validate_sender_code cf sender =
     (if evm_feature cf EIP3607 \<and> \<not> h_is_empty_code_hash (cf_crypto cf) sender
      then bindE (host_db (load_code (cf_crypto cf) (cf_database cf) sender)) (\<lambda>code.
             if \<not> bytecode_is_empty code \<and> \<not> is_eip7702 code then failE RejectCallerWithCode
             else returnE ())
      else returnE ())"

definition validate_sender_and_bump_nonce ::
    "'d evm_config \<Rightarrow> address \<Rightarrow> u64 \<Rightarrow> evm_word \<Rightarrow> ('d, handler_error, u64) evm_m" where
  "validate_sender_and_bump_nonce cf caller nonce max_upfront =
     (let C = cf_crypto cf; D = cf_database cf; has_balance_check = evm_feature cf BALANCE_CHECK in
      bindE (host_db (account_raw D caller)) (\<lambda>acc.
      let sender = handle_new caller acc in
      bindE (validate_sender_code cf sender) (\<lambda>_.
      if evm_feature cf NONCE_CHECK \<and> h_nonce sender \<noteq> nonce then failE (InvalidNonce (h_nonce sender) nonce)
      else if has_balance_check \<and> h_balance sender < max_upfront
      then failE (InsufficientFunds max_upfront (h_balance sender))
      else
        host_db (\<lambda>st. with_account D caller (\<lambda>sender.
          let sender =
                (if \<not> has_balance_check \<and> evm_feature cf BALANCE_TOP_UP \<and> h_balance sender < max_upfront
                 then add_balance C (max_upfront - h_balance sender) sender else sender);
              sender = snd (h_warm (st_prewarm st) sender);
              sender_nonce = h_nonce sender
          in (sender_nonce, snd (bump_nonce C sender))) st))))"

definition warm_base_accounts :: "'d evm_config \<Rightarrow> tx_kind \<Rightarrow> 'd evm \<Rightarrow> 'd evm" where
  "warm_base_accounts cf to h =
     (let st = ev_state h;
          st = (if evm_feature cf EIP3651 then prewarm (be_beneficiary (ev_block h)) st else st);
          st = (case to of TxCall a \<Rightarrow> prewarm a st | TxCreate \<Rightarrow> st);
          st = st\<lparr>st_prewarm := pc_warm_addresses (cf_precompiles cf) (st_prewarm st)\<rparr>
      in h\<lparr>ev_state := st\<rparr>)"

definition warm_access_list :: "access_list \<Rightarrow> 'd evm \<Rightarrow> 'd evm" where
  "warm_access_list al h =
     h\<lparr>ev_state := fold (\<lambda>(a, keys). prewarm_storage a (map b256_to_word keys)) al (ev_state h)\<rparr>"

definition charge_upfront :: "'d evm_config \<Rightarrow> address \<Rightarrow> evm_word \<Rightarrow> ('d, handler_error, unit) evm_m" where
  "charge_upfront cf caller max_gas_cost =
     (if \<not> evm_feature cf FEE_CHARGE then returnE ()
      else host_db (with_account (cf_database cf) caller (\<lambda>account.
             ((), set_balance (cf_crypto cf) (saturating_sub (h_balance account) max_gas_cost) account))))"

section \<open>The first frame\<close>

record initial_frame =
  if_message :: message
  if_charged_state_gas :: u64
  if_runtime_oog :: bool

definition halted_initial_frame ::
    "'d evm_config \<Rightarrow> address \<Rightarrow> u64 \<Rightarrow> tx_kind \<Rightarrow> bytes \<Rightarrow> evm_word \<Rightarrow> gas_tracker \<Rightarrow> initial_frame" where
  "halted_initial_frame cf caller nonce to input v budget =
     (let (kind, destination) =
            (case to of TxCall a \<Rightarrow> (Kind_Call, a)
             | TxCreate \<Rightarrow> (Kind_Create, create_address (cf_crypto cf) caller nonce))
      in \<lparr>if_message =
            \<lparr>msg_kind = kind, msg_depth = initial_call_depth (cf_version cf), msg_gas_limit = remaining budget,
             msg_reservoir = reservoir budget, msg_destination = destination, msg_call_target = destination,
             msg_caller = caller, msg_input = input, msg_value = v, msg_code = bytecode_new,
             msg_code_address = destination, msg_caller_is_static = False, msg_salt = 0\<rparr>,
          if_charged_state_gas = 0, if_runtime_oog = True\<rparr>)"

text \<open>
  The code a delegated recipient runs and the gas left; \<open>None\<close> is a charge that cannot be paid.
  The tracker of a halted frame is not read again, so the model returns the budget for it.
\<close>

definition delegation_target ::
    "'d evm_config \<Rightarrow> address \<Rightarrow> gas_tracker \<Rightarrow> ('d, handler_error, (bytecode \<times> gas_tracker) option) evm_m" where
  "delegation_target cf delegated tx_gas =
     (if evm_feature cf EIP2780 then
        let cold_additional = cold_account_additional_cost (gas_params (cf_version cf)) in
        case spend (ucast gas_WARM_STORAGE_READ_COST) tx_gas of
          (Inl _, _) \<Rightarrow> returnE None
        | (Inr _, tx_gas) \<Rightarrow>
            (\<lambda>h. case on_state (evm_load_account cf delegated True (remaining tx_gas < cold_additional)) h of
               (Inl (Halt _), h) \<Rightarrow> (Inr None, h)
             | (Inl (Execution e), h) \<Rightarrow> (Inl (handler_error_of_execution e), h)
             | (Inr load, h) \<Rightarrow>
                 if al_is_cold load then
                   (case spend cold_additional tx_gas of
                      (Inl _, _) \<Rightarrow> (Inr None, h)
                    | (Inr _, tx_gas) \<Rightarrow> (Inr (Some (al_code load, tx_gas)), h))
                 else (Inr (Some (al_code load, tx_gas)), h))
      else
        bindE (host_db (account_raw (cf_database cf) delegated)) (\<lambda>acc.
        bindE (host_db (\<lambda>st. with_account (cf_database cf) delegated (h_warm (st_prewarm st)) st)) (\<lambda>_.
        bindE (host_db (load_code (cf_crypto cf) (cf_database cf) (handle_new delegated acc))) (\<lambda>code.
        returnE (Some (code, tx_gas))))))"

definition prepare_call_frame ::
    "'d evm_config \<Rightarrow> address \<Rightarrow> u64 \<Rightarrow> address \<Rightarrow> bytes \<Rightarrow> evm_word \<Rightarrow> gas_tracker
      \<Rightarrow> ('d, handler_error, initial_frame \<times> gas_tracker) evm_m" where
  "prepare_call_frame cf caller nonce to input v budget =
     (let C = cf_crypto cf; D = cf_database cf;
          halted = returnE (halted_initial_frame cf caller nonce (TxCall to) input v budget, budget);
          frame = (\<lambda>code code_address charged tx_gas.
            (\<lparr>if_message =
               \<lparr>msg_kind = Kind_Call, msg_depth = initial_call_depth (cf_version cf), msg_gas_limit = remaining tx_gas,
                msg_reservoir = reservoir tx_gas, msg_destination = to, msg_call_target = to, msg_caller = caller,
                msg_input = input, msg_value = v, msg_code = code, msg_code_address = code_address,
                msg_caller_is_static = False, msg_salt = 0\<rparr>,
              if_charged_state_gas = charged, if_runtime_oog = False\<rparr>, tx_gas))
      in bindE (host_db (account_raw D to)) (\<lambda>acc.
         bindE (host_db (load_code C D (handle_new to acc))) (\<lambda>code.
         let recipient_is_empty = (case ac_present acc of None \<Rightarrow> True | Some i \<Rightarrow> info_is_empty C i);
             new_account = new_account_state_gas (gas_params (cf_version cf));
             charges = (evm_feature cf EIP2780 \<and> v \<noteq> 0 \<and> recipient_is_empty)
         in case (if charges then spend_state new_account budget else (Inr (), budget)) of
              (Inl _, _) \<Rightarrow> halted
            | (Inr _, tx_gas) \<Rightarrow>
                let charged = (if charges then new_account else 0) in
                case (if evm_feature cf EIP7702 then eip7702_address code else None) of
                  None \<Rightarrow> returnE (frame code to charged tx_gas)
                | Some delegated \<Rightarrow>
                    bindE (delegation_target cf delegated tx_gas) (\<lambda>target.
                    case target of
                      None \<Rightarrow> halted
                    | Some (code, tx_gas) \<Rightarrow> returnE (frame code delegated charged tx_gas)))))"

definition prepare_create_frame ::
    "'d evm_config \<Rightarrow> address \<Rightarrow> u64 \<Rightarrow> bytes \<Rightarrow> evm_word \<Rightarrow> gas_tracker
      \<Rightarrow> ('d, handler_error, initial_frame \<times> gas_tracker) evm_m" where
  "prepare_create_frame cf caller nonce input v budget =
     (let C = cf_crypto cf; destination = create_address C caller nonce;
          frame = (\<lambda>charged tx_gas.
            (\<lparr>if_message =
               \<lparr>msg_kind = Kind_Create, msg_depth = initial_call_depth (cf_version cf), msg_gas_limit = remaining tx_gas,
                msg_reservoir = reservoir tx_gas, msg_destination = destination, msg_call_target = destination,
                msg_caller = caller, msg_input = input, msg_value = v, msg_code = new_legacy input,
                msg_code_address = destination, msg_caller_is_static = False, msg_salt = 0\<rparr>,
              if_charged_state_gas = charged, if_runtime_oog = False\<rparr>, tx_gas))
      in if evm_feature cf EIP8037 then
           bindE (host_db (account_raw (cf_database cf) destination)) (\<lambda>acc.
           let target_alive = (case ac_present acc of None \<Rightarrow> False | Some i \<Rightarrow> \<not> info_is_empty C i) in
           if target_alive then returnE (frame 0 budget)
           else
             let create_gas = create_state_gas (gas_params (cf_version cf)) in
             case spend_state create_gas budget of
               (Inl _, _) \<Rightarrow> returnE (halted_initial_frame cf caller nonce TxCreate input v budget, budget)
             | (Inr _, tx_gas) \<Rightarrow> returnE (frame create_gas tx_gas))
         else returnE (frame 0 budget))"

definition prepare_initial_frame ::
    "'d evm_config \<Rightarrow> address \<Rightarrow> u64 \<Rightarrow> tx_kind \<Rightarrow> bytes \<Rightarrow> evm_word \<Rightarrow> gas_tracker
      \<Rightarrow> ('d, handler_error, initial_frame \<times> gas_tracker) evm_m" where
  "prepare_initial_frame cf caller nonce to input v tx_gas =
     (case to of
        TxCall a \<Rightarrow> prepare_call_frame cf caller nonce a input v tx_gas
      | TxCreate \<Rightarrow> prepare_create_frame cf caller nonce input v tx_gas)"

definition runtime_oog_result :: "u64 \<Rightarrow> u64 \<Rightarrow> message_result" where
  "runtime_oog_result execution_gas_limit res =
     \<lparr>mr_stop = OutOfGas, mr_gas = new_spent_with_reservoir execution_gas_limit res,
      mr_output = [], mr_created_address = None\<rparr>"

definition settle_initial_frame_gas :: "gas_tracker \<Rightarrow> message_result \<Rightarrow> u64 \<Rightarrow> message_result" where
  "settle_initial_frame_gas tx_gas result charged_state_gas =
     (let tx_gas = merge_child_gas (mr_gas result) (mr_stop result) (spend_all tx_gas);
          tx_gas =
            (if charged_state_gas \<noteq> 0 \<and> \<not> mr_is_success result then
               let tx_gas = refill_reservoir charged_state_gas tx_gas in
               if is_halt (mr_stop result) then spend_all tx_gas else tx_gas
             else tx_gas)
      in result\<lparr>mr_gas := tx_gas\<rparr>)"

text \<open>The first frame; the first argument executes a message.\<close>

definition execute_initial_frame ::
    "(message \<Rightarrow> ('d, execution_error, message_result) evm_m) \<Rightarrow> initial_frame \<Rightarrow> gas_tracker \<Rightarrow> u64 \<Rightarrow> u64
      \<Rightarrow> ('d, handler_error, message_result) evm_m" where
  "execute_initial_frame execute frame tx_gas execution_gas_limit res =
     (if if_runtime_oog frame then returnE (runtime_oog_result execution_gas_limit res)
      else
        bindE (map_err handler_error_of_execution (execute (if_message frame))) (\<lambda>result.
        returnE (settle_initial_frame_gas tx_gas result (if_charged_state_gas frame))))"

section \<open>Settlement\<close>

record gas_settlement =
  gs_caller :: address
  gs_gas_price :: evm_word
  gs_gas_limit :: u64
  gs_floor_gas :: u64
  gs_initial_state_gas :: u64
  gs_state_refund :: u64
  gs_result :: message_result

definition gas_spent_breakdown :: "u64 \<Rightarrow> gas_tracker \<Rightarrow> u64 \<Rightarrow> u64 \<times> u64" where
  "gas_spent_breakdown limit g initial_state_gas =
     (let total_gas_spent = saturating_sub (saturating_sub limit (remaining g)) (reservoir g);
          state_gas = i64_clamp (sint (state_gas_spent g) + uint initial_state_gas)
      in (total_gas_spent, if sint state_gas < 0 then 0 else state_gas))"

text \<open>A refund quotient of zero is a division by zero, which the model marks.\<close>

definition finalize_gas :: "'d evm_config \<Rightarrow> gas_settlement \<Rightarrow> ('d, handler_error, tx_result) evm_m" where
  "finalize_gas cf settlement h =
     (let result = gs_result settlement; limit = gs_gas_limit settlement in
      case final_refund limit (gp_get (gas_params (cf_version cf)) MaxRefundQuotient) result of
        None \<Rightarrow> (Inl (HandlerFatal ''division by zero''), h\<lparr>ev_broken := True\<rparr>)
      | Some refund \<Rightarrow>
          let (total_spent, state_spent) = gas_spent_breakdown limit (mr_gas result) (gs_initial_state_gas settlement)
          in (Inr \<lparr>txr_status = mr_is_success result, txr_total_gas_spent = total_spent,
                   txr_state_gas_spent = saturating_sub state_spent (gs_state_refund settlement),
                   txr_refunded = refund, txr_floor_gas = gs_floor_gas settlement, txr_stop = mr_stop result,
                   txr_output = mr_output result, txr_created_address = mr_created_address result,
                   txr_logs = []\<rparr>, h))"

definition default_settle_gas :: "'d evm_config \<Rightarrow> gas_settlement \<Rightarrow> ('d, handler_error, tx_result) evm_m" where
  "default_settle_gas cf settlement =
     (let C = cf_crypto cf; D = cf_database cf; gas_price = gs_gas_price settlement in
      bindE (finalize_gas cf settlement) (\<lambda>result.
      if evm_feature cf FEE_CHARGE then
        let used = tx_gas_used result;
            gas_remaining = saturating_sub (gs_gas_limit settlement) used;
            caller_refund = (ucast gas_remaining :: evm_word) * gas_price
        in bindE (host_db (with_account D (gs_caller settlement) (\<lambda>a. ((), add_balance C caller_refund a)))) (\<lambda>_ h.
           let beneficiary_gas_price =
                 (if enables (cf_spec_id cf) LONDON then saturating_sub gas_price (be_basefee (ev_block h))
                  else gas_price);
               beneficiary_reward = (ucast used :: evm_word) * beneficiary_gas_price
           in bindE (host_db (with_account D (be_beneficiary (ev_block h))
                       (\<lambda>a. ((), add_balance C beneficiary_reward a)))) (\<lambda>_. returnE result) h)
      else returnE result))"

section \<open>The handlers\<close>

record prepared_tx =
  pt_caller :: address
  pt_gas_price :: evm_word
  pt_intrinsic :: u64
  pt_initial_state_gas :: u64
  pt_floor_gas :: u64
  pt_sender_nonce :: u64

text \<open>
  The steps all types share: the limits on gas, initcode and nonce, the intrinsic gas with what a
  type adds to it, and the sender.  The arguments are the transaction's own values.
\<close>

definition validate_limits ::
    "'d evm_config \<Rightarrow> block_env \<Rightarrow> 'x tx_body_scheme \<Rightarrow> tx_kind \<Rightarrow> unit checked" where
  "validate_limits cf block tx to =
     (case validate_tx_gas_limit_cap (cf_version cf) (tb_gas_limit tx) of
        Inl e \<Rightarrow> Inl e
      | Inr _ \<Rightarrow>
      case validate_block_gas_limit (cf_version cf) (tb_gas_limit tx) (be_gas_limit block) of
        Inl e \<Rightarrow> Inl e
      | Inr _ \<Rightarrow>
      case validate_create_initcode (cf_version cf) to (tb_input tx) of
        Inl e \<Rightarrow> Inl e
      | Inr _ \<Rightarrow> validate_nonce_not_overflow (tb_nonce tx))"

definition validate_gas_limits ::
    "'d evm_config \<Rightarrow> u64 \<Rightarrow> u64 \<Rightarrow> u64 \<Rightarrow> u64 \<Rightarrow> unit checked" where
  "validate_gas_limits cf limit intrinsic initial_state_gas floor_gas =
     (case validate_intrinsic_gas limit intrinsic initial_state_gas of
        Inl e \<Rightarrow> Inl e
      | Inr _ \<Rightarrow>
      case validate_floor_gas limit floor_gas of
        Inl e \<Rightarrow> Inl e
      | Inr _ \<Rightarrow> validate_execution_gas_limit_cap (cf_version cf) limit intrinsic floor_gas)"

definition prepare_common ::
    "'d evm_config \<Rightarrow> address \<Rightarrow> 'x tx_body_scheme \<Rightarrow> tx_kind \<Rightarrow> access_list \<Rightarrow> u64 \<Rightarrow> evm_word \<Rightarrow> evm_word \<Rightarrow> evm_word
      \<Rightarrow> ('d, handler_error, prepared_tx) evm_m" where
  "prepare_common cf caller tx to al added_gas gas_price max_upfront upfront_fee =
     (let (accounts, keys) = access_list_counts al;
          (intrinsic, floor_gas) =
            intrinsic_and_floor_gas (cf_version cf) caller to (tb_input tx) accounts keys (tb_value tx);
          intrinsic = intrinsic + added_gas;
          initial_state_gas = 0
      in bindE (checkE (validate_gas_limits cf (tb_gas_limit tx) intrinsic initial_state_gas floor_gas)) (\<lambda>_.
         bindE (validate_sender_and_bump_nonce cf caller (tb_nonce tx) max_upfront) (\<lambda>sender_nonce.
         bindE (modifyE (\<lambda>h. warm_access_list al (warm_base_accounts cf to h))) (\<lambda>_.
         bindE (charge_upfront cf caller upfront_fee) (\<lambda>_.
         returnE \<lparr>pt_caller = caller, pt_gas_price = gas_price, pt_intrinsic = intrinsic,
                  pt_initial_state_gas = initial_state_gas, pt_floor_gas = floor_gas,
                  pt_sender_nonce = sender_nonce\<rparr>)))))"

text \<open>The largest fee of a transaction: its gas limit at a price of at most 128 bits.\<close>

definition gas_cost :: "u64 \<Rightarrow> evm_word \<Rightarrow> evm_word" where
  "gas_cost limit price = ucast limit * price"

definition prepare_legacy :: "'d evm_config \<Rightarrow> address \<Rightarrow> tx_legacy \<Rightarrow> ('d, handler_error, prepared_tx) evm_m" where
  "prepare_legacy cf caller tx h =
     (let ver = cf_version cf; block = ev_block h; gas_price = ucast (lg_gas_price tx);
          max_gas_cost = gas_cost (tb_gas_limit tx) gas_price
      in bindE (checkE (validate_gas_price ver gas_price (be_basefee block))) (\<lambda>_.
         bindE (checkE (validate_chain_id ver (lg_chain_id tx) True)) (\<lambda>_.
         bindE (checkE (validate_limits cf block tx (lg_to tx))) (\<lambda>_.
         prepare_common cf caller tx (lg_to tx) [] 0 gas_price
           (saturating_add max_gas_cost (tb_value tx)) max_gas_cost))) h)"

definition prepare_eip2930 :: "'d evm_config \<Rightarrow> address \<Rightarrow> tx_eip2930 \<Rightarrow> ('d, handler_error, prepared_tx) evm_m" where
  "prepare_eip2930 cf caller tx h =
     (let ver = cf_version cf; block = ev_block h; gas_price = ucast (ax_gas_price tx);
          max_gas_cost = gas_cost (tb_gas_limit tx) gas_price
      in bindE (checkE (validate_gas_price ver gas_price (be_basefee block))) (\<lambda>_.
         bindE (checkE (validate_chain_id ver (Some (ax_chain_id tx)) False)) (\<lambda>_.
         bindE (checkE (validate_limits cf block tx (ax_to tx))) (\<lambda>_.
         prepare_common cf caller tx (ax_to tx) (ax_access_list tx) 0 gas_price
           (saturating_add max_gas_cost (tb_value tx)) max_gas_cost))) h)"

text \<open>The fee checks of the types with a dynamic fee.\<close>

definition validate_fees :: "version \<Rightarrow> block_env \<Rightarrow> evm_word \<Rightarrow> evm_word \<Rightarrow> u64 \<Rightarrow> unit checked" where
  "validate_fees ver block max_fee max_priority cid =
     (case validate_priority_fee ver max_fee max_priority of
        Inl e \<Rightarrow> Inl e
      | Inr _ \<Rightarrow>
      case validate_gas_price ver (effective_gas_price max_fee max_priority (be_basefee block)) (be_basefee block) of
        Inl e \<Rightarrow> Inl e
      | Inr _ \<Rightarrow> validate_chain_id ver (Some cid) False)"

definition prepare_eip1559 :: "'d evm_config \<Rightarrow> address \<Rightarrow> tx_eip1559 \<Rightarrow> ('d, handler_error, prepared_tx) evm_m" where
  "prepare_eip1559 cf caller tx h =
     (let block = ev_block h;
          max_fee = ucast (df_max_fee_per_gas tx); max_priority = ucast (df_max_priority_fee_per_gas tx);
          gas_price = effective_gas_price max_fee max_priority (be_basefee block)
      in bindE (checkE (validate_fees (cf_version cf) block max_fee max_priority (df_chain_id tx))) (\<lambda>_.
         bindE (checkE (validate_limits cf block tx (df_to tx))) (\<lambda>_.
         prepare_common cf caller tx (df_to tx) (df_access_list tx) 0 gas_price
           (saturating_add (gas_cost (tb_gas_limit tx) max_fee) (tb_value tx))
           (gas_cost (tb_gas_limit tx) gas_price))) h)"

definition prepare_eip4844 ::
    "blob_consts \<Rightarrow> 'd evm_config \<Rightarrow> address \<Rightarrow> tx_eip4844 \<Rightarrow> ('d, handler_error, prepared_tx) evm_m" where
  "prepare_eip4844 K cf caller tx h =
     (let ver = cf_version cf; block = ev_block h;
          max_fee = ucast (bl_max_fee_per_gas tx); max_priority = ucast (bl_max_priority_fee_per_gas tx);
          max_blob_fee = ucast (bl_max_fee_per_blob_gas tx);
          gas_price = effective_gas_price max_fee max_priority (be_basefee block);
          to = TxCall (bl_to tx);
          blob_gas_cost = (ucast (DATA_GAS_PER_BLOB K) :: evm_word) * of_nat (length (bl_blob_versioned_hashes tx))
      in bindE (checkE (validate_fees ver block max_fee max_priority (bl_chain_id tx))) (\<lambda>_.
         bindE (checkE (if feature ver BLOB_BASE_FEE_CHECK then validate_blob_fee max_blob_fee (be_blob_basefee block)
                        else Inr ())) (\<lambda>_.
         bindE (checkE (validate_blobs (VERSIONED_HASH_VERSION_KZG K) (bl_blob_versioned_hashes tx)
                          (max_blobs_per_tx ver))) (\<lambda>_.
         bindE (checkE (validate_limits cf block tx to)) (\<lambda>_.
         prepare_common cf caller tx to (bl_access_list tx) 0 gas_price
           (saturating_add (saturating_add (gas_cost (tb_gas_limit tx) max_fee) (blob_gas_cost * max_blob_fee))
              (tb_value tx))
           (gas_cost (tb_gas_limit tx) gas_price + blob_gas_cost * be_blob_basefee block))))) h)"

definition prepare_eip7702 :: "'d evm_config \<Rightarrow> address \<Rightarrow> tx_eip7702 \<Rightarrow> ('d, handler_error, prepared_tx) evm_m" where
  "prepare_eip7702 cf caller tx h =
     (let ver = cf_version cf; block = ev_block h; auth_count = length (sc_authorizations tx) in
      if auth_count = 0 then (Inl EmptyAuthorizationList, h)
      else
        let max_fee = ucast (sc_max_fee_per_gas tx); max_priority = ucast (sc_max_priority_fee_per_gas tx);
            gas_price = effective_gas_price max_fee max_priority (be_basefee block);
            to = TxCall (sc_to tx)
        in bindE (checkE (validate_fees ver block max_fee max_priority (sc_chain_id tx))) (\<lambda>_.
           bindE (checkE (validate_limits cf block tx to)) (\<lambda>_.
           prepare_common cf caller tx to (sc_access_list tx)
             (eip7702_authorization_gas ver (of_nat auth_count)) gas_price
             (saturating_add (gas_cost (tb_gas_limit tx) max_fee) (tb_value tx))
             (gas_cost (tb_gas_limit tx) gas_price))) h)"

section \<open>Execution of a prepared transaction\<close>

definition set_tx_env :: "'d evm_config \<Rightarrow> prepared_tx \<Rightarrow> evm_word list \<Rightarrow> 'd evm \<Rightarrow> 'd evm" where
  "set_tx_env cf prepared blobs h =
     h\<lparr>ev_tx := \<lparr>tx_origin = pt_caller prepared, tx_gas_price = pt_gas_price prepared,
                 tx_chain_id = ucast (chain_id (cf_version cf)), tx_blob_hashes = blobs\<rparr>\<rparr>"

definition settlement_of :: "'x tx_body_scheme \<Rightarrow> prepared_tx \<Rightarrow> u64 \<Rightarrow> message_result \<Rightarrow> gas_settlement" where
  "settlement_of tx prepared state_refund result =
     \<lparr>gs_caller = pt_caller prepared, gs_gas_price = pt_gas_price prepared, gs_gas_limit = tb_gas_limit tx,
      gs_floor_gas = pt_floor_gas prepared, gs_initial_state_gas = pt_initial_state_gas prepared,
      gs_state_refund = state_refund, gs_result = result\<rparr>"

text \<open>The types without authorizations execute alike.\<close>

definition execute_prepared ::
    "'d evm_config \<Rightarrow> (message \<Rightarrow> ('d, execution_error, message_result) evm_m) \<Rightarrow> 'x tx_body_scheme \<Rightarrow> tx_kind
      \<Rightarrow> evm_word list \<Rightarrow> prepared_tx \<Rightarrow> ('d, handler_error, tx_result) evm_m" where
  "execute_prepared cf execute tx to blobs prepared =
     (let (execution_gas_limit, res) =
            initial_gas_and_reservoir (cf_version cf) (tb_gas_limit tx) (pt_intrinsic prepared)
              (pt_initial_state_gas prepared);
          tx_gas = new_with_execution_gas_and_reservoir execution_gas_limit res
      in bindE (modifyE (set_tx_env cf prepared blobs)) (\<lambda>_.
         bindE (prepare_initial_frame cf (pt_caller prepared) (pt_sender_nonce prepared) to (tb_input tx)
                  (tb_value tx) tx_gas) (\<lambda>(frame, tx_gas).
         bindE (execute_initial_frame execute frame tx_gas execution_gas_limit res) (\<lambda>result.
         default_settle_gas cf (settlement_of tx prepared 0 result)))))"

section \<open>Authorizations\<close>

record applied_auth =
  aa_existed :: bool
  aa_delegated_before_tx :: bool
  aa_delegated_now :: bool
  aa_clearing :: bool

definition validate_one_auth ::
    "'d evm_config \<Rightarrow> u64 \<Rightarrow> authorization \<Rightarrow> ('d, handler_error, (address \<times> applied_auth) option) evm_m" where
  "validate_one_auth cf cid auth =
     (let C = cf_crypto cf; D = cf_database cf in
      if au_chain_id auth \<noteq> 0 \<and> au_chain_id auth \<noteq> ucast cid then returnE None
      else if au_nonce auth = - 1 then returnE None
      else
        case au_authority auth of
          None \<Rightarrow> returnE None
        | Some authority \<Rightarrow>
            bindE (host_db (account_raw D authority)) (\<lambda>acc.
            let account = handle_new authority acc in
            bindE (host_db (\<lambda>st. with_account D authority (h_warm (st_prewarm st)) st)) (\<lambda>_.
            bindE (host_db (load_code C D account)) (\<lambda>code.
            let delegated_now = (\<not> bytecode_is_empty code) in
            if delegated_now \<and> \<not> is_eip7702 code then returnE None
            else if au_nonce auth \<noteq> h_nonce account then returnE None
            else
              bindE (host_db (original_code C D account)) (\<lambda>original.
              returnE (Some (authority,
                \<lparr>aa_existed = (h_exists account \<or> is_touched account), aa_delegated_before_tx = is_eip7702 original,
                 aa_delegated_now = delegated_now, aa_clearing = (au_address auth = 0)\<rparr>)))))))"

text \<open>
  \<open>apply_auth_list\<close> over an accounting: what it does for a rejected and for an accepted
  authorization, the latter unless it runs out of gas.
\<close>

fun apply_auth_list ::
    "'d evm_config \<Rightarrow> u64 \<Rightarrow> ('g \<Rightarrow> 'g) \<Rightarrow> (address \<Rightarrow> applied_auth \<Rightarrow> ('g, instr_stop, unit) sres)
      \<Rightarrow> authorization list \<Rightarrow> 'g \<Rightarrow> ('d, handler_error, bool \<times> 'g) evm_m" where
  "apply_auth_list cf cid rejected accepted [] g = returnE (False, g)"
| "apply_auth_list cf cid rejected accepted (auth # auths) g =
     bindE (validate_one_auth cf cid auth) (\<lambda>r.
     case r of
       None \<Rightarrow> apply_auth_list cf cid rejected accepted auths (rejected g)
     | Some (authority, facts) \<Rightarrow>
         (case accepted authority facts g of
            (Inl _, g) \<Rightarrow> returnE (True, g)
          | (Inr _, g) \<Rightarrow>
              bindE (host_db (with_account (cf_database cf) authority
                       (\<lambda>a. ((), set_delegation (cf_crypto cf) (au_address auth) a)))) (\<lambda>_.
              apply_auth_list cf cid rejected accepted auths g)))"

record auth_charges =
  ac_gas :: gas_tracker
  ac_new_account_state_gas :: u64
  ac_delegation_bytes_state_gas :: u64
  ac_written :: "address list"
  ac_charged_delegation_bytes :: "address list"

definition runtime_auth_charges_new ::
    "version \<Rightarrow> gas_tracker \<Rightarrow> address \<Rightarrow> address \<Rightarrow> evm_word \<Rightarrow> auth_charges" where
  "runtime_auth_charges_new ver g caller recipient v =
     (let is_eip8037 = feature ver EIP8037 in
      \<lparr>ac_gas = g,
       ac_new_account_state_gas = (if is_eip8037 then new_account_state_gas (gas_params ver) else 0),
       ac_delegation_bytes_state_gas = (if is_eip8037 then gp_get (gas_params ver) TxEip7702PerAuthState else 0),
       ac_written = (if v \<noteq> 0 then [caller, recipient] else [caller]),
       ac_charged_delegation_bytes = []\<rparr>)"

definition on_ac_gas :: "(gas_tracker, instr_stop, unit) sres \<Rightarrow> (auth_charges, instr_stop, unit) sres" where
  "on_ac_gas m c = (case m (ac_gas c) of (r, g) \<Rightarrow> (r, c\<lparr>ac_gas := g\<rparr>))"

definition runtime_auth_accepted :: "address \<Rightarrow> applied_auth \<Rightarrow> (auth_charges, instr_stop, unit) sres" where
  "runtime_auth_accepted authority auth c =
     bindE (if \<not> aa_existed auth then on_ac_gas (spend_state (ac_new_account_state_gas c)) else returnE ()) (\<lambda>_.
     bindE (if authority \<notin> set (ac_written c)
            then bindE (on_ac_gas (spend (ucast gas_EIP8038_ACCOUNT_WRITE))) (\<lambda>_.
                 modifyE (\<lambda>c. c\<lparr>ac_written := ac_written c @ [authority]\<rparr>))
            else returnE ()) (\<lambda>_.
     if \<not> aa_clearing auth \<and> \<not> aa_delegated_now auth \<and> \<not> aa_delegated_before_tx auth \<and>
        authority \<notin> set (ac_charged_delegation_bytes c)
     then bindE (on_ac_gas (spend_state (ac_delegation_bytes_state_gas c))) (\<lambda>_.
          modifyE (\<lambda>c. c\<lparr>ac_charged_delegation_bytes := ac_charged_delegation_bytes c @ [authority]\<rparr>))
     else returnE ())) c"

record auth_refunds =
  ar_is_eip8037 :: bool
  ar_new_account :: u64
  ar_auth_base :: u64
  ar_execution_per_auth :: u64
  ar_state_refund :: u64
  ar_execution_refund :: u64

definition auth_refunds_new :: "version \<Rightarrow> auth_refunds" where
  "auth_refunds_new ver =
     \<lparr>ar_is_eip8037 = feature ver EIP8037, ar_new_account = new_account_state_gas (gas_params ver),
      ar_auth_base = gp_get (gas_params ver) TxEip7702PerAuthState,
      ar_execution_per_auth = gp_get (gas_params ver) TxEip7702AuthRefund, ar_state_refund = 0,
      ar_execution_refund = 0\<rparr>"

definition auth_refunds_rejected :: "auth_refunds \<Rightarrow> auth_refunds" where
  "auth_refunds_rejected a =
     (if ar_is_eip8037 a
      then a\<lparr>ar_state_refund := saturating_add (ar_state_refund a) (ar_new_account a + ar_auth_base a),
             ar_execution_refund := saturating_add (ar_execution_refund a) (ar_execution_per_auth a)\<rparr>
      else a)"

definition auth_refunds_accepted :: "address \<Rightarrow> applied_auth \<Rightarrow> (auth_refunds, instr_stop, unit) sres" where
  "auth_refunds_accepted authority auth a =
     (let a = (if aa_existed auth
               then a\<lparr>ar_execution_refund := saturating_add (ar_execution_refund a) (ar_execution_per_auth a)\<rparr>
               else a)
      in if \<not> ar_is_eip8037 a then (Inr (), a)
         else
           let refund = (if aa_existed auth then ar_new_account a else 0);
               refund =
                 (if aa_clearing auth then
                    refund + ar_auth_base a +
                      (if aa_delegated_now auth \<and> \<not> aa_delegated_before_tx auth then ar_auth_base a else 0)
                  else if aa_delegated_now auth \<or> aa_delegated_before_tx auth then refund + ar_auth_base a
                  else refund)
           in (Inr (), a\<lparr>ar_state_refund := saturating_add (ar_state_refund a) refund\<rparr>))"

text \<open>The authorization phase: whether it ran out of gas, the tracker, and the two refunds.\<close>

definition authorization_phase ::
    "'d evm_config \<Rightarrow> address \<Rightarrow> tx_eip7702 \<Rightarrow> gas_tracker \<Rightarrow> ('d, handler_error, bool \<times> gas_tracker \<times> u64 \<times> u64) evm_m" where
  "authorization_phase cf caller tx tx_gas =
     (let ver = cf_version cf in
      if evm_feature cf EIP2780 then
        bindE (apply_auth_list cf (chain_id ver) (\<lambda>c. c) runtime_auth_accepted (sc_authorizations tx)
                 (runtime_auth_charges_new ver tx_gas caller (sc_to tx) (tb_value tx))) (\<lambda>(oog, c).
        returnE (oog, ac_gas c, 0, 0))
      else
        bindE (apply_auth_list cf (chain_id ver) auth_refunds_rejected auth_refunds_accepted
                 (sc_authorizations tx) (auth_refunds_new ver)) (\<lambda>(_, a).
        returnE (False, tx_gas\<lparr>reservoir := reservoir tx_gas + ar_state_refund a\<rparr>,
                 ar_state_refund a, ar_execution_refund a)))"

definition execute_prepared_eip7702 ::
    "'d evm_config \<Rightarrow> (message \<Rightarrow> ('d, execution_error, message_result) evm_m) \<Rightarrow> tx_eip7702 \<Rightarrow> prepared_tx
      \<Rightarrow> ('d, handler_error, tx_result) evm_m" where
  "execute_prepared_eip7702 cf execute tx prepared h =
     (let caller = pt_caller prepared; to = TxCall (sc_to tx);
          h = set_tx_env cf prepared [] h;
          (execution_gas_limit, res) =
            initial_gas_and_reservoir (cf_version cf) (tb_gas_limit tx) (pt_intrinsic prepared)
              (pt_initial_state_gas prepared);
          budget = new_with_execution_gas_and_reservoir execution_gas_limit res;
          runtime_checkpoint = checkpoint (ev_state h)
      in bindE (authorization_phase cf caller tx budget) (\<lambda>(auth_oog, tx_gas, state_refund, execution_refund).
         bindE (if auth_oog
                then returnE (halted_initial_frame cf caller (tb_nonce tx) to (tb_input tx) (tb_value tx) budget, tx_gas)
                else prepare_initial_frame cf caller (pt_sender_nonce prepared) to (tb_input tx) (tb_value tx) tx_gas)
           (\<lambda>(frame, tx_gas).
         bindE (if if_runtime_oog frame then modifyE (evm_rollback cf runtime_checkpoint) else returnE ()) (\<lambda>_.
         bindE (execute_initial_frame execute frame tx_gas execution_gas_limit res) (\<lambda>result.
         let refund = (if execution_refund > 0x7FFFFFFFFFFFFFFF then 0x7FFFFFFFFFFFFFFF else execution_refund);
             result = result\<lparr>mr_gas := (mr_gas result)\<lparr>refunded :=
                        i64_saturating_add (refunded (mr_gas result)) refund\<rparr>\<rparr>
         in default_settle_gas cf (settlement_of tx prepared state_refund result))))) h)"

section \<open>Entry points\<close>

definition tx_type :: "tx_envelope \<Rightarrow> u8" where
  "tx_type tx =
     (case tx of Legacy_Tx _ \<Rightarrow> 0 | Eip2930_Tx _ \<Rightarrow> 1 | Eip1559_Tx _ \<Rightarrow> 2 | Eip4844_Tx _ \<Rightarrow> 3 | Eip7702_Tx _ \<Rightarrow> 4)"

definition ethereum_tx_registry :: "spec_id \<Rightarrow> u8 set" where
  "ethereum_tx_registry s =
     {0} \<union> (if enables s BERLIN then {1} else {}) \<union> (if enables s LONDON then {2} else {})
     \<union> (if enables s CANCUN then {3} else {}) \<union> (if enables s PRAGUE then {4} else {})"

definition prepare_tx ::
    "blob_consts \<Rightarrow> 'd evm_config \<Rightarrow> address \<Rightarrow> tx_envelope \<Rightarrow> ('d, handler_error, prepared_tx) evm_m" where
  "prepare_tx K cf signer tx =
     (case tx of
        Legacy_Tx t \<Rightarrow> prepare_legacy cf signer t
      | Eip2930_Tx t \<Rightarrow> prepare_eip2930 cf signer t
      | Eip1559_Tx t \<Rightarrow> prepare_eip1559 cf signer t
      | Eip4844_Tx t \<Rightarrow> prepare_eip4844 K cf signer t
      | Eip7702_Tx t \<Rightarrow> prepare_eip7702 cf signer t)"

definition execute_prepared_tx ::
    "'d evm_config \<Rightarrow> (message \<Rightarrow> ('d, execution_error, message_result) evm_m) \<Rightarrow> tx_envelope \<Rightarrow> prepared_tx
      \<Rightarrow> ('d, handler_error, tx_result) evm_m" where
  "execute_prepared_tx cf execute tx prepared =
     (case tx of
        Legacy_Tx t \<Rightarrow> execute_prepared cf execute t (lg_to t) [] prepared
      | Eip2930_Tx t \<Rightarrow> execute_prepared cf execute t (ax_to t) [] prepared
      | Eip1559_Tx t \<Rightarrow> execute_prepared cf execute t (df_to t) [] prepared
      | Eip4844_Tx t \<Rightarrow>
          execute_prepared cf execute t (TxCall (bl_to t)) (map b256_to_word (bl_blob_versioned_hashes t)) prepared
      | Eip7702_Tx t \<Rightarrow> execute_prepared_eip7702 cf execute t prepared)"

definition evm_clear :: "'d evm \<Rightarrow> 'd evm" where
  "evm_clear h = h\<lparr>ev_state := clear_transaction_state (ev_state h)\<rparr>"

definition execute_tx ::
    "blob_consts \<Rightarrow> 'd evm_config \<Rightarrow> (message \<Rightarrow> ('d, execution_error, message_result) evm_m) \<Rightarrow> address \<Rightarrow> tx_envelope
      \<Rightarrow> ('d, handler_error, tx_result) evm_m" where
  "execute_tx K cf execute signer tx h =
     (if tx_type tx \<notin> ethereum_tx_registry (cf_spec_id cf)
      then (Inl (UnsupportedTransactionType (tx_type tx)), h)
      else
        case bindE (prepare_tx K cf signer tx) (execute_prepared_tx cf execute tx) h of
          (Inl e, h) \<Rightarrow> (Inl e, evm_clear h)
        | (Inr result, h) \<Rightarrow> (Inr result, h))"

text \<open>\<open>order\<close> is the order in which the hash map of the accounts is visited.\<close>

definition finish_executed_tx ::
    "'d evm_config \<Rightarrow> ('d state \<Rightarrow> address list) \<Rightarrow> tx_result \<Rightarrow> ('d, handler_error, tx_result) evm_m" where
  "finish_executed_tx cf order result h =
     (case on_state (finalize_transaction (cf_crypto cf) (cf_database cf) (cf_version cf) (order (ev_state h))) h of
        (Inl e, h) \<Rightarrow> (Inl (HandlerDatabase e), evm_clear h)
      | (Inr _, h) \<Rightarrow>
          case take_logs (ev_state h) of (logs, st) \<Rightarrow> (Inr (result\<lparr>txr_logs := logs\<rparr>), h\<lparr>ev_state := st\<rparr>))"

definition transact ::
    "blob_consts \<Rightarrow> 'd evm_config \<Rightarrow> (message \<Rightarrow> ('d, execution_error, message_result) evm_m)
      \<Rightarrow> ('d state \<Rightarrow> address list) \<Rightarrow> address \<Rightarrow> tx_envelope \<Rightarrow> ('d, handler_error, tx_result) evm_m" where
  "transact K cf execute order signer tx =
     bindE (execute_tx K cf execute signer tx) (finish_executed_tx cf order)"

definition call_tx ::
    "blob_consts \<Rightarrow> 'd evm_config \<Rightarrow> (message \<Rightarrow> ('d, execution_error, message_result) evm_m)
      \<Rightarrow> ('d state \<Rightarrow> address list) \<Rightarrow> address \<Rightarrow> tx_envelope \<Rightarrow> ('d, handler_error, tx_result) evm_m" where
  "call_tx K cf execute order signer tx =
     bindE (transact K cf execute order signer tx) (\<lambda>result. bindE (modifyE evm_clear) (\<lambda>_. returnE result))"

definition validate_tx ::
    "blob_consts \<Rightarrow> 'd evm_config \<Rightarrow> address \<Rightarrow> tx_envelope \<Rightarrow> ('d, handler_error, unit) evm_m" where
  "validate_tx K cf signer tx h =
     (case (if tx_type tx \<notin> ethereum_tx_registry (cf_spec_id cf)
            then failE (UnsupportedTransactionType (tx_type tx))
            else bindE (prepare_tx K cf signer tx) (\<lambda>_. returnE ())) h of
        (r, h) \<Rightarrow> (r, evm_clear h))"

end
