(* ===== verification/Tx_Safety.thy ===== *)
theory Tx_Safety
  imports Eth_Tx Exec_Properties State_Lifecycle
begin

text \<open>
  Transactions conclude and settle.  Every step of a transaction handler keeps the host state well
  formed, so that with the execution of messages a whole transaction concludes; and the settlement
  of a transaction hands out exactly the fee that was taken, up to the base fee that is burned.
\<close>

section \<open>Sound steps of a handler\<close>

abbreviation yields :: "('a \<Rightarrow> bool) \<Rightarrow> 'h \<Rightarrow> 'e + 'a \<Rightarrow> 'h \<Rightarrow> bool" where
  "yields P \<equiv> \<lambda>_ r _. \<forall>x. r = Inr x \<longrightarrow> P x"

lemma sound_map_err_yields: "sound cf DI m (yields P) \<Longrightarrow> sound cf DI (map_err f m) (yields P)"
  by (rule soundI) (auto simp: map_err_def split: prod.splits sum.splits dest: soundD)

lemma sound_weaken: "sound cf DI m (yields P) \<Longrightarrow> (\<And>x. P x \<Longrightarrow> Q x) \<Longrightarrow> sound cf DI m (yields Q)"
  by (simp add: sound_def)

lemma host_db_sound:
  assumes "journaled (evm_features_of cf) m" "keeps (codes_ok DI) m P"
  shows "sound cf DI (host_db m) (yields P)"
  unfolding host_db_def by (rule sound_map_err_yields [OF sound_state [OF assms]])

lemma sound_fail: "sound cf DI (failE e) (yields P)"
  by (simp add: sound_def failE_def)

lemma sound_case_option:
  "(x = None \<Longrightarrow> sound cf DI m Q) \<Longrightarrow> (\<And>y. x = Some y \<Longrightarrow> sound cf DI (f y) Q) \<Longrightarrow>
     sound cf DI (case x of None \<Rightarrow> m | Some y \<Rightarrow> f y) Q"
  by (cases x) simp_all

lemma sound_case_pair:
  "(\<And>a b. x = (a, b) \<Longrightarrow> sound cf DI (f a b) Q) \<Longrightarrow> sound cf DI (case x of (a, b) \<Rightarrow> f a b) Q"
  by (cases x) simp

lemma sound_case_sum:
  "(\<And>y. x = Inl y \<Longrightarrow> sound cf DI (f y) Q) \<Longrightarrow> (\<And>y. x = Inr y \<Longrightarrow> sound cf DI (g y) Q) \<Longrightarrow>
     sound cf DI (case x of Inl y \<Rightarrow> f y | Inr y \<Rightarrow> g y) Q"
  by (cases x) simp_all

lemma journaled_account_raw: "journaled fs (account_raw D a)"
  unfolding journaled_def by (intro allI reaches_cache account_raw_restored)

lemma journaled_code_of_info: "journaled fs (code_of_info C D i)"
  unfolding code_of_info_def by (intro journal_rules)

lemma keeps_code_of_info: "db_ok DI D \<Longrightarrow> keeps (codes_ok DI) (code_of_info C D i) (\<lambda>_. True)"
  unfolding code_of_info_def by (intro keep_rules keeps_trivial [OF db_keeps(2)]) simp_all

lemma journaled_load_code: "journaled fs (load_code C D h)"
  by (simp add: load_code_def journaled_code_of_info)

lemma code_ok_new_eip7702 [simp]: "code_ok (new_eip7702 a)"
  by (simp add: code_ok_def new_eip7702_def from_valid_eip7702_def kind_def bytes_slice_def inner_def check_eip7702_def)

lemma handle_ok_delegation: "handle_ok h \<Longrightarrow> handle_ok (set_delegation C a h)"
  by (simp add: set_delegation_def Let_def)

lemma account_raw_sound:
  "db_ok DI (cf_database cf) \<Longrightarrow>
     sound cf DI (host_db (account_raw (cf_database cf) a)) (yields (\<lambda>acc. info_ok (ac_present acc)))"
  by (intro host_db_sound journaled_account_raw keeps_account_raw)

lemma load_code_sound:
  assumes "db_ok DI (cf_database cf)" "handle_ok h"
  shows "sound cf DI (host_db (load_code C (cf_database cf) h)) (yields code_ok)"
  by (intro host_db_sound journaled_load_code keeps_load_code assms)

lemma session_sound:
  assumes "db_ok DI (cf_database cf)"
    and "\<And>h. handle_step h (snd (f h))" "\<And>h. handle_ok h \<Longrightarrow> handle_ok (snd (f h))"
  shows "sound cf DI (host_db (with_account (cf_database cf) a f)) plain"
  by (intro host_db_sound journaled_with_account keeps_with_account assms)

lemma session_prewarm_sound:
  assumes "db_ok DI (cf_database cf)"
    and "\<And>p h. handle_step h (snd (f p h))" "\<And>p h. handle_ok h \<Longrightarrow> handle_ok (snd (f p h))"
  shows "sound cf DI (host_db (\<lambda>st. with_account (cf_database cf) a (f (st_prewarm st)) st)) plain"
proof (rule host_db_sound)
  show "journaled (evm_features_of cf) (\<lambda>st. with_account (cf_database cf) a (f (st_prewarm st)) st)"
    by (rule journaled_read [where g = st_prewarm]) (intro journaled_with_account assms)
  show "keeps (codes_ok DI) (\<lambda>st. with_account (cf_database cf) a (f (st_prewarm st)) st) (\<lambda>_. True)"
    by (rule keeps_read [where g = st_prewarm]) (intro keeps_with_account assms)
qed

section \<open>The first frame\<close>

lemma delegation_target_sound:
  assumes "db_ok DI (cf_database cf)"
  shows "sound cf DI (delegation_target cf a g) (yields (\<lambda>x. \<forall>code g. x = Some (code, g) \<longrightarrow> code_ok code))"
proof (cases "evm_feature cf EIP2780")
  case False
  then show ?thesis
    unfolding delegation_target_def
    by (auto intro!: sound_bind [OF account_raw_sound [OF assms]] sound_bind [OF session_prewarm_sound [OF assms]]
        sound_bind [OF load_code_sound [OF assms]] sound_return handle_ok_new)
next
  case True
  have load: "sound cf DI (on_state (evm_load_account cf a True skip)) (yields (\<lambda>x. code_ok (al_code x)))" for skip
    by (intro sound_state journaled_load_account keeps_load_account assms)
  show ?thesis
  proof (rule soundI)
    fix h r h' assume h: "good DI h" and ex: "delegation_target cf a g h = (r, h')"
    obtain r0 g0 where sp: "spend (ucast gas_WARM_STORAGE_READ_COST) g = (r0, g0)" by fastforce
    show "good DI h' \<and> reaches (evm_features_of cf) (ev_state h) (ev_state h') \<and>
        (\<forall>x. r = Inr x \<longrightarrow> (\<forall>code g. x = Some (code, g) \<longrightarrow> code_ok code))"
    proof (cases r0)
      case (Inl e)
      then show ?thesis using ex sp True h by (auto simp: delegation_target_def Let_def returnE_def)
    next
      case (Inr u)
      let ?add = "cold_account_additional_cost (gas_params (cf_version cf))"
      obtain r1 h1 where l: "on_state (evm_load_account cf a True (remaining g0 < ?add)) h = (r1, h1)" by fastforce
      from soundD [OF load h l] show ?thesis
        using ex sp True Inr l
        by (cases r1) (auto simp: delegation_target_def Let_def split: host_error.splits if_splits prod.splits sum.splits)
    qed
  qed
qed

abbreviation first_frame_ok :: "initial_frame \<times> gas_tracker \<Rightarrow> bool" where
  "first_frame_ok x \<equiv> code_ok (msg_code (if_message (fst x)))"

lemma halted_frame_ok [simp]: "code_ok (msg_code (if_message (halted_initial_frame cf caller n to input v g)))"
  by (simp add: halted_initial_frame_def split: prod.splits)

lemma prepare_call_frame_sound:
  assumes "db_ok DI (cf_database cf)"
  shows "sound cf DI (prepare_call_frame cf caller n a input v g) (yields first_frame_ok)"
  unfolding prepare_call_frame_def Let_def
  by (intro sound_bind [OF account_raw_sound [OF assms]] sound_bind [OF load_code_sound [OF assms]]
      sound_bind [OF delegation_target_sound [OF assms]] sound_case_pair sound_case_sum sound_case_option sound_return
      handle_ok_new) simp_all

lemma prepare_create_frame_sound:
  assumes "db_ok DI (cf_database cf)"
  shows "sound cf DI (prepare_create_frame cf caller n input v g) (yields first_frame_ok)"
  unfolding prepare_create_frame_def Let_def
  by (intro sound_if sound_bind [OF account_raw_sound [OF assms]] sound_case_pair sound_case_sum sound_return) simp_all

lemma prepare_initial_frame_sound:
  assumes "db_ok DI (cf_database cf)"
  shows "sound cf DI (prepare_initial_frame cf caller n to input v g) (yields first_frame_ok)"
  using prepare_call_frame_sound [OF assms] prepare_create_frame_sound [OF assms]
  by (simp add: prepare_initial_frame_def split: tx_kind.split)

section \<open>Authorizations\<close>

lemma validate_one_auth_sound:
  assumes "db_ok DI (cf_database cf)"
  shows "sound cf DI (validate_one_auth cf cid auth) plain"
proof -
  have original: "sound cf DI (host_db (original_code C (cf_database cf) h)) plain" for C h
    unfolding original_code_def by (intro host_db_sound journaled_code_of_info keeps_code_of_info assms)
  show ?thesis
    unfolding validate_one_auth_def Let_def
    by (intro sound_if sound_case_option sound_return sound_bind [OF account_raw_sound [OF assms]]
        sound_bind [OF session_prewarm_sound [OF assms]] sound_bind [OF load_code_sound [OF assms]]
        sound_bind [OF original] handle_ok_new handle_step_warm handle_ok_warm) simp_all
qed

lemma apply_auth_list_sound:
  assumes "db_ok DI (cf_database cf)"
  shows "sound cf DI (apply_auth_list cf cid rejected accepted auths g) plain"
proof (induction auths arbitrary: g)
  case Nil
  show ?case by (simp only: apply_auth_list.simps) (rule sound_plain_return)
next
  case (Cons auth auths)
  show ?case
    by (simp only: apply_auth_list.simps)
      (intro sound_bind [OF validate_one_auth_sound [OF assms]] sound_case_option sound_case_pair sound_case_sum
        sound_plain_return sound_bind [OF session_sound [OF assms]] Cons.IH;
       simp add: handle_ok_delegation)
qed

lemma authorization_phase_sound:
  assumes "db_ok DI (cf_database cf)"
  shows "sound cf DI (authorization_phase cf caller tx g) plain"
  unfolding authorization_phase_def Let_def
  by (intro sound_if sound_bind [OF apply_auth_list_sound [OF assms]] sound_case_pair sound_plain_return)

section \<open>Preparation\<close>

lemma sound_good: "sound cf DI m (yields P) \<Longrightarrow> keeps (good DI) m P"
  by (rule keepsI) (auto dest: soundD)

lemma keeps_check: "(\<And>x. r = Inr x \<Longrightarrow> keeps I (k x) P) \<Longrightarrow> keeps I (bindE (checkE r) k) P"
  by (cases r) (auto simp: keeps_def checkE_def bindE_def)

lemma good_prewarm [simp]: "good DI (h\<lparr>ev_state := (ev_state h)\<lparr>st_prewarm := p\<rparr>\<rparr>) = good DI h"
  by (simp add: good_def codes_ok_def transient_ok_def)

lemma warm_base_good: "good DI h \<Longrightarrow> good DI (warm_base_accounts cf to h)"
  by (simp add: warm_base_accounts_def Let_def prewarm_def split: tx_kind.split)

lemma warm_access_list_good: "good DI h \<Longrightarrow> good DI (warm_access_list al h)"
proof -
  have "\<exists>p. fold (\<lambda>(a, keys). prewarm_storage a (map b256_to_word keys)) al st = st\<lparr>st_prewarm := p\<rparr>" for st :: "'a state"
  proof (induction al arbitrary: st)
    case Nil
    show ?case by (rule exI [of _ "st_prewarm st"]) simp
  next
    case (Cons x al)
    show ?case
      using Cons.IH [of "case x of (a, keys) \<Rightarrow> prewarm_storage a (map b256_to_word keys) st"]
      by (auto simp: prewarm_storage_def split: prod.splits)
  qed
  then show "good DI h \<Longrightarrow> good DI (warm_access_list al h)"
    by (metis warm_access_list_def good_prewarm)
qed

lemma validate_sender_sound:
  assumes "db_ok DI (cf_database cf)"
  shows "sound cf DI (validate_sender_and_bump_nonce cf caller nonce max_upfront) plain"
proof -
  have code: "handle_ok h \<Longrightarrow> sound cf DI (validate_sender_code cf h) plain" for h
    unfolding validate_sender_code_def
    by (intro sound_if sound_bind [OF load_code_sound [OF assms]] sound_fail sound_plain_return) auto
  show ?thesis
    unfolding validate_sender_and_bump_nonce_def Let_def
    by (intro sound_bind [OF account_raw_sound [OF assms]] sound_bind [OF code] sound_if sound_fail
        session_prewarm_sound [OF assms] handle_ok_new)
       (auto intro: handle_step_trans [OF _ handle_step_trans [OF handle_step_warm handle_step_setters(5)]])
qed

lemma charge_upfront_sound:
  assumes "db_ok DI (cf_database cf)"
  shows "sound cf DI (charge_upfront cf caller fee) plain"
  unfolding charge_upfront_def
  by (intro sound_if sound_plain_return session_sound [OF assms]) simp_all

definition prepared_ok :: "u64 \<Rightarrow> prepared_tx \<Rightarrow> bool" where
  "prepared_ok limit p \<longleftrightarrow> pt_floor_gas p \<le> limit \<and> pt_intrinsic p \<le> limit \<and> pt_initial_state_gas p = 0"

lemma validate_gas_limits_ok:
  "validate_gas_limits cf limit intrinsic 0 floor_gas = Inr x \<Longrightarrow> intrinsic \<le> limit \<and> floor_gas \<le> limit"
  by (auto simp: validate_gas_limits_def validate_intrinsic_gas_def validate_floor_gas_def saturating_add_def Let_def
      not_less split: if_splits)

lemma prepare_common_good:
  assumes "db_ok DI (cf_database cf)"
  shows "keeps (good DI) (prepare_common cf caller tx to al added price max_upfront fee) (prepared_ok (tb_gas_limit tx))"
  unfolding prepare_common_def Let_def
  by (intro keeps_case_prod keeps_check
      keeps_bind [OF sound_good [OF validate_sender_sound [OF assms]]]
      keeps_bind [OF keeps_modify [where P = "\<lambda>_. True"]]
      keeps_bind [OF sound_good [OF charge_upfront_sound [OF assms]]] keeps_return)
     (auto simp: prepared_ok_def intro: warm_access_list_good warm_base_good dest: validate_gas_limits_ok)

lemma keeps_read_block: "(\<And>b. keeps I (m b) P) \<Longrightarrow> keeps I (\<lambda>h. m (ev_block h) h) P"
  by (rule keeps_read)

definition tx_gas_limit :: "tx_envelope \<Rightarrow> u64" where
  "tx_gas_limit tx =
     (case tx of Legacy_Tx t \<Rightarrow> tb_gas_limit t | Eip2930_Tx t \<Rightarrow> tb_gas_limit t | Eip1559_Tx t \<Rightarrow> tb_gas_limit t
      | Eip4844_Tx t \<Rightarrow> tb_gas_limit t | Eip7702_Tx t \<Rightarrow> tb_gas_limit t)"

lemma prepare_tx_good:
  assumes "db_ok DI (cf_database cf)"
  shows "keeps (good DI) (prepare_tx K cf signer tx) (prepared_ok (tx_gas_limit tx))"
proof (cases tx)
  case (Legacy_Tx t)
  have "keeps (good DI) (prepare_legacy cf signer t) (prepared_ok (tb_gas_limit t))"
    unfolding prepare_legacy_def Let_def
    by (rule keeps_read_block) (intro keeps_check prepare_common_good [OF assms])
  then show ?thesis by (simp add: Legacy_Tx prepare_tx_def tx_gas_limit_def)
next
  case (Eip2930_Tx t)
  have "keeps (good DI) (prepare_eip2930 cf signer t) (prepared_ok (tb_gas_limit t))"
    unfolding prepare_eip2930_def Let_def
    by (rule keeps_read_block) (intro keeps_check prepare_common_good [OF assms])
  then show ?thesis by (simp add: Eip2930_Tx prepare_tx_def tx_gas_limit_def)
next
  case (Eip1559_Tx t)
  have "keeps (good DI) (prepare_eip1559 cf signer t) (prepared_ok (tb_gas_limit t))"
    unfolding prepare_eip1559_def Let_def
    by (rule keeps_read_block) (intro keeps_check prepare_common_good [OF assms])
  then show ?thesis by (simp add: Eip1559_Tx prepare_tx_def tx_gas_limit_def)
next
  case (Eip4844_Tx t)
  have "keeps (good DI) (prepare_eip4844 K cf signer t) (prepared_ok (tb_gas_limit t))"
    unfolding prepare_eip4844_def Let_def
    by (rule keeps_read_block) (intro keeps_check prepare_common_good [OF assms])
  then show ?thesis by (simp add: Eip4844_Tx prepare_tx_def tx_gas_limit_def)
next
  case (Eip7702_Tx t)
  have "keeps (good DI) (prepare_eip7702 cf signer t) (prepared_ok (tb_gas_limit t))"
  proof (cases "sc_authorizations t = []")
    case True
    then show ?thesis by (simp add: prepare_eip7702_def keeps_def)
  next
    case False
    show ?thesis
      unfolding prepare_eip7702_def Let_def length_0_conv if_not_P [OF False]
      by (rule keeps_read_block) (intro keeps_check prepare_common_good [OF assms])
  qed
  then show ?thesis by (simp add: Eip7702_Tx prepare_tx_def tx_gas_limit_def)
qed

section \<open>Execution and settlement\<close>

text \<open>What a settled transaction reports: its gas lies between the floor and the limit, its refund within the cap.\<close>

definition result_ok :: "u64 \<Rightarrow> u64 \<Rightarrow> tx_result \<Rightarrow> bool" where
  "result_ok q limit r \<longleftrightarrow>
     txr_floor_gas r \<le> tx_gas_used r \<and> tx_gas_used r \<le> limit \<and> txr_total_gas_spent r \<le> limit \<and>
     unat (txr_refunded r) * unat q \<le> unat (txr_total_gas_spent r)"

lemma result_ok_logs [simp]: "result_ok q limit (r\<lparr>txr_logs := logs\<rparr>) = result_ok q limit r"
  by (simp add: result_ok_def tx_gas_used_def Let_def)

lemma refund_within_quotient:
  assumes "final_refund limit q r = Some refund"
  shows "unat refund * unat q \<le> unat (saturating_sub (saturating_sub limit (remaining (mr_gas r))) (reservoir (mr_gas r)))"
proof (cases "sint (refunded (mr_gas r)) \<le> 0")
  case True
  then show ?thesis using assms by (simp add: final_refund_def)
next
  case False
  define spent where "spent = saturating_sub (saturating_sub limit (remaining (mr_gas r))) (reservoir (mr_gas r))"
  have "refund \<le> spent div q"
    using assms False by (auto simp: final_refund_def Let_def spent_def [symmetric] not_less split: if_splits)
  then have "unat refund \<le> unat spent div unat q"
    by (simp add: word_le_nat_alt unat_div)
  then have "unat refund * unat q \<le> unat spent"
    by (metis div_times_less_eq_dividend mult_le_mono1 order_trans)
  then show ?thesis by (simp add: spent_def)
qed

lemma saturating_sub_le: "saturating_sub a b \<le> a"
  by (simp add: word_le_nat_alt unat_saturating_sub)

lemma finalize_gas_result:
  assumes "gp_get (gas_params (cf_version cf)) MaxRefundQuotient \<noteq> 0"
  shows "\<exists>r. finalize_gas cf s h = (Inr r, h) \<and> txr_floor_gas r = gs_floor_gas s \<and>
    (gs_floor_gas s \<le> gs_gas_limit s \<longrightarrow>
       result_ok (gp_get (gas_params (cf_version cf)) MaxRefundQuotient) (gs_gas_limit s) r)"
proof -
  let ?q = "gp_get (gas_params (cf_version cf)) MaxRefundQuotient" and ?g = "mr_gas (gs_result s)"
  obtain refund where refund: "final_refund (gs_gas_limit s) ?q (gs_result s) = Some refund"
    using assms by (cases "final_refund (gs_gas_limit s) ?q (gs_result s)") (auto simp: final_refund_def Let_def split: if_splits)
  have "saturating_sub (saturating_sub (gs_gas_limit s) (remaining ?g)) (reservoir ?g) \<le> gs_gas_limit s"
    by (meson saturating_sub_le order_trans)
  then show ?thesis
    using refund_within_quotient [OF refund]
    by (auto simp: finalize_gas_def refund Let_def gas_spent_breakdown_def result_ok_def tx_gas_used_def
        intro: order_trans [OF saturating_sub_le])
qed

lemma finalize_gas_good:
  assumes "gp_get (gas_params (cf_version cf)) MaxRefundQuotient \<noteq> 0" "gs_floor_gas s \<le> gs_gas_limit s"
  shows "keeps I (finalize_gas cf s) (result_ok (gp_get (gas_params (cf_version cf)) MaxRefundQuotient) (gs_gas_limit s))"
proof (rule keepsI)
  fix h r h' assume "I h" "finalize_gas cf s h = (r, h')"
  with finalize_gas_result [OF assms(1), of s h] assms(2)
  show "I h' \<and> (\<forall>x. r = Inr x \<longrightarrow> result_ok (gp_get (gas_params (cf_version cf)) MaxRefundQuotient) (gs_gas_limit s) x)"
    by auto
qed

lemma default_settle_gas_good:
  assumes "db_ok DI (cf_database cf)"
    and "gp_get (gas_params (cf_version cf)) MaxRefundQuotient \<noteq> 0" "gs_floor_gas s \<le> gs_gas_limit s"
  shows "keeps (good DI) (default_settle_gas cf s)
    (result_ok (gp_get (gas_params (cf_version cf)) MaxRefundQuotient) (gs_gas_limit s))"
proof -
  have pay: "keeps (good DI) (host_db (with_account (cf_database cf) a (\<lambda>a. ((), add_balance C v a)))) (\<lambda>_. True)" for a C v
    by (rule sound_good [OF session_sound [OF assms(1)]]) simp_all
  show ?thesis
    unfolding default_settle_gas_def Let_def
    by (intro keeps_bind [OF finalize_gas_good [OF assms(2,3)]] keeps_if keeps_return keeps_bind [OF pay])
      (rule keeps_read_block, intro keeps_bind [OF pay] keeps_return)
qed

lemma execute_initial_frame_good:
  assumes "\<And>msg. code_ok (msg_code msg) \<Longrightarrow> sound cf DI (execute msg) plain" "first_frame_ok (f, g)"
  shows "keeps (good DI) (execute_initial_frame execute f g limit res) (\<lambda>_. True)"
  using assms unfolding execute_initial_frame_def
  by (intro keeps_if keeps_return keeps_bind [OF keeps_map_err [OF sound_good [OF assms(1)]]]) simp_all

lemma set_tx_env_good [simp]: "good DI (set_tx_env cf p blobs h) = good DI h"
  by (simp add: set_tx_env_def good_def)

lemma settlement_floor:
  "prepared_ok (tb_gas_limit tx) p \<Longrightarrow> gs_floor_gas (settlement_of tx p x r) \<le> gs_gas_limit (settlement_of tx p x r)"
  by (simp add: settlement_of_def prepared_ok_def)

lemma settlement_limit [simp]: "gs_gas_limit (settlement_of tx p x r) = tb_gas_limit tx"
  by (simp add: settlement_of_def)

lemma execute_prepared_good:
  assumes "db_ok DI (cf_database cf)" "\<And>msg. code_ok (msg_code msg) \<Longrightarrow> sound cf DI (execute msg) plain"
    and "gp_get (gas_params (cf_version cf)) MaxRefundQuotient \<noteq> 0" "prepared_ok (tb_gas_limit tx) p"
  shows "keeps (good DI) (execute_prepared cf execute tx to blobs p)
    (result_ok (gp_get (gas_params (cf_version cf)) MaxRefundQuotient) (tb_gas_limit tx))"
  using default_settle_gas_good [OF assms(1,3) settlement_floor [OF assms(4)]]
  unfolding execute_prepared_def Let_def
  by (intro keeps_case_prod keeps_bind [OF keeps_modify [where P = "\<lambda>_. True"]]
      keeps_bind [OF sound_good [OF prepare_initial_frame_sound [OF assms(1)]]]
      keeps_bind [OF execute_initial_frame_good [OF assms(2)]]) simp_all

text \<open>
  With authorizations the first frame may have to be undone, to the state before the
  authorizations.
\<close>

lemma bind_good:
  assumes "keeps I m P" "I s" "bindE m k s = (r, s')" "\<And>s. I s \<Longrightarrow> J s"
    and "\<And>x s1 r s'. I s1 \<Longrightarrow> P x \<Longrightarrow> k x s1 = (r, s') \<Longrightarrow> J s' \<and> (\<forall>y. r = Inr y \<longrightarrow> Q y)"
  shows "J s' \<and> (\<forall>y. r = Inr y \<longrightarrow> Q y)"
proof -
  obtain r1 s1 where m: "m s = (r1, s1)" by fastforce
  show ?thesis
    using keepsD [OF assms(1,2) m] assms(3-5) m by (cases r1) (auto simp: bindE_def)
qed

lemma rollback_then_good:
  assumes "good DI h0" "evm_inv cf DI (ev_state h0) h" "keeps (good DI) k Q"
    and "bindE (if b then modifyE (evm_rollback cf (checkpoint (ev_state h0))) else returnE ()) (\<lambda>_. k) h = (r, h')"
  shows "good DI h' \<and> (\<forall>y. r = Inr y \<longrightarrow> Q y)"
proof -
  have "k (if b then evm_rollback cf (checkpoint (ev_state h0)) h else h) = (r, h')"
    using assms(4) by (simp add: bindE_def modifyE_def returnE_def split: if_splits)
  moreover have "good DI (if b then evm_rollback cf (checkpoint (ev_state h0)) h else h)"
    using assms(2) rollback_good(1) [OF assms(1), of h cf] by (simp add: evm_inv_def)
  ultimately show ?thesis
    using keepsD [OF assms(3)] by blast
qed

lemma execute_prepared_eip7702_good:
  assumes "db_ok DI (cf_database cf)" "\<And>msg. code_ok (msg_code msg) \<Longrightarrow> sound cf DI (execute msg) plain"
    and "gp_get (gas_params (cf_version cf)) MaxRefundQuotient \<noteq> 0" "prepared_ok (tb_gas_limit tx) p"
  shows "keeps (good DI) (execute_prepared_eip7702 cf execute tx p)
    (result_ok (gp_get (gas_params (cf_version cf)) MaxRefundQuotient) (tb_gas_limit tx))"
proof (rule keepsI)
  fix h r h' assume h: "good DI h" and ex: "execute_prepared_eip7702 cf execute tx p h = (r, h')"
  let ?h = "set_tx_env cf p [] h" and ?Q = "result_ok (gp_get (gas_params (cf_version cf)) MaxRefundQuotient) (tb_gas_limit tx)"
  let ?J = "evm_inv cf DI (ev_state ?h)"
  have J: "?J ?h" "\<And>s. ?J s \<Longrightarrow> good DI s" using h by (simp_all add: evm_inv_def)
  have frame: "keeps ?J (prepare_initial_frame cf caller n to input v g) first_frame_ok" for caller n to input v g
    by (rule sound_keeps [OF prepare_initial_frame_sound [OF assms(1)]]) simp
  have auth: "keeps ?J (authorization_phase cf caller tx g) (\<lambda>_. True)" for caller g
    by (rule sound_keeps [OF authorization_phase_sound [OF assms(1)]]) simp
  have settle: "keeps (good DI) (default_settle_gas cf (settlement_of tx p x res)) ?Q" for x res
    using default_settle_gas_good [OF assms(1,3) settlement_floor [OF assms(4)]] by simp
  obtain limit res where split: "initial_gas_and_reservoir (cf_version cf) (tb_gas_limit tx) (pt_intrinsic p)
      (pt_initial_state_gas p) = (limit, res)" by fastforce
  note ex = ex [unfolded execute_prepared_eip7702_def Let_def split prod.case]
  show "good DI h' \<and> (\<forall>x. r = Inr x \<longrightarrow> ?Q x)"
  proof (rule bind_good [OF auth J(1) ex J(2)], goal_cases)
    case (2 x s1 r s')
    obtain oog g a b where x: "x = (oog, g, a, b)" by (cases x)
    note ex = 2(3) [unfolded x prod.case]
    have init: "keeps ?J (if oog then returnE (halted_initial_frame cf (pt_caller p) (tb_nonce tx) (TxCall (sc_to tx))
          (tb_input tx) (tb_value tx) budget, g) else prepare_initial_frame cf caller n to input v g) first_frame_ok"
      for budget caller n to input v
      by (intro keeps_if keeps_return frame) simp
    show ?case
    proof (rule bind_good [OF init 2(1) ex J(2)], goal_cases)
      case (2 y s2 r2 s')
      obtain f g' where y: "y = (f, g')" by (cases y)
      have "keeps (good DI) (bindE (execute_initial_frame execute f g' limit res) (\<lambda>result.
          default_settle_gas cf (settlement_of tx p a (F result)))) ?Q" for F
        by (rule keeps_bind [OF execute_initial_frame_good [OF assms(2)] settle]) (use 2(2) y in simp_all)
      from rollback_then_good [OF _ 2(1) this] 2(3) [unfolded y prod.case] h show ?case by simp
    qed simp
  qed simp
qed

section \<open>Finalization\<close>

definition state_ok :: "('d \<Rightarrow> bool) \<Rightarrow> 'd state \<Rightarrow> bool" where
  "state_ok DI st \<longleftrightarrow> codes_ok DI st \<and> transient_ok st"

lemma keeps_account_raw_state:
  assumes "db_ok DI D"
  shows "keeps (state_ok DI) (account_raw D a) (\<lambda>acc. info_ok (ac_present acc))"
proof (rule keepsI)
  fix st r st' assume st: "state_ok DI st" and ex: "account_raw D a st = (r, st')"
  have "restored 0 st st'"
    using account_raw_restored [of 0 st D a] ex by simp
  then have "transient_ok st'"
    using st by (simp add: restored_def transient_ok_def state_ok_def)
  then show "state_ok DI st' \<and> (\<forall>acc. r = Inr acc \<longrightarrow> info_ok (ac_present acc))"
    using st keepsD [OF keeps_account_raw [OF assms] _ ex] unfolding state_ok_def by blast
qed

lemma state_ok_put: "state_ok DI st \<Longrightarrow> info_ok (ac_present acc) \<Longrightarrow> state_ok DI (put_account a acc st)"
  by (simp add: state_ok_def codes_ok_put) (simp add: transient_ok_def put_account_def)

lemma state_ok_drop: "state_ok DI st \<Longrightarrow> handle_ok h \<Longrightarrow> state_ok DI (handle_drop h st)"
  by (simp add: state_ok_def codes_ok_drop)
     (simp add: transient_ok_def handle_drop_def push_journal_def put_account_def Let_def split: option.splits)

lemma keeps_with_account_state:
  assumes "db_ok DI D" "\<And>h. handle_ok h \<Longrightarrow> handle_ok (snd (f h))"
  shows "keeps (state_ok DI) (with_account D a f) (\<lambda>_. True)"
  unfolding with_account_def
proof (rule keeps_bind [OF keeps_account_raw_state [OF assms(1)]])
  fix acc :: acct assume "info_ok (ac_present acc)"
  then have "handle_ok (snd (f (handle_new a acc)))"
    by (intro assms(2) handle_ok_new)
  then show "keeps (state_ok DI) (\<lambda>st. case f (handle_new a acc) of (x, h) \<Rightarrow> (Inr x, handle_drop h st)) (\<lambda>_. True)"
    by (intro keepsI) (auto dest: state_ok_drop split: prod.splits)
qed

lemma keeps_with_storage: "db_ok DI D \<Longrightarrow> keeps (state_ok DI) (with_storage D a f) (\<lambda>_. True)"
  unfolding with_storage_def
  by (rule keeps_bind [OF keeps_account_raw_state]) (auto intro!: keepsI state_ok_put)

lemma handle_ok_finalization:
  "handle_ok h \<Longrightarrow> handle_ok (delete_for_finalization h)"
  "handle_ok h \<Longrightarrow> handle_ok (reset_selfdestructed_for_finalization C h)"
  by (simp_all add: handle_ok_def delete_for_finalization_def reset_selfdestructed_for_finalization_def info_ok_def
      account_info_default_def)

lemma keeps_finalize_destroyed:
  assumes "db_ok DI D"
  shows "keeps (state_ok DI) (finalize_destroyed C D b a) (\<lambda>_. True)"
  unfolding finalize_destroyed_def
  by (intro keeps_bind [OF keeps_with_account_state [OF assms]] keeps_bind [OF keeps_account_raw_state [OF assms]]
      keeps_with_storage assms) (simp add: Let_def handle_ok_finalization)

lemma keeps_finalize_touched:
  assumes "db_ok DI D"
  shows "keeps (state_ok DI) (finalize_touched C D b a) (\<lambda>_. True)"
proof -
  have "keeps (state_ok DI) (materialize_empty_account_for_finalization C D a) (\<lambda>_. True)"
    unfolding materialize_empty_account_for_finalization_def
    by (rule keeps_bind [OF keeps_account_raw_state [OF assms]])
      (auto intro!: keepsI state_ok_put split: if_splits
        simp: acct_mark_created_discarding_storage_def acct_mark_created_def Let_def)
  then show ?thesis
    unfolding finalize_touched_def
    by (intro keeps_if keeps_bind [OF keeps_with_account_state [OF assms]] keeps_with_storage assms)
      (simp_all add: handle_ok_finalization)
qed

lemma keeps_for_each: "(\<And>x. keeps I (f x) (\<lambda>_. True)) \<Longrightarrow> keeps I (for_each f xs) (\<lambda>_. True)"
  by (induction xs) (auto intro: keep_rules)

lemma keeps_finalize_transaction:
  assumes "db_ok DI D"
  shows "keeps (state_ok DI) (finalize_transaction C D ver order) (\<lambda>_. True)"
  unfolding finalize_transaction_def Let_def
  by (rule keeps_read [where g = st_accounts])
    (intro keeps_then keeps_for_each keeps_finalize_destroyed keeps_finalize_touched assms)

section \<open>Whole transactions\<close>

lemma execute_prepared_tx_good:
  assumes "db_ok DI (cf_database cf)" "\<And>msg. code_ok (msg_code msg) \<Longrightarrow> sound cf DI (execute msg) plain"
    and "gp_get (gas_params (cf_version cf)) MaxRefundQuotient \<noteq> 0" "prepared_ok (tx_gas_limit tx) p"
  shows "keeps (good DI) (execute_prepared_tx cf execute tx p)
    (result_ok (gp_get (gas_params (cf_version cf)) MaxRefundQuotient) (tx_gas_limit tx))"
  using assms(4)
  by (cases tx) (simp_all add: tx_gas_limit_def execute_prepared_tx_def execute_prepared_good [OF assms(1-3)]
      execute_prepared_eip7702_good [OF assms(1-3)])

text \<open>
  The state of no transaction: no account loaded, no transient storage, no address and no slot
  warm, no journal and no logs.
\<close>

definition idle :: "'d state \<Rightarrow> bool" where
  "idle st \<longleftrightarrow> st_accounts st = Map.empty \<and> st_transient st = Map.empty \<and> st_journal st = [] \<and> st_logs st = [] \<and>
     warm_addresses (st_prewarm st) = {} \<and> warm_slots (st_prewarm st) = {}"

lemma evm_clear_good: "good DI h \<Longrightarrow> good DI (evm_clear h) \<and> idle (ev_state (evm_clear h))"
  by (simp add: good_def evm_clear_def clear_transaction_state_def codes_ok_def transient_ok_def idle_def
      prewarm_clear_empty)

lemma execute_tx_outcome:
  assumes "db_ok DI (cf_database cf)" "\<And>msg. code_ok (msg_code msg) \<Longrightarrow> sound cf DI (execute msg) plain"
    and "gp_get (gas_params (cf_version cf)) MaxRefundQuotient \<noteq> 0" "good DI h"
    and "execute_tx K cf execute signer tx h = (r, h')"
  shows "good DI h' \<and>
    (case r of Inl e \<Rightarrow> e = UnsupportedTransactionType (tx_type tx) \<and> h' = h \<or> idle (ev_state h')
     | Inr x \<Rightarrow> result_ok (gp_get (gas_params (cf_version cf)) MaxRefundQuotient) (tx_gas_limit tx) x)"
proof -
  have run: "keeps (good DI) (bindE (prepare_tx K cf signer tx) (execute_prepared_tx cf execute tx))
      (result_ok (gp_get (gas_params (cf_version cf)) MaxRefundQuotient) (tx_gas_limit tx))"
    by (rule keeps_bind [OF prepare_tx_good [OF assms(1)] execute_prepared_tx_good [OF assms(1-3)]])
  obtain r1 h1 where ex: "bindE (prepare_tx K cf signer tx) (execute_prepared_tx cf execute tx) h = (r1, h1)" by fastforce
  show ?thesis
    using keepsD [OF run assms(4) ex] assms(4,5) ex evm_clear_good [of DI h1]
    by (cases r1) (auto simp: execute_tx_def split: if_splits)
qed

lemma good_logs [simp]: "good DI (h\<lparr>ev_state := st\<lparr>st_logs := l\<rparr>\<rparr>) = good DI (h\<lparr>ev_state := st\<rparr>)"
  by (simp add: good_def codes_ok_def transient_ok_def)

lemma finish_executed_tx_outcome:
  assumes "db_ok DI (cf_database cf)" "good DI h" "finish_executed_tx cf order x h = (r, h')"
  shows "good DI h' \<and> (case r of Inl e \<Rightarrow> idle (ev_state h') | Inr y \<Rightarrow> st_logs (ev_state h') = [] \<and> (\<exists>logs. y = x\<lparr>txr_logs := logs\<rparr>))"
proof -
  let ?m = "finalize_transaction (cf_crypto cf) (cf_database cf) (cf_version cf) (order (ev_state h))"
  obtain r1 st where m: "?m (ev_state h) = (r1, st)" by fastforce
  have "state_ok DI (ev_state h)" using assms(2) by (simp add: good_def state_ok_def)
  from keepsD [OF keeps_finalize_transaction [OF assms(1)] this m] have good: "good DI (h\<lparr>ev_state := st\<rparr>)"
    using assms(2) by (simp add: good_def state_ok_def)
  show ?thesis
    using assms(3) m good evm_clear_good [OF good]
    by (cases r1) (auto simp: finish_executed_tx_def on_state_def take_logs_def)
qed

lemma transact_outcome:
  assumes "db_ok DI (cf_database cf)" "\<And>msg. code_ok (msg_code msg) \<Longrightarrow> sound cf DI (execute msg) plain"
    and "gp_get (gas_params (cf_version cf)) MaxRefundQuotient \<noteq> 0" "good DI h"
    and "transact K cf execute order signer tx h = (r, h')"
  shows "good DI h' \<and>
    (case r of Inl e \<Rightarrow> e = UnsupportedTransactionType (tx_type tx) \<and> h' = h \<or> idle (ev_state h')
     | Inr x \<Rightarrow> result_ok (gp_get (gas_params (cf_version cf)) MaxRefundQuotient) (tx_gas_limit tx) x \<and> st_logs (ev_state h') = [])"
proof -
  obtain r1 h1 where ex: "execute_tx K cf execute signer tx h = (r1, h1)" by fastforce
  note 1 = execute_tx_outcome [OF assms(1-4) ex]
  show ?thesis
  proof (cases r1)
    case (Inl e)
    then show ?thesis using 1 assms(5) ex by (auto simp: transact_def bindE_def)
  next
    case (Inr x)
    then have "finish_executed_tx cf order x h1 = (r, h')"
      using assms(5) ex by (simp add: transact_def bindE_def)
    from finish_executed_tx_outcome [OF assms(1) _ this] show ?thesis
      using 1 Inr by (auto split: sum.splits)
  qed
qed

lemma base_quotient [simp]:
  "gp_get (gas_params (cf_version (base_config osaka_cap dencun_blobs s C ks D P))) MaxRefundQuotient \<noteq> 0"
  using base_divisors_all spec_in_SPEC_IDS [of s] by (simp add: list_all_iff base_config_def base_version_def)

lemma base_execute_plain:
  assumes "db_ok DI D" "precompiles_ok (base_config osaka_cap dencun_blobs s C ks D P) DI"
    and "\<forall>k \<in> set ks. kernel_ok k" "code_ok (msg_code msg)"
  shows "sound (base_config osaka_cap dencun_blobs s C ks D P) DI
    (evm_execute 1025 (base_config osaka_cap dencun_blobs s C ks D P) msg) plain"
  using base_execute_sound [OF assms] by (simp add: sound_def)

section \<open>Fees\<close>

lemma add_balance_fields [simp]:
  "hd_address (add_balance C v h) = hd_address h"
  "acct_balance (hd_tracked (add_balance C v h)) = acct_balance (hd_tracked h) + v"
  by (simp_all add: add_balance_def h_balance_def acct_balance_def [symmetric])

lemma pay_outcome:
  assumes "st_accounts (ev_state h) a \<noteq> None"
  shows "\<exists>st'. host_db (with_account D a (\<lambda>x. ((), add_balance C v x))) h = (Inr (), h\<lparr>ev_state := st'\<rparr>) \<and>
    balance_at st' = (balance_at (ev_state h))(a := balance_at (ev_state h) a + v) \<and>
    (\<forall>b. st_accounts (ev_state h) b \<noteq> None \<longrightarrow> st_accounts st' b \<noteq> None)"
proof -
  obtain acc where acc: "st_accounts (ev_state h) a = Some acc" using assms by blast
  show ?thesis
    by (simp add: host_db_def map_err_def on_state_def with_account_loaded [OF acc])
       (auto simp: balance_at_drop balance_at_loaded [OF acc] handle_drop_accounts fun_eq_iff)
qed

lemma sum_upd_add:
  fixes f :: "address \<Rightarrow> evm_word"
  assumes "finite A" "a \<in> A" "unat (f a) + unat v < 2 ^ 256"
  shows "(\<Sum>b\<in>A. unat ((f(a := f a + v)) b)) = (\<Sum>b\<in>A. unat (f b)) + unat v"
proof -
  have "unat (f a + v) = unat (f a) + unat v"
    using assms(3) by (intro unat_add_exact) simp
  then show ?thesis
    using assms(1,2) sum.remove [of A a "\<lambda>b. unat ((f(a := f a + v)) b)"] sum.remove [of A a "\<lambda>b. unat (f b)"]
    by simp
qed

lemma unat_fee:
  fixes used :: u64 and price :: evm_word
  assumes "unat used * unat price < 2 ^ 256"
  shows "unat ((ucast used :: evm_word) * price) = unat used * unat price"
proof -
  have "unat used < 2 ^ 256" using unat_lt_word [of used] by simp
  then have "unat (ucast used :: evm_word) = unat used"
    by (simp add: unsigned_ucast_eq take_bit_nat_eq_self_iff)
  then show ?thesis using assms by (simp add: unat_mult_exact)
qed

text \<open>The part of the price that is burned: since London the base fee.\<close>

definition burned_price :: "spec_id \<Rightarrow> evm_word \<Rightarrow> evm_word \<Rightarrow> evm_word" where
  "burned_price s price basefee = (if enables s LONDON then min price basefee else 0)"

abbreviation tip_price :: "spec_id \<Rightarrow> evm_word \<Rightarrow> evm_word \<Rightarrow> evm_word" where
  "tip_price s price basefee \<equiv> (if enables s LONDON then saturating_sub price basefee else price)"

lemma tip_and_burned: "unat (tip_price s price basefee) + unat (burned_price s price basefee) = unat price"
  by (auto simp: burned_price_def min_def u_arith)

lemma settlement_outcome:
  assumes "gp_get (gas_params (cf_version cf)) MaxRefundQuotient \<noteq> 0" "evm_feature cf FEE_CHARGE"
    and "st_accounts (ev_state h) (gs_caller s) \<noteq> None" "st_accounts (ev_state h) miner \<noteq> None"
    and "miner = be_beneficiary (ev_block h)"
  shows "\<exists>r h'. finalize_gas cf s h = (Inr r, h) \<and> default_settle_gas cf s h = (Inr r, h') \<and>
    (let refund = ucast (saturating_sub (gs_gas_limit s) (tx_gas_used r)) * gs_gas_price s;
         reward = ucast (tx_gas_used r) * tip_price (cf_spec_id cf) (gs_gas_price s) (be_basefee (ev_block h));
         paid = (balance_at (ev_state h))(gs_caller s := balance_at (ev_state h) (gs_caller s) + refund)
     in balance_at (ev_state h') = paid(miner := paid miner + reward))"
proof -
  obtain r where r: "finalize_gas cf s h = (Inr r, h)"
    using finalize_gas_result [OF assms(1)] by blast
  let ?pay = "\<lambda>a v. host_db (with_account (cf_database cf) a (\<lambda>x. ((), add_balance (cf_crypto cf) v x)))"
  let ?refund = "ucast (saturating_sub (gs_gas_limit s) (tx_gas_used r)) * gs_gas_price s"
  let ?reward = "ucast (tx_gas_used r) * tip_price (cf_spec_id cf) (gs_gas_price s) (be_basefee (ev_block h))"
  obtain st where st: "?pay (gs_caller s) ?refund h = (Inr (), h\<lparr>ev_state := st\<rparr>)"
    and bal: "balance_at st = (balance_at (ev_state h))(gs_caller s := balance_at (ev_state h) (gs_caller s) + ?refund)"
    and loaded: "st_accounts st miner \<noteq> None"
    using pay_outcome [OF assms(3), of "cf_database cf" "cf_crypto cf" ?refund] assms(4) by blast
  have "st_accounts (ev_state (h\<lparr>ev_state := st\<rparr>)) miner \<noteq> None" using loaded by simp
  from pay_outcome [OF this, of "cf_database cf" "cf_crypto cf" ?reward] obtain st'
    where st': "?pay miner ?reward (h\<lparr>ev_state := st\<rparr>) = (Inr (), h\<lparr>ev_state := st'\<rparr>)"
      and bal': "balance_at st' = (balance_at st)(miner := balance_at st miner + ?reward)" by auto
  have "default_settle_gas cf s h = (Inr r, h\<lparr>ev_state := st'\<rparr>)"
    using r st st' assms(2,5)
    by (cases "enables (cf_spec_id cf) LONDON") (simp_all add: default_settle_gas_def Let_def bindE_def returnE_def)
  then show ?thesis using r bal' bal by (auto simp: Let_def)
qed

lemma settlement_sum:
  fixes A :: "address set"
  assumes "gp_get (gas_params (cf_version cf)) MaxRefundQuotient \<noteq> 0" "evm_feature cf FEE_CHARGE"
    and "gs_floor_gas s \<le> gs_gas_limit s" "miner = be_beneficiary (ev_block h)"
    and "st_accounts (ev_state h) (gs_caller s) \<noteq> None" "st_accounts (ev_state h) miner \<noteq> None"
    and "finite A" "gs_caller s \<in> A" "miner \<in> A"
    and "unat (balance_at (ev_state h) (gs_caller s)) + unat (balance_at (ev_state h) miner) +
           unat (gs_gas_limit s) * unat (gs_gas_price s) < 2 ^ 256"
  shows "\<exists>r h'. default_settle_gas cf s h = (Inr r, h') \<and> tx_gas_used r \<le> gs_gas_limit s \<and>
    (\<Sum>a\<in>A. unat (balance_at (ev_state h') a)) +
      unat (tx_gas_used r) * unat (burned_price (cf_spec_id cf) (gs_gas_price s) (be_basefee (ev_block h))) =
    (\<Sum>a\<in>A. unat (balance_at (ev_state h) a)) + unat (gs_gas_limit s) * unat (gs_gas_price s)"
proof -
  let ?b = "balance_at (ev_state h)" and ?price = "gs_gas_price s" and ?limit = "gs_gas_limit s"
  let ?tip = "tip_price (cf_spec_id cf) ?price (be_basefee (ev_block h))"
  let ?burned = "burned_price (cf_spec_id cf) ?price (be_basefee (ev_block h))"
  obtain r h' where fin: "finalize_gas cf s h = (Inr r, h)" and ex: "default_settle_gas cf s h = (Inr r, h')"
    and bal: "balance_at (ev_state h') =
      (let paid = ?b(gs_caller s := ?b (gs_caller s) + ucast (saturating_sub ?limit (tx_gas_used r)) * ?price)
       in paid(miner := paid miner + ucast (tx_gas_used r) * ?tip))"
    using settlement_outcome [OF assms(1,2,5,6,4)] by (auto simp: Let_def)
  have used: "unat (tx_gas_used r) \<le> unat ?limit"
    using finalize_gas_result [OF assms(1), of s h] fin assms(3) by (auto simp: result_ok_def word_le_nat_alt)
  define rest where "rest = unat ?limit - unat (tx_gas_used r)"
  have parts: "unat ?limit * unat ?price = rest * unat ?price + unat (tx_gas_used r) * unat ?tip + unat (tx_gas_used r) * unat ?burned"
  proof -
    have "unat ?limit = rest + unat (tx_gas_used r)" using used by (simp add: rest_def)
    moreover have "unat (tx_gas_used r) * unat ?price = unat (tx_gas_used r) * unat ?tip + unat (tx_gas_used r) * unat ?burned"
      by (metis distrib_left tip_and_burned)
    ultimately show ?thesis by (simp add: distrib_right)
  qed
  define refund where "refund = ucast (saturating_sub ?limit (tx_gas_used r)) * ?price"
  define reward where "reward = ucast (tx_gas_used r) * ?tip"
  have refund: "unat refund = rest * unat ?price"
    unfolding refund_def using assms(10) parts by (subst unat_fee) (simp_all add: unat_saturating_sub rest_def)
  have reward: "unat reward = unat (tx_gas_used r) * unat ?tip"
    unfolding reward_def using assms(10) parts by (intro unat_fee) linarith
  let ?paid = "?b(gs_caller s := ?b (gs_caller s) + refund)"
  have fits: "unat (?b (gs_caller s)) + unat refund < 2 ^ 256"
    using assms(10) parts refund by linarith
  then have "unat (?b (gs_caller s) + refund) = unat (?b (gs_caller s)) + unat refund"
    by (intro unat_add_exact) simp
  then have fits': "unat (?paid miner) + unat reward < 2 ^ 256"
    using assms(10) parts refund reward by (cases "miner = gs_caller s") simp_all
  show ?thesis
    using ex used parts refund reward sum_upd_add [of A _ ?b, OF assms(7,8) fits] sum_upd_add [of A _ ?paid, OF assms(7,9) fits'] bal
    by (simp add: refund_def [symmetric] reward_def [symmetric] Let_def word_le_nat_alt)
qed

section \<open>Properties\<close>

text \<open>
  C2:  A transaction always concludes.  In a base configuration, from a well-formed host state and
  with a database and precompiles that keep their contracts, \<open>transact\<close> on a transaction of any
  type returns and leaves the host state well formed: no panic, no division by zero and no nesting
  beyond the model's bound.  An error leaves no transaction state behind (no account loaded, nothing
  warm, no transient storage, no journal, no logs), except that a transaction whose type is not
  supported leaves the host exactly as it found it; an executed one has its logs drained and reports
  gas between its floor and its limit and a refund within the cap of the specification.
\<close>

theorem transaction_concludes:
  assumes "db_ok DI D" "precompiles_ok (base_config osaka_cap dencun_blobs s C ks D P) DI"
    and "\<forall>k \<in> set ks. kernel_ok k" "good DI h" "cf = base_config osaka_cap dencun_blobs s C ks D P"
  shows "\<exists>r h'. transact K cf (evm_execute 1025 cf) order signer tx h = (r, h') \<and> \<not> ev_broken h' \<and> good DI h' \<and>
    (case r of
       Inl e \<Rightarrow> e = UnsupportedTransactionType (tx_type tx) \<and> h' = h \<or> idle (ev_state h')
     | Inr x \<Rightarrow> result_ok (gp_get (gas_params (cf_version cf)) MaxRefundQuotient) (tx_gas_limit tx) x \<and>
         st_logs (ev_state h') = [])"
proof -
  obtain r h' where ex: "transact K cf (evm_execute 1025 cf) order signer tx h = (r, h')" by fastforce
  have "good DI h' \<and> (case r of
       Inl e \<Rightarrow> e = UnsupportedTransactionType (tx_type tx) \<and> h' = h \<or> idle (ev_state h')
     | Inr x \<Rightarrow> result_ok (gp_get (gas_params (cf_version cf)) MaxRefundQuotient) (tx_gas_limit tx) x \<and>
         st_logs (ev_state h') = [])"
    by (rule transact_outcome [OF _ _ _ assms(4) ex])
      (use assms(1) base_execute_plain [OF assms(1-3)] in \<open>simp_all add: assms(5)\<close>)
  with ex show ?thesis by (auto simp: good_def)
qed

text \<open>
  C7:  Settlement hands out the fee exactly.  When fees are charged and the caller and the
  beneficiary are loaded, \<open>default_settle_gas\<close> succeeds, and over any set of accounts with both
  of them the balances grow by the whole upfront fee (gas limit times gas price) less what is
  burned: the base fee on the gas used since London, nothing before.  This also covers a caller
  who is the beneficiary; the one condition is that the balances do not exceed 256 bits.
\<close>

theorem settlement_distributes_fee:
  fixes A :: "address set"
  assumes "cf = base_config osaka_cap dencun_blobs s C ks D P" "evm_feature cf FEE_CHARGE"
    and "gs_floor_gas g \<le> gs_gas_limit g" "miner = be_beneficiary (ev_block h)"
    and "st_accounts (ev_state h) (gs_caller g) \<noteq> None" "st_accounts (ev_state h) miner \<noteq> None"
    and "finite A" "gs_caller g \<in> A" "miner \<in> A"
    and "unat (balance_at (ev_state h) (gs_caller g)) + unat (balance_at (ev_state h) miner) +
           unat (gs_gas_limit g) * unat (gs_gas_price g) < 2 ^ 256"
  shows "\<exists>r h'. default_settle_gas cf g h = (Inr r, h') \<and> tx_gas_used r \<le> gs_gas_limit g \<and>
    (\<Sum>a\<in>A. unat (balance_at (ev_state h') a)) +
      unat (tx_gas_used r) * unat (burned_price s (gs_gas_price g) (be_basefee (ev_block h))) =
    (\<Sum>a\<in>A. unat (balance_at (ev_state h) a)) + unat (gs_gas_limit g) * unat (gs_gas_price g)"
proof -
  have "gp_get (gas_params (cf_version cf)) MaxRefundQuotient \<noteq> 0" by (simp only: assms(1) base_quotient simp_thms)
  moreover have "cf_spec_id cf = s" by (simp add: assms(1) base_config_def)
  ultimately show ?thesis using settlement_sum [OF _ assms(2-10)] by simp
qed

definition sample_transfer_tx :: tx_envelope where
  "sample_transfer_tx = Legacy_Tx
     \<lparr>tb_nonce = 0, tb_gas_limit = 21000, tb_value = 0, tb_input = [], lg_chain_id = Some 1, lg_gas_price = 0,
      lg_to = TxCall 7\<rparr>"

theorem transaction_concludes_witness:
  "\<exists>r h'. transact \<lparr>DATA_GAS_PER_BLOB = 131072, VERSIONED_HASH_VERSION_KZG = 1\<rparr> bare_config (evm_execute 1025 bare_config)
       (\<lambda>_. []) 9 sample_transfer_tx bare_evm = (r, h') \<and> \<not> ev_broken h' \<and> good (\<lambda>_. True) h'"
proof -
  have "\<forall>k \<in> set []. kernel_ok k" by simp
  from transaction_concludes [OF bare_db_ok bare_precompiles_ok this bare_evm_good bare_config_def]
  show ?thesis by blast
qed

definition sample_settlement :: gas_settlement where
  "sample_settlement =
     \<lparr>gs_caller = 1, gs_gas_price = 5, gs_gas_limit = 100, gs_floor_gas = 21, gs_initial_state_gas = 0, gs_state_refund = 0,
      gs_result = \<lparr>mr_stop = Stop, mr_gas = new_with_execution_gas_and_reservoir 40 0, mr_output = [], mr_created_address = None\<rparr>\<rparr>"

definition sample_host :: "unit evm" where
  "sample_host = bare_evm\<lparr>ev_state := sample_state,
     ev_block := (ev_block bare_evm)\<lparr>be_beneficiary := 2, be_basefee := 3\<rparr>\<rparr>"

theorem settlement_distributes_fee_witness:
  "\<exists>r h'. default_settle_gas bare_config sample_settlement sample_host = (Inr r, h') \<and> tx_gas_used r \<le> 100 \<and>
     (\<Sum>a\<in>{1, 2}. unat (balance_at (ev_state h') a)) + unat (tx_gas_used r) * 3 = 12 + 100 * 5"
proof -
  have "features_contains (base_features PRAGUE) FEE_CHARGE" by code_simp
  then have fee: "evm_feature bare_config FEE_CHARGE"
    by (simp add: bare_config_def evm_feature_def feature_def base_config_def base_version_def)
  have b: "balance_at sample_state 1 = 5" "balance_at sample_state 2 = 7"
    by (simp_all add: balance_at_def sample_state_accounts acct_balance_def sample_account_def loaded_account_def)
  have "burned_price PRAGUE 5 3 = 3" by code_simp
  with settlement_distributes_fee [OF bare_config_def fee, of sample_settlement 2 sample_host "{1, 2}"] show ?thesis
    by (simp add: sample_settlement_def sample_host_def sample_state_accounts b)
qed

end
