(* ===== verification/Cache_DB.thy ===== *)
theory Cache_DB
  imports Exec_Rules
begin

text \<open>
  The caching database between the state and the backing database
  (\<open>src/crates/evm2/src/evm/db/cache.rs\<close>): accounts, code, storage and block hashes that were read
  or committed, with \<open>EmptyDB\<close> and the commit of a transaction into it.  No block access list is
  attached and none is built, so the parts of the cache that consult one return at once.
\<close>

section \<open>The cache\<close>

record account_storage_cache =
  sc_slots :: "evm_word \<rightharpoonup> evm_word"
  sc_wiped :: bool

definition storage_cache_default :: account_storage_cache where
  "storage_cache_default = \<lparr>sc_slots = Map.empty, sc_wiped = False\<rparr>"

definition storage_cache_wipe :: "account_storage_cache \<Rightarrow> account_storage_cache" where
  "storage_cache_wipe sc = sc\<lparr>sc_slots := Map.empty, sc_wiped := True\<rparr>"

record cache =
  ca_accounts :: "address \<rightharpoonup> account_info option"
  ca_contracts :: "b256 \<rightharpoonup> bytecode"
  ca_storage :: "address \<rightharpoonup> account_storage_cache"
  ca_block_hashes :: "evm_word \<rightharpoonup> b256"

text \<open>\<open>entry(address).or_default()\<close>.\<close>

definition storage_entry :: "cache \<Rightarrow> address \<Rightarrow> account_storage_cache" where
  "storage_entry c a = (case ca_storage c a of Some sc \<Rightarrow> sc | None \<Rightarrow> storage_cache_default)"

definition cache_default :: "crypto \<Rightarrow> cache" where
  "cache_default C =
     \<lparr>ca_accounts = Map.empty, ca_contracts = [KECCAK256_EMPTY C \<mapsto> bytecode_new], ca_storage = Map.empty,
      ca_block_hashes = Map.empty\<rparr>"

definition cache_merge :: "cache \<Rightarrow> cache \<Rightarrow> cache" where
  "cache_merge c other =
     \<lparr>ca_accounts = ca_accounts c ++ ca_accounts other, ca_contracts = ca_contracts c ++ ca_contracts other,
      ca_storage = (\<lambda>a. case ca_storage other a of
         None \<Rightarrow> ca_storage c a
       | Some storage \<Rightarrow>
           let target = storage_entry c a;
               target = (if sc_wiped storage then storage_cache_wipe target else target)
           in Some (target\<lparr>sc_slots := sc_slots target ++ sc_slots storage\<rparr>)),
      ca_block_hashes = ca_block_hashes c ++ ca_block_hashes other\<rparr>"

record 'd cache_db =
  cdb_cache :: cache
  cdb_db :: 'd

definition cache_db_new :: "crypto \<Rightarrow> 'd \<Rightarrow> 'd cache_db" where
  "cache_db_new C d = \<lparr>cdb_cache = cache_default C, cdb_db = d\<rparr>"

section \<open>Insertion\<close>

definition normalize_code_hash :: "crypto \<Rightarrow> account_info \<Rightarrow> account_info" where
  "normalize_code_hash C info =
     (if ai_code_hash info = 0 then info\<lparr>ai_code_hash := KECCAK256_EMPTY C\<rparr> else info)"

definition insert_contract_inner ::
    "crypto \<Rightarrow> account_info \<Rightarrow> (b256 \<rightharpoonup> bytecode) \<Rightarrow> account_info \<times> (b256 \<rightharpoonup> bytecode)" where
  "insert_contract_inner C info contracts =
     (let info = normalize_code_hash C info in
      case ai_code info of
        None \<Rightarrow> (info, contracts)
      | Some code \<Rightarrow>
          if bytecode_is_empty code then (info, contracts)
          else
            let info =
                  (if is_empty_code_hash C info
                   then info\<lparr>ai_code_hash := hash_slow (keccak256 C) code\<rparr> else info)
            in (info,
                if contracts (ai_code_hash info) = None then contracts(ai_code_hash info \<mapsto> code) else contracts))"

definition insert_account_info :: "crypto \<Rightarrow> address \<Rightarrow> account_info \<Rightarrow> cache \<Rightarrow> cache" where
  "insert_account_info C a info c =
     (case insert_contract_inner C info (ca_contracts c) of (info, contracts) \<Rightarrow>
        c\<lparr>ca_accounts := (ca_accounts c)(a \<mapsto> Some (info\<lparr>ai_code := None\<rparr>)), ca_contracts := contracts\<rparr>)"

definition insert_account_storage :: "address \<Rightarrow> evm_word \<Rightarrow> evm_word \<Rightarrow> cache \<Rightarrow> cache" where
  "insert_account_storage a key v c =
     (let sc = storage_entry c a in c\<lparr>ca_storage := (ca_storage c)(a \<mapsto> sc\<lparr>sc_slots := (sc_slots sc)(key \<mapsto> v)\<rparr>)\<rparr>)"

definition remove_account_storage :: "address \<Rightarrow> cache \<Rightarrow> account_storage_cache option \<times> cache" where
  "remove_account_storage a c = (ca_storage c a, c\<lparr>ca_storage := (ca_storage c)(a := None)\<rparr>)"

definition insert_block_hash :: "evm_word \<Rightarrow> b256 \<Rightarrow> cache \<Rightarrow> cache" where
  "insert_block_hash n h c = c\<lparr>ca_block_hashes := (ca_block_hashes c)(n \<mapsto> h)\<rparr>"

section \<open>Commit\<close>

definition changed_slots :: "storage_overlay \<Rightarrow> (evm_word \<rightharpoonup> evm_word)" where
  "changed_slots overlay key =
     (case so_slots overlay key of
        None \<Rightarrow> None
      | Some slot \<Rightarrow> if slot_is_changed (so_wiped overlay) slot then Some (tr_current (slot_value slot)) else None)"

text \<open>
  The body of the loop of \<open>commit\<close>.  An extension by no slots of an entry that is not wiped is the
  case in which the code creates no entry.
\<close>

definition commit_storage :: "address \<Rightarrow> acct \<Rightarrow> cache \<Rightarrow> cache" where
  "commit_storage a entry c =
     (let overlay = ac_storage entry;
          wiped = (so_wiped overlay \<or> discards_storage entry);
          slots = changed_slots overlay
      in if wiped \<or> slots \<noteq> Map.empty then
           let storage = storage_entry c a;
               storage = (if wiped then storage_cache_wipe storage else storage)
           in c\<lparr>ca_storage := (ca_storage c)(a \<mapsto> storage\<lparr>sc_slots := sc_slots storage ++ slots\<rparr>)\<rparr>
         else c)"

definition commit_code :: "acct \<Rightarrow> cache \<Rightarrow> cache" where
  "commit_code entry c =
     (case changed_code entry of
        None \<Rightarrow> c
      | Some (code_hash, code) \<Rightarrow> c\<lparr>ca_contracts := (ca_contracts c)(code_hash \<mapsto> code)\<rparr>)"

definition commit_account :: "crypto \<Rightarrow> address \<Rightarrow> acct \<Rightarrow> cache \<Rightarrow> cache" where
  "commit_account C a entry c =
     (let c = commit_code entry (commit_storage a entry c)
      in if \<not> acct_is_changed entry then c
         else
           case ac_present entry of
             Some account \<Rightarrow> insert_account_info C a (clone_no_code account) c
           | None \<Rightarrow>
               c\<lparr>ca_accounts := (ca_accounts c)(a \<mapsto> None),
                 ca_storage := (ca_storage c)(a \<mapsto> storage_cache_wipe (storage_entry c a))\<rparr>)"

text \<open>The accounts of the transaction in the order of the hash map, which is a parameter.\<close>

definition cache_commit :: "crypto \<Rightarrow> address list \<Rightarrow> (address \<rightharpoonup> acct) \<Rightarrow> 'd cache_db \<Rightarrow> 'd cache_db" where
  "cache_commit C order accounts s =
     s\<lparr>cdb_cache := fold (\<lambda>a c. case accounts a of None \<Rightarrow> c | Some entry \<Rightarrow> commit_account C a entry c) order
        (cdb_cache s)\<rparr>"

definition commit_transaction :: "crypto \<Rightarrow> address list \<Rightarrow> 'd cache_db state \<Rightarrow> 'd cache_db state" where
  "commit_transaction C order st =
     st\<lparr>st_database := cache_commit C order (st_accounts st) (st_database st), st_accounts := Map.empty\<rparr>"

section \<open>Reads\<close>

definition cache_get_account ::
    "crypto \<Rightarrow> 'd database \<Rightarrow> address \<Rightarrow> ('d cache_db, database_error, account_info option) sres" where
  "cache_get_account C D a s =
     (case ca_accounts (cdb_cache s) a of
        Some account \<Rightarrow> (Inr (map_option (normalize_code_hash C) account), s)
      | None \<Rightarrow>
          case db_account D a (cdb_db s) of
            (Inl e, d) \<Rightarrow> (Inl e, s\<lparr>cdb_db := d\<rparr>)
          | (Inr None, d) \<Rightarrow>
              (Inr None, \<lparr>cdb_cache = (cdb_cache s)\<lparr>ca_accounts := (ca_accounts (cdb_cache s))(a \<mapsto> None)\<rparr>, cdb_db = d\<rparr>)
          | (Inr (Some info), d) \<Rightarrow>
              let c = insert_account_info C a info (cdb_cache s)
              in (Inr (map_option (normalize_code_hash C) (the (ca_accounts c a))), \<lparr>cdb_cache = c, cdb_db = d\<rparr>))"

definition cache_get_code_by_hash ::
    "crypto \<Rightarrow> 'd database \<Rightarrow> b256 \<Rightarrow> ('d cache_db, database_error, bytecode) sres" where
  "cache_get_code_by_hash C D h s =
     (let h = (if h = 0 then KECCAK256_EMPTY C else h); c = cdb_cache s in
      case ca_contracts c h of
        Some code \<Rightarrow> (Inr code, s)
      | None \<Rightarrow>
          case db_code_by_hash D h (cdb_db s) of
            (Inl e, d) \<Rightarrow> (Inl e, s\<lparr>cdb_db := d\<rparr>)
          | (Inr code, d) \<Rightarrow>
              (Inr code, \<lparr>cdb_cache = c\<lparr>ca_contracts := (ca_contracts c)(h \<mapsto> code)\<rparr>, cdb_db = d\<rparr>))"

definition cache_get_storage ::
    "'d database \<Rightarrow> address \<Rightarrow> evm_word \<Rightarrow> ('d cache_db, database_error, evm_word) sres" where
  "cache_get_storage D a key s =
     (let c = cdb_cache s;
          absent = (ca_accounts c a = Some None);
          read = (case db_storage D a key (cdb_db s) of
                    (Inl e, d) \<Rightarrow> (Inl e, s\<lparr>cdb_db := d\<rparr>)
                  | (Inr v, d) \<Rightarrow> (Inr v, \<lparr>cdb_cache = insert_account_storage a key v c, cdb_db = d\<rparr>))
      in case ca_storage c a of
           Some storage \<Rightarrow>
             (case sc_slots storage key of
                Some v \<Rightarrow> (Inr v, s)
              | None \<Rightarrow> if sc_wiped storage then (Inr 0, s) else if absent then (Inr 0, s) else read)
         | None \<Rightarrow> if absent then (Inr 0, s) else read)"

definition cache_get_block_hash ::
    "'d database \<Rightarrow> evm_word \<Rightarrow> ('d cache_db, database_error, b256) sres" where
  "cache_get_block_hash D n s =
     (case ca_block_hashes (cdb_cache s) n of
        Some h \<Rightarrow> (Inr h, s)
      | None \<Rightarrow>
          case db_block_hash D n (cdb_db s) of
            (Inl e, d) \<Rightarrow> (Inl e, s\<lparr>cdb_db := d\<rparr>)
          | (Inr h, d) \<Rightarrow> (Inr h, \<lparr>cdb_cache = insert_block_hash n h (cdb_cache s), cdb_db = d\<rparr>))"

text \<open>The cache as the database of a state; with no block access list every slot is covered.\<close>

definition cache_database :: "crypto \<Rightarrow> 'd database \<Rightarrow> 'd cache_db database" where
  "cache_database C D =
     \<lparr>db_account = cache_get_account C D, db_code_by_hash = cache_get_code_by_hash C D,
      db_storage = cache_get_storage D, db_block_hash = cache_get_block_hash D,
      db_check_slot = (\<lambda>_ _. returnE ())\<rparr>"

section \<open>The empty database\<close>

text \<open>The decimal digits of a number, as \<open>to_string\<close> prints them.\<close>

fun decimal :: "nat \<Rightarrow> bytes" where
  "decimal n = (if n < 10 then [of_nat (48 + n)] else decimal (n div 10) @ [of_nat (48 + n mod 10)])"

declare decimal.simps [simp del]

definition empty_db :: "crypto \<Rightarrow> unit database" where
  "empty_db C =
     \<lparr>db_account = (\<lambda>_. returnE None), db_code_by_hash = (\<lambda>_. returnE bytecode_new),
      db_storage = (\<lambda>_ _. returnE 0), db_block_hash = (\<lambda>n. returnE (keccak256 C (decimal (unat n)))),
      db_check_slot = (\<lambda>_ _. returnE ())\<rparr>"

section \<open>The cache keeps the contract of a database\<close>

definition cache_ok :: "('d \<Rightarrow> bool) \<Rightarrow> 'd cache_db \<Rightarrow> bool" where
  "cache_ok DI s \<longleftrightarrow> DI (cdb_db s) \<and>
     (\<forall>a i. ca_accounts (cdb_cache s) a = Some i \<longrightarrow> info_ok i) \<and>
     (\<forall>h c. ca_contracts (cdb_cache s) h = Some c \<longrightarrow> code_ok c)"

lemma cache_okI:
  "DI d \<Longrightarrow> (\<And>a i. ca_accounts c a = Some i \<Longrightarrow> info_ok i) \<Longrightarrow> (\<And>h x. ca_contracts c h = Some x \<Longrightarrow> code_ok x) \<Longrightarrow>
     cache_ok DI \<lparr>cdb_cache = c, cdb_db = d\<rparr>"
  by (simp add: cache_ok_def)

lemma cache_ok_db: "cache_ok DI s \<Longrightarrow> DI d \<Longrightarrow> cache_ok DI (s\<lparr>cdb_db := d\<rparr>)"
  by (simp add: cache_ok_def)

lemma info_ok_None [simp]: "info_ok None"
  by (simp add: info_ok_def)

lemma info_ok_no_code [simp]: "info_ok (Some (i\<lparr>ai_code := None\<rparr>))"
  by (simp add: info_ok_def)

lemma info_ok_normalize [simp]: "info_ok (map_option (normalize_code_hash C) i) = info_ok i"
  by (cases i) (auto simp: info_ok_def normalize_code_hash_def)

lemma insert_contract_contracts:
  assumes "insert_contract_inner C info m = (info', m')" "info_ok (Some info)" "\<And>h x. m h = Some x \<Longrightarrow> code_ok x"
  shows "m' h = Some x \<Longrightarrow> code_ok x"
  using assms
  by (auto simp: insert_contract_inner_def Let_def info_ok_def normalize_code_hash_def split: option.splits if_splits)

lemma cache_ok_insert_account:
  assumes "cache_ok DI \<lparr>cdb_cache = c, cdb_db = d\<rparr>" "info_ok (Some info)"
  shows "cache_ok DI \<lparr>cdb_cache = insert_account_info C a info c, cdb_db = d\<rparr>"
proof -
  obtain info' m where ins: "insert_contract_inner C info (ca_contracts c) = (info', m)" by fastforce
  have "m h = Some x \<Longrightarrow> code_ok x" for h x
    using insert_contract_contracts [OF ins assms(2)] assms(1) by (simp add: cache_ok_def)
  then show ?thesis
    using assms(1) by (auto simp: cache_ok_def insert_account_info_def ins split: if_splits)
qed

lemma cache_account_ok:
  assumes "db_ok DI D"
  shows "keeps (cache_ok DI) (cache_get_account C D a) info_ok"
proof (rule keepsI)
  fix s r s' assume s: "cache_ok DI s" and ex: "cache_get_account C D a s = (r, s')"
  show "cache_ok DI s' \<and> (\<forall>x. r = Inr x \<longrightarrow> info_ok x)"
  proof (cases "ca_accounts (cdb_cache s) a")
    case (Some i)
    then show ?thesis using s ex by (auto simp: cache_get_account_def cache_ok_def)
  next
    case None
    obtain r1 d where db: "db_account D a (cdb_db s) = (r1, d)" by fastforce
    have k: "DI d \<and> (\<forall>x. r1 = Inr x \<longrightarrow> info_ok x)"
      using keepsD [of DI "db_account D a" info_ok, OF _ _ db] assms s by (simp add: db_ok_def cache_ok_def)
    have s1: "cache_ok DI \<lparr>cdb_cache = cdb_cache s, cdb_db = d\<rparr>"
      using s k by (simp add: cache_ok_def)
    consider (err) e where "r1 = Inl e" | (absent) "r1 = Inr None" | (found) info where "r1 = Inr (Some info)"
      by (metis old.sum.exhaust option.exhaust)
    then show ?thesis
    proof cases
      case err
      then have "r = Inl e \<and> s' = s\<lparr>cdb_db := d\<rparr>" using ex None db by (simp add: cache_get_account_def)
      then show ?thesis using s k by (simp add: cache_ok_db)
    next
      case absent
      then show ?thesis using ex None db s1 by (auto simp: cache_get_account_def cache_ok_def split: if_splits)
    next
      case found
      let ?c = "insert_account_info C a info (cdb_cache s)"
      have "s' = \<lparr>cdb_cache = ?c, cdb_db = d\<rparr>" "r = Inr (map_option (normalize_code_hash C) (the (ca_accounts ?c a)))"
        using ex None db found by (simp_all add: cache_get_account_def Let_def)
      moreover have "info_ok (the (ca_accounts ?c a))"
        by (simp add: insert_account_info_def split: prod.splits)
      ultimately show ?thesis using cache_ok_insert_account [OF s1] k found by simp
    qed
  qed
qed

lemma cache_code_ok:
  assumes "db_ok DI D"
  shows "keeps (cache_ok DI) (cache_get_code_by_hash C D h) code_ok"
proof (rule keepsI)
  fix s r s' assume s: "cache_ok DI s" and ex: "cache_get_code_by_hash C D h s = (r, s')"
  define h' where "h' = (if h = 0 then KECCAK256_EMPTY C else h)"
  note ex = ex [unfolded cache_get_code_by_hash_def Let_def, folded h'_def]
  show "cache_ok DI s' \<and> (\<forall>x. r = Inr x \<longrightarrow> code_ok x)"
  proof (cases "ca_contracts (cdb_cache s) h'")
    case (Some c)
    then show ?thesis using s ex by (auto simp: cache_ok_def)
  next
    case None
    obtain r1 d where db: "db_code_by_hash D h' (cdb_db s) = (r1, d)" by fastforce
    have "DI d \<and> (\<forall>x. r1 = Inr x \<longrightarrow> code_ok x)"
      using keepsD [of DI "db_code_by_hash D h'" code_ok, OF _ _ db] assms s by (simp add: db_ok_def cache_ok_def)
    then show ?thesis using ex None db s by (cases r1) (auto simp: cache_ok_def split: if_splits)
  qed
qed

lemma cache_storage_ok:
  assumes "db_ok DI D"
  shows "keeps (cache_ok DI) (cache_get_storage D a key) (\<lambda>_. True)"
proof (rule keepsI)
  fix s r s' assume s: "cache_ok DI s" and ex: "cache_get_storage D a key s = (r, s')"
  obtain r1 d where db: "db_storage D a key (cdb_db s) = (r1, d)" by fastforce
  have "DI d"
    using keepsD [of DI "db_storage D a key" "\<lambda>_. True", OF _ _ db] assms s by (simp add: db_ok_def cache_ok_def)
  then show "cache_ok DI s' \<and> (\<forall>x. r = Inr x \<longrightarrow> True)"
    using ex s db
    by (cases r1) (auto simp: cache_get_storage_def cache_ok_def Let_def insert_account_storage_def split: option.splits if_splits)
qed

lemma cache_block_hash_ok:
  assumes "db_ok DI D"
  shows "keeps (cache_ok DI) (cache_get_block_hash D n) (\<lambda>_. True)"
proof (rule keepsI)
  fix s r s' assume s: "cache_ok DI s" and ex: "cache_get_block_hash D n s = (r, s')"
  obtain r1 d where db: "db_block_hash D n (cdb_db s) = (r1, d)" by fastforce
  have "DI d"
    using keepsD [of DI "db_block_hash D n" "\<lambda>_. True", OF _ _ db] assms s by (simp add: db_ok_def cache_ok_def)
  then show "cache_ok DI s' \<and> (\<forall>x. r = Inr x \<longrightarrow> True)"
    using ex s db
    by (cases r1) (auto simp: cache_get_block_hash_def cache_ok_def insert_block_hash_def split: option.splits)
qed

lemma cache_database_db_ok:
  assumes "db_ok DI D"
  shows "db_ok (cache_ok DI) (cache_database C D)"
  unfolding db_ok_def cache_database_def
  by (simp add: cache_account_ok [OF assms] cache_code_ok [OF assms] cache_storage_ok [OF assms]
      cache_block_hash_ok [OF assms] keeps_return)

lemma commit_storage_ok:
  "cache_ok DI \<lparr>cdb_cache = commit_storage a e c, cdb_db = d\<rparr> = cache_ok DI \<lparr>cdb_cache = c, cdb_db = d\<rparr>"
  by (simp add: commit_storage_def Let_def cache_ok_def)

lemma commit_account_ok:
  assumes "cache_ok DI \<lparr>cdb_cache = c, cdb_db = d\<rparr>" "info_ok (ac_present e)"
  shows "cache_ok DI \<lparr>cdb_cache = commit_account C a e c, cdb_db = d\<rparr>"
proof -
  define c2 where "c2 = commit_code e (commit_storage a e c)"
  have "cache_ok DI \<lparr>cdb_cache = commit_storage a e c, cdb_db = d\<rparr>" using assms(1) by (simp add: commit_storage_ok)
  then have c2: "cache_ok DI \<lparr>cdb_cache = c2, cdb_db = d\<rparr>"
    using assms(2)
    by (auto simp: c2_def commit_code_def changed_code_def cache_ok_def info_ok_def bind_eq_Some_conv
        split: option.splits if_splits)
  show ?thesis
  proof (cases "ac_present e")
    case None
    then show ?thesis
      using c2 by (auto simp: commit_account_def c2_def [symmetric] Let_def cache_ok_def split: if_splits)
  next
    case (Some i)
    then show ?thesis
      using c2 cache_ok_insert_account [OF c2 info_ok_no_code, of C a i]
      by (simp add: commit_account_def c2_def [symmetric] Let_def clone_no_code_def)
  qed
qed

lemma cache_commit_ok:
  assumes "cache_ok DI s" "\<And>a e. m a = Some e \<Longrightarrow> info_ok (ac_present e)"
  shows "cache_ok DI (cache_commit C order m s)"
  using assms(1)
proof (induction order arbitrary: s)
  case Nil
  then show ?case by (simp add: cache_commit_def)
next
  case (Cons a order)
  let ?s = "s\<lparr>cdb_cache := (case m a of None \<Rightarrow> cdb_cache s | Some e \<Rightarrow> commit_account C a e (cdb_cache s))\<rparr>"
  have "s = \<lparr>cdb_cache = cdb_cache s, cdb_db = cdb_db s\<rparr>" by simp
  then have "cache_ok DI ?s"
    using Cons.prems commit_account_ok [of DI "cdb_cache s" "cdb_db s"] assms(2) by (cases s) (auto split: option.splits)
  then have "cache_ok DI (cache_commit C order m ?s)" by (rule Cons.IH)
  then show ?case by (simp add: cache_commit_def)
qed

section \<open>What a commit leaves in the cache\<close>

definition stripped :: "crypto \<Rightarrow> account_info \<Rightarrow> account_info" where
  "stripped C i = normalize_code_hash C (clone_no_code i)"

definition committed_account :: "crypto \<Rightarrow> acct \<Rightarrow> account_info option option \<Rightarrow> account_info option option" where
  "committed_account C e x = (if acct_is_changed e then Some (map_option (stripped C) (ac_present e)) else x)"

definition committed_storage :: "acct \<Rightarrow> account_storage_cache option \<Rightarrow> account_storage_cache option" where
  "committed_storage e x =
     (let entry = (\<lambda>x. case x of Some sc \<Rightarrow> sc | None \<Rightarrow> storage_cache_default);
          wiped = (so_wiped (ac_storage e) \<or> discards_storage e);
          slots = changed_slots (ac_storage e);
          sc = (if wiped then storage_cache_wipe (entry x) else entry x);
          x = (if wiped \<or> slots \<noteq> Map.empty then Some (sc\<lparr>sc_slots := sc_slots sc ++ slots\<rparr>) else x)
      in if acct_is_changed e \<and> ac_present e = None then Some (storage_cache_wipe (entry x)) else x)"

lemma commit_storage_at:
  "ca_accounts (commit_storage a e c) = ca_accounts c" "ca_contracts (commit_storage a e c) = ca_contracts c"
  "commit_code e c = c\<lparr>ca_contracts := ca_contracts (commit_code e c)\<rparr>"
  by (simp_all add: commit_storage_def commit_code_def Let_def split: option.splits)

lemma insert_no_code:
  "insert_account_info C a (clone_no_code i) c = c\<lparr>ca_accounts := (ca_accounts c)(a \<mapsto> Some (stripped C i))\<rparr>"
  by (cases i) (simp add: insert_account_info_def insert_contract_inner_def stripped_def clone_no_code_def
      normalize_code_hash_def Let_def)

lemma commit_code_fields [simp]:
  "ca_accounts (commit_code e c) = ca_accounts c" "ca_storage (commit_code e c) = ca_storage c"
  "storage_entry (commit_code e c) = storage_entry c"
  by (simp_all add: commit_code_def storage_entry_def fun_eq_iff split: option.splits)

lemma commit_account_at:
  "ca_accounts (commit_account C a e c) = (ca_accounts c)(a := committed_account C e (ca_accounts c a))"
  "ca_storage (commit_account C a e c) = (ca_storage c)(a := committed_storage e (ca_storage c a))"
proof -
  show "ca_accounts (commit_account C a e c) = (ca_accounts c)(a := committed_account C e (ca_accounts c a))"
    by (simp add: commit_account_def Let_def committed_account_def insert_no_code commit_storage_at(1) fun_upd_idem
        split: option.split)
  show "ca_storage (commit_account C a e c) = (ca_storage c)(a := committed_storage e (ca_storage c a))"
    by (cases "ac_present e")
      (simp_all add: commit_account_def Let_def committed_storage_def insert_no_code commit_storage_def storage_entry_def
        fun_upd_idem)
qed

lemma cache_commit_at:
  assumes "distinct order"
  shows "ca_accounts (cdb_cache (cache_commit C order m s)) a =
      (if a \<in> set order then case m a of None \<Rightarrow> ca_accounts (cdb_cache s) a
         | Some e \<Rightarrow> committed_account C e (ca_accounts (cdb_cache s) a) else ca_accounts (cdb_cache s) a)"
    and "ca_storage (cdb_cache (cache_commit C order m s)) a =
      (if a \<in> set order then case m a of None \<Rightarrow> ca_storage (cdb_cache s) a
         | Some e \<Rightarrow> committed_storage e (ca_storage (cdb_cache s) a) else ca_storage (cdb_cache s) a)"
    and "cdb_db (cache_commit C order m s) = cdb_db s"
proof -
  let ?step = "\<lambda>a c. case m a of None \<Rightarrow> c | Some entry \<Rightarrow> commit_account C a entry c"
  have "ca_accounts (fold ?step order c) a =
      (if a \<in> set order then case m a of None \<Rightarrow> ca_accounts c a | Some e \<Rightarrow> committed_account C e (ca_accounts c a)
       else ca_accounts c a) \<and>
    ca_storage (fold ?step order c) a =
      (if a \<in> set order then case m a of None \<Rightarrow> ca_storage c a | Some e \<Rightarrow> committed_storage e (ca_storage c a)
       else ca_storage c a)" for c
    using assms
    by (induction order arbitrary: c) (auto simp: commit_account_at split: option.splits)
  then show "ca_accounts (cdb_cache (cache_commit C order m s)) a =
      (if a \<in> set order then case m a of None \<Rightarrow> ca_accounts (cdb_cache s) a
         | Some e \<Rightarrow> committed_account C e (ca_accounts (cdb_cache s) a) else ca_accounts (cdb_cache s) a)"
    and "ca_storage (cdb_cache (cache_commit C order m s)) a =
      (if a \<in> set order then case m a of None \<Rightarrow> ca_storage (cdb_cache s) a
         | Some e \<Rightarrow> committed_storage e (ca_storage (cdb_cache s) a) else ca_storage (cdb_cache s) a)"
    by (simp_all add: cache_commit_def)
  show "cdb_db (cache_commit C order m s) = cdb_db s"
    by (simp add: cache_commit_def)
qed

section \<open>Reads after a commit\<close>

text \<open>
  What the cache relies on in the backing database: whether an account is present does not depend
  on what was read, and an absent account has no storage.
\<close>

locale backing_db =
  fixes D :: "'d database" and present :: "'d \<Rightarrow> address \<Rightarrow> bool"
  assumes account_present: "db_account D a d = (r1, d') \<Longrightarrow> present d' = present d"
    and code_present: "db_code_by_hash D h d = (r2, d') \<Longrightarrow> present d' = present d"
    and storage_present: "db_storage D a k d = (r3, d') \<Longrightarrow> present d' = present d"
    and block_hash_present: "db_block_hash D n d = (r4, d') \<Longrightarrow> present d' = present d"
    and absent_account: "db_account D a d = (Inr None, d') \<Longrightarrow> \<not> present d a"
    and absent_storage: "\<not> present d a \<Longrightarrow> fst (db_storage D a k d) = Inr 0"

text \<open>The value a commit gives a slot, when it gives it one.\<close>

definition committed_slot :: "acct \<Rightarrow> evm_word \<Rightarrow> evm_word option" where
  "committed_slot e k =
     (if acct_is_changed e \<and> ac_present e = None then Some 0
      else
        case changed_slots (ac_storage e) k of
          Some v \<Rightarrow> Some v
        | None \<Rightarrow> if so_wiped (ac_storage e) \<or> discards_storage e then Some 0 else None)"

text \<open>The reads and commits a cache goes through.\<close>

datatype cache_op =
    ReadAccount address
  | ReadCode b256
  | ReadStorage address evm_word
  | ReadBlockHash evm_word
  | Commit "address list" "address \<rightharpoonup> acct"

fun cache_exec :: "crypto \<Rightarrow> 'd database \<Rightarrow> cache_op \<Rightarrow> 'd cache_db \<Rightarrow> 'd cache_db" where
  "cache_exec C D (ReadAccount a) s = snd (cache_get_account C D a s)"
| "cache_exec C D (ReadCode h) s = snd (cache_get_code_by_hash C D h s)"
| "cache_exec C D (ReadStorage a k) s = snd (cache_get_storage D a k s)"
| "cache_exec C D (ReadBlockHash n) s = snd (cache_get_block_hash D n s)"
| "cache_exec C D (Commit order m) s = cache_commit C order m s"

definition wiped_entry :: "cache \<Rightarrow> address \<Rightarrow> bool" where
  "wiped_entry c a = sc_wiped (storage_entry c a)"

lemma committed_storage_wiped:
  "sc_wiped (case x of Some sc \<Rightarrow> sc | None \<Rightarrow> storage_cache_default) \<Longrightarrow>
     sc_wiped (case committed_storage e x of Some sc \<Rightarrow> sc | None \<Rightarrow> storage_cache_default)"
  by (auto simp: committed_storage_def Let_def storage_cache_wipe_def split: option.splits)

lemma committed_storage_deleted:
  "acct_is_changed e \<Longrightarrow> ac_present e = None \<Longrightarrow>
     sc_wiped (case committed_storage e x of Some sc \<Rightarrow> sc | None \<Rightarrow> storage_cache_default)"
  by (simp add: committed_storage_def Let_def storage_cache_wipe_def)

lemma commit_account_wiped:
  "wiped_entry c b \<Longrightarrow> wiped_entry (commit_account C a e c) b"
  "acct_is_changed e \<Longrightarrow> ac_present e = None \<Longrightarrow> wiped_entry (commit_account C a e c) a"
  by (auto simp: wiped_entry_def storage_entry_def commit_account_at intro: committed_storage_wiped committed_storage_deleted)

lemma cache_get_storage_fst:
  "fst (cache_get_storage D a k s) =
     (let sc = storage_entry (cdb_cache s) a in
      case sc_slots sc k of
        Some v \<Rightarrow> Inr v
      | None \<Rightarrow> if sc_wiped sc \<or> ca_accounts (cdb_cache s) a = Some None then Inr 0 else fst (db_storage D a k (cdb_db s)))"
  by (simp add: cache_get_storage_def storage_entry_def storage_cache_default_def Let_def
      split: option.split sum.split prod.split)

lemma cache_get_account_fst:
  assumes "ca_accounts (cdb_cache s') a = ca_accounts (cdb_cache s) a" "cdb_db s' = cdb_db s"
  shows "fst (cache_get_account C D a s') = fst (cache_get_account C D a s)"
proof -
  have "ca_accounts (insert_account_info C a info (cdb_cache s')) a = ca_accounts (insert_account_info C a info (cdb_cache s)) a" for info
    by (simp add: insert_account_info_def insert_contract_inner_def Let_def split: option.split)
  then show ?thesis
    using assms by (simp add: cache_get_account_def Let_def split: option.split sum.split prod.split)
qed

lemma normalize_stripped [simp]: "normalize_code_hash C (stripped C i) = stripped C i"
  by (simp add: stripped_def normalize_code_hash_def)

lemma account_after_commit:
  assumes "distinct order" "set order = dom m"
  shows "fst (cache_get_account C D a (cache_commit C order m s)) =
    (case m a of
       None \<Rightarrow> fst (cache_get_account C D a s)
     | Some e \<Rightarrow> if acct_is_changed e then Inr (map_option (stripped C) (ac_present e))
                 else fst (cache_get_account C D a s))"
proof (cases "\<exists>e. m a = Some e \<and> acct_is_changed e")
  case True
  then obtain e where e: "m a = Some e" "acct_is_changed e" by blast
  then have "a \<in> set order" using assms(2) by auto
  then have "ca_accounts (cdb_cache (cache_commit C order m s)) a = Some (map_option (stripped C) (ac_present e))"
    by (simp add: cache_commit_at(1) [OF assms(1)] e committed_account_def)
  then show ?thesis
    using e by (simp add: cache_get_account_def option.map_comp comp_def)
next
  case False
  then have "ca_accounts (cdb_cache (cache_commit C order m s)) a = ca_accounts (cdb_cache s) a"
    by (auto simp: cache_commit_at(1) [OF assms(1)] committed_account_def split: option.split)
  from cache_get_account_fst [OF this cache_commit_at(3) [OF assms(1)]] show ?thesis
    using False by (auto split: option.split)
qed

text \<open>The code a commit brings under a hash.  Equal hashes of different codes are left open.\<close>

definition committed_codes :: "(address \<rightharpoonup> acct) \<Rightarrow> b256 \<Rightarrow> bytecode set" where
  "committed_codes m h = {x. \<exists>b e. m b = Some e \<and> changed_code e = Some (h, x)}"

lemma commit_account_contracts:
  "ca_contracts (commit_account C a e c) =
     (case changed_code e of None \<Rightarrow> ca_contracts c | Some (h, x) \<Rightarrow> (ca_contracts c)(h \<mapsto> x))"
  "ca_block_hashes (commit_account C a e c) = ca_block_hashes c"
  by (simp_all add: commit_account_def Let_def insert_no_code commit_code_def commit_storage_def split: option.split prod.split)

lemma cache_commit_contracts:
  assumes "set order = dom m"
  shows "if committed_codes m h = {}
      then ca_contracts (cdb_cache (cache_commit C order m s)) h = ca_contracts (cdb_cache s) h
      else \<exists>x \<in> committed_codes m h. ca_contracts (cdb_cache (cache_commit C order m s)) h = Some x"
    and "ca_block_hashes (cdb_cache (cache_commit C order m s)) = ca_block_hashes (cdb_cache s)"
proof -
  let ?step = "\<lambda>a c. case m a of None \<Rightarrow> c | Some entry \<Rightarrow> commit_account C a entry c"
  define codes where "codes xs = {x. \<exists>b \<in> set xs. \<exists>e. m b = Some e \<and> changed_code e = Some (h, x)}" for xs
  have contracts: "if codes xs = {} then ca_contracts (fold ?step xs c) h = ca_contracts c h
      else \<exists>x \<in> codes xs. ca_contracts (fold ?step xs c) h = Some x" for xs c
  proof (induction xs rule: rev_induct)
    case Nil
    then show ?case by (simp add: codes_def)
  next
    case (snoc a xs)
    let ?c = "fold ?step xs c"
    have last: "fold ?step (xs @ [a]) c = ?step a ?c" by simp
    show ?case
    proof (cases "\<exists>e x. m a = Some e \<and> changed_code e = Some (h, x)")
      case True
      then obtain e x where e: "m a = Some e" "changed_code e = Some (h, x)" by blast
      then have "x \<in> codes (xs @ [a])" by (auto simp: codes_def)
      moreover have "ca_contracts (?step a ?c) h = Some x" by (simp add: e commit_account_contracts)
      ultimately show ?thesis unfolding last by auto
    next
      case False
      then have "codes (xs @ [a]) = codes xs" by (auto simp: codes_def)
      moreover have "ca_contracts (?step a ?c) h = ca_contracts ?c h"
      proof (cases "m a")
        case (Some e)
        then show ?thesis
          using False by (cases "changed_code e") (auto simp: commit_account_contracts)
      qed simp
      ultimately show ?thesis unfolding last using snoc by simp
    qed
  qed
  have hashes: "ca_block_hashes (fold ?step xs c) = ca_block_hashes c" for xs c
    by (induction xs arbitrary: c) (simp_all add: commit_account_contracts split: option.split)
  have all: "codes order = committed_codes m h"
    using assms by (auto simp: codes_def committed_codes_def)
  show "if committed_codes m h = {}
      then ca_contracts (cdb_cache (cache_commit C order m s)) h = ca_contracts (cdb_cache s) h
      else \<exists>x \<in> committed_codes m h. ca_contracts (cdb_cache (cache_commit C order m s)) h = Some x"
    and "ca_block_hashes (cdb_cache (cache_commit C order m s)) = ca_block_hashes (cdb_cache s)"
    using contracts [of order "cdb_cache s", unfolded all] hashes [of order "cdb_cache s"] by (simp_all add: cache_commit_def)
qed

lemma code_after_commit:
  fixes C :: crypto and h :: b256
  defines "h' \<equiv> if h = 0 then KECCAK256_EMPTY C else h"
  assumes "distinct order" "set order = dom m"
  shows "if committed_codes m h' = {}
    then fst (cache_get_code_by_hash C D h (cache_commit C order m s)) = fst (cache_get_code_by_hash C D h s)
    else \<exists>x \<in> committed_codes m h'. fst (cache_get_code_by_hash C D h (cache_commit C order m s)) = Inr x"
proof (cases "committed_codes m h' = {}")
  case True
  then have "ca_contracts (cdb_cache (cache_commit C order m s)) h' = ca_contracts (cdb_cache s) h'"
    using cache_commit_contracts(1) [OF assms(3), of h' C s] by simp
  then show ?thesis
    using True cache_commit_at(3) [OF assms(2), of C m s]
    by (simp add: cache_get_code_by_hash_def Let_def h'_def [symmetric] split: option.split sum.split prod.split)
next
  case False
  then obtain x where "x \<in> committed_codes m h'" "ca_contracts (cdb_cache (cache_commit C order m s)) h' = Some x"
    using cache_commit_contracts(1) [OF assms(3), of h' C s] by auto
  then show ?thesis
    using False by (auto simp: cache_get_code_by_hash_def Let_def h'_def [symmetric])
qed

lemma block_hash_after_commit:
  assumes "distinct order" "set order = dom m"
  shows "fst (cache_get_block_hash D n (cache_commit C order m s)) = fst (cache_get_block_hash D n s)"
  using cache_commit_contracts(2) [OF assms(2), of C s] cache_commit_at(3) [OF assms(1), of C m s]
  by (simp add: cache_get_block_hash_def split: option.split sum.split prod.split)

context backing_db
begin

text \<open>An account cached as absent is absent below, or its storage is wiped in the cache.\<close>

definition absent_ok :: "'d cache_db \<Rightarrow> bool" where
  "absent_ok s \<longleftrightarrow> (\<forall>a. ca_accounts (cdb_cache s) a = Some None \<longrightarrow>
     \<not> present (cdb_db s) a \<or> wiped_entry (cdb_cache s) a)"

lemma absent_ok_new: "absent_ok (cache_db_new C d)"
  by (simp add: absent_ok_def cache_db_new_def cache_default_def)

lemma absent_ok_account:
  assumes "absent_ok s"
  shows "absent_ok (snd (cache_get_account C D a s))"
proof (cases "ca_accounts (cdb_cache s) a")
  case None
  obtain r d where db: "db_account D a (cdb_db s) = (r, d)" by fastforce
  have "present d = present (cdb_db s)" "r = Inr None \<Longrightarrow> \<not> present (cdb_db s) a"
    using account_present [OF db] absent_account db by auto
  then show ?thesis
    using assms None db
    by (auto simp: cache_get_account_def absent_ok_def Let_def insert_account_info_def wiped_entry_def storage_entry_def
        split: sum.splits option.splits prod.splits if_splits)
qed (use assms in \<open>simp add: cache_get_account_def\<close>)

lemma absent_ok_code:
  assumes "absent_ok s"
  shows "absent_ok (snd (cache_get_code_by_hash C D h s))"
proof -
  define h' where "h' = (if h = 0 then KECCAK256_EMPTY C else h)"
  obtain r d where db: "db_code_by_hash D h' (cdb_db s) = (r, d)" by fastforce
  show ?thesis
    unfolding cache_get_code_by_hash_def Let_def h'_def [symmetric]
    using assms db code_present [OF db]
    by (auto simp: absent_ok_def wiped_entry_def storage_entry_def split: option.splits sum.splits)
qed

lemma absent_ok_storage:
  assumes "absent_ok s"
  shows "absent_ok (snd (cache_get_storage D a k s))"
proof -
  obtain r d where db: "db_storage D a k (cdb_db s) = (r, d)" by fastforce
  show ?thesis
    using assms db storage_present [OF db]
    by (auto simp: cache_get_storage_def Let_def absent_ok_def wiped_entry_def storage_entry_def insert_account_storage_def
        split: option.splits sum.splits if_splits)
qed

lemma absent_ok_block_hash:
  assumes "absent_ok s"
  shows "absent_ok (snd (cache_get_block_hash D n s))"
proof -
  obtain r d where db: "db_block_hash D n (cdb_db s) = (r, d)" by fastforce
  show ?thesis
    using assms db block_hash_present [OF db]
    by (auto simp: cache_get_block_hash_def absent_ok_def wiped_entry_def storage_entry_def insert_block_hash_def
        split: option.splits sum.splits)
qed

lemma absent_ok_commit_account:
  assumes "absent_ok s"
  shows "absent_ok (s\<lparr>cdb_cache := commit_account C a e (cdb_cache s)\<rparr>)"
  using assms commit_account_wiped(1) [of "cdb_cache s" _ C a e] commit_account_wiped(2) [of e C a "cdb_cache s"]
  by (auto simp: absent_ok_def commit_account_at committed_account_def split: if_splits)

lemma absent_ok_commit: "absent_ok s \<Longrightarrow> absent_ok (cache_commit C order m s)"
proof (induction order arbitrary: s)
  case (Cons a order)
  have "absent_ok (s\<lparr>cdb_cache := (case m a of None \<Rightarrow> cdb_cache s | Some e \<Rightarrow> commit_account C a e (cdb_cache s))\<rparr>)"
    using Cons.prems absent_ok_commit_account by (simp split: option.split)
  from Cons.IH [OF this] show ?case by (simp add: cache_commit_def)
qed (simp add: cache_commit_def)

lemma absent_ok_exec: "absent_ok s \<Longrightarrow> absent_ok (cache_exec C D op s)"
  by (cases op) (simp_all add: absent_ok_account absent_ok_code absent_ok_storage absent_ok_block_hash absent_ok_commit)

lemma absent_ok_run: "absent_ok (fold (cache_exec C D) ops (cache_db_new C d))"
proof (induction ops rule: rev_induct)
  case Nil
  show ?case by (simp add: absent_ok_new)
next
  case (snoc op ops)
  then show ?case by (simp add: absent_ok_exec)
qed

text \<open>So a read of a slot needs no look at the account.\<close>

lemma slot_read:
  assumes "absent_ok s"
  shows "fst (cache_get_storage D a k s) =
    (let sc = storage_entry (cdb_cache s) a in
     case sc_slots sc k of
       Some v \<Rightarrow> Inr v
     | None \<Rightarrow> if sc_wiped sc then Inr 0 else fst (db_storage D a k (cdb_db s)))"
  using assms absent_storage
  by (auto simp: cache_get_storage_fst absent_ok_def wiped_entry_def Let_def split: option.split)

lemma storage_after_commit:
  assumes "absent_ok s" "distinct order" "set order = dom m"
  shows "fst (cache_get_storage D a k (cache_commit C order m s)) =
    (case Option.bind (m a) (\<lambda>e. committed_slot e k) of
       Some v \<Rightarrow> Inr v
     | None \<Rightarrow> fst (cache_get_storage D a k s))"
proof (cases "m a")
  case None
  then have "storage_entry (cdb_cache (cache_commit C order m s)) a = storage_entry (cdb_cache s) a"
    by (simp add: storage_entry_def cache_commit_at(2) [OF assms(2)])
  then show ?thesis
    by (simp add: slot_read assms(1) absent_ok_commit None cache_commit_at(3) [OF assms(2)] Let_def split: option.split)
next
  case (Some e)
  then have "a \<in> set order" using assms(3) by auto
  then have "storage_entry (cdb_cache (cache_commit C order m s)) a =
      (case committed_storage e (ca_storage (cdb_cache s) a) of Some sc \<Rightarrow> sc | None \<Rightarrow> storage_cache_default)"
    by (simp add: storage_entry_def cache_commit_at(2) [OF assms(2)] Some)
  then show ?thesis
    by (simp add: slot_read assms(1) absent_ok_commit Some cache_commit_at(3) [OF assms(2)] committed_storage_def
        committed_slot_def storage_entry_def Let_def storage_cache_wipe_def map_add_def split: option.split)
qed

end

interpretation empty_backing: backing_db "empty_db C" "\<lambda>_ _. False" for C
  by unfold_locales (simp_all add: empty_db_def returnE_def)

section \<open>Properties\<close>

text \<open>
  C11:  The cache is a database.  Over a backing database that keeps its invariant and returns
  well-formed code, the caching database keeps the contract of a database in turn: every read
  keeps the cached accounts and contracts well formed and returns well-formed code, also after
  errors; a new cache is well formed; and committing a transaction keeps the state of the next
  one well formed.
\<close>

theorem cache_is_a_database:
  assumes "db_ok DI D"
  shows "db_ok (cache_ok DI) (cache_database C D) \<and>
    (\<forall>d. cache_ok DI (cache_db_new C d) = DI d) \<and>
    (\<forall>order st. codes_ok (cache_ok DI) st \<longrightarrow> codes_ok (cache_ok DI) (commit_transaction C order st))"
proof (intro conjI allI impI)
  show "db_ok (cache_ok DI) (cache_database C D)" by (rule cache_database_db_ok [OF assms])
  show "cache_ok DI (cache_db_new C d) = DI d" for d
    by (simp add: cache_ok_def cache_db_new_def cache_default_def)
  fix order :: "address list" and st :: "'a cache_db state" assume "codes_ok (cache_ok DI) st"
  then show "codes_ok (cache_ok DI) (commit_transaction C order st)"
    by (auto simp: codes_ok_def commit_transaction_def intro!: cache_commit_ok)
qed

theorem cache_is_a_database_witness:
  "db_ok (cache_ok (\<lambda>_. True)) (cache_database bare_crypto (empty_db bare_crypto)) \<and>
   cache_ok (\<lambda>_. True) (cache_db_new bare_crypto ())"
proof -
  have "db_ok (\<lambda>_. True) (empty_db bare_crypto)"
    by (simp add: db_ok_def empty_db_def keeps_def returnE_def)
  from cache_is_a_database [OF this, of bare_crypto] show ?thesis by simp
qed

text \<open>
  C10:  A committed transaction is what later reads see.  After any history of reads and commits of
  a cache over a database in which absent accounts have no storage, committing the accounts of a
  transaction makes a read of an account return its committed form if it changed, and a read of a
  slot return the committed value if the commit writes or clears it.  A read of code by hash returns
  code the transaction brought under that hash if it brought any.  Every other account, slot and
  code, and every block hash, reads as it did before the commit.
\<close>

theorem commit_then_read:
  assumes "backing_db D present" "distinct order" "set order = dom m"
    and "s = fold (cache_exec C D) history (cache_db_new C d)"
  shows "fst (db_account (cache_database C D) a (cache_commit C order m s)) =
      (case m a of
         None \<Rightarrow> fst (db_account (cache_database C D) a s)
       | Some e \<Rightarrow> if acct_is_changed e then Inr (map_option (stripped C) (ac_present e))
                   else fst (db_account (cache_database C D) a s)) \<and>
    fst (db_storage (cache_database C D) a k (cache_commit C order m s)) =
      (case Option.bind (m a) (\<lambda>e. committed_slot e k) of
         Some v \<Rightarrow> Inr v
       | None \<Rightarrow> fst (db_storage (cache_database C D) a k s)) \<and>
    (let codes = committed_codes m (if h = 0 then KECCAK256_EMPTY C else h);
         read = fst (db_code_by_hash (cache_database C D) h (cache_commit C order m s))
     in if codes = {} then read = fst (db_code_by_hash (cache_database C D) h s) else \<exists>x \<in> codes. read = Inr x) \<and>
    fst (db_block_hash (cache_database C D) n (cache_commit C order m s)) = fst (db_block_hash (cache_database C D) n s)"
proof -
  have reads: "db_account (cache_database C D) = cache_get_account C D" "db_storage (cache_database C D) = cache_get_storage D"
    "db_code_by_hash (cache_database C D) = cache_get_code_by_hash C D" "db_block_hash (cache_database C D) = cache_get_block_hash D"
    by (simp_all add: cache_database_def)
  have "backing_db.absent_ok present s"
    unfolding assms(4) by (rule backing_db.absent_ok_run [OF assms(1)])
  then show ?thesis
    unfolding reads Let_def
    by (intro conjI account_after_commit [OF assms(2,3)] backing_db.storage_after_commit [OF assms(1) _ assms(2,3)]
        code_after_commit [OF assms(2,3)] block_hash_after_commit [OF assms(2,3)])
qed

definition sample_commit :: "address \<rightharpoonup> acct" where
  "sample_commit = [7 \<mapsto>
     \<lparr>ac_original = None, ac_present = Some \<lparr>ai_balance = 5, ai_nonce = 1, ai_code_hash = 4,
       ai_code = Some (new_legacy [0])\<rparr>, ac_flags = 0,
      ac_storage = \<lparr>so_wiped = False, so_slots = [3 \<mapsto> \<lparr>slot_value = \<lparr>tr_original = 0, tr_current = 9\<rparr>, slot_is_warm = True\<rparr>]\<rparr>\<rparr>]"

theorem commit_then_read_witness:
  "let D = empty_db bare_crypto; s = cache_commit bare_crypto [7] sample_commit (cache_db_new bare_crypto ()) in
   fst (db_account (cache_database bare_crypto D) 7 s) =
     Inr (Some \<lparr>ai_balance = 5, ai_nonce = 1, ai_code_hash = 4, ai_code = None\<rparr>) \<and>
   fst (db_storage (cache_database bare_crypto D) 7 3 s) = Inr 9 \<and>
   fst (db_code_by_hash (cache_database bare_crypto D) 4 s) = Inr (new_legacy [0])"
proof -
  have dom: "distinct [7 :: address]" "set [7] = dom sample_commit"
    by (simp_all add: sample_commit_def)
  have hist: "cache_db_new bare_crypto () = fold (cache_exec bare_crypto (empty_db bare_crypto)) [] (cache_db_new bare_crypto ())"
    by simp
  have "\<not> bytecode_is_empty (new_legacy [0])"
    by code_simp
  then have "committed_codes sample_commit 4 = {new_legacy [0]}"
    by (auto simp: committed_codes_def sample_commit_def changed_code_def split: if_splits)
  with commit_then_read [OF empty_backing.backing_db_axioms dom hist, of 7 3 4 0] show ?thesis
    by (simp add: Let_def sample_commit_def acct_is_changed_def stripped_def normalize_code_hash_def clone_no_code_def
        committed_slot_def changed_slots_def slot_is_changed_def tracked_is_changed_def bare_crypto_def)
qed

end
