(* ===== verification/System_Call.thy ===== *)
theory System_Call
  imports Tx_Safety Cache_DB
begin

text \<open>
  System calls (\<open>src/crates/evm2/src/evm/system.rs\<close>): a top-level call without validation, nonce
  or fees, over the same first frame and finalization as transactions.  The target is called with
  the code it has in the state.  Whether an inspector watches does not matter without inspectors.
\<close>

section \<open>System transactions\<close>

definition SYSTEM_CALL_GAS_LIMIT :: u64 where
  "SYSTEM_CALL_GAS_LIMIT = 30000000"

definition SYSTEM_MAX_SSTORES_PER_CALL :: u64 where
  "SYSTEM_MAX_SSTORES_PER_CALL = 16"

record system_tx =
  sy_caller :: address
  sy_contract :: address
  sy_data :: bytes
  sy_gas_limit :: u64

definition system_tx_default :: system_tx where
  "system_tx_default =
     \<lparr>sy_caller = SYSTEM_ADDRESS, sy_contract = 0, sy_data = [], sy_gas_limit = SYSTEM_CALL_GAS_LIMIT\<rparr>"

definition system_tx_new :: "address \<Rightarrow> bytes \<Rightarrow> system_tx" where
  "system_tx_new contract data = system_tx_default\<lparr>sy_contract := contract, sy_data := data\<rparr>"

text \<open>The state-gas reservoir of a system call and its execution gas, which fit in 64 bits together.\<close>

definition system_reservoir :: "'d evm_config \<Rightarrow> u64" where
  "system_reservoir cf =
     (if evm_feature cf EIP8037
      then gp_get (gas_params (cf_version cf)) SstoreSetState * SYSTEM_MAX_SSTORES_PER_CALL else 0)"

definition system_gas_limit :: "'d evm_config \<Rightarrow> system_tx \<Rightarrow> u64" where
  "system_gas_limit cf tx = min (sy_gas_limit tx) (- 1 - system_reservoir cf)"

definition system_result :: "u64 \<Rightarrow> message_result \<Rightarrow> tx_result" where
  "system_result limit result =
     (let (total_spent, state_spent) = gas_spent_breakdown limit (mr_gas result) 0 in
      \<lparr>txr_status = mr_is_success result, txr_total_gas_spent = total_spent, txr_state_gas_spent = state_spent,
       txr_refunded = (if mr_is_success result \<and> sint (refunded (mr_gas result)) > 0 then refunded (mr_gas result) else 0),
       txr_floor_gas = 0, txr_stop = mr_stop result, txr_output = mr_output result, txr_created_address = None,
       txr_logs = []\<rparr>)"

definition execute_system_call ::
    "'d evm_config \<Rightarrow> (message \<Rightarrow> ('d, execution_error, message_result) evm_m) \<Rightarrow> system_tx
      \<Rightarrow> ('d, handler_error, tx_result) evm_m" where
  "execute_system_call cf execute tx =
     (let res = system_reservoir cf; limit = system_gas_limit cf tx in
      bindE (modifyE (\<lambda>h. h\<lparr>ev_state := prewarm (sy_contract tx) (ev_state h),
               ev_tx := \<lparr>tx_origin = sy_caller tx, tx_gas_price = 0,
                         tx_chain_id = ucast (chain_id (cf_version cf)), tx_blob_hashes = []\<rparr>\<rparr>)) (\<lambda>_.
      bindE (prepare_initial_frame cf (sy_caller tx) 0 (TxCall (sy_contract tx)) (sy_data tx) 0
               (new_with_execution_gas_and_reservoir limit res)) (\<lambda>(frame, tx_gas).
      bindE (execute_initial_frame execute frame tx_gas limit res) (\<lambda>result.
      returnE (system_result (limit + res) result)))))"

definition system_call ::
    "'d evm_config \<Rightarrow> (message \<Rightarrow> ('d, execution_error, message_result) evm_m) \<Rightarrow> ('d state \<Rightarrow> address list)
      \<Rightarrow> system_tx \<Rightarrow> ('d, handler_error, tx_result) evm_m" where
  "system_call cf execute order tx h =
     (case execute_system_call cf execute tx h of
        (Inl e, h) \<Rightarrow> (Inl e, evm_clear h)
      | (Inr result, h) \<Rightarrow> finish_executed_tx cf order result h)"

section \<open>A system call concludes\<close>

lemma system_budget: "unat (system_gas_limit cf tx + system_reservoir cf) = unat (system_gas_limit cf tx) + unat (system_reservoir cf)"
proof -
  have "unat (- 1 - system_reservoir cf) = 2 ^ 64 - 1 - unat (system_reservoir cf)"
    using unat_lt_word [of "system_reservoir cf"] by (subst unat_diff_exact) simp_all
  moreover have "unat (system_gas_limit cf tx) \<le> unat (- 1 - system_reservoir cf)"
    by (simp add: system_gas_limit_def unat_le_iff [symmetric])
  ultimately show ?thesis
    using unat_lt_word [of "system_reservoir cf"] by (intro unat_add_exact) simp
qed

definition system_result_ok :: "'d evm_config \<Rightarrow> system_tx \<Rightarrow> tx_result \<Rightarrow> bool" where
  "system_result_ok cf tx r \<longleftrightarrow> (txr_status r \<longleftrightarrow> is_success (txr_stop r)) \<and>
     (txr_status r \<or> txr_refunded r = 0) \<and>
     unat (tx_gas_used r) = unat (txr_total_gas_spent r) - unat (txr_refunded r) \<and>
     unat (txr_total_gas_spent r) \<le> unat (sy_gas_limit tx) + unat (system_reservoir cf)"

lemma system_result_within: "system_result_ok cf tx (system_result (system_gas_limit cf tx + system_reservoir cf) result)"
proof -
  have "unat (system_gas_limit cf tx) \<le> unat (sy_gas_limit tx)"
    by (simp add: system_gas_limit_def unat_le_iff [symmetric])
  then show ?thesis
    by (auto simp: system_result_ok_def system_result_def gas_spent_breakdown_def Let_def tx_gas_used_def
        unat_saturating_sub system_budget mr_is_success_def word_less_nat_alt)
qed

lemma execute_system_call_good:
  assumes "db_ok DI (cf_database cf)" "\<And>msg. code_ok (msg_code msg) \<Longrightarrow> sound cf DI (execute msg) plain"
  shows "keeps (good DI) (execute_system_call cf execute tx) (system_result_ok cf tx)"
  unfolding execute_system_call_def Let_def
  by (intro keeps_bind [OF keeps_modify [where P = "\<lambda>_. True"]] keeps_case_prod
      keeps_bind [OF sound_good [OF prepare_initial_frame_sound [OF assms(1)]]]
      keeps_bind [OF execute_initial_frame_good [OF assms(2)]] keeps_return system_result_within)
     (simp_all add: good_def codes_ok_def transient_ok_def prewarm_def)

section \<open>Properties\<close>

text \<open>
  C12:  A system call always concludes.  In a base configuration, from a well-formed host state and
  with a database and precompiles that keep their contracts, \<open>system_call\<close> returns and leaves the
  host state well formed; after an error no transaction state is left, nothing warm included.  Otherwise the logs are
  drained, the reported status is that of the stop reason, a call that did not succeed is refunded nothing,
  the gas used is the gas spent less the refund, with no floor, and the gas spent is within its gas limit and the
  reservoir for state gas, whose sum the code keeps within 64 bits.
\<close>

theorem system_call_concludes:
  assumes "db_ok DI D" "precompiles_ok (base_config osaka_cap dencun_blobs s C ks D P) DI"
    and "\<forall>k \<in> set ks. kernel_ok k" "good DI h" "cf = base_config osaka_cap dencun_blobs s C ks D P"
  shows "\<exists>r h'. system_call cf (evm_execute 1025 cf) order tx h = (r, h') \<and> \<not> ev_broken h' \<and> good DI h' \<and>
    (case r of Inl e \<Rightarrow> idle (ev_state h') | Inr x \<Rightarrow> system_result_ok cf tx x \<and> st_logs (ev_state h') = [])"
proof -
  have db: "db_ok DI (cf_database cf)" using assms(1) by (simp add: assms(5))
  have plain: "code_ok (msg_code msg) \<Longrightarrow> sound cf DI (evm_execute 1025 cf msg) plain" for msg
    unfolding assms(5) by (rule base_execute_plain [OF assms(1-3)])
  obtain r1 h1 where ex: "execute_system_call cf (evm_execute 1025 cf) tx h = (r1, h1)" by fastforce
  note 1 = keepsD [OF execute_system_call_good [OF db plain] assms(4) ex]
  show ?thesis
  proof (cases r1)
    case (Inl e)
    then show ?thesis using 1 ex evm_clear_good [of DI h1] by (auto simp: system_call_def good_def)
  next
    case (Inr x)
    obtain r h' where fin: "finish_executed_tx cf order x h1 = (r, h')" by fastforce
    have "system_call cf (evm_execute 1025 cf) order tx h = (r, h')" using ex Inr fin by (simp add: system_call_def)
    with finish_executed_tx_outcome [OF db _ fin] 1 Inr show ?thesis
      by (cases r) (auto simp: good_def system_result_ok_def tx_gas_used_def Let_def)
  qed
qed

theorem system_call_concludes_witness:
  "\<exists>r h'. system_call bare_config (evm_execute 1025 bare_config) (\<lambda>_. []) (system_tx_new 7 [1, 2]) bare_evm = (r, h') \<and>
     \<not> ev_broken h' \<and> good (\<lambda>_. True) h'"
proof -
  have "\<forall>k \<in> set []. kernel_ok k" by simp
  from system_call_concludes [OF bare_db_ok bare_precompiles_ok this bare_evm_good bare_config_def]
  show ?thesis by blast
qed

end
