(* ===== verification/Spec2Isabelle.thy ===== *)
theory Spec2Isabelle
  imports State_Lifecycle Exec_Properties Tx_Safety Cache_DB System_Call
begin

text \<open>
  A verification library for an implementation of the Ethereum virtual machine in Rust.  All file
  names below are relative to \<open>src/crates/evm2/src\<close>.

  \<^bold>\<open>The program.\<close>  A specification identifier selects a version: feature bits, gas parameters and an
  opcode table (\<open>spec_id.rs\<close>, \<open>version\<close>).  A frame is run by the interpreter (\<open>interpreter\<close>): it
  fetches an opcode of the padded bytecode (\<open>bytecode\<close>), charges static gas and runs the
  instruction on the operand stack, the linear memory and the host.  The host is the EVM
  (\<open>evm/mod.rs\<close>): it serves accounts and storage from the state of the transaction
  (\<open>evm/state\<close>), which journals every change over a caching database (\<open>evm/db\<close>), and it
  executes messages, which run frames in turn.  The Ethereum handlers (\<open>ethereum\<close>) validate a
  transaction, prepare the sender and the warm set, execute its first frame and settle gas and
  fees; system calls (\<open>evm/system.rs\<close>) share the first frame and the finalization.

  \<^bold>\<open>The style of the model.\<close>  Structs are records and enums are datatypes.  Integers are words of
  their width, so that wrap-around is that of the code; saturating and checked operations are
  those of \<open>Evm_Prelude\<close>.  Code that mutates a state and may fail is a function of the
  state to a result and the new state (\<open>sres\<close>), sequenced by \<open>bindE\<close> as the code is by the
  question mark operator; errors are left injections, and a panic is the value \<open>Panic\<close>.
  The operations of the model compute; the one test that does not is whether a commit changes
  any slot, which asks a map to be empty.

  \<^bold>\<open>Theories and what they model.\<close>

  \<^item> \<open>Evm_Prelude\<close>: word arithmetic, the state-and-error combinators, shared lemmas.
  \<^item> \<open>Instr_Stop\<close>, \<open>Gas_Tracker\<close>: stop reasons (\<open>interpreter/mod.rs\<close>) and the trackers of
    execution gas and state gas (\<open>interpreter/gas.rs\<close>).  A tree of nested frames runs out of gas
    exactly when a reading with two pools does; a failed frame gives back its reservoir.  The
    locale \<open>exec_meter\<close> states what the three meters of execution gas share.
  \<^item> \<open>Opcodes\<close>, \<open>Evm_Utils\<close>: the opcode table (\<open>interpreter/opcode.rs\<close>) and \<open>utils.rs\<close>.
  \<^item> \<open>Gas_Params\<close>, \<open>Spec_Version\<close>: cost formulas (\<open>version/gas_params.rs\<close>), features, opcode
    configurations and the tables of all forks (\<open>version\<close>).  Every base version is valid, its
    opcode configuration agrees with the opcode table, opcodes stay defined in later forks, and the
    net gas of a sequence of writes to a warm slot is the static charge of each write plus a price
    that depends only on the slot's first and last value.
  \<^item> \<open>Evm_Stack\<close>, \<open>Evm_Memory\<close>: stack and memory with their panics as values; locales
    \<open>bounded_lifo\<close> and \<open>byte_store\<close> for the contracts of both.  Memory growth is paid exactly and succeeds
    exactly when the limit and the gas allow it; the immediates of the EOF-style stack instructions round-trip, except for the encoding of the
    second form of a pair, which is a finding.
  \<^item> \<open>Evm_Bytecode\<close>: containers, delegation designators and jump destination analysis.  The
    analysis agrees with its definition by instruction starts for every sequence of
    vectorised kernels that meet the contract documented on \<open>Kernel::block\<close>.
  \<^item> \<open>Word_Arith\<close>, \<open>Evm_Message\<close>: signed arithmetic and shifts; messages and final refunds.
  \<^item> \<open>Interp_State\<close>, \<open>Instructions\<close>, \<open>Interpreter\<close>: frames, all instructions and the dispatch
    loop.  \<open>Interp_Logic\<close> is a calculus for instructions over a host contract (\<open>fine\<close>),
    \<open>Interp_Safety\<close> applies it to every instruction and reads off what \<open>SSTORE\<close> charges, and \<open>Interp_Base\<close> concludes for every base
    configuration: no step panics or leaves the well-formed frames, and every frame returns.
  \<^item> \<open>Prewarm_Set\<close>: the set of warm addresses and slots in its compact representations,
    refined to plain sets through the locale \<open>refinement\<close>.
  \<^item> \<open>Evm_State\<close>: accounts, storage overlays, account handles, journal, rollback, transfers,
    creation, transient storage and finalization.  \<open>State_Rollback\<close> presents the operations as
    journaled steps and shows that rollback restores the checkpoint; \<open>State_Lifecycle\<close> shows that
    transfers move exactly their value and that finalization does not depend on the order of the hash map.
  \<^item> \<open>Evm_Exec\<close>: the host operations of the EVM and the execution of messages.  \<open>Exec_Rules\<close> and
    \<open>Exec_Safety\<close> show by rules for sound computations that the EVM meets the contract the
    interpreter asks of its host, at every depth; \<open>Exec_Properties\<close> draws the conclusions: messages
    return, failed messages leave no trace, creations deploy their output.
  \<^item> \<open>Eth_Tx\<close>: validation, preparation, authorizations, first frame, settlement and the entry points
    for the five transaction types.  \<open>Tx_Safety\<close> shows that a transaction concludes with gas
    between its floor and its limit, or with an error and no transaction state, and that settlement pays out the fee exactly.
  \<^item> \<open>Cache_DB\<close>: the caching database, the commit of a transaction into it and the empty database.
    It keeps the contract of a database, so that the theorems on execution hold over it; a commit
    is what later reads see.  The locale \<open>backing_db\<close> states what it relies on below.
  \<^item> \<open>System_Call\<close>: system calls, which conclude within their gas limit and reservoir.

  \<^bold>\<open>Parameters.\<close>  Code outside the sources is a parameter with named hypotheses.  The record
  \<open>crypto\<close> has the digest and the derivation of addresses, with no hypothesis.  A database has the
  contract \<open>db_ok\<close>: its reads keep an invariant and return well-formed code.  The set of
  precompiles has the contract \<open>precompiles_ok\<close>: journaled changes of the state only, and no gas
  made up.  The kernels of the vectorised analysis have the contract \<open>kernel_ok\<close>.  The order in
  which a hash map is visited is a list that is arbitrary or lists the keys once.  Two limits of the
  Osaka and Dencun forks and two constants of the blob specification are arguments.

  \<^bold>\<open>Bounds and termination.\<close>  The interpreter loop is a partial function in the option monad, so
  that not returning is a value; that it returns is a theorem, by the gas that every step takes.
  The execution of nested messages recurses on a bound for the remaining nesting.  The bound of the
  theorems is 1025: a message at a depth above the limit of 1024 runs no frame, so no deeper
  recursion is ever asked for.  When the bound is exceeded, a frame does not return or a frame
  panics, the model sets the mark \<open>ev_broken\<close> of the host state, which has no counterpart in the
  code; so does a refund quotient of zero.  The theorems on messages, transactions and system calls
  show that the mark stays clear.  Every other recursion is structural or has a termination proof.

  \<^bold>\<open>Not modelled.\<close>  Inspectors, tracing and custom interpreter runners: the model is the execution
  without them.  The just-in-time compiler, whose correctness is relative to LLVM.
  Asynchronous execution on fibers, serialization, the command line, the runner of fixture files
  and test support.  The precompiles themselves, which are cryptography of other packages.  Block
  execution, bundle state and the streams that hand changes to a client, which work on consensus
  types of other packages around the modelled transactions and system calls.  Block access lists:
  the cache is modelled with none attached and none built.  Account extensions, which are empty in
  the base configuration, custom handlers and hooks, the recovery of signatures, and the lane
  arithmetic of the vectorised kernels.
\<close>

end
